(* ===== verification/Prelude.thy ===== *)
theory Prelude
  imports Complex_Main "HOL-Library.Signed_Division" "HOL-Library.Sublist"
    "HOL-Library.Char_ord" "HOL-Library.List_Lexorder"
begin

text \<open>
  Shared vocabulary of the development: the hint collections, Go's fixed-width integers as
  integers with the wrap-around written out, lists of key/value pairs standing for Go maps whose
  iteration order matters, string helpers of the Go standard library, and wall-clock time.
\<close>

named_theorems go_int \<open>arithmetic of int32 and int64 values\<close>
named_theorems fp_simps \<open>evaluation of binary64 operations\<close>
named_theorems qty \<open>facts about resource quantities\<close>
named_theorems sketch \<open>facts about sketches and their encoding\<close>

section \<open>Fixed-width integers\<close>

text \<open>Go's \<open>int32\<close>, \<open>int64\<close> and \<open>int\<close> (64 bit) wrap around; \<open>/\<close> truncates towards zero.\<close>

definition wrap32 :: "int \<Rightarrow> int" where
  "wrap32 x = (x + 2 ^ 31) mod 2 ^ 32 - 2 ^ 31"

definition wrap64 :: "int \<Rightarrow> int" where
  "wrap64 x = (x + 2 ^ 63) mod 2 ^ 64 - 2 ^ 63"

definition is_i32 :: "int \<Rightarrow> bool" where
  "is_i32 x \<longleftrightarrow> - (2 ^ 31) \<le> x \<and> x < 2 ^ 31"

definition is_i64 :: "int \<Rightarrow> bool" where
  "is_i64 x \<longleftrightarrow> - (2 ^ 63) \<le> x \<and> x < 2 ^ 63"

lemma wrap32_id [go_int]: "is_i32 x \<Longrightarrow> wrap32 x = x"
  unfolding is_i32_def wrap32_def by (subst mod_pos_pos_trivial) auto

lemma wrap64_id [go_int]: "is_i64 x \<Longrightarrow> wrap64 x = x"
  unfolding is_i64_def wrap64_def by (subst mod_pos_pos_trivial) auto

lemma is_i32_wrap32 [simp]: "is_i32 (wrap32 x)"
  using pos_mod_bound [of "2 ^ 32" "x + 2 ^ 31"] by (simp add: is_i32_def wrap32_def)

lemma is_i64_wrap64 [simp]: "is_i64 (wrap64 x)"
  using pos_mod_bound [of "2 ^ 64" "x + 2 ^ 63"] by (simp add: is_i64_def wrap64_def)

lemma sdiv_nonneg [go_int]: "0 \<le> (a::int) \<Longrightarrow> 0 < b \<Longrightarrow> a sdiv b = a div b"
  by (simp add: signed_divide_int_def sgn_if)

section \<open>Maps as Go sees them\<close>

text \<open>
  A Go map that is only looked up is a HOL map.  A map that the code ranges over is a list of
  pairs with distinct keys: its order is the order in which that run of the program happens to
  visit it, so a statement about every such list is a statement about every iteration order.
  Maps that a function builds and then ranges over take the order as a parameter (last section).
\<close>

type_synonym ('k, 'v) gomap = "('k \<times> 'v) list"

definition gomap_ok :: "('k, 'v) gomap \<Rightarrow> bool" where
  "gomap_ok m \<longleftrightarrow> distinct (map fst m)"

fun gm_put :: "'k \<Rightarrow> 'v \<Rightarrow> ('k, 'v) gomap \<Rightarrow> ('k, 'v) gomap" where
  "gm_put k v [] = [(k, v)]"
| "gm_put k v ((a, b) # m) = (if a = k then (k, v) # m else (a, b) # gm_put k v m)"

definition gm_delete :: "'k \<Rightarrow> ('k, 'v) gomap \<Rightarrow> ('k, 'v) gomap" where
  "gm_delete k m = filter (\<lambda>p. fst p \<noteq> k) m"

lemma map_of_gm_put [simp]: "map_of (gm_put k v m) = (map_of m)(k \<mapsto> v)"
  by (induction m rule: gm_put.induct) auto

lemma map_of_gm_delete [simp]: "map_of (gm_delete k m) = (map_of m)(k := None)"
  by (induction m) (auto simp: gm_delete_def)

lemma keys_gm_put [simp]: "fst ` set (gm_put k v m) = insert k (fst ` set m)"
  by (induction m rule: gm_put.induct) auto

lemma gomap_ok_Nil [simp]: "gomap_ok []"
  by (simp add: gomap_ok_def)

lemma gomap_ok_put [simp]: "gomap_ok m \<Longrightarrow> gomap_ok (gm_put k v m)"
  by (induction k v m rule: gm_put.induct) (auto simp: gomap_ok_def image_iff dest: keys_gm_put [THEN equalityD1, THEN subsetD])

lemma gomap_ok_filter [simp]: "gomap_ok m \<Longrightarrow> gomap_ok (filter P m)"
  by (simp add: gomap_ok_def distinct_map_filter)

lemma gomap_ok_delete [simp]: "gomap_ok m \<Longrightarrow> gomap_ok (gm_delete k m)"
  by (simp add: gm_delete_def)

lemma gm_put_values: "p \<in> set (gm_put k v m) \<Longrightarrow> p = (k, v) \<or> p \<in> set m"
  by (induction m rule: gm_put.induct) (auto split: if_splits)

section \<open>Lists\<close>

text \<open>A loop that overwrites \<open>m[key x] = x\<close> for every \<open>x\<close>: the last element with a key wins.\<close>

definition index_by :: "('a \<Rightarrow> 'k) \<Rightarrow> 'a list \<Rightarrow> ('k \<rightharpoonup> 'a)" where
  "index_by key xs = foldl (\<lambda>m x. m(key x \<mapsto> x)) Map.empty xs"

lemma foldl_index_by:
  "foldl (\<lambda>m x. m(key x \<mapsto> x)) m0 xs k =
     (case find (\<lambda>x. key x = k) (rev xs) of None \<Rightarrow> m0 k | Some x \<Rightarrow> Some x)"
proof (induction xs rule: rev_induct)
  case (snoc y ys)
  then show ?case by (cases "key y = k") auto
qed simp

lemma index_by_find: "index_by key xs k = find (\<lambda>x. key x = k) (rev xs)"
  unfolding index_by_def foldl_index_by by (cases "find (\<lambda>x. key x = k) (rev xs)") auto

lemma index_by_Some: "index_by key xs k = Some x \<Longrightarrow> x \<in> set xs \<and> key x = k"
  by (auto simp: index_by_find find_Some_iff)
    (metis (no_types, lifting) length_rev nth_mem set_rev)

lemma index_by_None [simp]: "index_by key xs k = None \<longleftrightarrow> k \<notin> key ` set xs"
  by (auto simp: index_by_find find_None_iff)

lemma index_by_distinct:
  assumes "distinct (map key xs)" "x \<in> set xs"
  shows "index_by key xs (key x) = Some x"
proof -
  from assms(2) have "index_by key xs (key x) \<noteq> None" by simp
  then obtain y where y: "index_by key xs (key x) = Some y" by blast
  then have "y \<in> set xs" "key y = key x" by (auto dest: index_by_Some)
  with assms have "y = x" by (auto simp: distinct_map inj_on_def)
  with y show ?thesis by simp
qed

section \<open>Strings of the Go standard library\<close>

fun nat_digits :: "nat \<Rightarrow> string" where
  "nat_digits n = (if n < 10 then [char_of (48 + n)] else nat_digits (n div 10) @ [char_of (48 + n mod 10)])"

declare nat_digits.simps [simp del]

definition itoa :: "int \<Rightarrow> string" where
  "itoa i = (if i < 0 then ''-'' @ nat_digits (nat (- i)) else nat_digits (nat i))"

fun str_join :: "string \<Rightarrow> string list \<Rightarrow> string" where
  "str_join sep [] = ''''"
| "str_join sep [x] = x"
| "str_join sep (x # y # ys) = x @ sep @ str_join sep (y # ys)"

definition lower_char :: "char \<Rightarrow> char" where
  "lower_char c = (if CHR ''A'' \<le> c \<and> c \<le> CHR ''Z'' then char_of (of_char c + 32 :: nat) else c)"

definition to_lower :: "string \<Rightarrow> string" where
  "to_lower s = map lower_char s"

definition str_contains :: "string \<Rightarrow> string \<Rightarrow> bool" where
  "str_contains s t \<longleftrightarrow> sublist t s"

section \<open>Time\<close>

text \<open>
  \<open>time.Time\<close> is the number of nanoseconds since the zero time (midnight UTC), so the zero value
  is 0; a \<open>*metav1.Time\<close> is an option.  \<open>Sub\<close> saturates at the limits of \<open>time.Duration\<close>.
\<close>

type_synonym gotime = int

definition time_sub :: "gotime \<Rightarrow> gotime \<Rightarrow> int" where
  "time_sub a b = max (- (2 ^ 63)) (min (2 ^ 63 - 1) (a - b))"

definition second_ns :: int where "second_ns = 1000000000"
definition minute_ns :: int where "minute_ns = 60 * second_ns"

definition utc_hour :: "gotime \<Rightarrow> int" where
  "utc_hour t = (t div (60 * minute_ns)) mod 24"

lemma utc_hour_range: "0 \<le> utc_hour t \<and> utc_hour t < 24"
  by (simp add: utc_hour_def)

lemma time_sub_mono: "a \<le> b \<Longrightarrow> time_sub a c \<le> time_sub b c"
  by (auto simp: time_sub_def)

section \<open>Iteration over a Go map\<close>

text \<open>
  The order in which \<open>range\<close> visits a map is not specified.  Where it can matter, a definition takes
  the order as a parameter \<open>ord\<close>, which rearranges the keys; \<open>ord_ok\<close> is all the language promises.
\<close>

definition ord_ok :: "(string list \<Rightarrow> string list) \<Rightarrow> bool" where
  "ord_ok ord \<longleftrightarrow> (\<forall>ks. distinct ks \<longrightarrow> distinct (ord ks) \<and> set (ord ks) = set ks)"

definition go_range :: "(string list \<Rightarrow> string list) \<Rightarrow> (string, 'v) gomap \<Rightarrow> (string \<times> 'v) list" where
  "go_range ord m = List.map_filter (\<lambda>k. map_option (Pair k) (map_of m k)) (ord (map fst m))"

lemma map_filter_in: "x \<in> set (List.map_filter f xs) \<longleftrightarrow> (\<exists>y \<in> set xs. f y = Some x)"
  by (induction xs) (auto simp: map_filter_simps split: option.split)

lemma go_range_elem: "(k, v) \<in> set (go_range ord m) \<Longrightarrow> map_of m k = Some v"
  by (auto simp: go_range_def map_filter_in)

lemma go_range_iff:
  assumes "ord_ok ord" "gomap_ok m"
  shows "(k, v) \<in> set (go_range ord m) \<longleftrightarrow> map_of m k = Some v"
proof
  assume "map_of m k = Some v"
  moreover from this have "k \<in> set (map fst m)" by (force dest: map_of_SomeD)
  ultimately show "(k, v) \<in> set (go_range ord m)"
    using assms by (auto simp: go_range_def map_filter_in ord_ok_def gomap_ok_def)
qed (rule go_range_elem)

lemma go_range_keys:
  assumes "ord_ok ord" "gomap_ok m"
  shows "map fst (go_range ord m) = ord (map fst m)"
proof -
  have "\<forall>k \<in> set (ord (map fst m)). \<exists>v. map_of m k = Some v"
    using assms by (auto simp: ord_ok_def gomap_ok_def map_of_eq_Some_iff)
  moreover have "\<forall>k \<in> set ks. \<exists>v. map_of m k = Some v \<Longrightarrow>
      map fst (List.map_filter (\<lambda>k. map_option (Pair k) (map_of m k)) ks) = ks" for ks
    by (induction ks) (auto simp: map_filter_simps split: option.split)
  ultimately show ?thesis by (simp add: go_range_def)
qed

lemma go_range_length:
  assumes "ord_ok ord" "gomap_ok m"
  shows "length (go_range ord m) = length m"
proof -
  have "distinct (map fst m)" using assms(2) by (simp add: gomap_ok_def)
  then have "distinct (ord (map fst m))" "set (ord (map fst m)) = set (map fst m)" using assms(1) by (auto simp: ord_ok_def)
  then have "length (ord (map fst m)) = length (map fst m)"
    using \<open>distinct (map fst m)\<close> by (metis distinct_card)
  then show ?thesis using go_range_keys [OF assms] by (metis length_map)
qed

end
