(* ===== verification/Binary64.thy ===== *)
theory Binary64
  imports Prelude "HOL-Library.Log_Nat"
begin

text \<open>
  Go's \<open>float64\<close>: IEEE binary64 numbers, round to nearest, ties to even, with overflow to the
  infinities.  A finite value is its exact rational; the two zeros are identified (no operation
  of the program tells them apart: it never divides by a zero).  Conversions and the lack of
  fused multiply-add are those of linux/amd64.  \<open>fp_rounding\<close> is the contract of the rounding
  function that the components rest on, discharged here for \<open>rnd64\<close>.
\<close>

section \<open>Rounding\<close>

text \<open>The exponent of the leading bit, rounding to an integer with ties to even, and the exponent of
  the last bit of a 53-bit significand (the subnormal range ends at \<open>-1074\<close>).\<close>

definition ilog2 :: "rat \<Rightarrow> int" where
  "ilog2 x = (if 1 \<le> x then int (floorlog 2 (nat \<lfloor>x\<rfloor>)) - 1
              else - int (floorlog 2 (nat (\<lceil>1 / x\<rceil> - 1))))"
definition rne :: "rat \<Rightarrow> int" where
  "rne y = (let f = \<lfloor>y\<rfloor>; d = y - of_int f in
     if d < 1/2 then f else if 1/2 < d then f + 1 else if even f then f else f + 1)"
definition qexp :: "rat \<Rightarrow> int" where
  "qexp x = max (ilog2 \<bar>x\<bar> - 52) (-1074)"
definition rnd64 :: "rat \<Rightarrow> rat" where
  "rnd64 x = (if x = 0 then 0 else of_int (rne (x / 2 powi qexp x)) * 2 powi qexp x)"

section \<open>Facts about the rounding function\<close>

lemma powi_nat_rat: "0 \<le> n \<Longrightarrow> (2::rat) powi n = of_int (2 ^ nat n)"
  by (simp add: power_int_def)

lemma ilog2_bounds:
  assumes "0 < x"
  shows "2 powi ilog2 x \<le> x" and "x < 2 powi (ilog2 x + 1)"
proof -
  have "2 powi ilog2 x \<le> x \<and> x < 2 powi (ilog2 x + 1)"
  proof (cases "1 \<le> x")
    case True
    define n where "n = nat \<lfloor>x\<rfloor>"
    have n: "0 < n" "int n = \<lfloor>x\<rfloor>" using True by (simp_all add: n_def)
    have b: "2 ^ (floorlog 2 n - 1) \<le> n" "n < 2 ^ floorlog 2 n"
      using floorlog_bounds [of n 2] n by auto
    have pos: "0 < floorlog 2 n" using n by (simp add: floorlog_def)
    have e: "ilog2 x = int (floorlog 2 n - 1)" "ilog2 x + 1 = int (floorlog 2 n)"
      using True pos by (simp_all add: ilog2_def n_def)
    have "(of_nat (2 ^ (floorlog 2 n - 1)) :: rat) \<le> of_nat n" using b(1) by (rule of_nat_mono)
    also have "(of_nat n :: rat) = of_int \<lfloor>x\<rfloor>" using n(2) by (metis of_int_of_nat_eq)
    also have "\<dots> \<le> x" by simp
    finally have lo: "2 powi ilog2 x \<le> x" by (simp add: e power_int_of_nat)
    have "\<lfloor>x\<rfloor> + 1 \<le> int (2 ^ floorlog 2 n)" using b(2) n(2) by linarith
    then have "\<lfloor>x\<rfloor> < int (2 ^ floorlog 2 n)" by linarith
    then have "x < of_int (int (2 ^ floorlog 2 n))" by (simp only: floor_less_iff)
    then have "x < 2 powi (ilog2 x + 1)" unfolding e(2) by (simp add: power_int_of_nat)
    with lo show ?thesis by simp
  next
    case False
    define m where "m = nat (\<lceil>1 / x\<rceil> - 1)"
    have inv: "1 < 1 / x" using False assms by (simp add: field_simps)
    then have c: "1 < \<lceil>1 / x\<rceil>" by (metis less_ceiling_iff of_int_1)
    then have m: "0 < m" "int m = \<lceil>1 / x\<rceil> - 1" using m_def by linarith+
    have b: "2 ^ (floorlog 2 m - 1) \<le> m" "m < 2 ^ floorlog 2 m"
      using floorlog_bounds [of m 2] m by auto
    define k where "k = floorlog 2 m"
    have pos: "0 < k" using m by (simp add: floorlog_def k_def)
    have e: "ilog2 x = - int k" "ilog2 x + 1 = - int (k - 1)"
      using False pos by (simp_all add: ilog2_def m_def k_def)
    have "\<lceil>1 / x\<rceil> \<le> int (2 ^ k)" using b(2) m(2) unfolding k_def by linarith
    then have hi: "1 / x \<le> 2 ^ k" by (simp add: ceiling_le_iff)
    have "int (2 ^ (k - 1)) < \<lceil>1 / x\<rceil>" using b(1) m(2) unfolding k_def by linarith
    then have lo: "2 ^ (k - 1) < 1 / x" by (simp add: less_ceiling_iff)
    have "1 / 2 ^ k \<le> x" using hi assms by (simp add: field_simps)
    moreover have "x < 1 / 2 ^ (k - 1)" using lo assms by (simp add: field_simps)
    ultimately show ?thesis
      unfolding e(2) by (simp add: e(1) power_int_minus_divide del: of_nat_diff)
  qed
  then show "2 powi ilog2 x \<le> x" and "x < 2 powi (ilog2 x + 1)" by auto
qed

lemma ilog2_mono:
  assumes "0 < x" "x \<le> y"
  shows "ilog2 x \<le> ilog2 y"
proof -
  have "2 powi ilog2 x < (2::rat) powi (ilog2 y + 1)"
    using ilog2_bounds [of x] ilog2_bounds [of y] assms by linarith
  then show ?thesis using power_int_increasing [of "ilog2 y + 1" "ilog2 x" "2::rat"] by force
qed

lemma rne_of_int [simp]: "rne (of_int n) = n"
  by (simp add: rne_def)

lemma rne_error: "\<bar>of_int (rne y) - y\<bar> \<le> 1 / 2"
  unfolding rne_def Let_def by (simp only: split: if_split) linarith

lemma rne_mono:
  assumes "x \<le> y"
  shows "rne x \<le> rne y"
proof (cases "\<lfloor>x\<rfloor> = \<lfloor>y\<rfloor>")
  case True
  with assms show ?thesis by (auto simp: rne_def Let_def)
next
  case False
  then have "\<lfloor>x\<rfloor> + 1 \<le> \<lfloor>y\<rfloor>" using assms floor_mono [of x y] by linarith
  moreover have "rne x \<le> \<lfloor>x\<rfloor> + 1" "\<lfloor>y\<rfloor> \<le> rne y" by (auto simp: rne_def Let_def)
  ultimately show ?thesis by linarith
qed

lemma rne_minus: "rne (- y) = - rne y"
proof (cases "y = of_int \<lfloor>y\<rfloor>")
  case True
  then show ?thesis by (metis rne_of_int of_int_minus)
next
  case False
  then have "\<lfloor>- y\<rfloor> = - \<lfloor>y\<rfloor> - 1" by linarith
  then show ?thesis by (auto simp: rne_def Let_def)
qed
lemma qexp_minus [simp]: "qexp (- x) = qexp x" by (simp add: qexp_def)

lemma rnd64_minus: "rnd64 (- x) = - rnd64 x"
  by (simp add: rnd64_def rne_minus)

lemma powi_int_multiple:
  assumes "a \<le> b"
  shows "(2::rat) powi b / 2 powi a = of_int (2 ^ nat (b - a))"
  using assms by (simp add: power_int_diff [symmetric] powi_nat_rat)

lemma rnd64_mono_pos:
  assumes "0 < x" "x \<le> y"
  shows "rnd64 x \<le> rnd64 y"
proof (cases "qexp x = qexp y")
  case True
  have "rne (x / 2 powi qexp y) \<le> rne (y / 2 powi qexp y)"
    by (rule rne_mono) (simp add: assms divide_right_mono)
  with True assms show ?thesis by (simp add: rnd64_def)
next
  case False
  have y: "0 < y" using assms by simp
  have "ilog2 x \<le> ilog2 y" using assms by (rule ilog2_mono)
  with False assms y have lt: "qexp x < ilog2 y - 52" "qexp y = ilog2 y - 52" "ilog2 x < ilog2 y"
    by (auto simp: qexp_def)
  have "x < 2 powi (ilog2 x + 1)" using assms by (intro ilog2_bounds)
  also have "\<dots> \<le> 2 powi ilog2 y" using lt by (simp add: power_int_increasing)
  finally have "x / 2 powi qexp x \<le> 2 powi ilog2 y / 2 powi qexp x"
    by (simp add: divide_right_mono)
  also have "\<dots> = of_int (2 ^ nat (ilog2 y - qexp x))" using lt by (intro powi_int_multiple) simp
  finally have "rne (x / 2 powi qexp x) \<le> 2 ^ nat (ilog2 y - qexp x)"
    using rne_mono rne_of_int by metis
  then have "of_int (rne (x / 2 powi qexp x)) \<le> (2::rat) powi ilog2 y / 2 powi qexp x"
    using powi_int_multiple [of "qexp x" "ilog2 y"] lt(1) by (simp add: of_int_le_iff [symmetric] del: of_int_le_iff)
  then have X: "rnd64 x \<le> 2 powi ilog2 y" using assms by (simp add: rnd64_def field_simps)
  have "(2::rat) powi ilog2 y / 2 powi qexp y \<le> y / 2 powi qexp y"
    using ilog2_bounds [of y] y by (simp add: divide_right_mono)
  moreover have "(2::rat) powi ilog2 y / 2 powi qexp y = of_int (2 ^ 52)"
    using powi_int_multiple [of "qexp y" "ilog2 y"] lt by simp
  ultimately have "2 ^ 52 \<le> rne (y / 2 powi qexp y)"
    using rne_mono rne_of_int by metis
  then have "(2::rat) powi ilog2 y / 2 powi qexp y \<le> of_int (rne (y / 2 powi qexp y))"
    using \<open>(2::rat) powi ilog2 y / 2 powi qexp y = of_int (2 ^ 52)\<close> of_int_le_iff by metis
  then have Y: "2 powi ilog2 y \<le> rnd64 y" using y by (simp add: rnd64_def field_simps)
  from X Y show ?thesis by linarith
qed
lemma rnd64_0 [simp]: "rnd64 0 = 0"
  by (simp add: rnd64_def)

lemma rnd64_nonneg: "0 \<le> x \<Longrightarrow> 0 \<le> rnd64 x"
proof -
  assume "0 \<le> x"
  then have "rne 0 \<le> rne (x / 2 powi qexp x)" by (intro rne_mono) simp
  then show ?thesis using rne_of_int [of 0] by (simp add: rnd64_def)
qed

lemma rnd64_mono: "x \<le> y \<Longrightarrow> rnd64 x \<le> rnd64 y"
proof -
  assume le: "x \<le> y"
  consider "0 < x" | "x \<le> 0" "0 \<le> y" | "y < 0" by linarith
  then show ?thesis
  proof cases
    case 1
    then show ?thesis using le by (rule rnd64_mono_pos)
  next
    case 2
    then show ?thesis using rnd64_nonneg [of y] rnd64_nonneg [of "- x"] by (simp add: rnd64_minus)
  next
    case 3
    then show ?thesis using rnd64_mono_pos [of "- y" "- x"] le by (simp add: rnd64_minus)
  qed
qed

lemma ilog2_less:
  assumes "0 < x" "x < 2 powi k"
  shows "ilog2 x < k"
proof (rule ccontr)
  assume "\<not> ilog2 x < k"
  then have "(2::rat) powi k \<le> 2 powi ilog2 x" by (intro power_int_increasing) auto
  with ilog2_bounds [of x] assms show False by linarith
qed

lemma rnd64_exact_aux:
  assumes "\<bar>m\<bar> < 2 ^ 53" "- 1074 \<le> e"
  shows "rnd64 (of_int m * 2 powi e) = of_int m * 2 powi e"
proof (cases "m = 0")
  case False
  define x where "x = (of_int m * 2 powi e :: rat)"
  have "(of_int \<bar>m\<bar> :: rat) < of_int (2 ^ 53)" using assms(1) by (simp only: of_int_less_iff)
  then have "\<bar>x\<bar> < 2 powi 53 * 2 powi e" by (simp add: x_def abs_mult)
  then have "\<bar>x\<bar> < 2 powi (53 + e)" by (simp add: power_int_add)
  moreover have "0 < \<bar>x\<bar>" using False by (simp add: x_def)
  ultimately have "ilog2 \<bar>x\<bar> < 53 + e" by (intro ilog2_less)
  with assms(2) have q: "qexp x \<le> e" by (simp add: qexp_def)
  have "x / 2 powi qexp x = of_int m * (2 powi e / 2 powi qexp x)" by (simp add: x_def)
  also have "\<dots> = of_int (m * 2 ^ nat (e - qexp x))" using powi_int_multiple [OF q] by simp
  finally have "of_int (rne (x / 2 powi qexp x)) = x / 2 powi qexp x" using rne_of_int by metis
  then show ?thesis by (simp add: rnd64_def x_def)
qed simp

lemma rnd64_exact:
  assumes "\<bar>m\<bar> \<le> 2 ^ 53" "- 1074 \<le> e"
  shows "rnd64 (of_int m * 2 powi e) = of_int m * 2 powi e"
proof (cases "\<bar>m\<bar> = 2 ^ 53")
  case True
  then have "m = 2 * (2 ^ 52) \<or> m = 2 * (- (2 ^ 52))" by (auto simp: abs_if split: if_splits)
  then obtain k where k: "m = 2 * k" "\<bar>k\<bar> < 2 ^ 53" by force
  have "rnd64 (of_int k * 2 powi (e + 1)) = of_int k * 2 powi (e + 1)"
    using k assms by (intro rnd64_exact_aux) auto
  moreover have "of_int m * 2 powi e = (of_int k * 2 powi (e + 1) :: rat)"
    by (simp add: k power_int_add)
  ultimately show ?thesis by simp
next
  case False
  with assms show ?thesis by (intro rnd64_exact_aux) auto
qed

lemma rnd64_of_int: "\<bar>n\<bar> \<le> 2 ^ 53 \<Longrightarrow> rnd64 (of_int n) = of_int n"
  using rnd64_exact [of n 0] by simp

lemma rnd64_abs_error: "x \<noteq> 0 \<Longrightarrow> \<bar>rnd64 x - x\<bar> \<le> 2 powi qexp x / 2"
proof -
  assume nz: "x \<noteq> 0"
  let ?q = "(2::rat) powi qexp x"
  have "rnd64 x - x = (of_int (rne (x / ?q)) - x / ?q) * ?q"
    using nz by (simp add: rnd64_def left_diff_distrib)
  then have "\<bar>rnd64 x - x\<bar> = \<bar>of_int (rne (x / ?q)) - x / ?q\<bar> * ?q" by (simp add: abs_mult)
  also have "\<dots> \<le> 1 / 2 * ?q" using rne_error [of "x / ?q"] by (intro mult_right_mono) auto
  finally show ?thesis by simp
qed

lemma rnd64_rel_error:
  assumes "2 powi (- 1022) \<le> \<bar>x\<bar>"
  shows "\<bar>rnd64 x - x\<bar> \<le> \<bar>x\<bar> / 2 ^ 53"
proof -
  have nz: "0 < \<bar>x\<bar>" using assms zero_less_power_int [of "2::rat" "-1022"] by linarith
  have "(2::rat) powi (- 1022) < 2 powi (ilog2 \<bar>x\<bar> + 1)" using ilog2_bounds(2) [OF nz] assms by linarith
  then have "- 1022 \<le> ilog2 \<bar>x\<bar>" using power_int_increasing [of "ilog2 \<bar>x\<bar> + 1" "- 1022" "2::rat"] by force
  then have "qexp x = ilog2 \<bar>x\<bar> - 52" by (simp add: qexp_def)
  then have "(2::rat) powi qexp x = 2 powi ilog2 \<bar>x\<bar> / 2 ^ 52" by (simp add: power_int_diff)
  also have "\<dots> \<le> \<bar>x\<bar> / 2 ^ 52" using ilog2_bounds(1) [OF nz] by (simp add: divide_right_mono)
  finally show ?thesis using rnd64_abs_error [of x] nz by simp
qed

lemma rnd64_snap:
  assumes k: "1 \<le> k" "k < 2 ^ 52" and y: "\<bar>y - of_int k\<bar> \<le> of_int k / 2 ^ 55"
  shows "rnd64 y = of_int k"
proof -
  define K where "K = (of_int k :: rat)"
  have K: "1 \<le> K" "K < 2 ^ 52"
    using k of_int_less_iff [of k "2 ^ 52", where ?'a = rat] by (simp_all add: K_def)
  have yK: "\<bar>y - K\<bar> \<le> K / 2 ^ 55" using y by (simp add: K_def)
  then have y_lo: "K - K / 2 ^ 55 \<le> y" and y_hi: "y \<le> K + K / 2 ^ 55" by linarith+
  have pos: "0 < y" using y_lo K by (simp add: field_simps)
  have "y < 2 ^ 53" using y_hi K by (simp add: field_simps)
  then have "ilog2 y < 53" using ilog2_less [of y 53] pos by simp
  then have q0: "qexp y \<le> 0" using pos by (simp add: qexp_def)
  define q where "q = (2::rat) powi qexp y"
  have qpos: "0 < q" by (simp add: q_def)
  have "y / 2 ^ 53 < 2 powi (ilog2 y + 1) / 2 ^ 53"
    using ilog2_bounds(2) [OF pos] by (simp add: divide_strict_right_mono)
  also have "2 powi (ilog2 y + 1) / 2 ^ 53 = (2::rat) powi (ilog2 y - 52)"
    by (simp add: power_int_diff power_int_add)
  also have "\<dots> \<le> q" unfolding q_def qexp_def using pos by (intro power_int_increasing) auto
  finally have "K / 2 ^ 55 < q / 2" using y_lo K by (simp add: field_simps)
  with yK have near: "\<bar>y - K\<bar> < q / 2" by linarith
  define n where "n = k * 2 ^ nat (- qexp y)"
  have Kq: "K / q = of_int n"
    using powi_int_multiple [OF q0] by (simp add: K_def q_def n_def divide_inverse)
  have "\<bar>y / q - of_int n\<bar> < 1 / 2"
  proof -
    have "\<bar>y / q - of_int n\<bar> = \<bar>y - K\<bar> / q"
      unfolding Kq [symmetric] diff_divide_distrib [symmetric] using qpos by simp
    then show ?thesis using near qpos by (simp add: field_simps)
  qed
  then have "\<bar>of_int (rne (y / q)) - (of_int n :: rat)\<bar> < 1"
    using rne_error [of "y / q"] by linarith
  then have "\<bar>rne (y / q) - n\<bar> < 1" by linarith
  then have "rne (y / q) = n" by linarith
  then have "rnd64 y = of_int n * q" using pos by (simp add: rnd64_def q_def)
  also have "\<dots> = K" using Kq qpos by (simp add: field_simps)
  finally show ?thesis by (simp add: K_def)
qed

lemma abs_diff_le: "\<bar>z - v\<bar> \<le> e \<Longrightarrow> \<bar>z\<bar> \<le> \<bar>v\<bar> + e" for z v e :: rat
  by linarith

lemma abs_diff_le2: "\<bar>r - z\<bar> \<le> d \<Longrightarrow> \<bar>z - v\<bar> \<le> e \<Longrightarrow> \<bar>r - v\<bar> \<le> d + e" for r z v d e :: rat
  by linarith

section \<open>The contract of rounding\<close>

locale fp_rounding =
  fixes rnd :: "rat \<Rightarrow> rat"
  assumes rnd_mono: "x \<le> y \<Longrightarrow> rnd x \<le> rnd y"
    and rnd_minus: "rnd (- x) = - rnd x"
    and rnd_exact: "\<bar>m\<bar> \<le> 2 ^ 53 \<Longrightarrow> - 1074 \<le> e \<Longrightarrow> rnd (of_int m * 2 powi e) = of_int m * 2 powi e"
    and rnd_rel: "2 powi (- 1022) \<le> \<bar>x\<bar> \<Longrightarrow> \<bar>rnd x - x\<bar> \<le> \<bar>x\<bar> / 2 ^ 53"
    and rnd_snap: "1 \<le> k \<Longrightarrow> k < 2 ^ 52 \<Longrightarrow> \<bar>y - of_int k\<bar> \<le> of_int k / 2 ^ 55 \<Longrightarrow> rnd y = of_int k"
begin

lemma rnd_of_int: "\<bar>n\<bar> \<le> 2 ^ 53 \<Longrightarrow> rnd (of_int n) = of_int n"
  using rnd_exact [of n 0] by simp

lemma rnd_zero [simp]: "rnd 0 = 0"
  using rnd_of_int [of 0] by simp

lemma rnd_nonneg: "0 \<le> x \<Longrightarrow> 0 \<le> rnd x"
  using rnd_mono [of 0 x] by simp

lemma rnd_nonpos: "x \<le> 0 \<Longrightarrow> rnd x \<le> 0"
  using rnd_mono [of x 0] by simp

lemma rnd_le_int: "x \<le> of_int n \<Longrightarrow> \<bar>n\<bar> \<le> 2 ^ 53 \<Longrightarrow> rnd x \<le> of_int n"
  using rnd_mono [of x "of_int n"] by (simp add: rnd_of_int)

lemma rnd_ge_int: "of_int n \<le> x \<Longrightarrow> \<bar>n\<bar> \<le> 2 ^ 53 \<Longrightarrow> of_int n \<le> rnd x"
  using rnd_mono [of "of_int n" x] by (simp add: rnd_of_int)

lemma rnd_abs_le_int: "\<bar>x\<bar> \<le> of_int n \<Longrightarrow> \<bar>n\<bar> \<le> 2 ^ 53 \<Longrightarrow> \<bar>rnd x\<bar> \<le> of_int n"
  using rnd_le_int [of x n] rnd_ge_int [of "- n" x] by (simp add: abs_le_iff)

text \<open>
  Scaling an integer by the double nearest to \<open>a / b\<close> and taking the ceiling gives the exact
  integer ceiling, while the product is small enough for the error to stay below \<open>1 / b\<close>.
\<close>

lemma scaled_error:
  fixes n a b :: int and c :: rat
  assumes "1 \<le> n" "1 \<le> a" "1 \<le> b" "b \<le> 2 ^ 20" "n * a \<le> 2 ^ 52"
    and c: "\<bar>c - of_int a / of_int b\<bar> \<le> of_int a / of_int b / 2 ^ 55"
  defines "v \<equiv> of_int (n * a) / of_int b"
  shows "\<bar>of_int n * c - v\<bar> \<le> v / 2 ^ 55" and "\<bar>rnd (of_int n * c) - v\<bar> < 1 / of_int b"
proof -
  have n: "1 \<le> (of_int n :: rat)" and b: "0 < (of_int b :: rat)" "of_int b \<le> (2 ^ 20 :: rat)"
    using assms of_int_le_iff [of b "2 ^ 20", where ?'a = rat] by simp_all
  have v: "v = of_int n * (of_int a / of_int b)" by (simp add: v_def)
  have "\<bar>of_int n * c - v\<bar> = of_int n * \<bar>c - of_int a / of_int b\<bar>"
    using n unfolding v right_diff_distrib [symmetric] by (simp add: abs_mult)
  also have "\<dots> \<le> of_int n * (of_int a / of_int b / 2 ^ 55)" using c n by (intro mult_left_mono) auto
  finally show near: "\<bar>of_int n * c - v\<bar> \<le> v / 2 ^ 55" by (simp add: v)
  have "0 < n * a" using assms(1,2) by simp
  then have "1 \<le> n * a" by linarith
  then have na: "1 \<le> (of_int (n * a) :: rat)" "of_int (n * a) \<le> (2 ^ 52 :: rat)"
    using assms(5) of_int_le_iff [of "n * a" "2 ^ 52", where ?'a = rat]
      of_int_le_iff [of 1 "n * a", where ?'a = rat] by simp_all
  have v_lo: "1 / 2 ^ 20 \<le> v"
    unfolding v_def using na(1) b by (intro frac_le) auto
  have vb: "v * of_int b \<le> 2 ^ 52" using na(2) b by (simp add: v_def)
  have "v - v / 2 ^ 55 \<le> of_int n * c" using near by linarith
  then have "1 / 2 ^ 21 \<le> of_int n * c" using v_lo by (simp add: field_simps)
  moreover have "(2::rat) powi (- 1022) \<le> 2 powi (- 21)" by (intro power_int_increasing) auto
  ultimately have "(2::rat) powi (- 1022) \<le> \<bar>of_int n * c\<bar>" by (simp add: power_int_minus_divide)
  then have "\<bar>rnd (of_int n * c) - of_int n * c\<bar> \<le> \<bar>of_int n * c\<bar> / 2 ^ 53" by (rule rnd_rel)
  moreover have "\<bar>of_int n * c\<bar> \<le> v + v / 2 ^ 55"
    using abs_diff_le [OF near] v_lo by simp
  ultimately have "\<bar>rnd (of_int n * c) - of_int n * c\<bar> \<le> (v + v / 2 ^ 55) / 2 ^ 53"
    by (elim order_trans) (simp only: divide_right_mono zero_le_power zero_le_numeral)
  from abs_diff_le2 [OF this near] have "\<bar>rnd (of_int n * c) - v\<bar> \<le> v / 2 ^ 52 - v / 2 ^ 54"
    using v_lo by (simp add: field_simps)
  also have "\<dots> < v / 2 ^ 52" using less_le_trans [OF _ v_lo, of 0] by (simp add: field_simps)
  also have "\<dots> \<le> 1 / of_int b" using vb b by (simp add: field_simps)
  finally show "\<bar>rnd (of_int n * c) - v\<bar> < 1 / of_int b" .
qed

lemma scaled_ceiling:
  fixes n a b :: int and c :: rat
  assumes "0 \<le> n" "1 \<le> a" "1 \<le> b" "b \<le> 2 ^ 20" "n * a < 2 ^ 52"
    and c: "\<bar>c - of_int a / of_int b\<bar> \<le> of_int a / of_int b / 2 ^ 55"
  shows "\<lceil>rnd (of_int n * c)\<rceil> = \<lceil>of_int (n * a) / of_int b :: rat\<rceil>"
proof (cases "n = 0")
  case False
  then have n: "1 \<le> n" using assms(1) by simp
  note err = scaled_error [OF n assms(2-4) _ c]
  define q where "q = n * a div b"
  define r where "r = n * a mod b"
  have r: "0 \<le> r" "r < b" using assms(3) by (simp_all add: r_def)
  have na: "n * a = b * q + r" by (simp add: q_def r_def)
  have e: "(of_int (n * a) / of_int b :: rat) = of_int q + of_int r / of_int b"
    using assms(3) unfolding na by (simp add: add_divide_distrib)
  show ?thesis
  proof (cases "r = 0")
    case True
    have "0 < n * a" using n assms(2) by simp
    then have "1 \<le> q" using True na assms(3) by (smt (verit) zero_less_mult_iff)
    moreover have "q < 2 ^ 52"
      using True na assms(3,5) \<open>1 \<le> q\<close> mult_right_mono [of 1 b q] by linarith
    moreover have "\<bar>of_int n * c - of_int q\<bar> \<le> of_int q / 2 ^ 55"
      using err(1) assms(5) unfolding e True by simp
    ultimately have "rnd (of_int n * c) = of_int q" by (intro rnd_snap) auto
    with e True show ?thesis by simp
  next
    case False
    then have "1 \<le> r" "r \<le> b - 1" using r by auto
    then have "(1::rat) \<le> of_int r" "(of_int r :: rat) \<le> of_int b - 1"
      using of_int_le_iff [of 1 r, where ?'a = rat] of_int_le_iff [of r "b - 1", where ?'a = rat] by simp_all
    then have rb: "1 / of_int b \<le> (of_int r / of_int b :: rat)" "of_int r / of_int b \<le> (1 - 1 / of_int b :: rat)"
      using assms(3) by (simp_all add: field_simps)
    have fine: "\<bar>rnd (of_int n * c) - of_int (n * a) / of_int b\<bar> < 1 / of_int b"
      using err(2) assms(5) by simp
    define t where "t = (of_int r / of_int b :: rat)"
    define u where "u = (1 / of_int b :: rat)"
    have tu: "0 < u" "u \<le> t" "t \<le> 1 - u" using rb assms(3) by (simp_all add: t_def u_def)
    have "\<lceil>of_int q + t\<rceil> = q + 1" using tu by (intro ceiling_unique) simp_all
    moreover have "\<lceil>rnd (of_int n * c)\<rceil> = q + 1"
      using tu fine unfolding e t_def [symmetric] u_def [symmetric]
      by (intro ceiling_unique) (simp_all add: abs_less_iff)
    moreover have "(of_int (n * a) / of_int b :: rat) = of_int q + t" by (simp only: e t_def)
    ultimately show ?thesis by simp
  qed
qed simp

end

interpretation binary64: fp_rounding rnd64
  by unfold_locales (rule rnd64_mono rnd64_minus rnd64_exact rnd64_rel_error rnd64_snap; assumption)+

end
