(* ===== verification/Go_Float.thy ===== *)
theory Go_Float
  imports Binary64
begin

text \<open>
  The \<open>float64\<close> operations the program uses: arithmetic, comparisons, \<open>math.Max\<close>, \<open>math.Abs\<close>,
  \<open>math.Round\<close>, \<open>math.Ceil\<close>, the conversions from and to \<open>int64\<close>, and \<open>fmt\<close>'s \<open>%.Nf\<close>.
  Every untyped constant of the source is exact until it is used as a \<open>float64\<close>, where it is
  rounded once (\<open>f64_const\<close>).
\<close>

section \<open>Values and arithmetic\<close>

datatype f64 = NaN | PInf | NInf | Fin rat

definition to_f64 :: "rat \<Rightarrow> f64" where
  "to_f64 x = (let r = rnd64 x in
     if 2 ^ 1024 \<le> r then PInf else if r \<le> - (2 ^ 1024) then NInf else Fin r)"

definition f64_const :: "rat \<Rightarrow> f64" where
  "f64_const x = to_f64 x"

fun is_finite :: "f64 \<Rightarrow> bool" where
  "is_finite (Fin _) = True"
| "is_finite _ = False"

fun fneg :: "f64 \<Rightarrow> f64" where
  "fneg NaN = NaN"
| "fneg PInf = NInf"
| "fneg NInf = PInf"
| "fneg (Fin a) = Fin (- a)"

fun fadd :: "f64 \<Rightarrow> f64 \<Rightarrow> f64" where
  "fadd (Fin a) (Fin b) = to_f64 (a + b)"
| "fadd NaN _ = NaN"
| "fadd _ NaN = NaN"
| "fadd PInf NInf = NaN"
| "fadd NInf PInf = NaN"
| "fadd PInf _ = PInf"
| "fadd NInf _ = NInf"
| "fadd _ PInf = PInf"
| "fadd _ NInf = NInf"

definition fsub :: "f64 \<Rightarrow> f64 \<Rightarrow> f64" where
  "fsub a b = fadd a (fneg b)"

definition signed_inf :: "bool \<Rightarrow> f64" where
  "signed_inf pos = (if pos then PInf else NInf)"

fun f64_sign :: "f64 \<Rightarrow> rat" where
  "f64_sign NaN = 0"
| "f64_sign PInf = 1"
| "f64_sign NInf = -1"
| "f64_sign (Fin a) = sgn a"

fun fmul :: "f64 \<Rightarrow> f64 \<Rightarrow> f64" where
  "fmul (Fin a) (Fin b) = to_f64 (a * b)"
| "fmul NaN _ = NaN"
| "fmul _ NaN = NaN"
| "fmul x y = (let s = f64_sign x * f64_sign y in if s = 0 then NaN else signed_inf (0 < s))"

fun fdiv :: "f64 \<Rightarrow> f64 \<Rightarrow> f64" where
  "fdiv (Fin a) (Fin b) =
     (if b = 0 then (if a = 0 then NaN else signed_inf (0 < a)) else to_f64 (a / b))"
| "fdiv NaN _ = NaN"
| "fdiv _ NaN = NaN"
| "fdiv (Fin a) _ = Fin 0"
| "fdiv x (Fin b) = signed_inf (0 < f64_sign x * (if b < 0 then -1 else 1))"
| "fdiv _ _ = NaN"

section \<open>Comparisons and package math\<close>

fun flt :: "f64 \<Rightarrow> f64 \<Rightarrow> bool" where
  "flt (Fin a) (Fin b) = (a < b)"
| "flt NaN _ = False"
| "flt _ NaN = False"
| "flt NInf y = (y \<noteq> NInf)"
| "flt _ NInf = False"
| "flt PInf _ = False"
| "flt _ PInf = True"

fun feq :: "f64 \<Rightarrow> f64 \<Rightarrow> bool" where
  "feq NaN _ = False"
| "feq x y = (x = y)"

definition fle :: "f64 \<Rightarrow> f64 \<Rightarrow> bool" where
  "fle x y \<longleftrightarrow> flt x y \<or> feq x y"

definition math_Max :: "f64 \<Rightarrow> f64 \<Rightarrow> f64" where
  "math_Max x y =
     (if x = PInf \<or> y = PInf then PInf
      else if x = NaN \<or> y = NaN then NaN
      else if flt y x then x else y)"

fun math_Abs :: "f64 \<Rightarrow> f64" where
  "math_Abs (Fin a) = Fin \<bar>a\<bar>"
| "math_Abs NaN = NaN"
| "math_Abs _ = PInf"

text \<open>\<open>math.Round\<close> rounds half away from zero; \<open>math.Ceil\<close> rounds up.\<close>

definition round_away :: "rat \<Rightarrow> int" where
  "round_away a = (if 0 \<le> a then \<lfloor>a + 1 / 2\<rfloor> else - \<lfloor>- a + 1 / 2\<rfloor>)"

fun math_Round :: "f64 \<Rightarrow> f64" where
  "math_Round (Fin a) = Fin (of_int (round_away a))"
| "math_Round x = x"

fun math_Ceil :: "f64 \<Rightarrow> f64" where
  "math_Ceil (Fin a) = Fin (of_int \<lceil>a\<rceil>)"
| "math_Ceil x = x"

section \<open>Conversions and formatting\<close>

definition f64_of_int :: "int \<Rightarrow> f64" where
  "f64_of_int n = to_f64 (of_int n)"

text \<open>
  \<open>int64(x)\<close> truncates; a value that does not fit is the machine's choice, which on amd64 is the
  smallest integer.
\<close>

definition rat_trunc :: "rat \<Rightarrow> int" where
  "rat_trunc a = (if 0 \<le> a then \<lfloor>a\<rfloor> else \<lceil>a\<rceil>)"

fun int64_of_f64 :: "f64 \<Rightarrow> int" where
  "int64_of_f64 (Fin a) = (if is_i64 (rat_trunc a) then rat_trunc a else - (2 ^ 63))"
| "int64_of_f64 _ = - (2 ^ 63)"

definition pad_digits :: "nat \<Rightarrow> string \<Rightarrow> string" where
  "pad_digits n s = replicate (n - length s) (CHR ''0'') @ s"

definition fmt_fixed_rat :: "nat \<Rightarrow> rat \<Rightarrow> string" where
  "fmt_fixed_rat prec a =
     (let m = nat \<bar>rne (a * 10 ^ prec)\<bar>;
          ip = nat_digits (m div 10 ^ prec);
          fp = pad_digits prec (nat_digits (m mod 10 ^ prec))
      in (if a < 0 then ''-'' else '''') @ ip @ (if prec = 0 then '''' else ''.'' @ fp))"

fun fmt_fixed :: "nat \<Rightarrow> f64 \<Rightarrow> string" where
  "fmt_fixed prec NaN = ''NaN''"
| "fmt_fixed prec PInf = ''+Inf''"
| "fmt_fixed prec NInf = ''-Inf''"
| "fmt_fixed prec (Fin a) = fmt_fixed_rat prec a"

section \<open>Facts\<close>

lemma to_f64_cases:
  obtains (fin) "to_f64 x = Fin (rnd64 x)" "\<bar>rnd64 x\<bar> < 2 ^ 1024"
  | (pinf) "to_f64 x = PInf" "0 < x" | (ninf) "to_f64 x = NInf" "x < 0"
proof -
  have pos: "0 < x" if "2 ^ 1024 \<le> rnd64 x"
    using that binary64.rnd_nonpos [of x] by (meson le_less_trans not_le zero_less_numeral zero_less_power less_le_trans)
  have neg: "x < 0" if "rnd64 x \<le> - (2 ^ 1024)"
    using that binary64.rnd_nonneg [of x]
    by (meson neg_less_0_iff_less not_le order_less_le_trans zero_less_numeral zero_less_power)
  consider "2 ^ 1024 \<le> rnd64 x" | "\<not> 2 ^ 1024 \<le> rnd64 x" "rnd64 x \<le> - (2 ^ 1024)"
    | "\<not> 2 ^ 1024 \<le> rnd64 x" "\<not> rnd64 x \<le> - (2 ^ 1024)" by blast
  then show ?thesis
  proof cases
    case 1
    then show ?thesis using pos pinf by (simp only: to_f64_def Let_def if_True)
  next
    case 2
    then show ?thesis using neg ninf by (simp only: to_f64_def Let_def if_True if_False)
  next
    case 3
    then have "\<bar>rnd64 x\<bar> < 2 ^ 1024" by (metis abs_less_iff minus_less_iff not_le)
    then show ?thesis using 3 fin by (simp only: to_f64_def Let_def if_False)
  qed
qed

lemma to_f64_small:
  assumes "\<bar>x\<bar> \<le> of_int n" "\<bar>n\<bar> \<le> 2 ^ 53"
  shows "to_f64 x = Fin (rnd64 x)"
proof -
  have "\<bar>rnd64 x\<bar> \<le> of_int n" by (rule binary64.rnd_abs_le_int [OF assms])
  also have "(of_int n :: rat) \<le> of_int (2 ^ 53)" using assms(2) by (simp only: of_int_le_iff)
  also have "(of_int (2 ^ 53) :: rat) < 2 ^ 1024" by simp
  finally have "\<bar>rnd64 x\<bar> < 2 ^ 1024" .
  then have "\<not> 2 ^ 1024 \<le> rnd64 x" "\<not> rnd64 x \<le> - (2 ^ 1024)"
    by (metis abs_less_iff minus_less_iff not_le)+
  then show ?thesis by (simp only: to_f64_def Let_def if_False)
qed

lemma f64_of_int_exact: "\<bar>n\<bar> \<le> 2 ^ 53 \<Longrightarrow> f64_of_int n = Fin (of_int n)"
  using to_f64_small [of "of_int n" "\<bar>n\<bar>"] by (simp add: f64_of_int_def binary64.rnd_of_int)

lemma to_f64_not_NaN [simp]: "to_f64 x \<noteq> NaN"
  by (rule to_f64_cases [of x]) auto

lemma is_finite_iff: "is_finite x \<longleftrightarrow> (\<exists>r. x = Fin r)"
  by (cases x) auto

lemma math_Max_nonneg: "math_Max (Fin 0) x = NaN \<or> math_Max (Fin 0) x = PInf \<or> (\<exists>r \<ge> 0. math_Max (Fin 0) x = Fin r)"
  by (cases x) (auto simp: math_Max_def)

lemma math_Max_Fin [fp_simps]: "math_Max (Fin a) (Fin b) = Fin (max a b)"
  by (auto simp: math_Max_def max_def)

lemma flt_Fin_iff: "flt x (Fin b) \<longleftrightarrow> x = NInf \<or> (\<exists>a. x = Fin a \<and> a < b)"
  by (cases x) auto

lemma fle_Fin [fp_simps]: "fle (Fin a) (Fin b) \<longleftrightarrow> a \<le> b"
  by (auto simp: fle_def)

lemma fle_trans: "fle x y \<Longrightarrow> fle y z \<Longrightarrow> fle x z"
  by (cases x; cases y; cases z) (auto simp: fle_def)

lemma fle_refl: "x \<noteq> NaN \<Longrightarrow> fle x x"
  by (cases x) (auto simp: fle_def)

lemma fle_math_Max: "x \<noteq> NaN \<Longrightarrow> y \<noteq> NaN \<Longrightarrow> fle x (math_Max x y) \<and> fle y (math_Max x y)"
  by (cases x; cases y) (auto simp: fle_def math_Max_def)

lemma math_Max_not_NaN: "x \<noteq> NaN \<Longrightarrow> y \<noteq> NaN \<Longrightarrow> math_Max x y \<noteq> NaN"
  by (auto simp: math_Max_def)

lemma round_away_mono: "a \<le> b \<Longrightarrow> round_away a \<le> round_away b"
  unfolding round_away_def by (auto intro: floor_mono) linarith

lemma round_away_of_int [simp]: "round_away (of_int n) = n"
proof -
  have "\<lfloor>of_int k + 1 / 2 :: rat\<rfloor> = k" for k by (rule floor_unique) simp_all
  from this [of n] this [of "- n"] show ?thesis by (simp add: round_away_def)
qed

lemma round_away_nonneg: "0 \<le> a \<Longrightarrow> 0 \<le> round_away a"
  using round_away_mono [of 0 a] round_away_of_int [of 0] by simp

lemma rat_trunc_of_int [simp]: "rat_trunc (of_int n) = n"
  by (auto simp: rat_trunc_def)

lemma is_i64_int64_of_f64 [simp]: "is_i64 (int64_of_f64 x)"
  by (cases x) (auto simp: is_i64_def)

lemma to_f64_mono: "x \<le> y \<Longrightarrow> fle (to_f64 x) (to_f64 y)"
proof -
  assume "x \<le> y"
  then have "rnd64 x \<le> rnd64 y" by (rule binary64.rnd_mono)
  then show ?thesis
    unfolding to_f64_def Let_def
    by (auto simp: fle_def simp del: power_numeral split: if_split)
qed

end
