(* ===== verification/Quantity.thy ===== *)
theory Quantity
  imports Go_Float
begin

text \<open>
  \<open>resource.Quantity\<close> belongs to k8s.io/apimachinery, which is not part of this repository: its
  operations are a parameter \<open>Q\<close> of every definition that uses them, and the locale \<open>quantity\<close>
  states what its documentation promises (an exact fixed-point amount; \<open>Cmp\<close> and \<open>IsZero\<close> compare
  amounts; \<open>Value\<close> and \<open>MilliValue\<close> round up; the canonical string loses no precision; a
  resource list returns a zero quantity for a missing resource).  \<open>nano_api\<close>, whole numbers of
  nano-units as in the library, shows that the contract can be met.
\<close>

datatype qformat = DecimalSI | BinarySI | DecimalExponent

type_synonym 'q ResourceList = "string \<rightharpoonup> 'q"

record 'q quantity_api =
  NewMilliQuantity :: "int \<Rightarrow> qformat \<Rightarrow> 'q"
  NewQuantity :: "int \<Rightarrow> qformat \<Rightarrow> 'q"
  MilliValue :: "'q \<Rightarrow> int"
  Value :: "'q \<Rightarrow> int"
  Cmp :: "'q \<Rightarrow> 'q \<Rightarrow> int"
  IsZero :: "'q \<Rightarrow> bool"
  Format :: "'q \<Rightarrow> qformat"
  QString :: "'q \<Rightarrow> string"
  ParseQuantity :: "string \<Rightarrow> string + 'q"
  ListCpu :: "'q ResourceList \<Rightarrow> 'q option"
  ListMemory :: "'q ResourceList \<Rightarrow> 'q option"

definition ResourceCPU :: string where "ResourceCPU = ''cpu''"
definition ResourceMemory :: string where "ResourceMemory = ''memory''"

definition max_i64 :: int where "max_i64 = 2 ^ 63 - 1"

section \<open>The documented contract\<close>

locale quantity =
  fixes Q :: "'q quantity_api" and amount :: "'q \<Rightarrow> rat"
  assumes Cmp_less: "Cmp Q a b < 0 \<longleftrightarrow> amount a < amount b"
    and Cmp_eq: "Cmp Q a b = 0 \<longleftrightarrow> amount a = amount b"
    and IsZero_iff: "IsZero Q a \<longleftrightarrow> amount a = 0"
    and MilliValue_ceil: "0 \<le> amount a \<Longrightarrow> amount a * 1000 \<le> of_int max_i64 \<Longrightarrow> MilliValue Q a = \<lceil>amount a * 1000\<rceil>"
    and Value_ceil: "0 \<le> amount a \<Longrightarrow> amount a \<le> of_int max_i64 \<Longrightarrow> Value Q a = \<lceil>amount a\<rceil>"
    and amount_NewMilli: "is_i64 n \<Longrightarrow> amount (NewMilliQuantity Q n f) = of_int n / 1000"
    and amount_New: "is_i64 n \<Longrightarrow> amount (NewQuantity Q n f) = of_int n"
    and Parse_String: "\<exists>q'. ParseQuantity Q (QString Q q) = Inr q' \<and> amount q' = amount q"
    and ListCpu_spec: "\<exists>q. ListCpu Q rl = Some q \<and> (case rl ResourceCPU of None \<Rightarrow> amount q = 0 | Some q' \<Rightarrow> q = q')"
    and ListMemory_spec: "\<exists>q. ListMemory Q rl = Some q \<and> (case rl ResourceMemory of None \<Rightarrow> amount q = 0 | Some q' \<Rightarrow> q = q')"
begin

lemma Cmp_greater: "0 < Cmp Q a b \<longleftrightarrow> amount b < amount a"
  using Cmp_less [of a b] Cmp_eq [of a b] by linarith

lemma Cmp_ge: "0 \<le> Cmp Q a b \<longleftrightarrow> amount b \<le> amount a"
  using Cmp_less [of a b] by linarith

lemma Cmp_refl [simp]: "Cmp Q a a = 0"
  by (simp add: Cmp_eq)

lemma Value_New: "0 \<le> n \<Longrightarrow> n \<le> max_i64 \<Longrightarrow> Value Q (NewQuantity Q n f) = n"
  by (simp add: Value_ceil amount_New is_i64_def max_i64_def)

lemma MilliValue_NewMilli: "0 \<le> n \<Longrightarrow> n \<le> max_i64 \<Longrightarrow> MilliValue Q (NewMilliQuantity Q n f) = n"
  by (simp add: MilliValue_ceil amount_NewMilli is_i64_def max_i64_def)

lemma Value_le_iff: "0 \<le> amount a \<Longrightarrow> amount a \<le> of_int max_i64 \<Longrightarrow> Value Q a \<le> n \<longleftrightarrow> amount a \<le> of_int n"
  by (simp add: Value_ceil ceiling_le_iff)

lemma amount_le_Value: "0 \<le> amount a \<Longrightarrow> amount a \<le> of_int max_i64 \<Longrightarrow> amount a \<le> of_int (Value Q a)"
  using Value_le_iff by blast

lemma Value_mono:
  "0 \<le> amount a \<Longrightarrow> amount a \<le> amount b \<Longrightarrow> amount b \<le> of_int max_i64 \<Longrightarrow> Value Q a \<le> Value Q b"
  by (simp add: Value_ceil ceiling_mono)

lemma MilliValue_mono:
  "0 \<le> amount a \<Longrightarrow> amount a \<le> amount b \<Longrightarrow> amount b * 1000 \<le> of_int max_i64 \<Longrightarrow> MilliValue Q a \<le> MilliValue Q b"
  by (simp add: MilliValue_ceil ceiling_mono)

lemmas qty_simps = Cmp_less Cmp_eq Cmp_greater Cmp_ge IsZero_iff

end

section \<open>A concrete implementation at nano precision\<close>

datatype nano_quantity = NQ (nanos: int) (nq_format: qformat)

definition nano_amount :: "nano_quantity \<Rightarrow> rat" where
  "nano_amount q = of_int (nanos q) / 1000000000"

definition digit_val :: "char \<Rightarrow> nat" where
  "digit_val c = of_char c - 48"

definition is_digit :: "char \<Rightarrow> bool" where
  "is_digit c \<longleftrightarrow> 48 \<le> (of_char c :: nat) \<and> (of_char c :: nat) < 58"

definition parse_nat :: "string \<Rightarrow> nat option" where
  "parse_nat s = (if s \<noteq> [] \<and> list_all is_digit s
     then Some (foldl (\<lambda>n c. 10 * n + digit_val c) 0 s) else None)"

fun parse_int :: "string \<Rightarrow> int option" where
  "parse_int [] = None"
| "parse_int (c # s) =
     (if c = CHR ''-'' then map_option (\<lambda>n. - int n) (parse_nat s) else map_option int (parse_nat (c # s)))"

definition nano_parse :: "string \<Rightarrow> string + nano_quantity" where
  "nano_parse s = (case parse_int (butlast s) of
      None \<Rightarrow> Inl ''unable to parse quantity's suffix''
    | Some n \<Rightarrow> if s \<noteq> [] \<and> last s = CHR ''n'' then Inr (NQ n DecimalSI) else Inl ''quantities must match the regular expression'')"

definition nano_get :: "qformat \<Rightarrow> string \<Rightarrow> nano_quantity ResourceList \<Rightarrow> nano_quantity option" where
  "nano_get f res rl = Some (case rl res of None \<Rightarrow> NQ 0 f | Some q \<Rightarrow> q)"

definition nano_api :: "nano_quantity quantity_api" where
  "nano_api = \<lparr>
     NewMilliQuantity = (\<lambda>n f. NQ (n * 1000000) f),
     NewQuantity = (\<lambda>n f. NQ (n * 1000000000) f),
     MilliValue = (\<lambda>q. - ((- nanos q) div 1000000)),
     Value = (\<lambda>q. - ((- nanos q) div 1000000000)),
     Cmp = (\<lambda>a b. if nanos a < nanos b then -1 else if nanos a = nanos b then 0 else 1),
     IsZero = (\<lambda>q. nanos q = 0),
     Format = nq_format,
     QString = (\<lambda>q. itoa (nanos q) @ ''n''),
     ParseQuantity = nano_parse,
     ListCpu = nano_get DecimalSI ResourceCPU,
     ListMemory = nano_get BinarySI ResourceMemory \<rparr>"

lemma digit_char: "n < 10 \<Longrightarrow> is_digit (char_of (48 + n)) \<and> digit_val (char_of (48 + n)) = n"
  by (simp add: is_digit_def digit_val_def)

lemma nat_digits_nonempty [simp]: "nat_digits n \<noteq> []"
  by (subst nat_digits.simps) simp

lemma parse_nat_digits_aux:
  "list_all is_digit (nat_digits n) \<and> foldl (\<lambda>n c. 10 * n + digit_val c) 0 (nat_digits n) = n"
proof (induction n rule: nat_digits.induct)
  case (1 n)
  show ?case
  proof (cases "n < 10")
    case True
    then show ?thesis by (simp add: nat_digits.simps [of n] digit_char)
  next
    case False
    with 1 have IH: "list_all is_digit (nat_digits (n div 10))"
      "foldl (\<lambda>n c. 10 * n + digit_val c) 0 (nat_digits (n div 10)) = n div 10" by blast+
    have "n mod 10 < 10" by simp
    with False IH show ?thesis
      by (simp add: nat_digits.simps [of n] digit_char)
  qed
qed

lemma parse_nat_digits [simp]: "parse_nat (nat_digits n) = Some n"
  by (simp add: parse_nat_def parse_nat_digits_aux)

lemma parse_int_itoa [simp]: "parse_int (itoa i) = Some i"
proof (cases "i < 0")
  case True
  then show ?thesis by (simp add: itoa_def)
next
  case False
  obtain c s where cs: "nat_digits (nat i) = c # s" by (cases "nat_digits (nat i)") auto
  then have "is_digit c" using parse_nat_digits_aux [of "nat i"] by simp
  then have "c \<noteq> CHR ''-''" by (auto simp: is_digit_def)
  with False cs parse_nat_digits [of "nat i"] show ?thesis by (simp add: itoa_def)
qed

lemma neg_floor_div: "- ((- n) div d) = \<lceil>of_int n / of_int d :: rat\<rceil>" for n d :: int
  using floor_divide_of_int_eq [of "- n" d, where ?'a = rat] by (simp add: ceiling_def)

interpretation nano: quantity nano_api nano_amount
proof
  fix a b q :: nano_quantity and n :: int and f :: qformat and rl :: "nano_quantity ResourceList"
  show "Cmp nano_api a b < 0 \<longleftrightarrow> nano_amount a < nano_amount b"
    by (auto simp: nano_api_def nano_amount_def)
  show "Cmp nano_api a b = 0 \<longleftrightarrow> nano_amount a = nano_amount b"
    by (auto simp: nano_api_def nano_amount_def)
  show "IsZero nano_api a \<longleftrightarrow> nano_amount a = 0"
    by (simp add: nano_api_def nano_amount_def)
  show "MilliValue nano_api a = \<lceil>nano_amount a * 1000\<rceil>"
    using neg_floor_div [of "nanos a" 1000000] by (simp add: nano_api_def nano_amount_def)
  show "Value nano_api a = \<lceil>nano_amount a\<rceil>"
    using neg_floor_div [of "nanos a" 1000000000] by (simp add: nano_api_def nano_amount_def)
  show "nano_amount (NewMilliQuantity nano_api n f) = of_int n / 1000"
    by (simp add: nano_api_def nano_amount_def)
  show "nano_amount (NewQuantity nano_api n f) = of_int n"
    by (simp add: nano_api_def nano_amount_def)
  show "\<exists>q'. ParseQuantity nano_api (QString nano_api q) = Inr q' \<and> nano_amount q' = nano_amount q"
    by (simp add: nano_api_def nano_amount_def nano_parse_def)
  show "\<exists>q. ListCpu nano_api rl = Some q \<and> (case rl ResourceCPU of None \<Rightarrow> nano_amount q = 0 | Some q' \<Rightarrow> q = q')"
    by (auto simp: nano_api_def nano_amount_def nano_get_def split: option.split)
  show "\<exists>q. ListMemory nano_api rl = Some q \<and> (case rl ResourceMemory of None \<Rightarrow> nano_amount q = 0 | Some q' \<Rightarrow> q = q')"
    by (auto simp: nano_api_def nano_amount_def nano_get_def split: option.split)
qed

end
