(* ===== verification/Base64.thy ===== *)
theory Base64
  imports Prelude
begin

text \<open>
  \<open>encoding/base64.StdEncoding\<close> of the Go standard library: \<open>EncodeToString\<close> and
  \<open>DecodeString\<close>, which skips line breaks, wants padding only at the end and does not check the
  unused bits of the last symbol.  A byte slice is a \<open>string\<close> (HOL characters are bytes).
\<close>

definition b64_alphabet :: string where
  "b64_alphabet = ''ABCDEFGHIJKLMNOPQRSTUVWXYZabcdefghijklmnopqrstuvwxyz0123456789+/''"

definition b64_char :: "nat \<Rightarrow> char" where
  "b64_char n = b64_alphabet ! n"

definition b64_index :: "char \<Rightarrow> nat option" where
  "b64_index c = find (\<lambda>n. b64_char n = c) [0..<64]"

definition byte :: "char \<Rightarrow> nat" where
  "byte c = of_char c"

definition sextets :: "nat \<Rightarrow> nat list" where
  "sextets n = [n div 64 div 64 div 64, n div 64 div 64 mod 64, n div 64 mod 64, n mod 64]"

definition join3 :: "nat \<Rightarrow> nat \<Rightarrow> nat \<Rightarrow> nat" where
  "join3 a b c = (a * 256 + b) * 256 + c"

fun EncodeToString :: "string \<Rightarrow> string" where
  "EncodeToString [] = []"
| "EncodeToString [a] = map b64_char (take 2 (sextets (join3 (byte a) 0 0))) @ ''==''"
| "EncodeToString [a, b] = map b64_char (take 3 (sextets (join3 (byte a) (byte b) 0))) @ ''=''"
| "EncodeToString (a # b # c # r) =
     map b64_char (sextets (join3 (byte a) (byte b) (byte c))) @ EncodeToString r"

definition group_value :: "nat \<Rightarrow> nat \<Rightarrow> nat \<Rightarrow> nat \<Rightarrow> nat" where
  "group_value i j k l = ((i * 64 + j) * 64 + k) * 64 + l"

definition group_bytes :: "nat \<Rightarrow> string" where
  "group_bytes n = map char_of [n div 256 div 256, n div 256 mod 256, n mod 256]"

fun decode_groups :: "string \<Rightarrow> string option" where
  "decode_groups [] = Some []"
| "decode_groups (a # b # c # d # r) =
     (if c = CHR ''='' \<and> d = CHR ''='' \<and> r = [] then
        (case (b64_index a, b64_index b) of
           (Some i, Some j) \<Rightarrow> Some (take 1 (group_bytes (group_value i j 0 0)))
         | _ \<Rightarrow> None)
      else if d = CHR ''='' \<and> r = [] then
        (case (b64_index a, b64_index b, b64_index c) of
           (Some i, Some j, Some k) \<Rightarrow> Some (take 2 (group_bytes (group_value i j k 0)))
         | _ \<Rightarrow> None)
      else
        (case (b64_index a, b64_index b, b64_index c, b64_index d) of
           (Some i, Some j, Some k, Some l) \<Rightarrow>
             map_option (\<lambda>t. group_bytes (group_value i j k l) @ t) (decode_groups r)
         | _ \<Rightarrow> None))"
| "decode_groups _ = None"

definition DecodeString :: "string \<Rightarrow> string + string" where
  "DecodeString s =
     (case decode_groups (filter (\<lambda>c. c \<noteq> char_of (10::nat) \<and> c \<noteq> char_of (13::nat)) s) of
        None \<Rightarrow> Inl ''illegal base64 data'' | Some b \<Rightarrow> Inr b)"

section \<open>Round trip\<close>

lemma b64_table:
  "list_all (\<lambda>n. b64_index (b64_char n) = Some n \<and> b64_char n \<noteq> CHR ''=''
     \<and> b64_char n \<noteq> char_of (10::nat) \<and> b64_char n \<noteq> char_of (13::nat)) [0..<64]"
  by code_simp

lemma b64_char_facts:
  assumes "n < 64"
  shows "b64_index (b64_char n) = Some n" and "b64_char n \<noteq> CHR ''=''"
    and "b64_char n \<noteq> char_of (10::nat)" and "b64_char n \<noteq> char_of (13::nat)"
  using b64_table assms by (auto simp: list_all_iff)

lemma byte_less [simp]: "byte c < 256"
  unfolding byte_def using of_char_mod_256 [of c, where ?'a = nat] by (metis mod_less_divisor zero_less_numeral)

lemma char_of_byte [simp]: "char_of (byte c) = c"
  by (simp add: byte_def)

lemma sextet_bounds:
  assumes "a < 256"
  shows "join3 a b c div 64 div 64 mod 64 < 64" "join3 a b c div 64 mod 64 < 64" "join3 a b c mod 64 < 64"
  by simp_all

lemma top_sextet_bound:
  assumes "a < 256" "b < 256" "c < 256"
  shows "join3 a b c div 64 div 64 div 64 < 64"
proof -
  have "a \<le> 255" "b \<le> 255" "c \<le> 255" using assms by simp_all
  then have t: "a * 256 + b \<le> 65535" and c: "c \<le> 255" by simp_all
  have "t * 256 + c < 16777216" if "t \<le> 65535" for t using that c by simp
  from this [OF t] have "join3 a b c < 16777216" unfolding join3_def .
  then have "join3 a b c div 262144 < 64" by (simp add: div_less_iff_less_mult)
  then show ?thesis by (simp add: div_mult2_eq [symmetric])
qed

lemma group_value_sextets:
  "group_value (n div 64 div 64 div 64) (n div 64 div 64 mod 64) (n div 64 mod 64) (n mod 64) = n"
  unfolding group_value_def by (simp only: div_mult_mod_eq)

lemma group_bytes_join:
  assumes "b < 256" "c < 256"
  shows "group_bytes (join3 a b c) = map char_of [a, b, c]"
proof -
  have "join3 a b c div 256 = a * 256 + b" "join3 a b c mod 256 = c"
    using assms by (simp_all only: join3_def mod_mult_self3 mod_less div_mult_self3 div_less)
  then show ?thesis using assms by (simp add: group_bytes_def)
qed

lemma join3_zero: "join3 a b 0 mod 64 = 0" "join3 a 0 0 div 64 mod 64 = 0"
proof -
  have "join3 a b 0 = 64 * ((a * 256 + b) * 4)" and a: "join3 a 0 0 = 64 * (64 * (a * 16))"
    by (simp_all add: join3_def)
  then show "join3 a b 0 mod 64 = 0" by (metis mod_mult_self1_is_0)
  from a have "join3 a 0 0 div 64 = 64 * (a * 16)" by simp
  then show "join3 a 0 0 div 64 mod 64 = 0" by (metis mod_mult_self1_is_0)
qed

lemmas sextet_facts = sextet_bounds top_sextet_bound b64_char_facts sextets_def

lemma decode_encode: "decode_groups (EncodeToString bs) = Some bs"
proof (induction bs rule: EncodeToString.induct)
  case (2 a)
  show ?case
    using group_value_sextets [of "join3 (byte a) 0 0"] group_bytes_join [of 0 0 "byte a"]
      join3_zero(1) [of "byte a" 0] join3_zero(2) [of "byte a"]
    by (simp add: sextet_facts)
next
  case (3 a b)
  show ?case
    using group_value_sextets [of "join3 (byte a) (byte b) 0"] group_bytes_join [of "byte b" 0 "byte a"]
      join3_zero(1) [of "byte a" "byte b"]
    by (simp add: sextet_facts)
next
  case (4 a b c r)
  show ?case
    using group_value_sextets [of "join3 (byte a) (byte b) (byte c)"]
      group_bytes_join [of "byte b" "byte c" "byte a"] 4
    by (simp add: sextet_facts)
qed simp

definition b64_symbol :: "char \<Rightarrow> bool" where
  "b64_symbol c \<longleftrightarrow> c \<noteq> char_of (10::nat) \<and> c \<noteq> char_of (13::nat)"

lemma b64_symbol_pad: "b64_symbol (CHR ''='')"
  by code_simp

lemma encode_symbols: "list_all b64_symbol (EncodeToString bs)"
proof (induction bs rule: EncodeToString.induct)
  case (2 a)
  show ?case using b64_symbol_pad by (simp add: sextet_facts) (simp add: sextet_facts b64_symbol_def)
next
  case (3 a b)
  show ?case using b64_symbol_pad by (simp add: sextet_facts) (simp add: sextet_facts b64_symbol_def)
next
  case (4 a b c r)
  then show ?case by (simp add: sextet_facts) (simp add: sextet_facts b64_symbol_def)
qed simp

theorem DecodeString_EncodeToString [simp]: "DecodeString (EncodeToString bs) = Inr bs"
proof -
  have "filter b64_symbol (EncodeToString bs) = EncodeToString bs"
    using encode_symbols [of bs] by (simp add: list_all_iff)
  then show ?thesis
    by (simp add: DecodeString_def b64_symbol_def [abs_def] decode_encode)
qed

lemma EncodeToString_eq_Nil [simp]: "EncodeToString bs = [] \<longleftrightarrow> bs = []"
  by (cases bs rule: EncodeToString.cases) (auto simp: sextets_def)

end
