(* ===== verification/Aggregate.thy ===== *)
theory Aggregate
  imports Quantity Base64
begin

text \<open>
  \<open>internal/aggregate\<close>: finite-value guards, the two moving averages, the memory slope streak,
  the persisted sketches and the template method that folds one sample into them.
  DDSketch (github.com/DataDog/sketches-go) and its protobuf form are not in the repository: they
  are the parameter \<open>S\<close>, with the documented laws in the locale \<open>ddsketch\<close>; the list-of-samples
  sketch at the end meets them.
\<close>

section \<open>Finite values, moving averages, slope\<close>

definition FiniteOrZero :: "f64 \<Rightarrow> f64" where
  "FiniteOrZero x = (if is_finite x then x else Fin 0)"

definition IsFinite :: "f64 \<Rightarrow> bool" where
  "IsFinite x \<longleftrightarrow> is_finite x"

definition EMAShortAlpha :: rat where "EMAShortAlpha = 2 / 10"
definition EMALongAlpha :: rat where "EMALongAlpha = 5 / 100"

definition UpdateEMA :: "f64 \<Rightarrow> f64 \<Rightarrow> f64 \<Rightarrow> f64 \<times> f64" where
  "UpdateEMA prevShort prevLong sample =
     (fadd (fmul (f64_const EMAShortAlpha) sample) (fmul (f64_const (1 - EMAShortAlpha)) prevShort),
      fadd (fmul (f64_const EMALongAlpha) sample) (fmul (f64_const (1 - EMALongAlpha)) prevLong))"

definition DefaultMemorySlopeCycles :: int where "DefaultMemorySlopeCycles = 5"

definition UpdateMemorySlope :: "f64 \<Rightarrow> f64 \<Rightarrow> int \<Rightarrow> int \<Rightarrow> bool \<Rightarrow> int \<times> bool" where
  "UpdateMemorySlope prevEMAShort newEMAShort streak threshold priorObserved =
     (let threshold = (if threshold \<le> 0 then DefaultMemorySlopeCycles else threshold) in
      if \<not> priorObserved then (0, False)
      else let newStreak = (if flt prevEMAShort newEMAShort then wrap32 (streak + 1) else 0)
           in (newStreak, threshold \<le> newStreak))"

section \<open>Sketches\<close>

record ('sk, 'pb) sketch_api =
  NewDefaultDDSketch :: "f64 \<Rightarrow> string + 'sk"
  Unmarshal :: "string \<Rightarrow> string + 'pb"
  FromProto :: "'pb \<Rightarrow> string + 'sk"
  ToProto :: "'sk \<Rightarrow> 'pb"
  Marshal :: "'pb \<Rightarrow> string + string"
  IsEmpty :: "'sk \<Rightarrow> bool"
  GetCount :: "'sk \<Rightarrow> f64"
  SketchAdd :: "'sk \<Rightarrow> f64 \<Rightarrow> string option \<times> 'sk"
  GetValueAtQuantile :: "'sk \<Rightarrow> f64 \<Rightarrow> string + f64"
  MergeWith :: "'sk \<Rightarrow> 'sk \<Rightarrow> string + 'sk"

definition relativeAccuracy :: f64 where
  "relativeAccuracy = f64_const (1 / 100)"

definition SketchFromBase64 :: "('sk, 'pb) sketch_api \<Rightarrow> string \<Rightarrow> string + 'sk" where
  "SketchFromBase64 S encoded =
     (if encoded = '''' then NewDefaultDDSketch S relativeAccuracy
      else case DecodeString encoded of Inl e \<Rightarrow> Inl e
        | Inr raw \<Rightarrow> (case Unmarshal S raw of Inl e \<Rightarrow> Inl e | Inr pb \<Rightarrow> FromProto S pb))"

text \<open>A nil pointer is \<open>None\<close>; a nil sketch is encoded as a fresh default sketch.\<close>

definition SketchToBase64 :: "('sk, 'pb) sketch_api \<Rightarrow> 'sk option \<Rightarrow> string + string" where
  "SketchToBase64 S s =
     (case (case s of None \<Rightarrow> NewDefaultDDSketch S relativeAccuracy | Some sk \<Rightarrow> Inr sk) of
        Inl e \<Rightarrow> Inl e
      | Inr sk \<Rightarrow> (case Marshal S (ToProto S sk) of Inl e \<Rightarrow> Inl e | Inr b \<Rightarrow> Inr (EncodeToString b)))"

definition Quantile :: "('sk, 'pb) sketch_api \<Rightarrow> 'sk option \<Rightarrow> f64 \<Rightarrow> string + f64" where
  "Quantile S s q =
     (case s of None \<Rightarrow> Inl ''empty sketch''
      | Some sk \<Rightarrow> if IsEmpty S sk then Inl ''empty sketch'' else GetValueAtQuantile S sk q)"

text \<open>The merge loop: unreadable and empty sketches are skipped, a failing merge ends it.\<close>

fun merge_loop :: "('sk, 'pb) sketch_api \<Rightarrow> 'sk option \<Rightarrow> string list \<Rightarrow> string + 'sk option" where
  "merge_loop S out [] = Inr out"
| "merge_loop S out (e # es) =
     (if e = '''' then merge_loop S out es
      else case SketchFromBase64 S e of
        Inl _ \<Rightarrow> merge_loop S out es
      | Inr sk \<Rightarrow>
          if IsEmpty S sk then merge_loop S out es
          else case out of
            None \<Rightarrow> merge_loop S (Some sk) es
          | Some acc \<Rightarrow> (case MergeWith S acc sk of
                Inl err \<Rightarrow> Inl (''merge sketch: '' @ err)
              | Inr acc' \<Rightarrow> merge_loop S (Some acc') es))"

definition MergeSketchesFromBase64 :: "('sk, 'pb) sketch_api \<Rightarrow> string list \<Rightarrow> string + 'sk" where
  "MergeSketchesFromBase64 S encoded =
     (case merge_loop S None encoded of
        Inl e \<Rightarrow> Inl e
      | Inr None \<Rightarrow> NewDefaultDDSketch S relativeAccuracy
      | Inr (Some out) \<Rightarrow> Inr out)"

section \<open>The sample template\<close>

text \<open>
  The closures of \<open>ResourceSample\<close> read and write fields of the caller's status, so they are
  functions of the caller's state \<open>'s\<close>.  The optional error callback only writes a log line.
\<close>

record 's ResourceSample =
  SampleValue :: f64
  GetSketch :: "'s \<Rightarrow> string"
  SetSketch :: "string \<Rightarrow> 's \<Rightarrow> 's"
  GetEMA :: "'s \<Rightarrow> f64 \<times> f64"
  SetEMA :: "f64 \<Rightarrow> f64 \<Rightarrow> 's \<Rightarrow> 's"

definition decodeSketch :: "('sk, 'pb) sketch_api \<Rightarrow> string \<Rightarrow> string + 'sk" where
  "decodeSketch S encoded =
     (case SketchFromBase64 S encoded of Inl _ \<Rightarrow> SketchFromBase64 S '''' | Inr sk \<Rightarrow> Inr sk)"

definition sanitizeEMA :: "f64 \<Rightarrow> f64 \<Rightarrow> f64 \<times> f64" where
  "sanitizeEMA short long = (FiniteOrZero short, FiniteOrZero long)"

definition UpdateSketchOnly :: "('sk, 'pb) sketch_api \<Rightarrow> 's ResourceSample \<Rightarrow> 's \<Rightarrow> string + 's" where
  "UpdateSketchOnly S r s =
     (let val = FiniteOrZero (SampleValue r) in
      case decodeSketch S (GetSketch r s) of Inl e \<Rightarrow> Inl e
      | Inr sk \<Rightarrow>
          (case SketchToBase64 S (Some (snd (SketchAdd S sk val))) of Inl e \<Rightarrow> Inl e
           | Inr encoded \<Rightarrow> Inr (SetSketch r encoded s)))"

definition Update :: "('sk, 'pb) sketch_api \<Rightarrow> 's ResourceSample \<Rightarrow> 's \<Rightarrow> string + 's" where
  "Update S r s =
     (let val = FiniteOrZero (SampleValue r) in
      case decodeSketch S (GetSketch r s) of Inl e \<Rightarrow> Inl e
      | Inr sk \<Rightarrow>
          (case SketchToBase64 S (Some (snd (SketchAdd S sk val))) of Inl e \<Rightarrow> Inl e
           | Inr encoded \<Rightarrow>
               let s1 = SetSketch r encoded s in
               if flt (Fin 0) val
               then let (short, long) = GetEMA r s1;
                        (short, long) = UpdateEMA (FiniteOrZero short) (FiniteOrZero long) val;
                        (short, long) = sanitizeEMA short long
                    in Inr (SetEMA r short long s1)
               else Inr s1))"

section \<open>Facts about the averages and the slope\<close>

lemma FiniteOrZero_finite [simp]: "is_finite (FiniteOrZero x)"
  by (simp add: FiniteOrZero_def)

lemma FiniteOrZero_id [simp]: "is_finite x \<Longrightarrow> FiniteOrZero x = x"
  by (simp add: FiniteOrZero_def)

definition nonneg :: "f64 \<Rightarrow> bool" where
  "nonneg x \<longleftrightarrow> (\<exists>r \<ge> 0. x = Fin r)"

lemma nonneg_Fin [simp]: "nonneg (Fin r) \<longleftrightarrow> 0 \<le> r"
  by (simp add: nonneg_def)

lemma nonneg_finite: "nonneg x \<Longrightarrow> is_finite x"
  by (auto simp: nonneg_def)

lemma nonneg_FiniteOrZero: "0 \<le> x \<Longrightarrow> nonneg (FiniteOrZero (to_f64 x))"
  using binary64.rnd_nonneg [of x] by (cases rule: to_f64_cases [of x]) (auto simp: FiniteOrZero_def)

lemma weight_nonneg: "0 \<le> w \<Longrightarrow> w \<le> 1 \<Longrightarrow> f64_const w = Fin (rnd64 w) \<and> 0 \<le> rnd64 w"
  using to_f64_small [of w 1] binary64.rnd_nonneg [of w] by (simp add: f64_const_def)

text \<open>A weighted sum of non-negative doubles, sanitized, is a non-negative double.\<close>

lemma weighted_nonneg:
  assumes "0 \<le> v" "v \<le> 1" "0 \<le> w" "w \<le> 1" "nonneg x" "nonneg y"
  shows "nonneg (FiniteOrZero (fadd (fmul (f64_const v) x) (fmul (f64_const w) y)))"
proof -
  obtain a b where ab: "x = Fin a" "0 \<le> a" "y = Fin b" "0 \<le> b" using assms by (auto simp: nonneg_def)
  have pos: "0 \<le> rnd64 v * a" "0 \<le> rnd64 w * b" using weight_nonneg assms ab by simp_all
  have m: "fmul (f64_const v) x = to_f64 (rnd64 v * a)" "fmul (f64_const w) y = to_f64 (rnd64 w * b)"
    using weight_nonneg assms ab by simp_all
  show ?thesis
  proof (cases "to_f64 (rnd64 v * a)" rule: f64.exhaust)
    case (Fin p)
    then have p: "0 \<le> p" using binary64.rnd_nonneg [OF pos(1)]
      by (cases rule: to_f64_cases [of "rnd64 v * a"]) auto
    show ?thesis
    proof (cases "to_f64 (rnd64 w * b)" rule: f64.exhaust)
      case (Fin q)
      then have q: "0 \<le> q" using binary64.rnd_nonneg [OF pos(2)]
        by (cases rule: to_f64_cases [of "rnd64 w * b"]) auto
      show ?thesis using \<open>to_f64 (rnd64 v * a) = Fin p\<close> Fin p q m
        by (simp add: nonneg_FiniteOrZero)
    qed (use Fin m in \<open>simp_all add: FiniteOrZero_def\<close>)
  next
    case PInf
    then show ?thesis using m by (cases "to_f64 (rnd64 w * b)") (simp_all add: FiniteOrZero_def)
  next
    case NInf
    then show ?thesis using m by (cases "to_f64 (rnd64 w * b)") (simp_all add: FiniteOrZero_def)
  qed simp
qed

lemma UpdateEMA_nonneg:
  assumes "nonneg s" "nonneg l" "nonneg x"
  shows "nonneg (fst (case UpdateEMA s l x of (a, b) \<Rightarrow> sanitizeEMA a b)) \<and>
         nonneg (snd (case UpdateEMA s l x of (a, b) \<Rightarrow> sanitizeEMA a b))"
  using assms
  by (simp add: UpdateEMA_def sanitizeEMA_def EMAShortAlpha_def EMALongAlpha_def weighted_nonneg)

section \<open>The contract of the sketch library\<close>

definition same_sketch :: "('sk, 'pb) sketch_api \<Rightarrow> 'sk \<Rightarrow> 'sk \<Rightarrow> bool" where
  "same_sketch S a b \<longleftrightarrow> IsEmpty S a = IsEmpty S b \<and> GetCount S a = GetCount S b \<and>
     (\<forall>q. GetValueAtQuantile S a q = GetValueAtQuantile S b q)"

locale ddsketch =
  fixes S :: "('sk, 'pb) sketch_api"
  assumes New_empty: "\<exists>sk. NewDefaultDDSketch S relativeAccuracy = Inr sk \<and> IsEmpty S sk"
    and codec: "\<exists>b pb sk'. Marshal S (ToProto S sk) = Inr b \<and> b \<noteq> [] \<and> Unmarshal S b = Inr pb
                  \<and> FromProto S pb = Inr sk' \<and> same_sketch S sk sk'"
    and Add_tracked: "0 \<le> r \<Longrightarrow> r \<le> 2 ^ 64 \<Longrightarrow> \<exists>sk'. SketchAdd S sk (Fin r) = (None, sk') \<and> \<not> IsEmpty S sk'"
    and quantile_total: "\<not> IsEmpty S sk \<Longrightarrow> 0 \<le> q \<Longrightarrow> q \<le> 1 \<Longrightarrow>
                  \<exists>v. GetValueAtQuantile S sk (Fin q) = Inr v \<and> is_finite v"
    and quantile_mono: "\<not> IsEmpty S sk \<Longrightarrow> 0 \<le> p \<Longrightarrow> p \<le> q \<Longrightarrow> q \<le> 1 \<Longrightarrow>
                  GetValueAtQuantile S sk (Fin p) = Inr v \<Longrightarrow> GetValueAtQuantile S sk (Fin q) = Inr w \<Longrightarrow> fle v w"
begin

lemma round_trip:
  "\<exists>enc sk'. SketchToBase64 S (Some sk) = Inr enc \<and> enc \<noteq> '''' \<and> SketchFromBase64 S enc = Inr sk' \<and> same_sketch S sk sk'"
  using codec [of sk] by (fastforce simp: SketchToBase64_def SketchFromBase64_def)

lemma decodeSketch_total: "\<exists>sk. decodeSketch S enc = Inr sk"
  using New_empty by (auto simp: decodeSketch_def SketchFromBase64_def split: sum.split)

lemma corrupt_is_empty:
  "SketchFromBase64 S enc = Inl e \<Longrightarrow> \<exists>sk. decodeSketch S enc = Inr sk \<and> IsEmpty S sk"
  using New_empty by (auto simp: decodeSketch_def SketchFromBase64_def)

end

section \<open>A list of samples as a sketch\<close>

text \<open>Samples are kept as whole numbers; a quantile is the element of that rank.\<close>

definition show_samples :: "nat list \<Rightarrow> string" where
  "show_samples ns = concat (map (\<lambda>n. nat_digits n @ '','') ns) @ ''.''"

fun read_samples :: "string \<Rightarrow> string \<Rightarrow> string + nat list" where
  "read_samples cur [] = Inl ''unexpected EOF''"
| "read_samples cur (c # s) =
     (if c = CHR ''.'' then (if cur = [] \<and> s = [] then Inr [] else Inl ''cannot parse'')
      else if c = CHR '','' then
        (case parse_nat cur of None \<Rightarrow> Inl ''cannot parse''
         | Some n \<Rightarrow> (case read_samples [] s of Inl e \<Rightarrow> Inl e | Inr ns \<Rightarrow> Inr (n # ns)))
      else read_samples (cur @ [c]) s)"

definition list_quantile :: "nat list \<Rightarrow> f64 \<Rightarrow> string + f64" where
  "list_quantile ns x =
     (case x of
        Fin q \<Rightarrow> if 0 \<le> q \<and> q \<le> 1 \<and> ns \<noteq> []
                 then Inr (Fin (of_nat (sort ns ! nat \<lfloor>q * of_nat (length ns - 1)\<rfloor>)))
                 else Inl ''the quantile must be between 0 and 1''
      | _ \<Rightarrow> Inl ''the quantile must be between 0 and 1'')"

definition list_sketch :: "(nat list, nat list) sketch_api" where
  "list_sketch = \<lparr>
     NewDefaultDDSketch = (\<lambda>_. Inr []),
     Unmarshal = read_samples '''',
     FromProto = Inr,
     ToProto = (\<lambda>ns. ns),
     Marshal = (\<lambda>ns. Inr (show_samples ns)),
     IsEmpty = (\<lambda>ns. ns = []),
     GetCount = (\<lambda>ns. f64_of_int (int (length ns))),
     SketchAdd = (\<lambda>ns x. case x of Fin r \<Rightarrow> (if 0 \<le> r then (None, nat \<lfloor>r\<rfloor> # ns) else (Some ''out of range'', ns))
                          | _ \<Rightarrow> (Some ''out of range'', ns)),
     GetValueAtQuantile = list_quantile,
     MergeWith = (\<lambda>a b. Inr (a @ b)) \<rparr>"

lemma read_samples_digits:
  "list_all is_digit ds \<Longrightarrow> read_samples cur (ds @ s) = read_samples (cur @ ds) s"
proof (induction ds arbitrary: cur)
  case (Cons d ds)
  then have "d \<noteq> CHR ''.''" "d \<noteq> CHR '',''" by (auto simp: is_digit_def)
  with Cons show ?case by simp
qed simp

lemma read_show_samples: "read_samples '''' (show_samples ns) = Inr ns"
proof (induction ns)
  case (Cons n ns)
  have "show_samples (n # ns) = nat_digits n @ '','' @ show_samples ns" by (simp add: show_samples_def)
  then show ?case using Cons parse_nat_digits_aux [of n] by (simp add: read_samples_digits)
qed (simp add: show_samples_def)

lemma rank_in_range:
  assumes "0 \<le> q" "q \<le> 1" "0 < (n::nat)"
  shows "nat \<lfloor>q * of_nat (n - 1)\<rfloor> < n"
proof -
  have "q * of_nat (n - 1) \<le> 1 * of_nat (n - 1)" using assms by (intro mult_right_mono) auto
  then have "\<lfloor>q * of_nat (n - 1)\<rfloor> \<le> \<lfloor>of_nat (n - 1) :: 'a\<rfloor>" by (intro floor_mono) simp
  then show ?thesis using assms by simp
qed

interpretation list_sketch: ddsketch list_sketch
proof
  fix sk :: "nat list" and r p q :: rat and v w
  show "\<exists>sk. NewDefaultDDSketch list_sketch relativeAccuracy = Inr sk \<and> IsEmpty list_sketch sk"
    by (simp add: list_sketch_def)
  show "\<exists>b pb sk'. Marshal list_sketch (ToProto list_sketch sk) = Inr b \<and> b \<noteq> [] \<and> Unmarshal list_sketch b = Inr pb
          \<and> FromProto list_sketch pb = Inr sk' \<and> same_sketch list_sketch sk sk'"
    by (simp add: list_sketch_def read_show_samples same_sketch_def) (simp add: show_samples_def)
  show "\<exists>sk'. SketchAdd list_sketch sk (Fin r) = (None, sk') \<and> \<not> IsEmpty list_sketch sk'" if "0 \<le> r"
    using that by (simp add: list_sketch_def)
  show "\<exists>v. GetValueAtQuantile list_sketch sk (Fin q) = Inr v \<and> is_finite v"
    if "\<not> IsEmpty list_sketch sk" "0 \<le> q" "q \<le> 1"
    using that by (simp add: list_sketch_def list_quantile_def)
  assume a: "\<not> IsEmpty list_sketch sk" "0 \<le> p" "p \<le> q" "q \<le> 1"
    "GetValueAtQuantile list_sketch sk (Fin p) = Inr v" "GetValueAtQuantile list_sketch sk (Fin q) = Inr w"
  let ?i = "nat \<lfloor>p * of_nat (length sk - 1)\<rfloor>" and ?j = "nat \<lfloor>q * of_nat (length sk - 1)\<rfloor>"
  have ne: "sk \<noteq> []" using a(1) by (simp add: list_sketch_def)
  have "?i \<le> ?j" using a(3) by (intro nat_mono floor_mono mult_right_mono) auto
  moreover have "?j < length (sort sk)"
    unfolding length_sort by (rule rank_in_range) (use a ne in auto)
  ultimately have "sort sk ! ?i \<le> sort sk ! ?j" by (rule sorted_nth_mono [OF sorted_sort])
  then show "fle v w" using a ne by (auto simp: list_sketch_def list_quantile_def fp_simps)
qed

section \<open>The sample template as an interface\<close>

text \<open>
  What a caller of \<open>Update\<close> promises about its closures.  Every caller stores the sketch it is
  given; only the CPU and memory samples of a container store averages too (the quadrant and node
  samples pass closures that ignore them).
\<close>

locale sketch_store =
  fixes r :: "'s ResourceSample"
  assumes get_set_sketch: "GetSketch r (SetSketch r v s) = v"
    and EMA_keeps_sketch: "GetSketch r (SetEMA r a b s) = GetSketch r s"
begin

lemma Update_sketch:
  "Update S r s = Inr s' \<Longrightarrow>
   \<exists>sk. decodeSketch S (GetSketch r s) = Inr sk \<and>
        SketchToBase64 S (Some (snd (SketchAdd S sk (FiniteOrZero (SampleValue r))))) = Inr (GetSketch r s')"
  by (auto simp: Update_def Let_def get_set_sketch EMA_keeps_sketch split: sum.splits if_splits prod.splits)

lemma UpdateSketchOnly_sketch:
  "UpdateSketchOnly S r s = Inr s' \<Longrightarrow>
   \<exists>sk. decodeSketch S (GetSketch r s) = Inr sk \<and>
        SketchToBase64 S (Some (snd (SketchAdd S sk (FiniteOrZero (SampleValue r))))) = Inr (GetSketch r s')"
  by (auto simp: UpdateSketchOnly_def Let_def get_set_sketch split: sum.splits)

text \<open>A readable library never makes an update fail.\<close>

lemma Update_total: "ddsketch S \<Longrightarrow> \<exists>s'. Update S r s = Inr s'"
proof -
  assume S: "ddsketch S"
  obtain sk where sk: "decodeSketch S (GetSketch r s) = Inr sk" using ddsketch.decodeSketch_total [OF S] by blast
  obtain enc where "SketchToBase64 S (Some (snd (SketchAdd S sk (FiniteOrZero (SampleValue r))))) = Inr enc"
    using ddsketch.round_trip [OF S] by blast
  with sk show ?thesis by (auto simp: Update_def Let_def split: prod.split)
qed

end

locale sample_store = sketch_store r for r :: "'s ResourceSample" +
  assumes get_set_EMA: "GetEMA r (SetEMA r a b s) = (a, b)"
    and sketch_keeps_EMA: "GetEMA r (SetSketch r v s) = GetEMA r s"
begin

lemma Update_idle_EMA:
  "Update S r s = Inr s' \<Longrightarrow> \<not> flt (Fin 0) (FiniteOrZero (SampleValue r)) \<Longrightarrow> GetEMA r s' = GetEMA r s"
  by (auto simp: Update_def Let_def sketch_keeps_EMA split: sum.splits)

lemma Update_EMA:
  assumes "Update S r s = Inr s'" "flt (Fin 0) (FiniteOrZero (SampleValue r))"
  shows "GetEMA r s' = (case UpdateEMA (FiniteOrZero (fst (GetEMA r s))) (FiniteOrZero (snd (GetEMA r s)))
            (FiniteOrZero (SampleValue r)) of (a, b) \<Rightarrow> sanitizeEMA a b)"
  using assms
  by (auto simp: Update_def Let_def get_set_EMA sketch_keeps_EMA split: sum.splits prod.splits)

lemma Update_EMA_nonneg:
  assumes "Update S r s = Inr s'" "nonneg (fst (GetEMA r s))" "nonneg (snd (GetEMA r s))"
  shows "nonneg (fst (GetEMA r s')) \<and> nonneg (snd (GetEMA r s'))"
proof (cases "flt (Fin 0) (FiniteOrZero (SampleValue r))")
  case True
  then have "nonneg (FiniteOrZero (SampleValue r))"
    using FiniteOrZero_finite [of "SampleValue r"] by (auto simp: is_finite_iff simp del: FiniteOrZero_finite)
  then show ?thesis
    using Update_EMA [OF assms(1) True] assms(2,3)
      UpdateEMA_nonneg [of "fst (GetEMA r s)" "snd (GetEMA r s)" "FiniteOrZero (SampleValue r)"]
    by (simp add: nonneg_finite)
next
  case False
  then show ?thesis using Update_idle_EMA [OF assms(1)] assms(2,3) by simp
qed

end

end
