(* ===== verification/Api_Types.thy ===== *)
theory Api_Types
  imports Aggregate
begin

text \<open>
  The custom resources of \<open>api/v1\<close>, with the fields of the Kubernetes objects the program reads,
  and the in-process defaults of \<open>internal/defaults/defaults.go\<close>.  A pointer or an optional field
  is an option, a Go map that may be nil an option of a map, a string that may be empty a string.
\<close>

section \<open>Workload profiles\<close>

record WorkloadTargetRef =
  TargetKind :: string
  TargetName :: string

record 'q ContainerOverride =
  OverrideName :: string
  MinCPU :: "'q option"
  MaxCPU :: "'q option"
  MinMemory :: "'q option"
  MaxMemory :: "'q option"

record 'q WorkloadProfileSpec =
  TargetRef :: WorkloadTargetRef
  Mode :: string
  SpecContainers :: "'q ContainerOverride list"
  CooldownMinutes :: "int option"
  CollectionIntervalSeconds :: "int option"

record CPUStats =
  CPUEMAShort :: f64
  CPUEMALong :: f64
  CPUSketchB64 :: string
  CPUQuadrantSketches :: "string list"
  CPULastUpdated :: "gotime option"

record MemoryStats =
  MemEMAShort :: f64
  MemEMALong :: f64
  MemSketchB64 :: string
  MemQuadrantSketches :: "string list"
  MemLastUpdated :: "gotime option"
  SlopeStreak :: int
  SlopePositive :: bool

definition MaxNodeSketches :: nat where "MaxNodeSketches = 32"

record NodeSketchEntry =
  NodeName :: string
  LastSeen :: "gotime option"
  NodeCPUSketch :: string
  NodeMemSketch :: string

record BinPackingHints =
  HeteroScore :: f64
  NodeCount :: int
  ObservedAt :: "gotime option"
  SchedulerBalance :: "f64 option"
  NodePressure :: string

record ContainerResourceStats =
  CPU :: CPUStats
  Memory :: MemoryStats
  NodeSketches :: "NodeSketchEntry list"
  StatLastOOMKill :: "gotime option"
  StatRestartCount :: int

record ProfileContainerStatus =
  StatusName :: string
  Stats :: ContainerResourceStats

record 'q Recommendation =
  ContainerName :: string
  CPURequest :: 'q
  CPULimit :: 'q
  MemoryRequest :: 'q
  MemoryLimit :: 'q
  Rationale :: string

record Condition =
  CondType :: string
  CondStatus :: string
  CondReason :: string
  CondMessage :: string
  CondObservedGeneration :: int

record 'q WorkloadProfileStatus =
  Containers :: "ProfileContainerStatus list"
  MetricsRecommendations :: "'q Recommendation list"
  Recommendations :: "'q Recommendation list"
  LastApplied :: "gotime option"
  LastEvaluated :: "gotime option"
  DownsizePauseCyclesRemaining :: int
  BinPacking :: "BinPackingHints option"
  Conditions :: "Condition list"

record 'q WorkloadProfile =
  ProfileName :: string
  ProfileNamespace :: string
  ProfileUID :: string
  ProfileGeneration :: int
  ProfileLabels :: "string \<rightharpoonup> string"
  ProfileDeleting :: bool
  Spec :: "'q WorkloadProfileSpec"
  Status :: "'q WorkloadProfileStatus"

text \<open>The Go zero values of the status records, which a missing map entry reads as.\<close>

definition zero_CPUStats :: CPUStats where
  "zero_CPUStats = \<lparr>CPUEMAShort = Fin 0, CPUEMALong = Fin 0, CPUSketchB64 = '''',
     CPUQuadrantSketches = [], CPULastUpdated = None\<rparr>"

definition zero_MemoryStats :: MemoryStats where
  "zero_MemoryStats = \<lparr>MemEMAShort = Fin 0, MemEMALong = Fin 0, MemSketchB64 = '''',
     MemQuadrantSketches = [], MemLastUpdated = None, SlopeStreak = 0, SlopePositive = False\<rparr>"

definition zero_ContainerStatus :: ProfileContainerStatus where
  "zero_ContainerStatus = \<lparr>StatusName = '''', Stats = \<lparr>CPU = zero_CPUStats, Memory = zero_MemoryStats,
     NodeSketches = [], StatLastOOMKill = None, StatRestartCount = 0\<rparr>\<rparr>"

section \<open>Condition types, labels\<close>

definition ConditionTypeTargetResolved :: string where "ConditionTypeTargetResolved = ''TargetResolved''"
definition ConditionTypeMetricsAvailable :: string where "ConditionTypeMetricsAvailable = ''MetricsAvailable''"
definition ConditionTypeProfileReady :: string where "ConditionTypeProfileReady = ''ProfileReady''"
definition ConditionTypeActuationApplied :: string where "ConditionTypeActuationApplied = ''ActuationApplied''"
definition ConditionTypeSelectorResolved :: string where "ConditionTypeSelectorResolved = ''SelectorResolved''"
definition ConditionTypeSelectorConflict :: string where "ConditionTypeSelectorConflict = ''SelectorConflict''"
definition ConditionTypeChildrenSynced :: string where "ConditionTypeChildrenSynced = ''ChildrenSynced''"

definition LabelManagedBy :: string where "LabelManagedBy = ''autosize.saturdai.auto/managed-by''"
definition LabelParentKind :: string where "LabelParentKind = ''autosize.saturdai.auto/parent-kind''"
definition LabelParentName :: string where "LabelParentName = ''autosize.saturdai.auto/parent-name''"

definition ConditionTrue :: string where "ConditionTrue = ''True''"
definition ConditionFalse :: string where "ConditionFalse = ''False''"

section \<open>Pods and their containers\<close>

text \<open>The fields of \<open>corev1\<close> objects that the program reads or writes.\<close>

record 'q ResourceRequirements =
  Requests :: "'q ResourceList option"
  Limits :: "'q ResourceList option"

record 'q Container =
  CtrName :: string
  Resources :: "'q ResourceRequirements"
  ResizePolicy :: "(string \<times> string) list"

record TerminatedState =
  TermReason :: string
  FinishedAt :: gotime

record ContainerStatus =
  CsName :: string
  RestartCount :: int
  LastTerminated :: "TerminatedState option"

record PodCondition =
  PodCondType :: string
  PodCondReason :: string

record OwnerReference =
  OwnerAPIVersion :: string
  OwnerKind :: string
  OwnerName :: string

record 'q Pod =
  PodName :: string
  PodNamespace :: string
  PodNodeName :: string
  PodPhase :: string
  PodAnnotations :: "(string \<rightharpoonup> string) option"
  PodOwnerReferences :: "OwnerReference list"
  PodContainers :: "'q Container list"
  PodContainerStatuses :: "ContainerStatus list"
  PodConditions :: "PodCondition list"

section \<open>In-process defaults\<close>

definition EffectiveMode :: "'q WorkloadProfileSpec \<Rightarrow> string" where
  "EffectiveMode spec = (if Mode spec \<noteq> '''' then Mode spec else ''balanced'')"

definition Cooldown :: "'q WorkloadProfileSpec \<Rightarrow> int" where
  "Cooldown spec = (case CooldownMinutes spec of Some m \<Rightarrow> m | None \<Rightarrow> 15)"

definition CollectionInterval :: "'q WorkloadProfileSpec \<Rightarrow> int" where
  "CollectionInterval spec = (case CollectionIntervalSeconds spec of Some s \<Rightarrow> s | None \<Rightarrow> 30)"

end
