(* ===== verification/Cluster.thy ===== *)
theory Cluster
  imports Api_Types
begin

text \<open>
  The Kubernetes API as the controllers use it: error kinds, a client for one kind of object on an
  opaque cluster state, the contract a client is used under, and an in-memory server, with failures,
  that fulfils it.  The client library is a parameter everywhere else.
\<close>

section \<open>API errors\<close>

text \<open>What \<open>apierrors.IsNotFound\<close> and its relatives look at, and \<open>err.Error()\<close>.\<close>

datatype error_kind = KNotFound | KGone | KResourceExpired | KConflict | KOther

record api_error =
  ErrKind :: error_kind
  ErrText :: string

definition plain_error :: "string \<Rightarrow> api_error" where
  "plain_error s = \<lparr>ErrKind = KOther, ErrText = s\<rparr>"

text \<open>\<open>fmt.Errorf("...: %w", err)\<close> keeps the kind of the wrapped error.\<close>

definition wrap_error :: "string \<Rightarrow> api_error \<Rightarrow> api_error" where
  "wrap_error pre e = e\<lparr>ErrText := pre @ '': '' @ ErrText e\<rparr>"

abbreviation IsNotFound :: "api_error \<Rightarrow> bool" where
  "IsNotFound e \<equiv> ErrKind e = KNotFound"

text \<open>\<open>client.IgnoreNotFound\<close>\<close>

definition IgnoreNotFound :: "api_error option \<Rightarrow> api_error option" where
  "IgnoreNotFound e = (case e of Some x \<Rightarrow> if IsNotFound x then None else Some x | None \<Rightarrow> None)"

lemma wrap_error_kind [simp]: "ErrKind (wrap_error p e) = ErrKind e"
  by (simp add: wrap_error_def)

lemma plain_error_kind [simp]: "ErrKind (plain_error s) = KOther"
  by (simp add: plain_error_def)

text \<open>What a reconcile tells the work queue.\<close>

record ctrl_Result =
  Requeue :: bool
  RequeueAfter :: int

definition no_requeue :: ctrl_Result where
  "no_requeue = \<lparr>Requeue = False, RequeueAfter = 0\<rparr>"

section \<open>Clients\<close>

text \<open>
  Objects are found under namespace and name.  \<open>KList\<close> takes the namespace (\<open>None\<close> for all) and a
  label filter.  \<open>KStatus\<close> is the update of the status subresource, \<open>KPatch c base x\<close> sends the
  difference between \<open>base\<close> and \<open>x\<close> (\<open>client.MergeFrom\<close>), \<open>KCreateOrUpdate\<close> the helper of
  controller-runtime: the object, or the given one when it does not exist, is passed to a function
  and written back.  Writes return an error or none, and the state they leave.
\<close>

type_synonym objkey = "string \<times> string"

datatype 'sel label_filter = AllLabels | MatchingSelector 'sel | MatchingLabels "(string \<times> string) list"

fun by_selector :: "'sel label_filter \<Rightarrow> bool" where
  "by_selector (MatchingSelector _) = True"
| "by_selector _ = False"

record ('c, 'o, 'sel) kind_client =
  KGet :: "'c \<Rightarrow> objkey \<Rightarrow> api_error + 'o"
  KList :: "'c \<Rightarrow> string option \<Rightarrow> 'sel label_filter \<Rightarrow> api_error + 'o list"
  KCreate :: "'c \<Rightarrow> 'o \<Rightarrow> api_error option \<times> 'c"
  KUpdate :: "'c \<Rightarrow> 'o \<Rightarrow> api_error option \<times> 'c"
  KStatus :: "'c \<Rightarrow> 'o \<Rightarrow> api_error option \<times> 'c"
  KPatch :: "'c \<Rightarrow> 'o \<Rightarrow> 'o \<Rightarrow> api_error option \<times> 'c"
  KDelete :: "'c \<Rightarrow> 'o \<Rightarrow> api_error option \<times> 'c"
  KCreateOrUpdate :: "'c \<Rightarrow> 'o \<Rightarrow> ('o \<Rightarrow> api_error + 'o) \<Rightarrow> api_error option \<times> 'c"

text \<open>
  The contract.  \<open>objs\<close> is what the server holds; a write that succeeds stores an object that
  \<open>agrees\<close> with the one sent (the server may add a UID or a version).  Nothing is assumed of a
  write that fails, except that a delete that finds nothing changes nothing.
\<close>

locale object_store =
  fixes F :: "('c, 'o, 'sel) kind_client"
    and objs :: "'c \<Rightarrow> objkey \<Rightarrow> 'o option"
    and okey :: "'o \<Rightarrow> objkey"
    and has_labels :: "(string \<times> string) list \<Rightarrow> 'o \<Rightarrow> bool"
    and agrees :: "'o \<Rightarrow> 'o \<Rightarrow> bool"
  assumes stored_key: "objs c k = Some x \<Longrightarrow> okey x = k"
    and agrees_key: "agrees x y \<Longrightarrow> okey y = okey x"
    and get_ok: "KGet F c k = Inr x \<Longrightarrow> objs c k = Some x"
    and get_missing: "KGet F c k = Inl e \<Longrightarrow> IsNotFound e \<Longrightarrow> objs c k = None"
    and create_ok: "KCreate F c x = (None, c') \<Longrightarrow> \<exists>y. agrees x y \<and> objs c' = (objs c)(okey x \<mapsto> y)"
    and update_ok: "KUpdate F c x = (None, c') \<Longrightarrow> \<exists>y. agrees x y \<and> objs c' = (objs c)(okey x \<mapsto> y)"
    and patch_ok: "KPatch F c base x = (None, c') \<Longrightarrow> objs c (okey x) = Some base \<Longrightarrow>
          \<exists>y. agrees x y \<and> objs c' = (objs c)(okey x \<mapsto> y)"
    and delete_ok: "KDelete F c x = (None, c') \<Longrightarrow> objs c' = (objs c)(okey x := None)"
    and delete_missing: "KDelete F c x = (Some e, c') \<Longrightarrow> IsNotFound e \<Longrightarrow> objs c (okey x) = None \<and> objs c' = objs c"
    and upsert_ok: "KCreateOrUpdate F c x f = (None, c') \<Longrightarrow>
          \<exists>y z. f (case objs c (okey x) of None \<Rightarrow> x | Some old \<Rightarrow> old) = Inr y \<and> agrees y z \<and>
                objs c' = (objs c)(okey x \<mapsto> z)"
    and list_ok: "KList F c nso filt = Inr xs \<Longrightarrow> \<not> by_selector filt \<Longrightarrow>
          set xs = {x. objs c (okey x) = Some x \<and> (case filt of MatchingLabels ls \<Rightarrow> has_labels ls x | _ \<Rightarrow> True)
                      \<and> (case nso of None \<Rightarrow> True | Some n \<Rightarrow> fst (okey x) = n)}
          \<and> distinct (map okey xs)"
begin

text \<open>A client that keeps more of what is sent can be used where less is asked for.\<close>

lemma weaken_agreement:
  assumes "\<And>x y. agrees x y \<Longrightarrow> agrees' x y" "\<And>x y. agrees' x y \<Longrightarrow> okey y = okey x"
  shows "object_store F objs okey has_labels agrees'"
proof (unfold_locales, goal_cases)
  case 1 then show ?case by (rule stored_key)
next
  case 2 then show ?case by (rule assms(2))
next
  case 3 then show ?case by (rule get_ok)
next
  case 4 then show ?case by (rule get_missing)
next
  case 5 then show ?case using create_ok assms(1) by blast
next
  case 6 then show ?case using update_ok assms(1) by blast
next
  case 7 then show ?case using patch_ok assms(1) by blast
next
  case 8 then show ?case by (rule delete_ok)
next
  case 9 then show ?case by (rule delete_missing)
next
  case 10 then show ?case using upsert_ok assms(1) by blast
next
  case 11 then show ?case by (rule list_ok)
qed

text \<open>Deleting a list of objects, one after another, until one fails for another reason than being gone.\<close>

fun delete_all :: "'c \<Rightarrow> 'o list \<Rightarrow> api_error option \<times> 'c" where
  "delete_all c [] = (None, c)"
| "delete_all c (x # xs) =
     (let (e, c1) = KDelete F c x in
      if IgnoreNotFound e = None then delete_all c1 xs else (e, c1))"

lemma delete_gone:
  assumes "KDelete F c x = (e, c1)" "IgnoreNotFound e = None"
  shows "objs c1 = (objs c)(okey x := None)"
proof (cases e)
  case None
  then show ?thesis using assms(1) delete_ok by blast
next
  case (Some a)
  then have "IsNotFound a" using assms(2) by (simp add: IgnoreNotFound_def split: if_splits)
  with Some have "objs c (okey x) = None \<and> objs c1 = objs c" using assms(1) delete_missing by blast
  then show ?thesis by (simp add: fun_upd_idem)
qed

lemma delete_all_ok:
  "delete_all c xs = (None, c') \<Longrightarrow> objs c' k = (if k \<in> okey ` set xs then None else objs c k)"
proof (induction xs arbitrary: c)
  case (Cons x xs)
  obtain e c1 where d: "KDelete F c x = (e, c1)" by (cases "KDelete F c x")
  with Cons.prems have i: "IgnoreNotFound e = None"
    by (cases "IgnoreNotFound e") (auto simp: IgnoreNotFound_def split: option.splits)
  have "delete_all c1 xs = (None, c')" using Cons.prems d i by simp
  then show ?case using Cons.IH [of c1] delete_gone [OF d i] by auto
qed simp

end

text \<open>A client whose status writes are used as well: the server keeps the status that is sent.\<close>

locale status_store = object_store F objs okey has_labels agrees
  for F :: "('c, 'o, 'sel) kind_client" and objs okey has_labels agrees +
  fixes status_agrees :: "'o \<Rightarrow> 'o \<Rightarrow> bool"
  assumes status_ok: "KStatus F c x = (None, c') \<Longrightarrow> \<exists>y. status_agrees x y \<and> objs c' = (objs c)(okey x \<mapsto> y)"
begin

lemma weaken_status:
  assumes "\<And>x y. agrees x y \<Longrightarrow> agrees' x y" "\<And>x y. agrees' x y \<Longrightarrow> okey y = okey x"
    and "\<And>x y. status_agrees x y \<Longrightarrow> status_agrees' x y"
  shows "status_store F objs okey has_labels agrees' status_agrees'"
proof -
  have "object_store F objs okey has_labels agrees'" by (rule weaken_agreement [OF assms(1,2)])
  then show ?thesis using status_ok assms(3) by (auto simp: status_store_def status_store_axioms_def) blast
qed

end

section \<open>An in-memory server\<close>

text \<open>
  Stored objects, and a list of failures: every write takes the next entry and fails with it when it
  is an error.  Objects are stored as they are sent.
\<close>

record 'o mem_server =
  MemObjs :: "(objkey, 'o) gomap"
  MemFaults :: "api_error option list"

definition mem_write :: "'o mem_server \<Rightarrow> (objkey, 'o) gomap \<Rightarrow> api_error option \<times> 'o mem_server" where
  "mem_write c m =
     (case MemFaults c of
        Some e # fs \<Rightarrow> (Some (e\<lparr>ErrKind := (if IsNotFound e then KOther else ErrKind e)\<rparr>), c\<lparr>MemFaults := fs\<rparr>)
      | None # fs \<Rightarrow> (None, \<lparr>MemObjs = m, MemFaults = fs\<rparr>)
      | [] \<Rightarrow> (None, c\<lparr>MemObjs := m\<rparr>))"

definition not_found :: api_error where
  "not_found = \<lparr>ErrKind = KNotFound, ErrText = ''not found''\<rparr>"

definition mem_objs :: "('o \<Rightarrow> objkey) \<Rightarrow> 'o mem_server \<Rightarrow> objkey \<Rightarrow> 'o option" where
  "mem_objs okey c k = (case map_of (MemObjs c) k of Some x \<Rightarrow> if okey x = k then Some x else None | None \<Rightarrow> None)"

definition mem_get :: "('o \<Rightarrow> objkey) \<Rightarrow> 'o mem_server \<Rightarrow> objkey \<Rightarrow> api_error + 'o" where
  "mem_get okey c k = (case mem_objs okey c k of None \<Rightarrow> Inl not_found | Some x \<Rightarrow> Inr x)"

definition mem_put :: "('o \<Rightarrow> objkey) \<Rightarrow> 'o mem_server \<Rightarrow> 'o \<Rightarrow> api_error option \<times> 'o mem_server" where
  "mem_put okey c x = mem_write c (gm_put (okey x) x (MemObjs c))"

definition mem_all :: "('o \<Rightarrow> objkey) \<Rightarrow> 'o mem_server \<Rightarrow> 'o list" where
  "mem_all okey c = List.map_filter (mem_objs okey c) (remdups (map fst (MemObjs c)))"

definition mem_client :: "('o \<Rightarrow> objkey) \<Rightarrow> ((string \<times> string) list \<Rightarrow> 'o \<Rightarrow> bool) \<Rightarrow> ('o mem_server, 'o, unit) kind_client" where
  "mem_client okey has_labels = \<lparr>
     KGet = mem_get okey,
     KList = (\<lambda>c nso filt. Inr (filter (\<lambda>x. (case nso of None \<Rightarrow> True | Some n \<Rightarrow> fst (okey x) = n)
                \<and> (case filt of MatchingLabels ls \<Rightarrow> has_labels ls x | _ \<Rightarrow> True)) (mem_all okey c))),
     KCreate = mem_put okey,
     KUpdate = mem_put okey,
     KStatus = mem_put okey,
     KPatch = (\<lambda>c base. mem_put okey c),
     KDelete = (\<lambda>c x. if mem_objs okey c (okey x) = None then (Some not_found, c)
                      else mem_write c (gm_delete (okey x) (MemObjs c))),
     KCreateOrUpdate = (\<lambda>c x f. case f (case mem_objs okey c (okey x) of None \<Rightarrow> x | Some old \<Rightarrow> old) of
                          Inl e \<Rightarrow> (Some e, c)
                        | Inr y \<Rightarrow> if okey y = okey x then mem_put okey c y else (Some (plain_error ''changed key''), c)) \<rparr>"

lemma mem_write_ok:
  "mem_write c m = (None, c') \<Longrightarrow> MemObjs c' = m"
  by (auto simp: mem_write_def split: list.splits option.splits)

lemma mem_write_not_missing: "mem_write c m = (Some e, c') \<Longrightarrow> \<not> IsNotFound e"
  by (auto simp: mem_write_def split: list.splits option.splits if_splits)

lemma mem_put_ok: "mem_put okey c x = (None, c') \<Longrightarrow> mem_objs okey c' = (mem_objs okey c)(okey x \<mapsto> x)"
  by (auto simp: mem_put_def mem_objs_def fun_eq_iff dest!: mem_write_ok)

lemma mem_objs_key: "mem_objs okey c k = Some x \<Longrightarrow> okey x = k \<and> map_of (MemObjs c) k = Some x"
  by (auto simp: mem_objs_def split: option.splits if_splits)

lemma set_mem_all: "set (mem_all okey c) = {x. mem_objs okey c (okey x) = Some x}"
proof -
  have "\<exists>k \<in> fst ` set (MemObjs c). mem_objs okey c k = Some x" if "mem_objs okey c (okey x) = Some x" for x
    using that mem_objs_key [OF that] by (force dest: map_of_SomeD)
  moreover have "mem_objs okey c (okey x) = Some x" if "mem_objs okey c k = Some x" for k x
    using that mem_objs_key [OF that] by simp
  ultimately show ?thesis unfolding mem_all_def by (auto simp: map_filter_in)
qed

lemma distinct_mem_all: "distinct (map okey (mem_all okey c))"
proof -
  have "distinct (map okey (List.map_filter (mem_objs okey c) ks)) \<and>
        okey ` set (List.map_filter (mem_objs okey c) ks) \<subseteq> set ks" if "distinct ks" for ks
    using that
  proof (induction ks)
    case (Cons k ks)
    then show ?case
      using mem_objs_key [of okey c k] by (cases "mem_objs okey c k") (force simp: map_filter_simps)+
  qed (simp add: map_filter_simps)
  then show ?thesis unfolding mem_all_def using distinct_remdups by blast
qed

text \<open>The server is an implementation of the contract, for every kind of object.\<close>

interpretation mem: object_store "mem_client okey has_labels" "mem_objs okey" okey has_labels "(=)"
  for okey :: "'o \<Rightarrow> objkey" and has_labels
proof
  fix c c' :: "'o mem_server" and k x f e nso xs and filt :: "unit label_filter" and y base :: 'o
  note defs = mem_client_def mem_get_def
  show "mem_objs okey c k = Some x \<Longrightarrow> okey x = k" by (simp add: mem_objs_key)
  show "x = y \<Longrightarrow> okey y = okey x" by simp
  show "KGet (mem_client okey has_labels) c k = Inr x \<Longrightarrow> mem_objs okey c k = Some x"
    by (simp add: defs split: option.splits)
  show "KGet (mem_client okey has_labels) c k = Inl e \<Longrightarrow> IsNotFound e \<Longrightarrow> mem_objs okey c k = None"
    by (simp add: defs split: option.splits)
  show "KCreate (mem_client okey has_labels) c x = (None, c') \<Longrightarrow> \<exists>y. x = y \<and> mem_objs okey c' = (mem_objs okey c)(okey x \<mapsto> y)"
    by (simp add: defs mem_put_ok)
  show "KUpdate (mem_client okey has_labels) c x = (None, c') \<Longrightarrow> \<exists>y. x = y \<and> mem_objs okey c' = (mem_objs okey c)(okey x \<mapsto> y)"
    by (simp add: defs mem_put_ok)
  show "KPatch (mem_client okey has_labels) c base x = (None, c') \<Longrightarrow> mem_objs okey c (okey x) = Some base \<Longrightarrow>
          \<exists>y. x = y \<and> mem_objs okey c' = (mem_objs okey c)(okey x \<mapsto> y)"
    by (simp add: defs mem_put_ok)
  show "KDelete (mem_client okey has_labels) c x = (None, c') \<Longrightarrow> mem_objs okey c' = (mem_objs okey c)(okey x := None)"
    by (auto simp: defs mem_objs_def fun_eq_iff dest!: mem_write_ok split: if_splits)
  show "KDelete (mem_client okey has_labels) c x = (Some e, c') \<Longrightarrow> IsNotFound e \<Longrightarrow>
          mem_objs okey c (okey x) = None \<and> mem_objs okey c' = mem_objs okey c"
    by (auto simp: defs dest: mem_write_not_missing split: if_splits)
  show "KCreateOrUpdate (mem_client okey has_labels) c x f = (None, c') \<Longrightarrow>
          \<exists>y z. f (case mem_objs okey c (okey x) of None \<Rightarrow> x | Some old \<Rightarrow> old) = Inr y \<and> y = z \<and>
                mem_objs okey c' = (mem_objs okey c)(okey x \<mapsto> z)"
    by (auto simp: defs mem_put_ok split: sum.splits if_splits)
  show "KList (mem_client okey has_labels) c nso filt = Inr xs \<Longrightarrow> \<not> by_selector filt \<Longrightarrow>
          set xs = {x. mem_objs okey c (okey x) = Some x \<and> (case filt of MatchingLabels ls \<Rightarrow> has_labels ls x | _ \<Rightarrow> True)
                      \<and> (case nso of None \<Rightarrow> True | Some n \<Rightarrow> fst (okey x) = n)}
          \<and> distinct (map okey xs)"
    using distinct_mem_all [of okey c] by (auto simp: defs set_mem_all distinct_map_filter)
qed

interpretation mem_status: status_store "mem_client okey has_labels" "mem_objs okey" okey has_labels "(=)" "(=)"
  for okey :: "'o \<Rightarrow> objkey" and has_labels
  by unfold_locales (simp add: mem_client_def mem_put_ok)

text \<open>A client that always answers with the same objects and forgets what is written.\<close>

definition const_client :: "'o list \<Rightarrow> ('c, 'o, unit) kind_client" where
  "const_client xs = \<lparr>KGet = (\<lambda>_ _. case xs of [] \<Rightarrow> Inl not_found | x # _ \<Rightarrow> Inr x), KList = (\<lambda>_ _ _. Inr xs),
     KCreate = (\<lambda>c _. (None, c)), KUpdate = (\<lambda>c _. (None, c)), KStatus = (\<lambda>c _. (None, c)), KPatch = (\<lambda>c _ _. (None, c)),
     KDelete = (\<lambda>c _. (None, c)), KCreateOrUpdate = (\<lambda>c _ _. (None, c))\<rparr>"

lemma const_client_simps [simp]:
  "KGet (const_client (x # xs)) c k = Inr x" "KList (const_client xs) c nso filt = Inr xs" "KUpdate (const_client xs) c x = (None, c)"
  "KStatus (const_client xs) c x = (None, c)"
  by (simp_all add: const_client_def)

text \<open>Whether it fails or not, a write of the server is done or is not.\<close>

lemma mem_write_any: "mem_write c m = (e, c') \<Longrightarrow> MemObjs c' = MemObjs c \<or> MemObjs c' = m"
  by (auto simp: mem_write_def split: list.splits option.splits)

lemma mem_put_any:
  "mem_put okey c x = (e, c') \<Longrightarrow> mem_objs okey c' = mem_objs okey c \<or> mem_objs okey c' = (mem_objs okey c)(okey x \<mapsto> x)"
  by (auto simp: mem_put_def mem_objs_def fun_eq_iff dest!: mem_write_any)

section \<open>A part of a larger state\<close>

text \<open>A client of a component of the state, seen as a client of the whole.\<close>

definition lift_write :: "('w \<Rightarrow> 's) \<Rightarrow> ('s \<Rightarrow> 'w \<Rightarrow> 'w) \<Rightarrow> ('s \<Rightarrow> 'e \<times> 's) \<Rightarrow> 'w \<Rightarrow> 'e \<times> 'w" where
  "lift_write get put f w = (let (e, s) = f (get w) in (e, put s w))"

definition lift_client :: "('w \<Rightarrow> 's) \<Rightarrow> ('s \<Rightarrow> 'w \<Rightarrow> 'w) \<Rightarrow> ('s, 'o, 'sel) kind_client \<Rightarrow> ('w, 'o, 'sel) kind_client" where
  "lift_client get put F = \<lparr>KGet = (\<lambda>w. KGet F (get w)), KList = (\<lambda>w. KList F (get w)),
     KCreate = (\<lambda>w x. lift_write get put (\<lambda>s. KCreate F s x) w), KUpdate = (\<lambda>w x. lift_write get put (\<lambda>s. KUpdate F s x) w),
     KStatus = (\<lambda>w x. lift_write get put (\<lambda>s. KStatus F s x) w),
     KPatch = (\<lambda>w base x. lift_write get put (\<lambda>s. KPatch F s base x) w),
     KDelete = (\<lambda>w x. lift_write get put (\<lambda>s. KDelete F s x) w),
     KCreateOrUpdate = (\<lambda>w x f. lift_write get put (\<lambda>s. KCreateOrUpdate F s x f) w)\<rparr>"

lemma lift_client_fields [simp]:
  "KGet (lift_client get put F) w = KGet F (get w)" "KList (lift_client get put F) w = KList F (get w)"
  "KCreate (lift_client get put F) w x = lift_write get put (\<lambda>s. KCreate F s x) w"
  "KUpdate (lift_client get put F) w x = lift_write get put (\<lambda>s. KUpdate F s x) w"
  "KStatus (lift_client get put F) w x = lift_write get put (\<lambda>s. KStatus F s x) w"
  "KPatch (lift_client get put F) w base x = lift_write get put (\<lambda>s. KPatch F s base x) w"
  "KDelete (lift_client get put F) w x = lift_write get put (\<lambda>s. KDelete F s x) w"
  "KCreateOrUpdate (lift_client get put F) w x f = lift_write get put (\<lambda>s. KCreateOrUpdate F s x f) w"
  by (simp_all add: lift_client_def)

lemma lift_write_part:
  "lift_write get put f w = (e, w') \<Longrightarrow> (\<And>s w. get (put s w) = s) \<Longrightarrow> f (get w) = (e, get w')"
  by (auto simp: lift_write_def split: prod.splits)

lemma lift_write_other:
  "lift_write get put f w = (e, w') \<Longrightarrow> (\<And>s w. other (put s w) = other w) \<Longrightarrow> other w' = other w"
  by (auto simp: lift_write_def split: prod.splits)

context object_store
begin

lemma lifted:
  assumes put: "\<And>s w. get (put s w) = s"
  shows "object_store (lift_client get put F) (\<lambda>w. objs (get w)) okey has_labels agrees"
proof (unfold_locales, goal_cases)
  case 1 then show ?case by (rule stored_key)
next
  case 2 then show ?case by (rule agrees_key)
next
  case 3 then show ?case by (simp add: get_ok)
next
  case 4 then show ?case by (simp add: get_missing)
next
  case 5 then show ?case using create_ok lift_write_part [where get = get and put = put, OF _ put] by (metis lift_client_fields(3))
next
  case 6 then show ?case using update_ok lift_write_part [where get = get and put = put, OF _ put] by (metis lift_client_fields(4))
next
  case 7 then show ?case using patch_ok lift_write_part [where get = get and put = put, OF _ put] by (metis lift_client_fields(6))
next
  case 8 then show ?case using delete_ok lift_write_part [where get = get and put = put, OF _ put] by (metis lift_client_fields(7))
next
  case 9 then show ?case using delete_missing lift_write_part [where get = get and put = put, OF _ put] by (metis lift_client_fields(7))
next
  case 10 then show ?case using upsert_ok lift_write_part [where get = get and put = put, OF _ put] by (metis lift_client_fields(8))
next
  case 11 then show ?case by (simp add: list_ok)
qed

end

end
