(* ===== verification/Recommend.thy ===== *)
theory Recommend
  imports Api_Types
begin

text \<open>
  \<open>internal/recommend\<close>: the recommendation of one container from its sketches, moving averages and
  forecasts (\<open>recommend.go\<close>, \<open>prediction.go\<close>, \<open>strategies.go\<close>), and the engine of a mode wrapped
  with a bias provider (\<open>engine.go\<close>, \<open>biased.go\<close>, \<open>bias.go\<close>).  The interface \<open>Engine\<close> has one
  implementation per strategy, so it is a datatype; \<open>BiasProvider\<close> is a record of its two methods.
\<close>

section \<open>Inputs\<close>

definition minQuadrantSketchCount :: f64 where
  "minQuadrantSketchCount = f64_const 30"

definition SchedulerBalanceUnknown :: f64 where
  "SchedulerBalanceUnknown = f64_const (- 1)"

record ('q, 'sk) Input =
  InContainerName :: string
  InMode :: string
  CPUSketch :: "'sk option"
  MemSketch :: "'sk option"
  QuadrantCPUSketch :: "'sk option"
  QuadrantMemSketch :: "'sk option"
  CPUEShort :: f64
  CPUELong :: f64
  MemShort :: f64
  MemLong :: f64
  ForecastCPU :: f64
  ForecastMem :: f64
  InMinCPU :: "'q option"
  InMaxCPU :: "'q option"
  InMinMemory :: "'q option"
  InMaxMemory :: "'q option"
  SchedulerBalanceScore :: f64

definition sketchHasEnoughSamples :: "('sk, 'pb) sketch_api \<Rightarrow> 'sk option \<Rightarrow> bool" where
  "sketchHasEnoughSamples S s = (case s of None \<Rightarrow> False
     | Some sk \<Rightarrow> \<not> IsEmpty S sk \<and> fle minQuadrantSketchCount (GetCount S sk))"

definition effectiveCPUSketch :: "('sk, 'pb) sketch_api \<Rightarrow> ('q, 'sk) Input \<Rightarrow> 'sk option" where
  "effectiveCPUSketch S inp =
     (if sketchHasEnoughSamples S (QuadrantCPUSketch inp) then QuadrantCPUSketch inp else CPUSketch inp)"

definition effectiveMemSketch :: "('sk, 'pb) sketch_api \<Rightarrow> ('q, 'sk) Input \<Rightarrow> 'sk option" where
  "effectiveMemSketch S inp =
     (if sketchHasEnoughSamples S (QuadrantMemSketch inp) then QuadrantMemSketch inp else MemSketch inp)"

definition memShortForBurst :: "('q, 'sk) Input \<Rightarrow> f64" where
  "memShortForBurst inp =
     (if flt (Fin 0) (ForecastMem inp) then math_Max (MemShort inp) (ForecastMem inp) else MemShort inp)"

definition normalizeMode :: "string \<Rightarrow> string" where
  "normalizeMode mode = (if mode = '''' then ''balanced'' else mode)"

text \<open>The error result of \<open>qMilli\<close> and \<open>qBytes\<close> is always nil: a failing quantile reads as 0.\<close>

definition qMilli :: "('sk, 'pb) sketch_api \<Rightarrow> 'sk option \<Rightarrow> f64 \<Rightarrow> f64" where
  "qMilli S s q =
     (case s of None \<Rightarrow> Fin 0
      | Some sk \<Rightarrow> if IsEmpty S sk then Fin 0
                  else (case Quantile S s q of Inl _ \<Rightarrow> Fin 0 | Inr v \<Rightarrow> v))"

definition qBytes :: "('sk, 'pb) sketch_api \<Rightarrow> 'sk option \<Rightarrow> f64 \<Rightarrow> f64" where
  "qBytes S s q = qMilli S s q"

definition milliQty :: "'q quantity_api \<Rightarrow> f64 \<Rightarrow> 'q" where
  "milliQty Q m =
     (let m1 = (if flt m (Fin 0) then Fin 0 else m)
      in NewMilliQuantity Q (int64_of_f64 (math_Round m1)) DecimalSI)"

definition bytesQty :: "'q quantity_api \<Rightarrow> f64 \<Rightarrow> 'q" where
  "bytesQty Q b =
     (let b1 = (if flt b (Fin 0) then Fin 0 else b)
      in NewQuantity Q (int64_of_f64 (math_Round b1)) BinarySI)"

definition clampQty :: "'q quantity_api \<Rightarrow> 'q \<Rightarrow> 'q option \<Rightarrow> 'q option \<Rightarrow> 'q" where
  "clampQty Q q minQ maxQ =
     (let out1 = (case minQ of None \<Rightarrow> q | Some lo \<Rightarrow> if Cmp Q q lo < 0 then lo else q)
      in case maxQ of None \<Rightarrow> out1 | Some hi \<Rightarrow> if Cmp Q out1 hi > 0 then hi else out1)"

section \<open>Prediction\<close>

definition kForMode :: "string \<Rightarrow> f64" where
  "kForMode mode =
     (let m = normalizeMode mode in
      if m = ''cost'' then f64_const (5 / 10)
      else if m = ''balanced'' then f64_const 1
      else if m = ''resilience'' then f64_const (15 / 10)
      else if m = ''burst'' then f64_const 2
      else f64_const 1)"

definition emaPrediction :: "f64 \<Rightarrow> f64 \<Rightarrow> f64 \<Rightarrow> f64" where
  "emaPrediction emaShort emaLong k = fadd emaLong (fmul k (fsub emaShort emaLong))"

definition limitWithPrediction :: "f64 \<Rightarrow> f64 \<Rightarrow> f64 \<Rightarrow> f64 \<Rightarrow> f64" where
  "limitWithPrediction quantileLimit emaShort emaLong k = math_Max quantileLimit (emaPrediction emaShort emaLong k)"

definition mergeLimitsWithEMAPrediction ::
  "f64 \<Rightarrow> f64 \<Rightarrow> ('q, 'sk) Input \<Rightarrow> string \<Rightarrow> f64 \<times> f64 \<times> f64 \<times> f64 \<times> f64" where
  "mergeLimitsWithEMAPrediction cpuLimMilli memLimBytes inp mode =
     (let k = kForMode mode;
          cpuOut = limitWithPrediction cpuLimMilli (CPUEShort inp) (CPUELong inp) k;
          memOut = limitWithPrediction memLimBytes (MemShort inp) (MemLong inp) k;
          cpuPred = emaPrediction (CPUEShort inp) (CPUELong inp) k;
          memPred = emaPrediction (MemShort inp) (MemLong inp) k
      in (cpuOut, memOut, k, cpuPred, memPred))"

section \<open>Strategies\<close>

definition finalizeRec :: "'q quantity_api \<Rightarrow> ('q, 'sk) Input \<Rightarrow> f64 \<Rightarrow> f64 \<Rightarrow> f64 \<Rightarrow> f64 \<Rightarrow> string \<Rightarrow> 'q Recommendation" where
  "finalizeRec Q inp cpuReqMilli cpuLimMilli memReqBytes memLimBytes rationale =
     (let cpuReq = clampQty Q (milliQty Q cpuReqMilli) (InMinCPU inp) (InMaxCPU inp);
          cpuLim = clampQty Q (milliQty Q cpuLimMilli) (InMinCPU inp) (InMaxCPU inp);
          memReq = clampQty Q (bytesQty Q memReqBytes) (InMinMemory inp) (InMaxMemory inp);
          memLim = clampQty Q (bytesQty Q memLimBytes) (InMinMemory inp) (InMaxMemory inp)
      in \<lparr>ContainerName = InContainerName inp, CPURequest = cpuReq, CPULimit = cpuLim,
          MemoryRequest = memReq, MemoryLimit = memLim, Rationale = rationale\<rparr>)"

definition applySchedulerPressure :: "f64 \<Rightarrow> f64 \<Rightarrow> ('q, 'sk) Input \<Rightarrow> f64 \<times> f64 \<times> string" where
  "applySchedulerPressure cpuReqMilli memReqBytes inp =
     (let balance = SchedulerBalanceScore inp in
      if fle (Fin 0) balance \<and> flt balance (f64_const (15 / 100))
      then (fmul cpuReqMilli (f64_const (115 / 100)), fmul memReqBytes (f64_const (115 / 100)),
            ''; scheduler_pressure: high (balance='' @ fmt_fixed 2 balance @ '') request_inflated'')
      else (cpuReqMilli, memReqBytes, ''''))"

definition prediction_note :: "f64 \<Rightarrow> f64 \<Rightarrow> f64 \<Rightarrow> string" where
  "prediction_note k cpuPred memPred =
     '' k='' @ fmt_fixed 1 k @ '' cpu_pred='' @ fmt_fixed 0 cpuPred @ ''m mem_pred='' @ fmt_fixed 0 memPred"

definition costStrategy_Compute ::
  "('sk, 'pb) sketch_api \<Rightarrow> 'q quantity_api \<Rightarrow> ('q, 'sk) Input \<Rightarrow> string + 'q Recommendation" where
  "costStrategy_Compute S Q inp =
     (let cpuReqMilli = qMilli S (effectiveCPUSketch S inp) (f64_const (50 / 100));
          cpuLimMilli = qMilli S (effectiveCPUSketch S inp) (f64_const (90 / 100));
          memReqBytes = qBytes S (effectiveMemSketch S inp) (f64_const (50 / 100));
          memLimBytes = qBytes S (effectiveMemSketch S inp) (f64_const (90 / 100));
          (cpuLim, memLim, k, cpuPred, memPred) = mergeLimitsWithEMAPrediction cpuLimMilli memLimBytes inp ''cost'';
          rationale = ''cost: P50/P90 cpu & mem; limits=max(quantile,EMA_long+k*(short-long))''
            @ prediction_note k cpuPred memPred @ ''; mode=cost''
      in Inr (finalizeRec Q inp cpuReqMilli cpuLim memReqBytes memLim rationale))"

definition balancedStrategy_Compute ::
  "bool \<Rightarrow> ('sk, 'pb) sketch_api \<Rightarrow> 'q quantity_api \<Rightarrow> ('q, 'sk) Input \<Rightarrow> string + 'q Recommendation" where
  "balancedStrategy_Compute fallback S Q inp =
     (let mode = normalizeMode (InMode inp);
          cpuReq0 = qMilli S (effectiveCPUSketch S inp) (f64_const (70 / 100));
          cpuLimMilli = qMilli S (effectiveCPUSketch S inp) (f64_const (95 / 100));
          memReq0 = qBytes S (effectiveMemSketch S inp) (f64_const (70 / 100));
          memLimBytes = qBytes S (effectiveMemSketch S inp) (f64_const (95 / 100));
          (cpuReqMilli, memReqBytes, schedNote) = applySchedulerPressure cpuReq0 memReq0 inp;
          (cpuLim, memLim, k, cpuPred, memPred) = mergeLimitsWithEMAPrediction cpuLimMilli memLimBytes inp ''balanced'';
          rationale = (if fallback
            then ''balanced(default): P70/P95; limits=max(quantile,EMA_long+k*(short-long))''
            else ''balanced: P70/P95 cpu & mem; limits=max(quantile,EMA_long+k*(short-long))'')
            @ prediction_note k cpuPred memPred @ ''; mode='' @ mode @ schedNote
      in Inr (finalizeRec Q inp cpuReqMilli cpuLim memReqBytes memLim rationale))"

definition resilienceStrategy_Compute ::
  "('sk, 'pb) sketch_api \<Rightarrow> 'q quantity_api \<Rightarrow> ('q, 'sk) Input \<Rightarrow> string + 'q Recommendation" where
  "resilienceStrategy_Compute S Q inp =
     (let cpuSk = effectiveCPUSketch S inp;
          memSk = effectiveMemSketch S inp;
          cpuReq0 = qMilli S cpuSk (f64_const (90 / 100));
          cpuLim0 = fmul (qMilli S cpuSk (f64_const (99 / 100))) (f64_const (11 / 10));
          memReq0 = qBytes S memSk (f64_const (90 / 100));
          memLim0 = fmul (qBytes S memSk (f64_const (99 / 100))) (f64_const (12 / 10));
          (cpuReqMilli, memReqBytes, schedNote) = applySchedulerPressure cpuReq0 memReq0 inp;
          cpuLim1 = (if flt (Fin 0) (ForecastCPU inp) then math_Max cpuLim0 (ForecastCPU inp) else cpuLim0);
          memLim1 = (if flt (Fin 0) (ForecastMem inp) then math_Max memLim0 (ForecastMem inp) else memLim0);
          (cpuLim, memLim, k, cpuPred, memPred) = mergeLimitsWithEMAPrediction cpuLim1 memLim1 inp ''resilience'';
          rationale = ''resilience: P90 req, P99*1.1/1.2 limits; limits=max(quantile,EMA_long+k*(short-long))''
            @ prediction_note k cpuPred memPred @ ''; mode=resilience'' @ schedNote
      in Inr (finalizeRec Q inp cpuReqMilli cpuLim memReqBytes memLim rationale))"

definition burstStrategy_Compute ::
  "('sk, 'pb) sketch_api \<Rightarrow> 'q quantity_api \<Rightarrow> ('q, 'sk) Input \<Rightarrow> string + 'q Recommendation" where
  "burstStrategy_Compute S Q inp =
     (let cpuSk = effectiveCPUSketch S inp;
          memSk = effectiveMemSketch S inp;
          cpuReqMilli = qMilli S cpuSk (f64_const (40 / 100));
          peak0 = math_Max (qMilli S cpuSk (f64_const (99 / 100))) (CPUEShort inp);
          peakCPU = (if flt (Fin 0) (ForecastCPU inp) then math_Max peak0 (ForecastCPU inp) else peak0);
          memReqBytes = qBytes S memSk (f64_const (40 / 100));
          peakMem = math_Max (qBytes S memSk (f64_const (99 / 100))) (memShortForBurst inp);
          (cpuLim, memLim, k, cpuPred, memPred) = mergeLimitsWithEMAPrediction peakCPU peakMem inp ''burst'';
          rationale = ''burst: P40 req, peak=max(P99,EMA_short/forecast); limits=max(peak,EMA_long+k*(short-long))''
            @ prediction_note k cpuPred memPred @ ''; mode=burst''
      in Inr (finalizeRec Q inp cpuReqMilli cpuLim memReqBytes memLim rationale))"

section \<open>Engines\<close>

datatype Strategy = costStrategy | balancedStrategy (fallback: bool) | resilienceStrategy | burstStrategy

fun Strategy_Compute ::
  "Strategy \<Rightarrow> ('sk, 'pb) sketch_api \<Rightarrow> 'q quantity_api \<Rightarrow> ('q, 'sk) Input \<Rightarrow> string + 'q Recommendation" where
  "Strategy_Compute costStrategy S Q inp = costStrategy_Compute S Q inp"
| "Strategy_Compute (balancedStrategy fb) S Q inp = balancedStrategy_Compute fb S Q inp"
| "Strategy_Compute resilienceStrategy S Q inp = resilienceStrategy_Compute S Q inp"
| "Strategy_Compute burstStrategy S Q inp = burstStrategy_Compute S Q inp"

record ('q, 'sk) BiasProvider =
  bias_Apply :: "'q Recommendation \<Rightarrow> ('q, 'sk) Input \<Rightarrow> 'q Recommendation"
  PredictionRatios :: "string \<Rightarrow> f64 \<times> f64"

definition NoopBias :: "('q, 'sk) BiasProvider" where
  "NoopBias = \<lparr>bias_Apply = (\<lambda>rec _. rec), PredictionRatios = (\<lambda>_. (f64_const 1, f64_const 1))\<rparr>"

definition biasRationaleEpsilon :: f64 where
  "biasRationaleEpsilon = f64_const (1 / 1000000)"

record ('q, 'sk) biasedEngine =
  eng_base :: Strategy
  eng_bias :: "('q, 'sk) BiasProvider"

definition biasedEngine_Compute ::
  "('sk, 'pb) sketch_api \<Rightarrow> 'q quantity_api \<Rightarrow> ('q, 'sk) biasedEngine \<Rightarrow> ('q, 'sk) Input \<Rightarrow> string + 'q Recommendation" where
  "biasedEngine_Compute S Q e inp =
     (case Strategy_Compute (eng_base e) S Q inp of
        Inl err \<Rightarrow> Inl err
      | Inr rec0 \<Rightarrow>
          let rec1 = bias_Apply (eng_bias e) rec0 inp;
              (cpuR, memR) = PredictionRatios (eng_bias e) (InContainerName inp)
          in if flt biasRationaleEpsilon (math_Abs (fsub cpuR (f64_const 1)))
                \<or> flt biasRationaleEpsilon (math_Abs (fsub memR (f64_const 1)))
             then Inr (rec1\<lparr>Rationale := Rationale rec1 @ ''; bias: cpuRatio='' @ fmt_fixed 2 cpuR
                                @ '' memRatio='' @ fmt_fixed 2 memR\<rparr>)
             else Inr rec1)"

definition strategies :: "string \<rightharpoonup> Strategy" where
  "strategies = [''cost'' \<mapsto> costStrategy, ''balanced'' \<mapsto> balancedStrategy False,
                 ''resilience'' \<mapsto> resilienceStrategy, ''burst'' \<mapsto> burstStrategy]"

text \<open>\<open>New\<close>: a nil provider is replaced by \<open>NoopBias\<close>, an unknown mode by the balanced fallback.\<close>

definition New :: "string \<Rightarrow> ('q, 'sk) BiasProvider option \<Rightarrow> ('q, 'sk) biasedEngine" where
  "New mode bias =
     (let b = (case bias of None \<Rightarrow> NoopBias | Some p \<Rightarrow> p);
          base = (case strategies (normalizeMode mode) of None \<Rightarrow> balancedStrategy True | Some s \<Rightarrow> s)
      in \<lparr>eng_base = base, eng_bias = b\<rparr>)"

definition Compute :: "('sk, 'pb) sketch_api \<Rightarrow> 'q quantity_api \<Rightarrow> ('q, 'sk) Input \<Rightarrow> string + 'q Recommendation" where
  "Compute S Q inp = biasedEngine_Compute S Q (New (InMode inp) (Some NoopBias)) inp"

end
