(* ===== verification/Podsignals.thy ===== *)
theory Podsignals
  imports Api_Types
begin

text \<open>
  \<open>internal/podsignals\<close> (restart counts and OOM kills folded over the pods of a workload) and the
  two small state machines the controller runs on them: the restart pause of
  \<open>restart_pause.go\<close> and the persisted OOM time of \<open>reconcile_oom.go\<close>.
\<close>

section \<open>The snapshot\<close>

record Snapshot =
  LastOOMKill :: "(string, gotime option) gomap"
  RestartCounts :: "(string, int) gomap"

definition NewSnapshot :: Snapshot where
  "NewSnapshot = \<lparr>LastOOMKill = [], RestartCounts = []\<rparr>"

text \<open>Reading a missing key gives the zero value: 0 restarts, a nil time.\<close>

definition restarts_of :: "Snapshot \<Rightarrow> string \<Rightarrow> int" where
  "restarts_of s name = (case map_of (RestartCounts s) name of None \<Rightarrow> 0 | Some n \<Rightarrow> n)"

definition oom_of :: "Snapshot \<Rightarrow> string \<Rightarrow> gotime option" where
  "oom_of s name = (case map_of (LastOOMKill s) name of None \<Rightarrow> None | Some t \<Rightarrow> t)"

definition merge_container_status :: "Snapshot \<Rightarrow> ContainerStatus \<Rightarrow> Snapshot" where
  "merge_container_status s cs =
     (let s1 = (if restarts_of s (CsName cs) < RestartCount cs
                then s\<lparr>RestartCounts := gm_put (CsName cs) (RestartCount cs) (RestartCounts s)\<rparr> else s)
      in case LastTerminated cs of
           None \<Rightarrow> s1
         | Some t \<Rightarrow>
             if TermReason t \<noteq> ''OOMKilled'' then s1
             else if FinishedAt t = 0 then s1
             else (case oom_of s1 (CsName cs) of
                 None \<Rightarrow> s1\<lparr>LastOOMKill := gm_put (CsName cs) (Some (FinishedAt t)) (LastOOMKill s1)\<rparr>
               | Some prev \<Rightarrow>
                   if prev < FinishedAt t
                   then s1\<lparr>LastOOMKill := gm_put (CsName cs) (Some (FinishedAt t)) (LastOOMKill s1)\<rparr>
                   else s1))"

definition MergePodStatus :: "Snapshot \<Rightarrow> 'q Pod option \<Rightarrow> Snapshot" where
  "MergePodStatus s pod = (case pod of None \<Rightarrow> s
     | Some p \<Rightarrow> foldl merge_container_status s (PodContainerStatuses p))"

definition collect_signals :: "'q Pod list \<Rightarrow> Snapshot" where
  "collect_signals pods = foldl (\<lambda>s p. MergePodStatus s (Some p)) NewSnapshot pods"

section \<open>What the snapshot holds\<close>

text \<open>The OOM times of a container and its restart counts, over a list of statuses.\<close>

definition oom_times :: "string \<Rightarrow> ContainerStatus list \<Rightarrow> gotime set" where
  "oom_times name css = {FinishedAt t | cs t. cs \<in> set css \<and> CsName cs = name \<and> LastTerminated cs = Some t
     \<and> TermReason t = ''OOMKilled'' \<and> FinishedAt t \<noteq> 0}"

definition restart_counts :: "string \<Rightarrow> ContainerStatus list \<Rightarrow> int set" where
  "restart_counts name css = RestartCount ` {cs \<in> set css. CsName cs = name}"

definition newest :: "gotime set \<Rightarrow> gotime option" where
  "newest T = (if T = {} then None else Some (Max T))"

lemma finite_oom_times [simp]: "finite (oom_times name css)"
proof -
  have "oom_times name css \<subseteq> (\<lambda>cs. FinishedAt (the (LastTerminated cs))) ` set css"
    by (force simp: oom_times_def)
  then show ?thesis by (rule finite_subset) simp
qed

lemma finite_restart_counts [simp]: "finite (restart_counts name css)"
  by (simp add: restart_counts_def)

lemma newest_insert:
  "finite T \<Longrightarrow> newest (insert t T) = Some (case newest T of None \<Rightarrow> t | Some p \<Rightarrow> max t p)"
  by (simp add: newest_def)

lemma oom_times_snoc:
  "oom_times name (css @ [cs]) = oom_times name css \<union> oom_times name [cs]"
  by (auto simp: oom_times_def)

lemma oom_times_single:
  "oom_times name [cs] = (case LastTerminated cs of None \<Rightarrow> {}
     | Some t \<Rightarrow> if TermReason t = ''OOMKilled'' \<and> FinishedAt t \<noteq> 0 \<and> CsName cs = name then {FinishedAt t} else {})"
  by (auto simp: oom_times_def split: option.split)

lemma oom_of_merge:
  "oom_of (merge_container_status s cs) name =
     (case newest (oom_times name [cs]) of
        None \<Rightarrow> oom_of s name
      | Some t \<Rightarrow> Some (case oom_of s name of None \<Rightarrow> t | Some p \<Rightarrow> max p t))"
proof (cases "LastTerminated cs")
  case None
  then have "oom_times name [cs] = {}" by (simp add: oom_times_def)
  with None show ?thesis
    by (simp add: merge_container_status_def Let_def newest_def oom_of_def)
next
  case (Some t)
  show ?thesis
  proof (cases "TermReason t = ''OOMKilled'' \<and> FinishedAt t \<noteq> 0 \<and> CsName cs = name")
    case True
    with Some have "oom_times name [cs] = {FinishedAt t}" by (auto simp: oom_times_def)
    with True Some show ?thesis
      by (auto simp: merge_container_status_def Let_def newest_def oom_of_def split: option.split)
  next
    case False
    with Some have "oom_times name [cs] = {}" by (auto simp: oom_times_def)
    with False Some show ?thesis
      by (auto simp: merge_container_status_def Let_def newest_def oom_of_def split: option.split)
  qed
qed

lemma oom_of_fold:
  "oom_of (foldl merge_container_status NewSnapshot css) name = newest (oom_times name css)"
proof (induction css rule: rev_induct)
  case Nil
  show ?case by (simp add: oom_of_def NewSnapshot_def newest_def oom_times_def)
next
  case (snoc cs css)
  have "oom_times name [cs] = {} \<or> (\<exists>t. oom_times name [cs] = {t})"
    by (simp add: oom_times_single split: option.split)
  then consider "oom_times name [cs] = {}" | t where "oom_times name [cs] = {t}" by blast
  then show ?case
  proof cases
    case 1
    with snoc show ?thesis by (simp add: oom_of_merge oom_times_snoc newest_def)
  next
    case (2 t)
    then have "newest (oom_times name (css @ [cs])) = Some (case newest (oom_times name css) of None \<Rightarrow> t | Some p \<Rightarrow> max t p)"
      by (simp add: oom_times_snoc newest_insert)
    with 2 snoc show ?thesis
      by (auto simp: oom_of_merge newest_def max.commute split: option.split)
  qed
qed

lemma restarts_of_merge:
  "restarts_of (merge_container_status s cs) name =
     (if CsName cs = name then max (restarts_of s name) (RestartCount cs) else restarts_of s name)"
  by (auto simp: merge_container_status_def Let_def restarts_of_def split: option.split)

lemma restarts_of_fold:
  "restarts_of (foldl merge_container_status NewSnapshot css) name = Max (insert 0 (restart_counts name css))"
proof (induction css rule: rev_induct)
  case Nil
  show ?case by (simp add: restarts_of_def NewSnapshot_def restart_counts_def)
next
  case (snoc cs css)
  have "restart_counts name (css @ [cs]) =
      (if CsName cs = name then insert (RestartCount cs) (restart_counts name css) else restart_counts name css)"
    by (auto simp: restart_counts_def)
  then show ?case
    using snoc by (simp add: restarts_of_merge insert_commute [of 0] max.commute)
qed

lemma collect_signals_concat:
  "collect_signals pods = foldl merge_container_status NewSnapshot (concat (map PodContainerStatuses pods))"
proof -
  have "foldl (\<lambda>s p. MergePodStatus s (Some p)) s0 pods =
      foldl merge_container_status s0 (concat (map PodContainerStatuses pods))" for s0
    by (induction pods arbitrary: s0) (auto simp: MergePodStatus_def)
  then show ?thesis by (simp add: collect_signals_def)
qed

section \<open>Restart spikes pause downsizing\<close>

definition downsizePauseCyclesOnRestartSpike :: int where
  "downsizePauseCyclesOnRestartSpike = 4"

definition isRestartSpike :: "int \<Rightarrow> int \<Rightarrow> bool \<Rightarrow> bool" where
  "isRestartSpike prevRestart currentMax baselineSeen =
     (if \<not> baselineSeen then False else currentMax - prevRestart > 3)"

definition restartPauseAfterReconcile :: "bool \<Rightarrow> bool \<Rightarrow> int \<Rightarrow> int" where
  "restartPauseAfterReconcile baselineSeen anySpike pauseRemaining =
     (if baselineSeen \<and> anySpike then downsizePauseCyclesOnRestartSpike
      else if pauseRemaining > 0 then pauseRemaining - 1 else 0)"

text \<open>
  The pause over successive reconciles: each takes the persisted counter and its own spike flag,
  blocks downsizing when either is set (\<open>reconcile.go\<close>), and stores the next counter.
\<close>

definition blockDownsize :: "int \<Rightarrow> bool \<Rightarrow> bool" where
  "blockDownsize pauseRemaining anySpike \<longleftrightarrow> pauseRemaining > 0 \<or> anySpike"

fun pause_run :: "int \<Rightarrow> bool list \<Rightarrow> bool list" where
  "pause_run remaining [] = []"
| "pause_run remaining (spike # spikes) =
     blockDownsize remaining spike # pause_run (restartPauseAfterReconcile True spike remaining) spikes"

definition pause_ok :: "int \<Rightarrow> bool" where
  "pause_ok n \<longleftrightarrow> 0 \<le> n \<and> n \<le> downsizePauseCyclesOnRestartSpike"

lemma restartPause_ok: "pause_ok n \<Longrightarrow> pause_ok (restartPauseAfterReconcile b s n)"
  by (auto simp: pause_ok_def restartPauseAfterReconcile_def downsizePauseCyclesOnRestartSpike_def)

lemma pause_run_quiet:
  "0 \<le> n \<Longrightarrow> pause_run n (replicate k False) = map (\<lambda>i. int i < n) [0..<k]"
proof (induction k arbitrary: n)
  case (Suc k)
  have "map (\<lambda>i. int i < n) [0..<Suc k] = (0 < n) # map (\<lambda>i. int (Suc i) < n) [0..<k]"
    by (simp only: upt_conv_Cons [OF zero_less_Suc] map_Suc_upt [symmetric] list.map map_map comp_def) simp
  moreover have "map (\<lambda>i. int (Suc i) < n) [0..<k] = map (\<lambda>i. int i < (if 0 < n then n - 1 else 0)) [0..<k]"
    by (rule map_cong) auto
  ultimately show ?case
    using Suc by (simp add: blockDownsize_def restartPauseAfterReconcile_def)
qed simp

section \<open>The persisted OOM time\<close>

definition oomProtectionWindow :: int where
  "oomProtectionWindow = 10 * minute_ns"

definition applyLastOOMKillFromSnapshot :: "ProfileContainerStatus option \<Rightarrow> gotime option \<Rightarrow> ProfileContainerStatus option" where
  "applyLastOOMKillFromSnapshot st t = (case st of None \<Rightarrow> None
     | Some s \<Rightarrow> Some (case t of
          None \<Rightarrow> s\<lparr>Stats := (Stats s)\<lparr>StatLastOOMKill := None\<rparr>\<rparr>
        | Some k \<Rightarrow> s\<lparr>Stats := (Stats s)\<lparr>StatLastOOMKill := Some k\<rparr>\<rparr>))"

text \<open>The store is a Go map that may be nil; its values are pointers that may be nil.\<close>

definition persistedLastOOMKill ::
  "gotime \<Rightarrow> string \<Rightarrow> gotime option \<Rightarrow> (string, gotime option) gomap option
     \<Rightarrow> gotime option \<times> (string, gotime option) gomap option" where
  "persistedLastOOMKill now container observed store =
     (case store of None \<Rightarrow> (observed, None)
      | Some m0 \<Rightarrow>
          let m = (case observed of None \<Rightarrow> m0 | Some t \<Rightarrow> gm_put container (Some t) m0) in
          (case (case map_of m container of None \<Rightarrow> None | Some t \<Rightarrow> t) of
             None \<Rightarrow> (None, Some (gm_delete container m))
           | Some t \<Rightarrow>
               if time_sub now t \<ge> oomProtectionWindow then (None, Some (gm_delete container m))
               else (Some t, Some m)))"

lemma persisted_unexpired:
  "persistedLastOOMKill now c observed (Some m) = (Some t, m') \<Longrightarrow>
     time_sub now t < oomProtectionWindow \<and> (\<exists>m1. m' = Some m1 \<and> map_of m1 c = Some (Some t))"
  by (auto simp: persistedLastOOMKill_def Let_def split: option.splits if_splits)

lemma persisted_expired:
  "persistedLastOOMKill now c observed (Some m) = (None, m') \<Longrightarrow> \<exists>m1. m' = Some m1 \<and> map_of m1 c = None"
  by (auto simp: persistedLastOOMKill_def Let_def split: option.splits if_splits)

lemma persisted_other:
  "persistedLastOOMKill now c observed (Some m) = (r, Some m1) \<Longrightarrow> c' \<noteq> c \<Longrightarrow> map_of m1 c' = map_of m c'"
  by (auto simp: persistedLastOOMKill_def Let_def split: option.splits if_splits)

text \<open>With nothing observed, a stored time lives exactly as long as the protection window.\<close>

lemma persisted_idle:
  "map_of m c = Some (Some t) \<Longrightarrow>
     fst (persistedLastOOMKill now c None (Some m)) = (if time_sub now t < oomProtectionWindow then Some t else None)"
  by (simp add: persistedLastOOMKill_def Let_def)

section \<open>What the signals promise\<close>

text \<open>
  Claim C12: the snapshot collected over the pods of a workload holds, for every container name, the
  newest OOM kill and the highest restart count reported by any status of any pod, whatever the
  order of pods and statuses.
\<close>

theorem snapshot_is_maximum:
  "oom_of (collect_signals pods) name = newest (oom_times name (concat (map PodContainerStatuses pods)))
   \<and> restarts_of (collect_signals pods) name
       = Max (insert 0 (restart_counts name (concat (map PodContainerStatuses pods))))"
  by (simp add: collect_signals_concat oom_of_fold restarts_of_fold)

text \<open>
  Claim C13: a restart spike blocks downsizing in its own cycle and, when no other spike follows, in
  exactly the four cycles after it; the stored counter stays between 0 and 4.
\<close>

theorem restart_spike_pause:
  assumes "pause_ok n"
  shows "pause_run n (True # replicate k False) = True # map (\<lambda>i. i < 4) [0..<k]
     \<and> pause_ok (restartPauseAfterReconcile seen spike n)"
  using pause_run_quiet [of 4 k] restartPause_ok [OF assms]
  by (simp add: blockDownsize_def restartPauseAfterReconcile_def downsizePauseCyclesOnRestartSpike_def)

theorem restart_spike_pause_witness:
  "pause_run 0 (True # replicate 6 False) = [True, True, True, True, True, False, False]"
  using restart_spike_pause [of 0 6 False False] by (simp add: pause_ok_def downsizePauseCyclesOnRestartSpike_def upt_rec)



text \<open>
  An observation overwrites the stored time even when it is older: a kill seen 2 minutes ago is
  forgotten when the next snapshot reports only one from 11 minutes ago.
\<close>

theorem older_observation_drops_protection:
  "fst (persistedLastOOMKill (20 * minute_ns) ''app'' (Some (9 * minute_ns)) (Some [(''app'', Some (18 * minute_ns))])) = None
   \<and> fst (persistedLastOOMKill (20 * minute_ns) ''app'' None (Some [(''app'', Some (18 * minute_ns))])) = Some (18 * minute_ns)"
  by (simp add: persistedLastOOMKill_def oomProtectionWindow_def minute_ns_def second_ns_def time_sub_def)

end
