(* ===== verification/Safety.thy ===== *)
theory Safety
  imports Podsignals
begin

text \<open>
  \<open>internal/safety/safety.go\<close>: the rules between the engine and the cluster.  Alignment to whole
  MiB, the memory trend guard, the OOM override, the 90\% decrease floor or the hold under a
  restart pause, and the cooldown.  \<open>Safety_Apply\<close> runs them in the code's order.
\<close>

section \<open>Quantities\<close>

definition decreaseFloorRatio :: rat where "decreaseFloorRatio = 9 / 10"

definition memoryMib :: int where "memoryMib = 2 ^ 20"

definition ceilMiB :: "'q quantity_api \<Rightarrow> int \<Rightarrow> 'q" where
  "ceilMiB Q bytes =
     (if bytes \<le> 0 then NewQuantity Q 0 BinarySI
      else let n = wrap64 (wrap64 (bytes + memoryMib) - 1) sdiv memoryMib
           in NewQuantity Q (wrap64 (n * memoryMib)) BinarySI)"

definition floorMiB :: "'q quantity_api \<Rightarrow> int \<Rightarrow> 'q" where
  "floorMiB Q bytes =
     (if bytes \<le> 0 then NewQuantity Q 0 BinarySI
      else NewQuantity Q (wrap64 ((bytes sdiv memoryMib) * memoryMib)) BinarySI)"

definition memoryQtyAligned :: "'q quantity_api \<Rightarrow> int \<Rightarrow> bool \<Rightarrow> 'q" where
  "memoryQtyAligned Q bytes isLimit = (if isLimit then ceilMiB Q bytes else floorMiB Q bytes)"

text \<open>\<open>int64(math.Ceil(float64(c) * decreaseFloorRatio))\<close>\<close>

definition decrease_floor :: "int \<Rightarrow> int" where
  "decrease_floor c = int64_of_f64 (math_Ceil (fmul (f64_of_int c) (f64_const decreaseFloorRatio)))"

definition holdDecreaseCPU :: "'q quantity_api \<Rightarrow> 'q \<Rightarrow> 'q \<Rightarrow> 'q" where
  "holdDecreaseCPU Q newQ curQ =
     (if Cmp Q newQ curQ \<ge> 0 then newQ else if IsZero Q curQ then newQ else curQ)"

definition holdDecreaseMemory :: "'q quantity_api \<Rightarrow> 'q \<Rightarrow> 'q \<Rightarrow> bool \<Rightarrow> 'q" where
  "holdDecreaseMemory Q newQ curQ isLimit =
     (if Cmp Q newQ curQ \<ge> 0 then memoryQtyAligned Q (Value Q newQ) isLimit
      else if IsZero Q curQ then memoryQtyAligned Q (Value Q newQ) isLimit
      else memoryQtyAligned Q (Value Q curQ) isLimit)"

definition clampDecreaseCPU :: "'q quantity_api \<Rightarrow> 'q \<Rightarrow> 'q \<Rightarrow> 'q" where
  "clampDecreaseCPU Q newQ curQ =
     (if Cmp Q newQ curQ \<ge> 0 then newQ
      else if IsZero Q curQ then newQ
      else let nm = MilliValue Q newQ; cm = MilliValue Q curQ in
        if cm \<noteq> 0 \<or> nm \<noteq> 0 then
          let minM = decrease_floor cm
          in if nm < minM then NewMilliQuantity Q minM DecimalSI else newQ
        else
          let nv = Value Q newQ; cv = Value Q curQ; minV = decrease_floor cv
          in if nv < minV then NewQuantity Q minV (Format Q newQ) else newQ)"

definition clampDecreaseMemory :: "'q quantity_api \<Rightarrow> 'q \<Rightarrow> 'q \<Rightarrow> bool \<Rightarrow> 'q" where
  "clampDecreaseMemory Q newQ curQ isLimit =
     (if Cmp Q newQ curQ \<ge> 0 then memoryQtyAligned Q (Value Q newQ) isLimit
      else if IsZero Q curQ then memoryQtyAligned Q (Value Q newQ) isLimit
      else let nv = Value Q newQ; cv = Value Q curQ; minV = decrease_floor cv
           in if nv < minV then memoryQtyAligned Q minV isLimit else memoryQtyAligned Q nv isLimit)"

section \<open>Rationale notes\<close>

definition appendDecreaseStepNote :: "'q quantity_api \<Rightarrow> string \<Rightarrow> string \<Rightarrow> 'q \<Rightarrow> 'q \<Rightarrow> 'q \<Rightarrow> string" where
  "appendDecreaseStepNote Q rationale axis before after current =
     (if Cmp Q after before = 0 then rationale
      else let floorPercent = int64_of_f64 (math_Round (f64_const (decreaseFloorRatio * 100)))
           in rationale @ ''; safety: decrease_step '' @ axis @ '' '' @ QString Q before @ ''->'' @ QString Q after
                @ '' (floor '' @ itoa floorPercent @ ''% of current '' @ QString Q current @ '')'')"

definition appendPauseDownsizeNote :: "'q quantity_api \<Rightarrow> string \<Rightarrow> string \<Rightarrow> 'q \<Rightarrow> 'q \<Rightarrow> 'q \<Rightarrow> string" where
  "appendPauseDownsizeNote Q rationale axis before after current =
     (if Cmp Q after before = 0 then rationale
      else rationale @ ''; safety: pause_downsize '' @ axis @ '' '' @ QString Q before @ ''->'' @ QString Q after
             @ '' (hold at current '' @ QString Q current @ '')'')"

section \<open>The decrease clamps\<close>

text \<open>
  One field of one recommendation against the template's value \<open>c\<close> (\<open>None\<close> is a nil pointer).
\<close>

definition clamp_cpu :: "'q quantity_api \<Rightarrow> bool \<Rightarrow> string \<Rightarrow> string \<Rightarrow> 'q \<Rightarrow> 'q \<Rightarrow> 'q \<times> string" where
  "clamp_cpu Q hold axis rationale before c =
     (if hold then
        let after = holdDecreaseCPU Q before c
        in (after, appendPauseDownsizeNote Q rationale axis before after c)
      else
        let after = clampDecreaseCPU Q before c
        in (after, appendDecreaseStepNote Q rationale axis before after c))"

definition clamp_mem :: "'q quantity_api \<Rightarrow> bool \<Rightarrow> bool \<Rightarrow> string \<Rightarrow> string \<Rightarrow> 'q \<Rightarrow> 'q \<Rightarrow> 'q \<times> string" where
  "clamp_mem Q hold isLimit axis rationale before m =
     (if hold then
        let after = holdDecreaseMemory Q before m isLimit
        in (after, appendPauseDownsizeNote Q rationale axis before after m)
      else
        let after = clampDecreaseMemory Q before m isLimit
        in (after, appendDecreaseStepNote Q rationale axis before after m))"

definition clamp_requests :: "'q quantity_api \<Rightarrow> bool \<Rightarrow> bool \<Rightarrow> 'q ResourceList \<Rightarrow> 'q Recommendation \<Rightarrow> 'q Recommendation" where
  "clamp_requests Q hold skip reqs r =
     (let r1 = (case ListCpu Q reqs of None \<Rightarrow> r
                | Some c \<Rightarrow> (let (after, note) = clamp_cpu Q hold ''cpu_request'' (Rationale r) (CPURequest r) c
                            in r\<lparr>Rationale := note, CPURequest := after\<rparr>))
      in case ListMemory Q reqs of None \<Rightarrow> r1
         | Some m \<Rightarrow> if skip then r1
             else (let (after, note) = clamp_mem Q hold False ''memory_request'' (Rationale r1) (MemoryRequest r1) m
                   in r1\<lparr>Rationale := note, MemoryRequest := after\<rparr>))"

definition clamp_limits :: "'q quantity_api \<Rightarrow> bool \<Rightarrow> bool \<Rightarrow> 'q ResourceList \<Rightarrow> 'q Recommendation \<Rightarrow> 'q Recommendation" where
  "clamp_limits Q hold skip lims r =
     (let r1 = (case ListCpu Q lims of None \<Rightarrow> r
                | Some c \<Rightarrow> (let (after, note) = clamp_cpu Q hold ''cpu_limit'' (Rationale r) (CPULimit r) c
                            in r\<lparr>Rationale := note, CPULimit := after\<rparr>))
      in case ListMemory Q lims of None \<Rightarrow> r1
         | Some m \<Rightarrow> if skip then r1
             else (let (after, note) = clamp_mem Q hold True ''memory_limit'' (Rationale r1) (MemoryLimit r1) m
                   in r1\<lparr>Rationale := note, MemoryLimit := after\<rparr>))"

definition clamp_one :: "'q quantity_api \<Rightarrow> (string \<rightharpoonup> 'q ResourceRequirements) \<Rightarrow> (string \<rightharpoonup> bool) \<Rightarrow> bool
    \<Rightarrow> 'q Recommendation \<Rightarrow> 'q Recommendation" where
  "clamp_one Q current skipMem hold r =
     (case current (ContainerName r) of
        None \<Rightarrow> r
      | Some cur \<Rightarrow>
          let skip = (skipMem (ContainerName r) = Some True);
              r1 = (case Requests cur of None \<Rightarrow> r | Some reqs \<Rightarrow> clamp_requests Q hold skip reqs r)
          in (case Limits cur of None \<Rightarrow> r1 | Some lims \<Rightarrow> clamp_limits Q hold skip lims r1))"

definition applyDecreaseClamps :: "'q quantity_api \<Rightarrow> (string \<rightharpoonup> 'q ResourceRequirements) \<Rightarrow> (string \<rightharpoonup> bool) \<Rightarrow> bool
    \<Rightarrow> 'q Recommendation list \<Rightarrow> 'q Recommendation list" where
  "applyDecreaseClamps Q current skipMem hold out = map (clamp_one Q current skipMem hold) out"

section \<open>The rules in order\<close>

definition align_memory :: "'q quantity_api \<Rightarrow> 'q Recommendation \<Rightarrow> 'q Recommendation" where
  "align_memory Q r = r\<lparr>MemoryLimit := ceilMiB Q (Value Q (MemoryLimit r)),
                        MemoryRequest := floorMiB Q (Value Q (MemoryRequest r))\<rparr>"

text \<open>The trend loop: the map of skipped containers and the rationale grow together.\<close>

fun trend_container :: "ProfileContainerStatus list \<Rightarrow> (string \<rightharpoonup> bool) \<Rightarrow> 'q Recommendation
    \<Rightarrow> (string \<rightharpoonup> bool) \<times> 'q Recommendation" where
  "trend_container [] skip r = (skip, r)"
| "trend_container (c # cs) skip r =
     (if StatusName c = ContainerName r \<and> SlopePositive (Memory (Stats c))
      then trend_container cs (skip(ContainerName r \<mapsto> True))
             (r\<lparr>Rationale := Rationale r @ ''; trend_guard: memory slope positive''\<rparr>)
      else trend_container cs skip r)"

fun trend_loop :: "ProfileContainerStatus list \<Rightarrow> (string \<rightharpoonup> bool) \<Rightarrow> 'q Recommendation list
    \<Rightarrow> (string \<rightharpoonup> bool) \<times> 'q Recommendation list" where
  "trend_loop cs skip [] = (skip, [])"
| "trend_loop cs skip (r # rs) =
     (let (skip1, r1) = trend_container cs skip r;
          (skip2, rs2) = trend_loop cs skip1 rs
      in (skip2, r1 # rs2))"

definition recent_oom :: "gotime \<Rightarrow> gotime \<Rightarrow> bool" where
  "recent_oom now t \<longleftrightarrow> time_sub now t < 10 * minute_ns"

definition oom_override :: "'q quantity_api \<Rightarrow> Snapshot \<Rightarrow> gotime \<Rightarrow> 'q Recommendation \<Rightarrow> 'q Recommendation" where
  "oom_override Q sig now r =
     (case oom_of sig (ContainerName r) of
        None \<Rightarrow> r
      | Some t \<Rightarrow>
          if recent_oom now t then
            let nv = int64_of_f64 (math_Ceil (fmul (f64_of_int (Value Q (MemoryLimit r))) (f64_const (15 / 10))))
            in r\<lparr>MemoryLimit := ceilMiB Q nv, Rationale := Rationale r @ ''; override: OOMKill recent''\<rparr>
          else r)"

record 'q SafetyResult =
  ResRecommendations :: "'q Recommendation list"
  ShouldPatch :: bool
  SkipMemory :: "string \<rightharpoonup> bool"

definition cooldown_ns :: "'q WorkloadProfileSpec \<Rightarrow> int" where
  "cooldown_ns spec = wrap64 (Cooldown spec * minute_ns)"

definition should_patch :: "'q WorkloadProfile \<Rightarrow> Snapshot \<Rightarrow> gotime \<Rightarrow> bool" where
  "should_patch profile sig now =
     (let shouldPatch = (case LastApplied (Status profile) of None \<Rightarrow> True
                         | Some t \<Rightarrow> time_sub now t \<ge> cooldown_ns (Spec profile))
      in if list_ex (\<lambda>(_, t). case t of None \<Rightarrow> False | Some k \<Rightarrow> recent_oom now k) (LastOOMKill sig)
         then True else shouldPatch)"

definition Safety_Apply :: "'q quantity_api \<Rightarrow> 'q WorkloadProfile \<Rightarrow> 'q Recommendation list
    \<Rightarrow> (string \<rightharpoonup> 'q ResourceRequirements) \<Rightarrow> Snapshot \<Rightarrow> gotime \<Rightarrow> bool \<Rightarrow> 'q SafetyResult" where
  "Safety_Apply Q profile base current sig now hold =
     (let out1 = map (align_memory Q) base;
          (skipMem, out2) = trend_loop (Containers (Status profile)) Map.empty out1;
          out3 = map (oom_override Q sig now) out2;
          out4 = applyDecreaseClamps Q current skipMem hold out3
      in \<lparr>ResRecommendations = out4, ShouldPatch = should_patch profile sig now, SkipMemory = skipMem\<rparr>)"

section \<open>The decrease floor in integers\<close>

lemma rnd64_09: "rnd64 (9 / 10) = 8106479329266893 / 9007199254740992"
  by code_simp

lemma f64_const_09: "f64_const (9 / 10) = Fin (rnd64 (9 / 10))"
  using to_f64_small [of "9 / 10" 1] by (simp add: f64_const_def)

lemma f64_const_15: "f64_const (15 / 10) = Fin (3 / 2)"
proof -
  have "rnd64 (3 / 2) = 3 / 2" by code_simp
  then show ?thesis using to_f64_small [of "15 / 10" 2] by (simp add: f64_const_def)
qed

lemma ceiling_div_int: "0 < b \<Longrightarrow> \<lceil>of_int a / of_int b :: rat\<rceil> = (a + (b - 1)) div b" for a b :: int
proof -
  assume b: "0 < b"
  define q where "q = (a + (b - 1)) div b"
  have "b * q \<le> a + (b - 1)" "a + (b - 1) < b * q + b"
    using b mult_div_mod_eq [of b "a + (b - 1)"] pos_mod_bound [of b "a + (b - 1)"] pos_mod_sign [of b "a + (b - 1)"]
    unfolding q_def by linarith+
  then have "b * (q - 1) < a" "a \<le> b * q" by (simp_all add: right_diff_distrib)
  then have "(of_int (b * (q - 1)) :: rat) < of_int a" "(of_int a :: rat) \<le> of_int (b * q)"
    by (simp_all only: of_int_less_iff of_int_le_iff)
  then have "\<lceil>of_int a / of_int b :: rat\<rceil> = q"
    using b by (intro ceiling_unique) (simp_all add: field_simps)
  then show ?thesis by (simp only: q_def)
qed

lemma scaled_ceiling_int64:
  assumes n: "0 \<le> n" and ab: "1 \<le> a" "1 \<le> b" "a \<le> 2 * b" "b \<le> 2 ^ 20" and small: "n * a < 2 ^ 52" "n \<le> 2 ^ 50"
    and c: "\<bar>c - of_int a / of_int b\<bar> \<le> of_int a / of_int b / 2 ^ 55"
  shows "int64_of_f64 (math_Ceil (fmul (f64_of_int n) (Fin c))) = (n * a + (b - 1)) div b"
proof -
  have fn: "f64_of_int n = Fin (of_int n)" using n small by (intro f64_of_int_exact) auto
  have "of_int a / of_int b \<le> (2::rat)" using ab by (simp add: field_simps)
  then have "\<bar>c\<bar> \<le> 4" using c abs_diff_le [OF c] ab by simp
  then have "\<bar>of_int n * c\<bar> \<le> of_int n * 4" using n by (simp add: abs_mult mult_left_mono)
  then have "to_f64 (of_int n * c) = Fin (rnd64 (of_int n * c))"
    using small n by (intro to_f64_small [of _ "n * 4"]) auto
  moreover have "\<lceil>rnd64 (of_int n * c)\<rceil> = (n * a + (b - 1)) div b"
    using binary64.scaled_ceiling [OF n ab(1,2,4) small(1) c] ceiling_div_int [of b "n * a"] ab by simp
  moreover have "is_i64 ((n * a + (b - 1)) div b)"
  proof -
    have p: "0 \<le> n * a" using n ab by simp
    have "(n * a + (b - 1)) div b \<le> n * a + (b - 1)"
      using zdiv_mono2 [of "n * a + (b - 1)" 1 b] p ab by simp
    then have "(n * a + (b - 1)) div b < 2 ^ 63" using small ab by simp
    moreover have "0 \<le> (n * a + (b - 1)) div b" using p ab by (simp add: pos_imp_zdiv_nonneg_iff)
    ultimately show ?thesis by (simp add: is_i64_def)
  qed
  ultimately show ?thesis by (simp add: fn)
qed

lemma decrease_floor_int: "0 \<le> c \<Longrightarrow> c \<le> 2 ^ 48 \<Longrightarrow> decrease_floor c = (9 * c + 9) div 10"
  unfolding decrease_floor_def decreaseFloorRatio_def f64_const_09
  by (subst scaled_ceiling_int64 [of c 9 10]) (auto simp: rnd64_09 mult.commute)

lemma oom_scale_int:
  "0 \<le> v \<Longrightarrow> v \<le> 2 ^ 50 \<Longrightarrow>
     int64_of_f64 (math_Ceil (fmul (f64_of_int v) (f64_const (15 / 10)))) = (3 * v + 1) div 2"
  unfolding f64_const_15 by (subst scaled_ceiling_int64 [of v 3 2]) (auto simp: mult.commute)

section \<open>Facts under the quantity contract\<close>

text \<open>The MiB grid, and the ranges in which nothing overflows or loses precision.\<close>

definition mib_up :: "int \<Rightarrow> int" where
  "mib_up v = (v + (2 ^ 20 - 1)) div 2 ^ 20 * 2 ^ 20"

definition mib_down :: "int \<Rightarrow> int" where
  "mib_down v = v div 2 ^ 20 * 2 ^ 20"

lemma grid_bounds: "0 < m \<Longrightarrow> v div m * m \<le> v \<and> v < v div m * m + m" for v m :: int
  using div_mult_mod_eq [of v m] pos_mod_bound [of m v] pos_mod_sign [of m v] by linarith

lemma mib_up_bounds: "v \<le> mib_up v \<and> mib_up v < v + 2 ^ 20"
  using grid_bounds [of "2 ^ 20" "v + (2 ^ 20 - 1)"] by (simp add: mib_up_def)

lemma mib_down_bounds: "mib_down v \<le> v \<and> v < mib_down v + 2 ^ 20"
  using grid_bounds [of "2 ^ 20" v] by (simp add: mib_down_def)

lemma mib_up_nonneg: "0 \<le> v \<Longrightarrow> 0 \<le> mib_up v"
  using mib_up_bounds [of v] by linarith

lemma mib_down_nonneg: "0 \<le> v \<Longrightarrow> 0 \<le> mib_down v"
  by (simp add: mib_down_def pos_imp_zdiv_nonneg_iff)

lemma mib_up_mono: "v \<le> w \<Longrightarrow> mib_up v \<le> mib_up w"
  unfolding mib_up_def by (intro mult_right_mono zdiv_mono1) auto

lemma mib_down_mono: "v \<le> w \<Longrightarrow> mib_down v \<le> mib_down w"
  unfolding mib_down_def by (intro mult_right_mono zdiv_mono1) auto

lemma mib_dvd: "2 ^ 20 dvd mib_up v" "2 ^ 20 dvd mib_down v"
  by (simp_all add: mib_up_def mib_down_def)

lemma mib_down_id: "2 ^ 20 dvd v \<Longrightarrow> mib_down v = v"
  by (simp add: mib_down_def)

definition cpu_range :: "rat \<Rightarrow> bool" where
  "cpu_range a \<longleftrightarrow> 0 \<le> a \<and> a * 1000 \<le> 2 ^ 48"

definition mem_range :: "rat \<Rightarrow> bool" where
  "mem_range a \<longleftrightarrow> 0 \<le> a \<and> a \<le> 2 ^ 48"

definition aligned :: "bool \<Rightarrow> int \<Rightarrow> int" where
  "aligned isLimit v = (if isLimit then mib_up v else mib_down v)"

lemma aligned_bounds: "v - 2 ^ 20 < aligned isLimit v \<and> aligned isLimit v < v + 2 ^ 20"
  using mib_up_bounds [of v] mib_down_bounds [of v] by (auto simp: aligned_def)

lemma aligned_nonneg: "0 \<le> v \<Longrightarrow> 0 \<le> aligned isLimit v"
  by (simp add: aligned_def mib_up_nonneg mib_down_nonneg)

lemma aligned_dvd: "2 ^ 20 dvd aligned isLimit v"
  by (simp only: aligned_def mib_dvd split: if_split) simp

lemma aligned_mono: "v \<le> w \<Longrightarrow> aligned isLimit v \<le> aligned isLimit w"
  by (simp add: aligned_def mib_up_mono mib_down_mono)

context quantity
begin

lemma amount_ceilMiB: "0 \<le> v \<Longrightarrow> v \<le> 2 ^ 62 \<Longrightarrow> amount (ceilMiB Q v) = of_int (mib_up v)"
proof (cases "v = 0")
  case False
  assume v: "0 \<le> v" "v \<le> 2 ^ 62"
  have b: "0 \<le> mib_up v" "mib_up v < v + 2 ^ 20" using v mib_up_bounds [of v] by auto
  have "wrap64 (wrap64 (v + memoryMib) - 1) = v + (2 ^ 20 - 1)"
    using v by (simp add: wrap64_id is_i64_def memoryMib_def)
  moreover have "wrap64 (mib_up v) = mib_up v" using b v by (intro wrap64_id) (simp add: is_i64_def)
  ultimately show ?thesis
    using v False b by (simp add: ceilMiB_def Let_def sdiv_nonneg memoryMib_def mib_up_def amount_New is_i64_def)
qed (simp add: ceilMiB_def amount_New is_i64_def mib_up_def)

lemma amount_floorMiB: "0 \<le> v \<Longrightarrow> v \<le> 2 ^ 62 \<Longrightarrow> amount (floorMiB Q v) = of_int (mib_down v)"
proof (cases "v = 0")
  case False
  assume v: "0 \<le> v" "v \<le> 2 ^ 62"
  have b: "0 \<le> mib_down v" "mib_down v \<le> v" using v mib_down_bounds [of v] mib_down_nonneg by auto
  have "wrap64 (mib_down v) = mib_down v" using b v by (intro wrap64_id) (simp add: is_i64_def)
  then show ?thesis
    using v False b by (simp add: floorMiB_def sdiv_nonneg memoryMib_def mib_down_def amount_New is_i64_def)
qed (simp add: floorMiB_def amount_New is_i64_def mib_down_def)

lemma amount_aligned: "0 \<le> v \<Longrightarrow> v \<le> 2 ^ 62 \<Longrightarrow> amount (memoryQtyAligned Q v isLimit) = of_int (aligned isLimit v)"
  by (simp add: memoryQtyAligned_def aligned_def amount_ceilMiB amount_floorMiB)

lemma mem_Value:
  assumes "mem_range (amount q)"
  shows "0 \<le> Value Q q" "Value Q q \<le> 2 ^ 48" "Value Q q = \<lceil>amount q\<rceil>"
proof -
  have r: "0 \<le> amount q" "amount q \<le> of_int (2 ^ 48)" using assms by (simp_all add: mem_range_def)
  then have "amount q \<le> of_int max_i64" by (elim order_trans) (simp add: max_i64_def)
  then show v: "Value Q q = \<lceil>amount q\<rceil>" using r by (simp add: Value_ceil)
  show "0 \<le> Value Q q" "Value Q q \<le> 2 ^ 48" using r by (simp_all only: v ceiling_le_iff) (simp add: zero_le_ceiling)
qed

lemma cpu_MilliValue:
  assumes "cpu_range (amount q)"
  shows "0 \<le> MilliValue Q q" "MilliValue Q q \<le> 2 ^ 48" "MilliValue Q q = \<lceil>amount q * 1000\<rceil>"
proof -
  have r: "0 \<le> amount q" "amount q * 1000 \<le> of_int (2 ^ 48)" using assms by (simp_all add: cpu_range_def)
  then have "amount q * 1000 \<le> of_int max_i64" by (elim order_trans) (simp add: max_i64_def)
  then show v: "MilliValue Q q = \<lceil>amount q * 1000\<rceil>" using r by (simp add: MilliValue_ceil)
  have "0 \<le> amount q * 1000" using r by simp
  then show "0 \<le> MilliValue Q q" "MilliValue Q q \<le> 2 ^ 48"
    using r by (simp_all only: v ceiling_le_iff) (simp add: zero_le_ceiling)
qed


lemma MilliValue_clampDecreaseCPU:
  assumes "0 \<le> amount n" "amount n * 1000 \<le> 2 ^ 50" and c: "cpu_range (amount c)"
  shows "MilliValue Q (clampDecreaseCPU Q n c) = max (MilliValue Q n) ((9 * MilliValue Q c + 9) div 10)"
proof -
  note cm = cpu_MilliValue [OF c]
  have nb: "amount n * 1000 \<le> of_int max_i64" using assms(2) by (simp add: max_i64_def)
  have nm: "MilliValue Q n = \<lceil>amount n * 1000\<rceil>" "0 \<le> MilliValue Q n"
    using assms nb by (simp_all add: MilliValue_ceil zero_le_ceiling)
  have fl: "decrease_floor (MilliValue Q c) = (9 * MilliValue Q c + 9) div 10"
    using cm by (intro decrease_floor_int)
  show ?thesis
  proof (cases "amount c \<le> amount n \<or> amount c = 0")
    case True
    have "MilliValue Q c \<le> MilliValue Q n"
    proof (cases "amount c \<le> amount n")
      case True
      then show ?thesis using c assms nb by (intro MilliValue_mono) (simp_all add: cpu_range_def)
    next
      case False
      with True have "MilliValue Q c = 0" using cm by simp
      then show ?thesis using nm by simp
    qed
    moreover have "(9 * MilliValue Q c + 9) div 10 \<le> MilliValue Q c" using cm by presburger
    ultimately have "max (MilliValue Q n) ((9 * MilliValue Q c + 9) div 10) = MilliValue Q n" by simp
    with True show ?thesis by (auto simp: clampDecreaseCPU_def qty_simps)
  next
    case False
    then have "0 < amount c" using c by (simp add: cpu_range_def)
    then have pos: "0 < MilliValue Q c" by (simp add: cm(3))
    have "MilliValue Q (NewMilliQuantity Q ((9 * MilliValue Q c + 9) div 10) DecimalSI) = (9 * MilliValue Q c + 9) div 10"
      using cm(1,2) by (intro MilliValue_NewMilli) (simp_all add: max_i64_def)
    with False pos show ?thesis by (auto simp: clampDecreaseCPU_def qty_simps fl Let_def max_def)
  qed
qed

lemma MilliValue_holdDecreaseCPU:
  assumes "0 \<le> amount n" "amount n * 1000 \<le> 2 ^ 50" and c: "cpu_range (amount c)"
  shows "MilliValue Q (holdDecreaseCPU Q n c) = max (MilliValue Q n) (MilliValue Q c)"
proof -
  have nb: "amount n * 1000 \<le> of_int max_i64" using assms(2) by (simp add: max_i64_def)
  have cb: "amount c * 1000 \<le> of_int max_i64" using c by (simp add: cpu_range_def max_i64_def)
  show ?thesis
  proof (cases "amount c \<le> amount n")
    case True
    then have "MilliValue Q c \<le> MilliValue Q n" using c nb by (intro MilliValue_mono) (simp_all add: cpu_range_def)
    with True show ?thesis by (simp add: holdDecreaseCPU_def qty_simps)
  next
    case False
    then have "amount c \<noteq> 0" "amount n \<le> amount c" using assms(1) by auto
    moreover from this have "MilliValue Q n \<le> MilliValue Q c" using assms cb by (intro MilliValue_mono)
    ultimately show ?thesis using False by (simp add: holdDecreaseCPU_def qty_simps)
  qed
qed

lemma Value_range: "0 \<le> amount q \<Longrightarrow> amount q \<le> 2 ^ 50 \<Longrightarrow> 0 \<le> Value Q q \<and> Value Q q \<le> 2 ^ 50"
proof -
  assume r: "0 \<le> amount q" "amount q \<le> 2 ^ 50"
  then have v: "Value Q q = \<lceil>amount q\<rceil>" by (intro Value_ceil) (simp_all add: max_i64_def)
  have "0 \<le> \<lceil>amount q\<rceil>" using r by (simp add: zero_le_ceiling)
  moreover have "\<lceil>amount q\<rceil> \<le> 2 ^ 50" using r by (simp only: ceiling_le_iff) simp
  ultimately show ?thesis by (simp only: v)
qed

lemma Value_aligned:
  assumes "0 \<le> v" "v \<le> 2 ^ 50"
  shows "Value Q (memoryQtyAligned Q v isLimit) = aligned isLimit v"
proof -
  have a: "amount (memoryQtyAligned Q v isLimit) = of_int (aligned isLimit v)" using assms by (intro amount_aligned) auto
  have "0 \<le> aligned isLimit v" "aligned isLimit v \<le> max_i64"
    using aligned_nonneg [OF assms(1), of isLimit] aligned_bounds [of v isLimit] assms by (auto simp: max_i64_def)
  then show ?thesis by (subst Value_ceil) (simp_all add: a)
qed

lemma Value_le_when_amount_le:
  "0 \<le> amount a \<Longrightarrow> amount a \<le> amount b \<Longrightarrow> amount b \<le> 2 ^ 50 \<Longrightarrow> Value Q a \<le> Value Q b"
  by (rule Value_mono) (simp_all add: max_i64_def)

lemma Value_clampDecreaseMemory:
  assumes n: "0 \<le> amount n" "amount n \<le> 2 ^ 50" and c: "mem_range (amount c)"
  shows "Value Q (clampDecreaseMemory Q n c isLimit)
           = aligned isLimit (max (Value Q n) ((9 * Value Q c + 9) div 10))"
proof -
  note cm = mem_Value [OF c]
  note vn = Value_range [OF n]
  have fl: "decrease_floor (Value Q c) = (9 * Value Q c + 9) div 10" using cm by (intro decrease_floor_int)
  have flr: "0 \<le> (9 * Value Q c + 9) div 10" "(9 * Value Q c + 9) div 10 \<le> 2 ^ 50" "(9 * Value Q c + 9) div 10 \<le> Value Q c"
    using cm(1,2) by simp_all
  show ?thesis
  proof (cases "amount c \<le> amount n \<or> amount c = 0")
    case True
    have "Value Q c \<le> Value Q n"
    proof (cases "amount c \<le> amount n")
      case True
      then show ?thesis using c n by (intro Value_le_when_amount_le) (simp_all add: mem_range_def)
    next
      case False
      with True have "Value Q c = 0" using cm by simp
      then show ?thesis using vn by simp
    qed
    with flr have "max (Value Q n) ((9 * Value Q c + 9) div 10) = Value Q n" by simp
    with True vn show ?thesis by (auto simp: clampDecreaseMemory_def qty_simps Value_aligned)
  next
    case False
    with vn flr show ?thesis by (auto simp: clampDecreaseMemory_def qty_simps Value_aligned max_def fl Let_def)
  qed
qed

lemma Value_holdDecreaseMemory:
  assumes n: "0 \<le> amount n" "amount n \<le> 2 ^ 50" and c: "mem_range (amount c)"
  shows "Value Q (holdDecreaseMemory Q n c isLimit) = aligned isLimit (max (Value Q n) (Value Q c))"
proof -
  note cm = mem_Value [OF c]
  note vn = Value_range [OF n]
  have c50: "0 \<le> amount c" "amount c \<le> 2 ^ 50" using c by (auto simp: mem_range_def)
  show ?thesis
  proof (cases "amount c \<le> amount n")
    case True
    then have "Value Q c \<le> Value Q n" using c50 n by (intro Value_le_when_amount_le)
    with True vn show ?thesis by (simp add: holdDecreaseMemory_def qty_simps Value_aligned)
  next
    case False
    then have "amount c \<noteq> 0" "Value Q n \<le> Value Q c" using n c50 by (auto intro!: Value_le_when_amount_le)
    with False cm vn show ?thesis by (simp add: holdDecreaseMemory_def qty_simps Value_aligned)
  qed
qed

end

end
