(* ===== verification/Safety_Spec.thy ===== *)
theory Safety_Spec
  imports Safety
begin

text \<open>
  What \<open>Safety_Apply\<close> guarantees: an abstract specification of the rules on integers (millicores and
  bytes), the proof that the code's chain of alignment, trend guard, OOM override and clamps
  implements it, and the guarantees that follow.
\<close>

section \<open>The abstract specification\<close>

text \<open>
  What the rules promise, on the integers the code compares: millicores and bytes.  A clamp is the
  maximum of the recommendation and a floor; memory is put on the MiB grid afterwards.
\<close>

record rec_view =
  vCPUReq :: int
  vCPULim :: int
  vMemReq :: int
  vMemLim :: int

definition view :: "'q quantity_api \<Rightarrow> 'q Recommendation \<Rightarrow> rec_view" where
  "view Q r = \<lparr>vCPUReq = MilliValue Q (CPURequest r), vCPULim = MilliValue Q (CPULimit r),
               vMemReq = Value Q (MemoryRequest r), vMemLim = Value Q (MemoryLimit r)\<rparr>"

definition floor_of :: "bool \<Rightarrow> int \<Rightarrow> int" where
  "floor_of hold c = (if hold then c else (9 * c + 9) div 10)"

text \<open>The template's values: \<open>None\<close> where the code has no value to compare with.\<close>

definition cur_milli :: "'q quantity_api \<Rightarrow> 'q ResourceList option \<Rightarrow> int option" where
  "cur_milli Q rl = (case rl of None \<Rightarrow> None | Some l \<Rightarrow> map_option (MilliValue Q) (ListCpu Q l))"

definition cur_bytes :: "'q quantity_api \<Rightarrow> 'q ResourceList option \<Rightarrow> int option" where
  "cur_bytes Q rl = (case rl of None \<Rightarrow> None | Some l \<Rightarrow> map_option (Value Q) (ListMemory Q l))"

definition spec_cpu :: "bool \<Rightarrow> int option \<Rightarrow> int \<Rightarrow> int" where
  "spec_cpu hold c n = (case c of None \<Rightarrow> n | Some m \<Rightarrow> max n (floor_of hold m))"

definition spec_mem :: "bool \<Rightarrow> bool \<Rightarrow> bool \<Rightarrow> int option \<Rightarrow> int \<Rightarrow> int" where
  "spec_mem hold skip isLimit c n =
     (case c of None \<Rightarrow> n | Some m \<Rightarrow> if skip then n else aligned isLimit (max n (floor_of hold m)))"

definition spec_oom :: "bool \<Rightarrow> int \<Rightarrow> int" where
  "spec_oom oom v = (if oom then mib_up ((3 * v + 1) div 2) else v)"

definition spec_safety :: "'q quantity_api \<Rightarrow> bool \<Rightarrow> bool \<Rightarrow> bool \<Rightarrow> 'q ResourceRequirements option \<Rightarrow> rec_view \<Rightarrow> rec_view" where
  "spec_safety Q hold skip oom cur v =
     (let reqs = (case cur of None \<Rightarrow> None | Some c \<Rightarrow> Requests c);
          lims = (case cur of None \<Rightarrow> None | Some c \<Rightarrow> Limits c)
      in \<lparr>vCPUReq = spec_cpu hold (cur_milli Q reqs) (vCPUReq v),
          vCPULim = spec_cpu hold (cur_milli Q lims) (vCPULim v),
          vMemReq = spec_mem hold skip False (cur_bytes Q reqs) (mib_down (vMemReq v)),
          vMemLim = spec_mem hold skip True (cur_bytes Q lims) (spec_oom oom (mib_up (vMemLim v)))\<rparr>)"

definition rec_range :: "('q \<Rightarrow> rat) \<Rightarrow> 'q Recommendation \<Rightarrow> bool" where
  "rec_range amount r \<longleftrightarrow> cpu_range (amount (CPURequest r)) \<and> cpu_range (amount (CPULimit r))
     \<and> mem_range (amount (MemoryRequest r)) \<and> mem_range (amount (MemoryLimit r))"

definition list_range :: "'q quantity_api \<Rightarrow> ('q \<Rightarrow> rat) \<Rightarrow> 'q ResourceList option \<Rightarrow> bool" where
  "list_range Q amount rl \<longleftrightarrow> (case rl of None \<Rightarrow> True | Some l \<Rightarrow>
     (case ListCpu Q l of None \<Rightarrow> True | Some c \<Rightarrow> cpu_range (amount c)) \<and>
     (case ListMemory Q l of None \<Rightarrow> True | Some m \<Rightarrow> mem_range (amount m)))"

definition cur_range :: "'q quantity_api \<Rightarrow> ('q \<Rightarrow> rat) \<Rightarrow> 'q ResourceRequirements option \<Rightarrow> bool" where
  "cur_range Q amount cur \<longleftrightarrow> (case cur of None \<Rightarrow> True | Some c \<Rightarrow>
     list_range Q amount (Requests c) \<and> list_range Q amount (Limits c))"

definition has_recent_oom :: "Snapshot \<Rightarrow> gotime \<Rightarrow> string \<Rightarrow> bool" where
  "has_recent_oom sig now n = (case oom_of sig n of None \<Rightarrow> False | Some t \<Rightarrow> recent_oom now t)"

section \<open>Each rule implements its part of the specification\<close>

lemma trend_container_frame:
  "ContainerName (snd (trend_container cs skip r)) = ContainerName r \<and> view Q (snd (trend_container cs skip r)) = view Q r
   \<and> CPURequest (snd (trend_container cs skip r)) = CPURequest r \<and> CPULimit (snd (trend_container cs skip r)) = CPULimit r
   \<and> MemoryRequest (snd (trend_container cs skip r)) = MemoryRequest r \<and> MemoryLimit (snd (trend_container cs skip r)) = MemoryLimit r"
  by (induction cs arbitrary: skip r) (simp_all add: view_def)

definition slope_up :: "ProfileContainerStatus list \<Rightarrow> string \<Rightarrow> bool" where
  "slope_up cs n = list_ex (\<lambda>c. StatusName c = n \<and> SlopePositive (Memory (Stats c))) cs"

lemma trend_container_skip:
  "fst (trend_container cs skip r) = (if slope_up cs (ContainerName r) then skip(ContainerName r \<mapsto> True) else skip)"
  by (induction cs arbitrary: skip r) (auto simp: slope_up_def)

lemma trend_loop_skip:
  "fst (trend_loop cs skip rs) n = (if n \<in> set (map ContainerName rs) \<and> slope_up cs n then Some True else skip n)"
  by (induction rs arbitrary: skip) (auto simp: split_def Let_def trend_container_skip)

definition only_rationale :: "'q Recommendation \<Rightarrow> 'q Recommendation \<Rightarrow> bool" where
  "only_rationale r r' \<longleftrightarrow> r'\<lparr>Rationale := Rationale r\<rparr> = r"

lemma only_rationaleD:
  "only_rationale r r' \<Longrightarrow> ContainerName r' = ContainerName r \<and> CPURequest r' = CPURequest r \<and> CPULimit r' = CPULimit r
     \<and> MemoryRequest r' = MemoryRequest r \<and> MemoryLimit r' = MemoryLimit r"
  by (cases r; cases r') (simp add: only_rationale_def)

lemma trend_container_only: "only_rationale r (snd (trend_container cs skip r))"
  using trend_container_frame [of cs skip r] by (cases r; cases "snd (trend_container cs skip r)") (simp add: only_rationale_def)

lemma trend_loop_only: "list_all2 only_rationale rs (snd (trend_loop cs skip rs))"
  by (induction rs arbitrary: skip) (auto simp: split_def Let_def trend_container_only)

lemma clamp_cpu_value: "fst (clamp_cpu Q hold axis rat b c) = (if hold then holdDecreaseCPU Q b c else clampDecreaseCPU Q b c)"
  by (simp add: clamp_cpu_def Let_def)

lemma clamp_mem_value:
  "fst (clamp_mem Q hold isLimit axis rat b m)
     = (if hold then holdDecreaseMemory Q b m isLimit else clampDecreaseMemory Q b m isLimit)"
  by (simp add: clamp_mem_def Let_def)

lemma clamp_requests_fields:
  "ContainerName (clamp_requests Q hold skip rl r) = ContainerName r"
  "CPULimit (clamp_requests Q hold skip rl r) = CPULimit r"
  "MemoryLimit (clamp_requests Q hold skip rl r) = MemoryLimit r"
  "CPURequest (clamp_requests Q hold skip rl r) = (case ListCpu Q rl of None \<Rightarrow> CPURequest r
     | Some c \<Rightarrow> if hold then holdDecreaseCPU Q (CPURequest r) c else clampDecreaseCPU Q (CPURequest r) c)"
  "MemoryRequest (clamp_requests Q hold skip rl r) = (case ListMemory Q rl of None \<Rightarrow> MemoryRequest r
     | Some m \<Rightarrow> if skip then MemoryRequest r else if hold then holdDecreaseMemory Q (MemoryRequest r) m False
                 else clampDecreaseMemory Q (MemoryRequest r) m False)"
  by (auto simp: clamp_requests_def clamp_cpu_def clamp_mem_def Let_def split: option.splits)

lemma clamp_limits_fields:
  "ContainerName (clamp_limits Q hold skip rl r) = ContainerName r"
  "CPURequest (clamp_limits Q hold skip rl r) = CPURequest r"
  "MemoryRequest (clamp_limits Q hold skip rl r) = MemoryRequest r"
  "CPULimit (clamp_limits Q hold skip rl r) = (case ListCpu Q rl of None \<Rightarrow> CPULimit r
     | Some c \<Rightarrow> if hold then holdDecreaseCPU Q (CPULimit r) c else clampDecreaseCPU Q (CPULimit r) c)"
  "MemoryLimit (clamp_limits Q hold skip rl r) = (case ListMemory Q rl of None \<Rightarrow> MemoryLimit r
     | Some m \<Rightarrow> if skip then MemoryLimit r else if hold then holdDecreaseMemory Q (MemoryLimit r) m True
                 else clampDecreaseMemory Q (MemoryLimit r) m True)"
  by (auto simp: clamp_limits_def clamp_cpu_def clamp_mem_def Let_def split: option.splits)

lemma clamp_one_name [simp]: "ContainerName (clamp_one Q current skipMem hold r) = ContainerName r"
  by (auto simp: clamp_one_def Let_def clamp_requests_fields clamp_limits_fields split: option.split)

lemma oom_override_fields:
  "ContainerName (oom_override Q sig now r) = ContainerName r"
  "CPURequest (oom_override Q sig now r) = CPURequest r"
  "CPULimit (oom_override Q sig now r) = CPULimit r"
  "MemoryRequest (oom_override Q sig now r) = MemoryRequest r"
  by (auto simp: oom_override_def Let_def split: option.split)

lemma oom_scale_int': "0 \<le> v \<Longrightarrow> v \<le> 2 ^ 50 \<Longrightarrow>
     int64_of_f64 (math_Ceil (fmul (f64_of_int v) (f64_const (3 / 2)))) = (3 * v + 1) div 2"
  using oom_scale_int [of v] by simp

lemma oom_override_limit:
  "MemoryLimit (oom_override Q sig now r) =
     (if has_recent_oom sig now (ContainerName r)
      then ceilMiB Q (int64_of_f64 (math_Ceil (fmul (f64_of_int (Value Q (MemoryLimit r))) (f64_const (15 / 10)))))
      else MemoryLimit r)"
  by (auto simp: oom_override_def has_recent_oom_def Let_def split: option.split)

lemma clamp_one_fields:
  assumes "current (ContainerName r) = Some cur"
  shows
    "CPURequest (clamp_one Q current skipMem hold r) = (case Requests cur of None \<Rightarrow> CPURequest r
       | Some rl \<Rightarrow> CPURequest (clamp_requests Q hold (skipMem (ContainerName r) = Some True) rl r))"
    "CPULimit (clamp_one Q current skipMem hold r) = (case Limits cur of None \<Rightarrow> CPULimit r
       | Some rl \<Rightarrow> CPULimit (clamp_limits Q hold (skipMem (ContainerName r) = Some True) rl r))"
    "MemoryRequest (clamp_one Q current skipMem hold r) = (case Requests cur of None \<Rightarrow> MemoryRequest r
       | Some rl \<Rightarrow> MemoryRequest (clamp_requests Q hold (skipMem (ContainerName r) = Some True) rl r))"
    "MemoryLimit (clamp_one Q current skipMem hold r) = (case Limits cur of None \<Rightarrow> MemoryLimit r
       | Some rl \<Rightarrow> MemoryLimit (clamp_limits Q hold (skipMem (ContainerName r) = Some True) rl r))"
  using assms by (auto simp: clamp_one_def Let_def clamp_requests_fields clamp_limits_fields split: option.split)

context quantity
begin

lemma view_clamp_cpu:
  assumes "cpu_range (amount n)" "list_range Q amount (Some rl)"
  shows "MilliValue Q (case ListCpu Q rl of None \<Rightarrow> n
           | Some c \<Rightarrow> if hold then holdDecreaseCPU Q n c else clampDecreaseCPU Q n c)
         = spec_cpu hold (cur_milli Q (Some rl)) (MilliValue Q n)"
proof -
  obtain c where c: "ListCpu Q rl = Some c" using ListCpu_spec [of rl] by auto
  then have "cpu_range (amount c)" using assms(2) by (auto simp: list_range_def split: option.splits)
  moreover have "0 \<le> amount n" "amount n * 1000 \<le> 2 ^ 50" using assms(1) by (auto simp: cpu_range_def)
  ultimately show ?thesis
    by (simp add: c spec_cpu_def cur_milli_def floor_of_def MilliValue_holdDecreaseCPU MilliValue_clampDecreaseCPU)
qed

lemma view_clamp_mem:
  assumes "0 \<le> amount n" "amount n \<le> 2 ^ 50" "list_range Q amount (Some rl)"
  shows "Value Q (case ListMemory Q rl of None \<Rightarrow> n
           | Some m \<Rightarrow> if skip then n else if hold then holdDecreaseMemory Q n m isLimit else clampDecreaseMemory Q n m isLimit)
         = spec_mem hold skip isLimit (cur_bytes Q (Some rl)) (Value Q n)"
proof -
  obtain m where m: "ListMemory Q rl = Some m" using ListMemory_spec [of rl] by auto
  then have "mem_range (amount m)" using assms(3) by (auto simp: list_range_def split: option.splits)
  with assms show ?thesis
    by (simp add: m spec_mem_def cur_bytes_def floor_of_def Value_holdDecreaseMemory Value_clampDecreaseMemory)
qed

lemma Value_ceilMiB: "0 \<le> v \<Longrightarrow> v \<le> 2 ^ 50 \<Longrightarrow> Value Q (ceilMiB Q v) = mib_up v"
  using Value_aligned [of v True] by (simp add: memoryQtyAligned_def aligned_def)

lemma Value_floorMiB: "0 \<le> v \<Longrightarrow> v \<le> 2 ^ 50 \<Longrightarrow> Value Q (floorMiB Q v) = mib_down v"
  using Value_aligned [of v False] by (simp add: memoryQtyAligned_def aligned_def)

lemma clamp_one_view:
  assumes cpu: "cpu_range (amount (CPURequest r))" "cpu_range (amount (CPULimit r))"
    and mem: "0 \<le> amount (MemoryRequest r)" "amount (MemoryRequest r) \<le> 2 ^ 50"
      "0 \<le> amount (MemoryLimit r)" "amount (MemoryLimit r) \<le> 2 ^ 50"
    and cur: "cur_range Q amount (current (ContainerName r))"
  defines "reqs \<equiv> (case current (ContainerName r) of None \<Rightarrow> None | Some c \<Rightarrow> Requests c)"
    and "lims \<equiv> (case current (ContainerName r) of None \<Rightarrow> None | Some c \<Rightarrow> Limits c)"
  shows "view Q (clamp_one Q current skipMem hold r) =
     \<lparr>vCPUReq = spec_cpu hold (cur_milli Q reqs) (MilliValue Q (CPURequest r)),
      vCPULim = spec_cpu hold (cur_milli Q lims) (MilliValue Q (CPULimit r)),
      vMemReq = spec_mem hold (skipMem (ContainerName r) = Some True) False (cur_bytes Q reqs) (Value Q (MemoryRequest r)),
      vMemLim = spec_mem hold (skipMem (ContainerName r) = Some True) True (cur_bytes Q lims) (Value Q (MemoryLimit r))\<rparr>"
proof (cases "current (ContainerName r)")
  case None
  then show ?thesis
    by (simp add: clamp_one_def view_def reqs_def lims_def spec_cpu_def spec_mem_def cur_milli_def cur_bytes_def)
next
  case (Some c)
  then have rng: "list_range Q amount (Requests c)" "list_range Q amount (Limits c)"
    using cur by (auto simp: cur_range_def)
  note f = clamp_one_fields [where current = current and r = r and cur = c, OF Some]
  have none: "spec_cpu hold (cur_milli Q None) v = v" "spec_mem hold skip b (cur_bytes Q None) v = v" for b skip v
    by (simp_all add: spec_cpu_def spec_mem_def cur_milli_def cur_bytes_def)
  show ?thesis
    using Some rng
    by (cases "Requests c"; cases "Limits c")
       (simp_all add: view_def f reqs_def lims_def clamp_requests_fields clamp_limits_fields none
          view_clamp_cpu [OF cpu(1)] view_clamp_cpu [OF cpu(2)] view_clamp_mem [OF mem(1,2)] view_clamp_mem [OF mem(3,4)])
qed

end

lemma Safety_Apply_nth:
  assumes i: "i < length base"
  obtains r where "only_rationale (align_memory Q (base ! i)) r"
    "ResRecommendations (Safety_Apply Q profile base current sig now hold) ! i
       = clamp_one Q current (SkipMemory (Safety_Apply Q profile base current sig now hold)) hold (oom_override Q sig now r)"
proof -
  obtain sk out2 where t: "trend_loop (Containers (Status profile)) Map.empty (map (align_memory Q) base) = (sk, out2)"
    by (cases "trend_loop (Containers (Status profile)) Map.empty (map (align_memory Q) base)")
  have l: "list_all2 only_rationale (map (align_memory Q) base) out2"
    using trend_loop_only [of "map (align_memory Q) base" "Containers (Status profile)" Map.empty] t by simp
  then have "length out2 = length base" by (simp add: list_all2_lengthD [symmetric])
  with l i t show ?thesis
    by (intro that [of "out2 ! i"]) (auto simp: list_all2_conv_all_nth Safety_Apply_def applyDecreaseClamps_def)
qed

lemma Safety_Apply_length:
  "length (ResRecommendations (Safety_Apply Q profile base current sig now hold)) = length base"
proof -
  have "length (snd (trend_loop cs sk rs)) = length rs" for cs sk and rs :: "'a Recommendation list"
    using trend_loop_only [of rs cs sk] by (simp add: list_all2_lengthD)
  then show ?thesis by (simp add: Safety_Apply_def split_def Let_def applyDecreaseClamps_def)
qed

lemma Safety_Apply_skip:
  "SkipMemory (Safety_Apply Q profile base current sig now hold) n = Some True
     \<longleftrightarrow> n \<in> set (map ContainerName base) \<and> slope_up (Containers (Status profile)) n"
  by (simp add: Safety_Apply_def split_def Let_def trend_loop_skip align_memory_def image_image comp_def)

context quantity
begin

lemma Safety_Apply_view:
  assumes i: "i < length base" and b: "rec_range amount (base ! i)"
    and cur: "cur_range Q amount (current (ContainerName (base ! i)))"
  defines "n \<equiv> ContainerName (base ! i)"
  shows "view Q (ResRecommendations (Safety_Apply Q profile base current sig now hold) ! i)
     = spec_safety Q hold (slope_up (Containers (Status profile)) n) (has_recent_oom sig now n) (current n) (view Q (base ! i))"
proof -
  let ?R = "Safety_Apply Q profile base current sig now hold"
  obtain r where r: "only_rationale (align_memory Q (base ! i)) r"
    and res: "ResRecommendations ?R ! i = clamp_one Q current (SkipMemory ?R) hold (oom_override Q sig now r)"
    using Safety_Apply_nth [OF i] .
  note rf = only_rationaleD [OF r, unfolded align_memory_def, simplified]
  let ?o = "oom_override Q sig now r"
  have nm: "ContainerName ?o = n" using rf by (simp add: oom_override_fields n_def)
  have skip: "(SkipMemory ?R n = Some True) = slope_up (Containers (Status profile)) n"
    using i by (auto simp: Safety_Apply_skip n_def)
  note ml = mem_Value [of "MemoryLimit (base ! i)"] and mr = mem_Value [of "MemoryRequest (base ! i)"]
  have rng: "mem_range (amount (MemoryLimit (base ! i)))" "mem_range (amount (MemoryRequest (base ! i)))"
    using b by (simp_all add: rec_range_def)
  let ?l = "Value Q (MemoryLimit (base ! i))" and ?q = "Value Q (MemoryRequest (base ! i))"
  have l: "0 \<le> ?l" "?l \<le> 2 ^ 48" and q: "0 \<le> ?q" "?q \<le> 2 ^ 48" using rng ml mr by auto
  have lu: "0 \<le> mib_up ?l" "mib_up ?l \<le> 2 ^ 48 + 2 ^ 20" using mib_up_bounds [of ?l] l by auto
  have sc: "0 \<le> (3 * mib_up ?l + 1) div 2" "(3 * mib_up ?l + 1) div 2 \<le> 2 ^ 49"
    using lu by simp_all
  have su: "0 \<le> mib_up ((3 * mib_up ?l + 1) div 2)" "mib_up ((3 * mib_up ?l + 1) div 2) \<le> 2 ^ 50"
    using mib_up_bounds [of "(3 * mib_up ?l + 1) div 2"] sc by auto
  have qd: "0 \<le> mib_down ?q" "mib_down ?q \<le> 2 ^ 48" using mib_down_bounds [of ?q] mib_down_nonneg q by auto
  have vl: "Value Q (MemoryLimit r) = mib_up ?l" "amount (MemoryLimit r) = of_int (mib_up ?l)"
    using l by (simp_all add: rf Value_ceilMiB amount_ceilMiB)
  have vq: "Value Q (MemoryRequest ?o) = mib_down ?q" "amount (MemoryRequest ?o) = of_int (mib_down ?q)"
    using q by (simp_all add: rf oom_override_fields Value_floorMiB amount_floorMiB)
  have vo: "Value Q (MemoryLimit ?o) = spec_oom (has_recent_oom sig now n) (mib_up ?l)"
    "amount (MemoryLimit ?o) = of_int (spec_oom (has_recent_oom sig now n) (mib_up ?l))"
    using lu sc nm by (auto simp: oom_override_limit oom_override_fields vl spec_oom_def oom_scale_int' Value_ceilMiB amount_ceilMiB)
  have v: "view Q (clamp_one Q current (SkipMemory ?R) hold ?o) =
     \<lparr>vCPUReq = spec_cpu hold (cur_milli Q (case current n of None \<Rightarrow> None | Some c \<Rightarrow> Requests c)) (MilliValue Q (CPURequest ?o)),
      vCPULim = spec_cpu hold (cur_milli Q (case current n of None \<Rightarrow> None | Some c \<Rightarrow> Limits c)) (MilliValue Q (CPULimit ?o)),
      vMemReq = spec_mem hold (SkipMemory ?R n = Some True) False (cur_bytes Q (case current n of None \<Rightarrow> None | Some c \<Rightarrow> Requests c)) (Value Q (MemoryRequest ?o)),
      vMemLim = spec_mem hold (SkipMemory ?R n = Some True) True (cur_bytes Q (case current n of None \<Rightarrow> None | Some c \<Rightarrow> Limits c)) (Value Q (MemoryLimit ?o))\<rparr>"
    unfolding nm [symmetric]
  proof (rule clamp_one_view)
    show "cpu_range (amount (CPURequest ?o))" "cpu_range (amount (CPULimit ?o))"
      using b by (simp_all add: rec_range_def oom_override_fields rf)
    show "0 \<le> amount (MemoryRequest ?o)" "amount (MemoryRequest ?o) \<le> 2 ^ 50" unfolding vq using qd by simp_all
    show "0 \<le> amount (MemoryLimit ?o)" "amount (MemoryLimit ?o) \<le> 2 ^ 50" unfolding vo spec_oom_def using lu su by simp_all
    show "cur_range Q amount (current (ContainerName ?o))" using cur by (simp add: nm n_def)
  qed
  have fields: "vCPUReq (view Q (base ! i)) = MilliValue Q (CPURequest ?o)" "vCPULim (view Q (base ! i)) = MilliValue Q (CPULimit ?o)"
    "vMemReq (view Q (base ! i)) = ?q" "vMemLim (view Q (base ! i)) = ?l"
    by (simp_all add: view_def oom_override_fields rf)
  show ?thesis unfolding res v spec_safety_def skip fields Let_def vq(1) vo(1) ..
qed

end

section \<open>Consequences on the integers\<close>

lemma floor_of_mono: "c \<le> d \<Longrightarrow> floor_of hold c \<le> floor_of hold d"
  unfolding floor_of_def by (auto intro!: zdiv_mono1)

lemma floor_of_ge: "0 \<le> c \<Longrightarrow> 9 * c \<le> 10 * floor_of hold c"
  unfolding floor_of_def by auto

lemma floor_of_le: "0 \<le> c \<Longrightarrow> floor_of hold c \<le> c"
  unfolding floor_of_def by auto

lemma spec_oom_ge: "0 \<le> v \<Longrightarrow> v \<le> spec_oom oom v"
  using mib_up_bounds [of "(3 * v + 1) div 2"] unfolding spec_oom_def by auto

lemma spec_oom_dvd: "2 ^ 20 dvd v \<Longrightarrow> 2 ^ 20 dvd spec_oom oom v"
  by (simp only: spec_oom_def mib_dvd split: if_split) simp

lemma spec_mem_dvd: "2 ^ 20 dvd v \<Longrightarrow> 2 ^ 20 dvd spec_mem hold skip isLimit c v"
  unfolding spec_mem_def by (cases c) (simp_all only: option.case aligned_dvd split: if_split, simp_all)

lemma spec_mem_ordered:
  assumes "a \<le> b" "c \<le> d"
  shows "spec_mem hold skip False (Some c) a \<le> spec_mem hold skip True (Some d) b"
proof (cases skip)
  case False
  have "aligned False (max a (floor_of hold c)) \<le> max a (floor_of hold c)"
    using mib_down_bounds by (simp add: aligned_def)
  also have "\<dots> \<le> max b (floor_of hold d)" using assms(1) floor_of_mono [OF assms(2), of hold] by auto
  also have "\<dots> \<le> aligned True (max b (floor_of hold d))" using mib_up_bounds by (simp add: aligned_def)
  finally show ?thesis using False by (simp add: spec_mem_def)
qed (use assms in \<open>simp add: spec_mem_def\<close>)

section \<open>A concrete run\<close>

text \<open>One container \<open>app\<close> of one profile; quantities in the nano-unit model.\<close>

definition ex_profile :: "ProfileContainerStatus list \<Rightarrow> gotime option \<Rightarrow> nano_quantity WorkloadProfile" where
  "ex_profile cs applied = \<lparr>ProfileName = ''web'', ProfileNamespace = ''default'', ProfileUID = ''u'', ProfileGeneration = 1,
     ProfileLabels = Map.empty, ProfileDeleting = False,
     Spec = \<lparr>TargetRef = \<lparr>TargetKind = ''Deployment'', TargetName = ''web''\<rparr>, Mode = ''balanced'',
       SpecContainers = [], CooldownMinutes = None, CollectionIntervalSeconds = None\<rparr>,
     Status = \<lparr>Containers = cs, MetricsRecommendations = [], Recommendations = [], LastApplied = applied,
       LastEvaluated = None, DownsizePauseCyclesRemaining = 0, BinPacking = None, Conditions = []\<rparr>\<rparr>"

definition ex_rec :: "int \<Rightarrow> int \<Rightarrow> int \<Rightarrow> int \<Rightarrow> nano_quantity Recommendation" where
  "ex_rec a b c d = \<lparr>ContainerName = ''app'', CPURequest = NewMilliQuantity nano_api a DecimalSI,
     CPULimit = NewMilliQuantity nano_api b DecimalSI, MemoryRequest = NewQuantity nano_api c BinarySI,
     MemoryLimit = NewQuantity nano_api d BinarySI, Rationale = ''''\<rparr>"

definition ex_list :: "int \<Rightarrow> int \<Rightarrow> nano_quantity ResourceList" where
  "ex_list a c = [''cpu'' \<mapsto> NewMilliQuantity nano_api a DecimalSI, ''memory'' \<mapsto> NewQuantity nano_api c BinarySI]"

definition ex_current :: "int \<Rightarrow> int \<Rightarrow> int \<Rightarrow> int \<Rightarrow> string \<rightharpoonup> nano_quantity ResourceRequirements" where
  "ex_current a b c d = [''app'' \<mapsto> \<lparr>Requests = Some (ex_list a c), Limits = Some (ex_list b d)\<rparr>]"

lemmas ex_simps = ex_profile_def ex_rec_def ex_list_def ex_current_def nano_api_def nano_amount_def nano_get_def
  ResourceCPU_def ResourceMemory_def

lemma ex_range:
  "0 \<le> a \<Longrightarrow> a \<le> 2 ^ 40 \<Longrightarrow> 0 \<le> b \<Longrightarrow> b \<le> 2 ^ 40 \<Longrightarrow> 0 \<le> c \<Longrightarrow> c \<le> 2 ^ 40 \<Longrightarrow> 0 \<le> d \<Longrightarrow> d \<le> 2 ^ 40 \<Longrightarrow>
   rec_range nano_amount (ex_rec a b c d) \<and> cur_range nano_api nano_amount (ex_current a b c d n)"
  by (auto simp: rec_range_def cur_range_def list_range_def cpu_range_def mem_range_def ex_simps split: option.split)

section \<open>The guarantees\<close>

text \<open>
  Claim C4: the chain of \<open>safety.Apply\<close> (alignment, trend guard, OOM override, decrease clamps or
  hold) computes, for every recommendation in range, exactly the abstract specification on millicores
  and bytes: CPU is the maximum of the recommendation and the floor of the template's value, memory
  the same on the MiB grid, untouched by the clamp when the trend guard holds, and scaled by 1.5 after
  an OOM kill.
\<close>

theorem Safety_Apply_refines:
  assumes "quantity Q amount" "i < length base" "rec_range amount (base ! i)"
    and "cur_range Q amount (current (ContainerName (base ! i)))"
  shows "view Q (ResRecommendations (Safety_Apply Q profile base current sig now hold) ! i) =
     spec_safety Q hold (slope_up (Containers (Status profile)) (ContainerName (base ! i)))
       (has_recent_oom sig now (ContainerName (base ! i))) (current (ContainerName (base ! i))) (view Q (base ! i))"
  using assms by (rule quantity.Safety_Apply_view)

theorem Safety_Apply_refines_witness:
  "view nano_api (ResRecommendations (Safety_Apply nano_api (ex_profile [] None) [ex_rec 50 100 (2^27) (2^28)]
       (ex_current 200 400 (2^28) (2^29)) NewSnapshot 0 False) ! 0) =
   spec_safety nano_api False False False (ex_current 200 400 (2^28) (2^29) ''app'') (view nano_api (ex_rec 50 100 (2^27) (2^28)))"
  using Safety_Apply_refines [OF nano.quantity_axioms, of 0 "[ex_rec 50 100 (2^27) (2^28)]" "ex_current 200 400 (2^28) (2^29)"
      "ex_profile [] None" NewSnapshot 0 False]
    ex_range [of 50 100 "2^27" "2^28"] ex_range [of 200 400 "2^28" "2^29"]
  by (simp add: ex_rec_def ex_profile_def slope_up_def has_recent_oom_def oom_of_def NewSnapshot_def)

text \<open>A value at or above the floor of \<open>c\<close>: the whole of it under a hold, nine tenths otherwise.\<close>

definition at_least :: "bool \<Rightarrow> int \<Rightarrow> int \<Rightarrow> bool" where
  "at_least hold c n \<longleftrightarrow> (if hold then c \<le> n else 9 * c \<le> 10 * n)"

lemma at_least_floor: "0 \<le> c \<Longrightarrow> floor_of hold c \<le> n \<Longrightarrow> at_least hold c n"
  using floor_of_ge [of c hold] by (auto simp: at_least_def floor_of_def)

lemma spec_cpu_at_least: "0 \<le> c \<Longrightarrow> at_least hold c (spec_cpu hold (Some c) n)"
  by (simp add: spec_cpu_def at_least_floor)

lemma spec_mem_at_least:
  assumes "0 \<le> c" "\<not> skip"
  shows "at_least hold c (spec_mem hold skip True (Some c) n)"
    "at_least hold c (spec_mem hold skip False (Some c) n + 2 ^ 20)"
proof -
  have "floor_of hold c \<le> aligned True (max n (floor_of hold c))"
    using mib_up_bounds [of "max n (floor_of hold c)"] unfolding aligned_def by (simp only: if_True) linarith
  then show "at_least hold c (spec_mem hold skip True (Some c) n)"
    using assms by (intro at_least_floor) (simp_all add: spec_mem_def)
  have "floor_of hold c \<le> aligned False (max n (floor_of hold c)) + 2 ^ 20"
    using mib_down_bounds [of "max n (floor_of hold c)"] unfolding aligned_def by (simp only: if_False) linarith
  then show "at_least hold c (spec_mem hold skip False (Some c) n + 2 ^ 20)"
    using assms by (intro at_least_floor) (simp_all add: spec_mem_def)
qed

context quantity
begin

lemma cur_milli_Some: "cur_milli Q rl = Some c \<Longrightarrow> list_range Q amount rl \<Longrightarrow> 0 \<le> c"
  by (auto simp: cur_milli_def list_range_def dest: cpu_MilliValue(1) split: option.splits)

lemma cur_bytes_Some: "cur_bytes Q rl = Some c \<Longrightarrow> list_range Q amount rl \<Longrightarrow> 0 \<le> c"
  by (auto simp: cur_bytes_def list_range_def dest: mem_Value(1) split: option.splits)

end

lemma safety_floor:
  assumes "quantity Q amount" "i < length base" "rec_range amount (base ! i)"
    and "current (ContainerName (base ! i)) = Some cur" "cur_range Q amount (Some cur)"
    and "cur_milli Q (Requests cur) = Some cr" "cur_milli Q (Limits cur) = Some cl"
    and "cur_bytes Q (Requests cur) = Some mr" "cur_bytes Q (Limits cur) = Some ml"
  shows "let v = view Q (ResRecommendations (Safety_Apply Q profile base current sig now hold) ! i) in
         at_least hold cr (vCPUReq v) \<and> at_least hold cl (vCPULim v) \<and>
         (slope_up (Containers (Status profile)) (ContainerName (base ! i)) \<or>
            at_least hold ml (vMemLim v) \<and> at_least hold mr (vMemReq v + 2 ^ 20))"
proof -
  have r: "list_range Q amount (Requests cur)" "list_range Q amount (Limits cur)"
    using assms(5) by (simp_all add: cur_range_def)
  note p = quantity.cur_milli_Some [OF assms(1) assms(6) r(1)] quantity.cur_milli_Some [OF assms(1) assms(7) r(2)]
    quantity.cur_bytes_Some [OF assms(1) assms(8) r(1)] quantity.cur_bytes_Some [OF assms(1) assms(9) r(2)]
  have "cur_range Q amount (current (ContainerName (base ! i)))" using assms(4,5) by simp
  from quantity.Safety_Apply_view [OF assms(1-3), where current = current, OF this]
  show ?thesis
    using p by (cases "slope_up (Containers (Status profile)) (ContainerName (base ! i))")
      (simp_all add: spec_safety_def assms(4,6-9) spec_cpu_at_least spec_mem_at_least [simplified])
qed


lemma ex_facts [simp]:
  "ContainerName (ex_rec a b c d) = ''app''"
  "ex_current a b c d ''app'' = Some \<lparr>Requests = Some (ex_list a c), Limits = Some (ex_list b d)\<rparr>"
  "cur_milli nano_api (Some (ex_list a c)) = Some a"
  "cur_bytes nano_api (Some (ex_list a c)) = Some c"
  "Containers (Status (ex_profile cs applied)) = cs"
  by (simp_all add: cur_milli_def cur_bytes_def ex_simps)


text \<open>
  The gap is real: under a restart pause, a container whose memory request is 600 KiB in the template
  and in the recommendation leaves the chain with a request of 0.
\<close>

theorem pause_drops_small_memory_request:
  "MemoryRequest (hd (ResRecommendations (Safety_Apply nano_api (ex_profile [] None)
     [ex_rec 200 400 614400 (2^28)] (ex_current 200 400 614400 (2^28)) NewSnapshot 0 True))) = NewQuantity nano_api 0 BinarySI"
  by code_simp

text \<open>Requests stay within limits, for templates that give a limit wherever they give a request.\<close>

definition ordered_view :: "rec_view \<Rightarrow> bool" where
  "ordered_view v \<longleftrightarrow> vCPUReq v \<le> vCPULim v \<and> vMemReq v \<le> vMemLim v"

definition opt_le :: "int option \<Rightarrow> int option \<Rightarrow> bool" where
  "opt_le a b \<longleftrightarrow> (case (a, b) of (None, _) \<Rightarrow> True | (Some x, None) \<Rightarrow> False | (Some x, Some y) \<Rightarrow> x \<le> y)"

definition template_ordered :: "'q quantity_api \<Rightarrow> 'q ResourceRequirements option \<Rightarrow> bool" where
  "template_ordered Q cur \<longleftrightarrow> (case cur of None \<Rightarrow> True | Some c \<Rightarrow>
     opt_le (cur_milli Q (Requests c)) (cur_milli Q (Limits c)) \<and> opt_le (cur_bytes Q (Requests c)) (cur_bytes Q (Limits c)))"

lemma spec_cpu_opt: "a \<le> b \<Longrightarrow> opt_le c d \<Longrightarrow> spec_cpu hold c a \<le> spec_cpu hold d b"
  using floor_of_mono [of "the c" "the d" hold]
  by (cases c; cases d) (auto simp: opt_le_def spec_cpu_def)

lemma spec_mem_opt:
  assumes "a \<le> b" "opt_le c d"
  shows "spec_mem hold skip False c a \<le> spec_mem hold skip True d b"
proof (cases c)
  case None
  have "b \<le> spec_mem hold skip True d b"
  proof (cases d)
    case (Some y)
    then show ?thesis using mib_up_bounds [of "max b (floor_of hold y)"] by (auto simp: spec_mem_def aligned_def)
  qed (simp add: spec_mem_def)
  with None assms(1) show ?thesis by (simp add: spec_mem_def)
next
  case (Some x)
  with assms obtain y where "d = Some y" "x \<le> y" by (cases d) (auto simp: opt_le_def)
  with Some spec_mem_ordered [OF assms(1)] show ?thesis by blast
qed

text \<open>
  Claim C6: the safety chain keeps every request at or below its limit, for a recommendation that has
  them so and a template that has them so and gives a limit wherever it gives a request.
\<close>

theorem Safety_Apply_request_le_limit:
  assumes "quantity Q amount" "i < length base" "rec_range amount (base ! i)"
    and "cur_range Q amount (current (ContainerName (base ! i)))"
    and "ordered_view (view Q (base ! i))" "template_ordered Q (current (ContainerName (base ! i)))"
  shows "ordered_view (view Q (ResRecommendations (Safety_Apply Q profile base current sig now hold) ! i))"
proof -
  let ?v = "view Q (base ! i)" and ?cur = "current (ContainerName (base ! i))"
  let ?oom = "has_recent_oom sig now (ContainerName (base ! i))"
  have o: "vCPUReq ?v \<le> vCPULim ?v" "vMemReq ?v \<le> vMemLim ?v" using assms(5) by (simp_all add: ordered_view_def)
  have "0 \<le> vMemLim ?v"
    using assms(3) quantity.mem_Value(1) [OF assms(1)] by (simp add: view_def rec_range_def)
  then have "0 \<le> mib_up (vMemLim ?v)" by (rule mib_up_nonneg)
  then have m: "mib_down (vMemReq ?v) \<le> spec_oom ?oom (mib_up (vMemLim ?v))"
    using o(2) mib_down_bounds [of "vMemReq ?v"] mib_up_bounds [of "vMemLim ?v"]
      spec_oom_ge [of "mib_up (vMemLim ?v)" ?oom] by linarith
  from assms(6) have t: "opt_le (cur_milli Q (case ?cur of None \<Rightarrow> None | Some c \<Rightarrow> Requests c)) (cur_milli Q (case ?cur of None \<Rightarrow> None | Some c \<Rightarrow> Limits c))"
    "opt_le (cur_bytes Q (case ?cur of None \<Rightarrow> None | Some c \<Rightarrow> Requests c)) (cur_bytes Q (case ?cur of None \<Rightarrow> None | Some c \<Rightarrow> Limits c))"
    by (auto simp: template_ordered_def opt_le_def cur_milli_def cur_bytes_def split: option.splits)
  show ?thesis
    unfolding quantity.Safety_Apply_view [OF assms(1-3), where current = current, OF assms(4)]
    by (simp add: ordered_view_def spec_safety_def Let_def spec_cpu_opt spec_mem_opt o(1) m t)
qed

theorem Safety_Apply_request_le_limit_witness:
  "ordered_view (view nano_api (ResRecommendations (Safety_Apply nano_api (ex_profile [] None)
     [ex_rec 50 100 (2^27) (2^28)] (ex_current 200 400 (2^28) (2^29)) NewSnapshot 0 False) ! 0))"
  by (rule Safety_Apply_request_le_limit [OF nano.quantity_axioms])
     (use ex_range [of 50 100 "2^27" "2^28"] ex_range [of 200 400 "2^28" "2^29" "''app''"] in
       \<open>simp_all add: ordered_view_def view_def template_ordered_def opt_le_def cur_milli_def cur_bytes_def ex_simps\<close>)

text \<open>
  Without that proviso the order can break: a template that requests 1000m and has no limit, against a
  recommendation of 100m with a limit of 200m, yields a request of 900m with a limit of 200m.
\<close>

theorem clamp_exceeds_missing_limit:
  "let v = view nano_api (ResRecommendations (Safety_Apply nano_api (ex_profile [] None) [ex_rec 100 200 (2^27) (2^28)]
     [''app'' \<mapsto> \<lparr>Requests = Some (ex_list 1000 (2^27)), Limits = None\<rparr>] NewSnapshot 0 False) ! 0)
   in vCPUReq v = 900 \<and> vCPULim v = 200"
proof -
  have "cur_range nano_api nano_amount (Some \<lparr>Requests = Some (ex_list 1000 (2^27)), Limits = None\<rparr>)"
    by (auto simp: cur_range_def list_range_def cpu_range_def mem_range_def ex_simps)
  then show ?thesis
    using nano.Safety_Apply_view [of 0 "[ex_rec 100 200 (2^27) (2^28)]"
        "[''app'' \<mapsto> \<lparr>Requests = Some (ex_list 1000 (2^27)), Limits = None\<rparr>]" "ex_profile [] None" NewSnapshot 0 False]
      ex_range [of 100 200 "2^27" "2^28"]
    by (simp add: spec_safety_def spec_cpu_def cur_milli_def floor_of_def view_def ex_simps)
qed

text \<open>
  The chain marks memory as skipped exactly for the recommended containers whose memory
  slope is positive in the status.
\<close>

theorem Safety_Apply_skips_memory_iff:
  "SkipMemory (Safety_Apply Q profile base current sig now hold) n = Some True \<longleftrightarrow>
     n \<in> set (map ContainerName base) \<and>
     (\<exists>c \<in> set (Containers (Status profile)). StatusName c = n \<and> SlopePositive (Memory (Stats c)))"
  by (simp add: Safety_Apply_skip slope_up_def list_ex_iff)

text \<open>
  A patch is due exactly when some container had an OOM kill in the last ten minutes, or
  nothing was applied yet, or the cooldown since the last applied patch is over.
\<close>

theorem Safety_Apply_patch_due_iff:
  "ShouldPatch (Safety_Apply Q profile base current sig now hold) \<longleftrightarrow>
     (\<exists>n t. (n, Some t) \<in> set (LastOOMKill sig) \<and> time_sub now t < 10 * minute_ns)
     \<or> LastApplied (Status profile) = None
     \<or> (\<exists>t. LastApplied (Status profile) = Some t \<and> wrap64 (Cooldown (Spec profile) * minute_ns) \<le> time_sub now t)"
proof -
  have "list_ex (\<lambda>(_, t). case t of None \<Rightarrow> False | Some k \<Rightarrow> recent_oom now k) (LastOOMKill sig)
      \<longleftrightarrow> (\<exists>n t. (n, Some t) \<in> set (LastOOMKill sig) \<and> time_sub now t < 10 * minute_ns)"
    by (force simp: list_ex_iff recent_oom_def split: option.splits)
  then show ?thesis
    by (auto simp: Safety_Apply_def split_def Let_def should_patch_def cooldown_ns_def split: option.splits)
qed

text \<open>
  The product is taken in 64 bits: a cooldown of 200 000 000 minutes wraps to a negative duration and
  no longer delays a patch.
\<close>

theorem long_cooldown_wraps:
  "ShouldPatch (Safety_Apply nano_api
     ((ex_profile [] (Some 1))\<lparr>Spec := (Spec (ex_profile [] None))\<lparr>CooldownMinutes := Some 200000000\<rparr>\<rparr>)
     [] Map.empty NewSnapshot 2 False)"
  by code_simp

end
