(* ===== verification/Recommend_Spec.thy ===== *)
theory Recommend_Spec
  imports Recommend Safety_Spec
begin

text \<open>
  What a recommendation guarantees: it respects the user's bounds, and its requests stay within its
  limits.  The second needs the sketch library's contract and a range of values in which the float64
  arithmetic neither overflows nor leaves the 64-bit integers.
\<close>

section \<open>User bounds\<close>

definition in_bounds :: "('q \<Rightarrow> rat) \<Rightarrow> 'q option \<Rightarrow> 'q option \<Rightarrow> 'q \<Rightarrow> bool" where
  "in_bounds amount lo hi q \<longleftrightarrow>
     (case hi of None \<Rightarrow> True | Some h \<Rightarrow> amount q \<le> amount h) \<and>
     (case lo of None \<Rightarrow> True | Some l \<Rightarrow> (case hi of None \<Rightarrow> amount l \<le> amount q
        | Some h \<Rightarrow> min (amount l) (amount h) \<le> amount q))"

context quantity
begin

lemma amount_clampQty:
  "amount (clampQty Q q lo hi) =
     (let a = (case lo of None \<Rightarrow> amount q | Some l \<Rightarrow> max (amount q) (amount l))
      in case hi of None \<Rightarrow> a | Some h \<Rightarrow> min a (amount h))"
  by (auto simp: clampQty_def qty_simps max_def min_def Let_def split: option.split)

lemma clampQty_in_bounds: "in_bounds amount lo hi (clampQty Q q lo hi)"
  by (auto simp: in_bounds_def amount_clampQty Let_def split: option.split)

lemma clampQty_mono: "amount a \<le> amount b \<Longrightarrow> amount (clampQty Q a lo hi) \<le> amount (clampQty Q b lo hi)"
  by (auto simp: amount_clampQty Let_def max_def min_def split: option.split)

end

text \<open>Every strategy ends in \<open>finalizeRec\<close>.\<close>

lemma Strategy_Compute_finalize:
  "\<exists>cr cl mr ml note. Strategy_Compute st S Q inp = Inr (finalizeRec Q inp cr cl mr ml note)"
  by (cases st; simp only: Strategy_Compute.simps costStrategy_Compute_def balancedStrategy_Compute_def
      resilienceStrategy_Compute_def burstStrategy_Compute_def Let_def split_def) (intro exI, rule refl)+

definition rec_within :: "('q \<Rightarrow> rat) \<Rightarrow> ('q, 'sk) Input \<Rightarrow> 'q Recommendation \<Rightarrow> bool" where
  "rec_within amount inp r \<longleftrightarrow>
     in_bounds amount (InMinCPU inp) (InMaxCPU inp) (CPURequest r) \<and> in_bounds amount (InMinCPU inp) (InMaxCPU inp) (CPULimit r) \<and>
     in_bounds amount (InMinMemory inp) (InMaxMemory inp) (MemoryRequest r) \<and>
     in_bounds amount (InMinMemory inp) (InMaxMemory inp) (MemoryLimit r)"

section \<open>Ranges of float64 values\<close>

definition in_rng :: "int \<Rightarrow> f64 \<Rightarrow> bool" where
  "in_rng B x \<longleftrightarrow> (\<exists>r. x = Fin r \<and> 0 \<le> r \<and> r \<le> of_int B)"

definition le_rng :: "int \<Rightarrow> f64 \<Rightarrow> f64 \<Rightarrow> bool" where
  "le_rng B x y \<longleftrightarrow> (\<exists>a b. x = Fin a \<and> y = Fin b \<and> 0 \<le> a \<and> a \<le> b \<and> b \<le> of_int B)"

lemma le_rng_Max: "le_rng B x y \<Longrightarrow> \<exists>r. z = Fin r \<and> r \<le> of_int B \<Longrightarrow> le_rng B x (math_Max y z)"
  by (auto simp: le_rng_def math_Max_Fin)

lemma le_rng_mono: "le_rng B x y \<Longrightarrow> B \<le> C \<Longrightarrow> le_rng C x y"
  unfolding le_rng_def by (elim exE conjE, intro exI conjI, assumption+) (simp add: order_trans [of _ "rat_of_int B"])

lemma to_f64_int_range:
  "\<bar>x\<bar> \<le> of_int n \<Longrightarrow> 0 \<le> n \<Longrightarrow> n \<le> 2 ^ 53 \<Longrightarrow> \<exists>r. to_f64 x = Fin r \<and> \<bar>r\<bar> \<le> of_int n"
  using to_f64_small [of x n] binary64.rnd_abs_le_int [of x n] by auto

lemma emaPrediction_range:
  assumes "in_rng (2 ^ 45) s" "in_rng (2 ^ 45) l" "k = Fin c" "0 \<le> c" "c \<le> 2"
  shows "\<exists>r. emaPrediction s l k = Fin r \<and> r \<le> of_int (2 ^ 47)"
proof -
  obtain a b where ab: "s = Fin a" "0 \<le> a" "a \<le> of_int (2 ^ 45)" "l = Fin b" "0 \<le> b" "b \<le> of_int (2 ^ 45)"
    using assms(1,2) by (auto simp: in_rng_def)
  then have "\<bar>a - b\<bar> \<le> of_int (2 ^ 45)" by (simp only: abs_le_iff) linarith
  then obtain d where d: "to_f64 (a - b) = Fin d" "\<bar>d\<bar> \<le> of_int (2 ^ 45)"
    using to_f64_int_range [of "a - b" "2 ^ 45"] by auto
  have "\<bar>c * d\<bar> \<le> 2 * of_int (2 ^ 45)" unfolding abs_mult using d assms(4,5) by (intro mult_mono) auto
  then obtain e where e: "to_f64 (c * d) = Fin e" "\<bar>e\<bar> \<le> of_int (2 ^ 46)"
    using to_f64_int_range [of "c * d" "2 ^ 46"] by auto
  have "\<bar>b + e\<bar> \<le> of_int (2 ^ 47)" using ab e by (simp add: abs_le_iff)
  then obtain r where "to_f64 (b + e) = Fin r" "\<bar>r\<bar> \<le> of_int (2 ^ 47)"
    using to_f64_int_range [of "b + e" "2 ^ 47"] by auto
  then show ?thesis using ab d e assms(3) by (auto simp: emaPrediction_def fsub_def)
qed

lemma kForMode_range: "\<exists>c. kForMode m = Fin c \<and> 0 \<le> c \<and> c \<le> 2"
proof -
  have r: "rnd64 (1 / 2) = 1 / 2" "rnd64 1 = 1" "rnd64 (3 / 2) = 3 / 2" "rnd64 2 = 2" by code_simp+
  then have "f64_const (5 / 10) = Fin (1 / 2)" "f64_const 1 = Fin 1" "f64_const (15 / 10) = Fin (3 / 2)" "f64_const 2 = Fin 2"
    by (simp_all add: f64_const_def to_f64_def)
  then have "kForMode m = Fin (1 / 2) \<or> kForMode m = Fin 1 \<or> kForMode m = Fin (3 / 2) \<or> kForMode m = Fin 2"
    by (simp add: kForMode_def Let_def)
  then show ?thesis
    by (elim disjE) (rule exI [of _ "1 / 2"] exI [of _ "1"] exI [of _ "3 / 2"] exI [of _ "2"], simp)+
qed

section \<open>Quantiles\<close>

text \<open>A sketch in range: every quantile is a float64 between 0 and \<open>2 ^ 45\<close>.\<close>

definition sketch_in_range :: "('sk, 'pb) sketch_api \<Rightarrow> 'sk option \<Rightarrow> bool" where
  "sketch_in_range S s \<longleftrightarrow> (\<forall>sk q v. s = Some sk \<longrightarrow> \<not> IsEmpty S sk \<longrightarrow> 0 \<le> q \<longrightarrow> q \<le> 1 \<longrightarrow>
     GetValueAtQuantile S sk (Fin q) = Inr v \<longrightarrow> (\<exists>r. v = Fin r \<and> 0 \<le> r \<and> r \<le> of_int (2 ^ 45) \<and> rnd64 r = r))"

lemma f64_const_unit: "0 \<le> q \<Longrightarrow> q \<le> 1 \<Longrightarrow> f64_const q = Fin (rnd64 q) \<and> 0 \<le> rnd64 q \<and> rnd64 q \<le> 1"
  using to_f64_small [of q 1] binary64.rnd_nonneg [of q] binary64.rnd_le_int [of q 1] by (simp add: f64_const_def)

lemma qMilli_pair:
  assumes S: "ddsketch S" and rng: "sketch_in_range S s" and pq: "0 \<le> p" "p \<le> q" "q \<le> 1"
  obtains a b where "qMilli S s (f64_const p) = Fin a" "qMilli S s (f64_const q) = Fin b"
    "0 \<le> a" "a \<le> b" "b \<le> of_int (2 ^ 45)" "rnd64 b = b"
proof (cases "s = None \<or> (\<exists>sk. s = Some sk \<and> IsEmpty S sk)")
  case True
  then show ?thesis using that [of 0 0] by (auto simp: qMilli_def)
next
  case False
  then obtain sk where sk: "s = Some sk" "\<not> IsEmpty S sk" by auto
  have c: "f64_const p = Fin (rnd64 p)" "f64_const q = Fin (rnd64 q)" "0 \<le> rnd64 p" "rnd64 p \<le> rnd64 q" "rnd64 q \<le> 1"
    using f64_const_unit [of p] f64_const_unit [of q] binary64.rnd_mono [OF pq(2)] pq by auto
  obtain v w where vw: "GetValueAtQuantile S sk (Fin (rnd64 p)) = Inr v" "GetValueAtQuantile S sk (Fin (rnd64 q)) = Inr w"
    using ddsketch.quantile_total [OF S sk(2), of "rnd64 p"] ddsketch.quantile_total [OF S sk(2), of "rnd64 q"] c by fastforce
  then have "fle v w" using ddsketch.quantile_mono [OF S sk(2) c(3-5)] by blast
  moreover obtain a where a: "v = Fin a" "0 \<le> a" using rng sk vw(1) c unfolding sketch_in_range_def by fastforce
  moreover obtain b where b: "w = Fin b" "b \<le> of_int (2 ^ 45)" "rnd64 b = b"
    using rng [unfolded sketch_in_range_def, rule_format, OF sk(1,2) _ c(5) vw(2)] c by auto
  ultimately have "a \<le> b" by (simp add: fp_simps)
  moreover have "qMilli S s (f64_const p) = Fin a" "qMilli S s (f64_const q) = Fin b"
    using sk c(1,2) vw a(1) b(1) by (simp_all add: qMilli_def Quantile_def)
  ultimately show ?thesis using a b by (intro that)
qed

definition input_in_range :: "('sk, 'pb) sketch_api \<Rightarrow> ('q, 'sk) Input \<Rightarrow> bool" where
  "input_in_range S inp \<longleftrightarrow>
     list_all (in_rng (2 ^ 45)) [CPUEShort inp, CPUELong inp, MemShort inp, MemLong inp] \<and>
     list_all (\<lambda>f. flt (Fin 0) f \<longrightarrow> in_rng (2 ^ 45) f) [ForecastCPU inp, ForecastMem inp] \<and>
     list_all (sketch_in_range S) [CPUSketch inp, MemSketch inp, QuadrantCPUSketch inp, QuadrantMemSketch inp]"

definition no_pressure :: "('q, 'sk) Input \<Rightarrow> bool" where
  "no_pressure inp \<longleftrightarrow> \<not> (fle (Fin 0) (SchedulerBalanceScore inp) \<and> flt (SchedulerBalanceScore inp) (f64_const (15 / 100)))"

lemma no_pressure_requests: "no_pressure inp \<Longrightarrow> applySchedulerPressure a b inp = (a, b, '''')"
  by (auto simp: no_pressure_def applySchedulerPressure_def Let_def)

lemma effective_in_range:
  "input_in_range S inp \<Longrightarrow> sketch_in_range S (effectiveCPUSketch S inp) \<and> sketch_in_range S (effectiveMemSketch S inp)"
  by (simp add: input_in_range_def effectiveCPUSketch_def effectiveMemSketch_def)

text \<open>The merge with the prediction keeps a limit above a request.\<close>

lemma merged_limits:
  assumes "input_in_range S inp" "le_rng (2 ^ 47) cr cl" "le_rng (2 ^ 47) mr ml"
  shows "le_rng (2 ^ 47) cr (fst (mergeLimitsWithEMAPrediction cl ml inp mode))
       \<and> le_rng (2 ^ 47) mr (fst (snd (mergeLimitsWithEMAPrediction cl ml inp mode)))"
proof -
  obtain c where c: "kForMode mode = Fin c" "0 \<le> c" "c \<le> 2" using kForMode_range by blast
  have r: "in_rng (2 ^ 45) (CPUEShort inp)" "in_rng (2 ^ 45) (CPUELong inp)" "in_rng (2 ^ 45) (MemShort inp)" "in_rng (2 ^ 45) (MemLong inp)"
    using assms(1) by (simp_all add: input_in_range_def)
  show ?thesis
    using le_rng_Max [OF assms(2) emaPrediction_range [OF r(1,2) c]] le_rng_Max [OF assms(3) emaPrediction_range [OF r(3,4) c]]
    by (simp add: mergeLimitsWithEMAPrediction_def Let_def limitWithPrediction_def)
qed

lemma scaled_up:
  assumes "rnd64 b = b" "0 \<le> b" "b \<le> of_int (2 ^ 45)" "1 \<le> c" "c \<le> 2"
  shows "\<exists>r. fmul (Fin b) (f64_const c) = Fin r \<and> b \<le> r \<and> r \<le> of_int (2 ^ 46)"
proof -
  have c: "f64_const c = Fin (rnd64 c)" "1 \<le> rnd64 c" "rnd64 c \<le> 2"
    using to_f64_small [of c 2] binary64.rnd_ge_int [of 1 c] binary64.rnd_le_int [of c 2] assms by (simp_all add: f64_const_def)
  have m: "b \<le> b * rnd64 c" "b * rnd64 c \<le> of_int (2 ^ 45) * 2"
    using c assms mult_left_mono [of 1 "rnd64 c" b] mult_mono [of b "of_int (2 ^ 45)" "rnd64 c" 2] by auto
  then have t: "to_f64 (b * rnd64 c) = Fin (rnd64 (b * rnd64 c))"
    using assms(2) by (intro to_f64_small [of _ "2 ^ 46"]) auto
  have "rnd64 b \<le> rnd64 (b * rnd64 c)" using m(1) by (rule binary64.rnd_mono)
  moreover have "rnd64 (b * rnd64 c) \<le> of_int (2 ^ 46)" using m(2) by (intro binary64.rnd_le_int) auto
  ultimately show ?thesis using c t assms(1) by simp
qed

text \<open>The numbers each strategy hands to \<open>finalizeRec\<close>.\<close>

definition strategy_numbers :: "('sk, 'pb) sketch_api \<Rightarrow> Strategy \<Rightarrow> ('q, 'sk) Input \<Rightarrow> (f64 \<times> f64) \<times> (f64 \<times> f64)" where
  "strategy_numbers S st inp =
     (let cq = (\<lambda>p. qMilli S (effectiveCPUSketch S inp) (f64_const p));
          mq = (\<lambda>p. qMilli S (effectiveMemSketch S inp) (f64_const p))
      in case st of
           costStrategy \<Rightarrow> ((cq (1 / 2), cq (9 / 10)), (mq (1 / 2), mq (9 / 10)))
         | balancedStrategy _ \<Rightarrow> ((cq (7 / 10), cq (19 / 20)), (mq (7 / 10), mq (19 / 20)))
         | resilienceStrategy \<Rightarrow>
             ((cq (9 / 10), let l = fmul (cq (99 / 100)) (f64_const (11 / 10))
                            in if flt (Fin 0) (ForecastCPU inp) then math_Max l (ForecastCPU inp) else l),
              (mq (9 / 10), let l = fmul (mq (99 / 100)) (f64_const (6 / 5))
                            in if flt (Fin 0) (ForecastMem inp) then math_Max l (ForecastMem inp) else l))
         | burstStrategy \<Rightarrow>
             ((cq (2 / 5), let p = math_Max (cq (99 / 100)) (CPUEShort inp)
                           in if flt (Fin 0) (ForecastCPU inp) then math_Max p (ForecastCPU inp) else p),
              (mq (2 / 5), math_Max (mq (99 / 100)) (memShortForBurst inp))))"

lemma Strategy_Compute_numbers:
  assumes "no_pressure inp" "strategy_numbers S st inp = ((cr, cl), (mr, ml))"
  obtains mode why where "Strategy_Compute st S Q inp =
     Inr (finalizeRec Q inp cr (fst (mergeLimitsWithEMAPrediction cl ml inp mode)) mr
            (fst (snd (mergeLimitsWithEMAPrediction cl ml inp mode))) why)"
proof (cases st)
  case costStrategy
  with assms show ?thesis
    by (intro that [of "''cost''"]) (simp add: strategy_numbers_def costStrategy_Compute_def qBytes_def split_def Let_def)
next
  case (balancedStrategy fb)
  with assms show ?thesis
    by (intro that [of "''balanced''"])
      (simp add: strategy_numbers_def balancedStrategy_Compute_def qBytes_def split_def Let_def no_pressure_requests)
next
  case resilienceStrategy
  with assms show ?thesis
    by (intro that [of "''resilience''"])
      (simp add: strategy_numbers_def resilienceStrategy_Compute_def qBytes_def split_def Let_def no_pressure_requests)
next
  case burstStrategy
  with assms show ?thesis
    by (intro that [of "''burst''"])
      (simp add: strategy_numbers_def burstStrategy_Compute_def qBytes_def split_def Let_def)
qed

lemma le_rng_max_if: "le_rng B x y \<Longrightarrow> (flt (Fin 0) f \<longrightarrow> in_rng B f) \<Longrightarrow> le_rng B x (if flt (Fin 0) f then math_Max y f else y)"
  by (auto intro: le_rng_Max simp: in_rng_def)

lemma in_rng_mono: "in_rng B x \<Longrightarrow> B \<le> C \<Longrightarrow> in_rng C x"
  unfolding in_rng_def by (elim exE conjE, intro exI conjI, assumption+) (simp add: order_trans [of _ "rat_of_int B"])

lemma quantile_le:
  assumes "ddsketch S" "sketch_in_range S s" "0 \<le> p" "p \<le> q" "q \<le> 1"
  shows "le_rng (2 ^ 47) (qMilli S s (f64_const p)) (qMilli S s (f64_const q))"
proof -
  obtain a b where "qMilli S s (f64_const p) = Fin a" "qMilli S s (f64_const q) = Fin b"
    "0 \<le> a" "a \<le> b" "b \<le> of_int (2 ^ 45)" using qMilli_pair [OF assms] .
  then show ?thesis by (auto simp: le_rng_def)
qed

lemma quantile_scaled_le:
  assumes "ddsketch S" "sketch_in_range S s" "0 \<le> p" "p \<le> q" "q \<le> 1" "1 \<le> c" "c \<le> 2"
  shows "le_rng (2 ^ 47) (qMilli S s (f64_const p)) (fmul (qMilli S s (f64_const q)) (f64_const c))"
proof -
  obtain a b where ab: "qMilli S s (f64_const p) = Fin a" "qMilli S s (f64_const q) = Fin b"
    "0 \<le> a" "a \<le> b" "b \<le> of_int (2 ^ 45)" "rnd64 b = b" using qMilli_pair [OF assms(1-5)] .
  then obtain r where "fmul (Fin b) (f64_const c) = Fin r" "b \<le> r" "r \<le> of_int (2 ^ 46)"
    using scaled_up [of b c] assms(6,7) by auto
  then show ?thesis using ab by (auto simp: le_rng_def)
qed

lemma strategy_numbers_ordered:
  assumes S: "ddsketch S" and inp: "input_in_range S inp" and n: "strategy_numbers S st inp = ((cr, cl), (mr, ml))"
  shows "le_rng (2 ^ 47) cr cl \<and> le_rng (2 ^ 47) mr ml"
proof -
  note sk = effective_in_range [OF inp]
  note cq = quantile_le [OF S conjunct1 [OF sk]] and mq = quantile_le [OF S conjunct2 [OF sk]]
  note cs = quantile_scaled_le [OF S conjunct1 [OF sk]] and ms = quantile_scaled_le [OF S conjunct2 [OF sk]]
  have f: "flt (Fin 0) (ForecastCPU inp) \<longrightarrow> in_rng (2 ^ 47) (ForecastCPU inp)"
    "flt (Fin 0) (ForecastMem inp) \<longrightarrow> in_rng (2 ^ 47) (ForecastMem inp)"
    "in_rng (2 ^ 47) (CPUEShort inp)" "in_rng (2 ^ 47) (MemShort inp)"
    using inp in_rng_mono [of "2 ^ 45" _ "2 ^ 47"] unfolding input_in_range_def by auto
  have short: "\<exists>r. x = Fin r \<and> r \<le> of_int (2 ^ 47)" if "in_rng (2 ^ 47) x" for x using that by (auto simp: in_rng_def)
  show ?thesis
  proof (cases st)
    case costStrategy
    with n show ?thesis using cq [of "1 / 2" "9 / 10"] mq [of "1 / 2" "9 / 10"] by (auto simp: strategy_numbers_def Let_def)
  next
    case (balancedStrategy fb)
    with n show ?thesis using cq [of "7 / 10" "19 / 20"] mq [of "7 / 10" "19 / 20"] by (auto simp: strategy_numbers_def Let_def)
  next
    case resilienceStrategy
    with n show ?thesis
      using le_rng_max_if [OF cs [of "9 / 10" "99 / 100" "11 / 10"] f(1)] le_rng_max_if [OF ms [of "9 / 10" "99 / 100" "6 / 5"] f(2)]
      by (simp add: strategy_numbers_def Let_def)
  next
    case burstStrategy
    have p: "le_rng (2 ^ 47) (qMilli S (effectiveCPUSketch S inp) (f64_const (2 / 5)))
        (math_Max (qMilli S (effectiveCPUSketch S inp) (f64_const (99 / 100))) (CPUEShort inp))"
      using le_rng_Max [OF cq [of "2 / 5" "99 / 100"] short [OF f(3)]] by simp
    have "in_rng (2 ^ 47) (memShortForBurst inp)"
      using f by (auto simp: memShortForBurst_def in_rng_def math_Max_Fin)
    then have "le_rng (2 ^ 47) (qMilli S (effectiveMemSketch S inp) (f64_const (2 / 5)))
        (math_Max (qMilli S (effectiveMemSketch S inp) (f64_const (99 / 100))) (memShortForBurst inp))"
      using le_rng_Max [OF mq [of "2 / 5" "99 / 100"] short] by simp
    with burstStrategy n le_rng_max_if [OF p f(1)] show ?thesis by (simp add: strategy_numbers_def Let_def)
  qed
qed

section \<open>From numbers to quantities\<close>

definition bounds_in_range :: "('q \<Rightarrow> rat) \<Rightarrow> ('q, 'sk) Input \<Rightarrow> bool" where
  "bounds_in_range amount inp \<longleftrightarrow>
     list_all (\<lambda>b. case b of None \<Rightarrow> True | Some q \<Rightarrow> cpu_range (amount q)) [InMinCPU inp, InMaxCPU inp] \<and>
     list_all (\<lambda>b. case b of None \<Rightarrow> True | Some q \<Rightarrow> mem_range (amount q)) [InMinMemory inp, InMaxMemory inp]"

definition ordered_rec :: "('q \<Rightarrow> rat) \<Rightarrow> 'q Recommendation \<Rightarrow> bool" where
  "ordered_rec amount r \<longleftrightarrow> amount (CPURequest r) \<le> amount (CPULimit r) \<and> amount (MemoryRequest r) \<le> amount (MemoryLimit r)"

lemma round_away_range:
  "0 \<le> a \<Longrightarrow> a \<le> of_int B \<Longrightarrow> B < 2 ^ 63 \<Longrightarrow>
     int64_of_f64 (math_Round (Fin a)) = round_away a \<and> 0 \<le> round_away a \<and> round_away a \<le> B"
  using round_away_mono [of a "of_int B"] round_away_nonneg [of a] by (simp add: is_i64_def)

context quantity
begin

lemma milliQty_amount:
  "0 \<le> a \<Longrightarrow> a \<le> of_int B \<Longrightarrow> B < 2 ^ 63 \<Longrightarrow>
     amount (milliQty Q (Fin a)) = of_int (round_away a) / 1000 \<and> 0 \<le> round_away a \<and> round_away a \<le> B"
  using round_away_range [of a B] by (simp add: milliQty_def amount_NewMilli is_i64_def)

lemma bytesQty_amount:
  "0 \<le> a \<Longrightarrow> a \<le> of_int B \<Longrightarrow> B < 2 ^ 63 \<Longrightarrow>
     amount (bytesQty Q (Fin a)) = of_int (round_away a) \<and> 0 \<le> round_away a \<and> round_away a \<le> B"
  using round_away_range [of a B] by (simp add: bytesQty_def amount_New is_i64_def)

lemma clampQty_range:
  assumes "amount q = of_int n / d" "0 \<le> n" "n \<le> B" "0 < d"
    and "case lo of None \<Rightarrow> True | Some l \<Rightarrow> 0 \<le> amount l \<and> amount l * d \<le> of_int B"
    and "case hi of None \<Rightarrow> True | Some h \<Rightarrow> 0 \<le> amount h \<and> amount h * d \<le> of_int B"
  shows "0 \<le> amount (clampQty Q q lo hi) \<and> amount (clampQty Q q lo hi) * d \<le> of_int B"
proof -
  have "0 \<le> amount q" "amount q * d \<le> of_int B" using assms(1-4) by simp_all
  then show ?thesis using assms(5,6) by (auto simp: amount_clampQty Let_def max_def min_def split: option.splits)
qed

end

context quantity
begin

lemma finalizeRec_ordered:
  assumes c: "le_rng (2 ^ 47) cr cl" and m: "le_rng (2 ^ 47) mr ml" and b: "bounds_in_range amount inp"
  shows "ordered_rec amount (finalizeRec Q inp cr cl mr ml why) \<and> rec_range amount (finalizeRec Q inp cr cl mr ml why)"
proof -
  obtain x y where xy: "cr = Fin x" "cl = Fin y" "0 \<le> x" "x \<le> y" "y \<le> of_int (2 ^ 47)" using c unfolding le_rng_def by blast
  obtain u v where uv: "mr = Fin u" "ml = Fin v" "0 \<le> u" "u \<le> v" "v \<le> of_int (2 ^ 47)" using m unfolding le_rng_def by blast
  have X: "x \<le> of_int (2 ^ 47)" and Y: "0 \<le> y" and U: "u \<le> of_int (2 ^ 47)" and V: "0 \<le> v" using xy uv by linarith+
  note ax = milliQty_amount [OF xy(3) X, simplified] milliQty_amount [OF Y xy(5), simplified]
  note au = bytesQty_amount [OF uv(3) U, simplified] bytesQty_amount [OF V uv(5), simplified]
  have o: "amount (milliQty Q cr) \<le> amount (milliQty Q cl)" "amount (bytesQty Q mr) \<le> amount (bytesQty Q ml)"
    using ax au round_away_mono [OF xy(4)] round_away_mono [OF uv(4)] by (simp_all add: xy(1,2) uv(1,2) divide_right_mono)
  have bc: "case InMinCPU inp of None \<Rightarrow> True | Some l \<Rightarrow> 0 \<le> amount l \<and> amount l * 1000 \<le> of_int (2 ^ 48)"
    "case InMaxCPU inp of None \<Rightarrow> True | Some l \<Rightarrow> 0 \<le> amount l \<and> amount l * 1000 \<le> of_int (2 ^ 48)"
    "case InMinMemory inp of None \<Rightarrow> True | Some l \<Rightarrow> 0 \<le> amount l \<and> amount l * 1 \<le> of_int (2 ^ 48)"
    "case InMaxMemory inp of None \<Rightarrow> True | Some l \<Rightarrow> 0 \<le> amount l \<and> amount l * 1 \<le> of_int (2 ^ 48)"
    using b by (auto simp: bounds_in_range_def cpu_range_def mem_range_def split: option.splits)
  have "cpu_range (amount (clampQty Q (milliQty Q z) (InMinCPU inp) (InMaxCPU inp)))" if "z = cr \<or> z = cl" for z
    using that ax clampQty_range [OF _ _ _ _ bc(1,2), of "milliQty Q z" "round_away x"]
      clampQty_range [OF _ _ _ _ bc(1,2), of "milliQty Q z" "round_away y"] by (auto simp: cpu_range_def xy(1,2))
  moreover have "mem_range (amount (clampQty Q (bytesQty Q z) (InMinMemory inp) (InMaxMemory inp)))" if "z = mr \<or> z = ml" for z
    using that au clampQty_range [OF _ _ _ _ bc(3,4), of "bytesQty Q z" "round_away u"]
      clampQty_range [OF _ _ _ _ bc(3,4), of "bytesQty Q z" "round_away v"] by (auto simp: mem_range_def uv(1,2))
  ultimately show ?thesis
    using o by (simp add: finalizeRec_def Let_def ordered_rec_def rec_range_def clampQty_mono)
qed

lemma Strategy_Compute_ordered:
  assumes "ddsketch S" "input_in_range S inp" "bounds_in_range amount inp" "no_pressure inp"
  shows "\<exists>r. Strategy_Compute st S Q inp = Inr r \<and> ordered_rec amount r \<and> rec_range amount r"
proof -
  obtain cr cl mr ml where n: "strategy_numbers S st inp = ((cr, cl), (mr, ml))" by (metis prod.collapse)
  then obtain mode why where c: "Strategy_Compute st S Q inp =
     Inr (finalizeRec Q inp cr (fst (mergeLimitsWithEMAPrediction cl ml inp mode)) mr
            (fst (snd (mergeLimitsWithEMAPrediction cl ml inp mode))) why)"
    using Strategy_Compute_numbers [OF assms(4) n, where Q = Q] by blast
  have l: "le_rng (2 ^ 47) cr cl" "le_rng (2 ^ 47) mr ml" using strategy_numbers_ordered [OF assms(1,2) n] by blast+
  note m = merged_limits [OF assms(2) l, where mode = mode]
  show ?thesis
    using finalizeRec_ordered [OF conjunct1 [OF m] conjunct2 [OF m] assms(3)] c by blast
qed

lemma Strategy_Compute_within:
  "\<exists>r. Strategy_Compute st S Q inp = Inr r \<and> ContainerName r = InContainerName inp \<and> rec_within amount inp r"
  using Strategy_Compute_finalize [of st S Q inp]
  by (auto simp: finalizeRec_def Let_def rec_within_def clampQty_in_bounds)

end

section \<open>The guarantees\<close>

lemma eps_positive: "biasRationaleEpsilon = Fin (rnd64 (1 / 1000000)) \<and> 0 \<le> rnd64 (1 / 1000000)"
  using to_f64_small [of "1 / 1000000" 1] binary64.rnd_nonneg [of "1 / 1000000"]
  by (simp add: biasRationaleEpsilon_def f64_const_def)

lemma Compute_strategy:
  "Compute S Q inp = Strategy_Compute (eng_base (New (InMode inp) (Some (NoopBias :: ('q, 'sk) BiasProvider)))) S Q inp"
  for S :: "('sk, 'pb) sketch_api" and Q :: "'q quantity_api"
proof -
  have "fsub (f64_const 1) (f64_const 1) = Fin 0"
    using to_f64_small [of 1 1] by (simp add: f64_const_def fsub_def to_f64_def)
  moreover have "\<not> flt biasRationaleEpsilon (Fin 0)"
    unfolding conjunct1 [OF eps_positive] using conjunct2 [OF eps_positive] by (simp only: flt.simps not_less)
  ultimately show ?thesis
    by (auto simp: Compute_def biasedEngine_Compute_def New_def NoopBias_def Let_def split: sum.split option.split)
qed

text \<open>
  Claim C7: without bias the engine always returns a recommendation, for every mode (unknown ones
  included), every sketch and every number, NaN included; it carries the container's name and lies
  within the user's minimum and maximum for CPU and memory (the maximum wins where they cross).
\<close>

theorem Compute_within_bounds:
  assumes "quantity Q amount"
  shows "\<exists>r. Compute S Q inp = Inr r \<and> ContainerName r = InContainerName inp \<and> rec_within amount inp r"
  unfolding Compute_strategy using assms by (rule quantity.Strategy_Compute_within)

definition ex_input :: "(nano_quantity, nat list) Input" where
  "ex_input = \<lparr>InContainerName = ''app'', InMode = ''balanced'', CPUSketch = Some [100, 200, 300], MemSketch = Some [1000, 2000],
     QuadrantCPUSketch = None, QuadrantMemSketch = None, CPUEShort = Fin 150, CPUELong = Fin 120, MemShort = Fin 1500,
     MemLong = Fin 1400, ForecastCPU = Fin 0, ForecastMem = Fin 0, InMinCPU = Some (NQ 250000000 DecimalSI), InMaxCPU = None,
     InMinMemory = None, InMaxMemory = None, SchedulerBalanceScore = SchedulerBalanceUnknown\<rparr>"

theorem Compute_within_bounds_witness:
  "\<exists>r. Compute list_sketch nano_api ex_input = Inr r \<and> 1 / 4 \<le> nano_amount (CPURequest r)"
  using Compute_within_bounds [OF nano.quantity_axioms, of list_sketch ex_input]
  by (auto simp: ex_input_def rec_within_def in_bounds_def nano_amount_def)

text \<open>
  For sketches, averages and forecasts in range, and outside the scheduler-pressure band,
  every mode returns requests at or below their limits: the quantiles are ordered, the prediction and
  the forecast only raise limits, and rounding and clamping keep the order.
\<close>

theorem Compute_request_le_limit:
  assumes "quantity Q amount" "ddsketch S" "input_in_range S inp" "bounds_in_range amount inp" "no_pressure inp"
  shows "\<exists>r. Compute S Q inp = Inr r \<and> ordered_rec amount r \<and> rec_range amount r"
  unfolding Compute_strategy using assms by (rule quantity.Strategy_Compute_ordered)

lemma list_sketch_in_range: "list_all (\<lambda>n. n \<le> 2 ^ 45) ns \<Longrightarrow> sketch_in_range list_sketch (Some ns)"
proof -
  assume a: "list_all (\<lambda>n. n \<le> 2 ^ 45) ns"
  have "\<exists>r. v = Fin r \<and> 0 \<le> r \<and> r \<le> of_int (2 ^ 45) \<and> rnd64 r = r"
    if q: "ns \<noteq> []" "0 \<le> q" "q \<le> 1" "list_quantile ns (Fin q) = Inr v" for q v
  proof -
    let ?i = "nat \<lfloor>q * of_nat (length ns - 1)\<rfloor>"
    have "?i < length (sort ns)" unfolding length_sort by (rule rank_in_range) (use q in auto)
    then have "sort ns ! ?i \<in> set ns" by (metis nth_mem set_sort)
    with a have le: "sort ns ! ?i \<le> 2 ^ 45" by (auto simp: list_all_iff)
    then have "rnd64 (of_int (int (sort ns ! ?i))) = of_int (int (sort ns ! ?i))" by (intro binary64.rnd_of_int) auto
    moreover have "v = Fin (of_nat (sort ns ! ?i))" using q by (simp add: list_quantile_def)
    moreover have "(of_nat (sort ns ! ?i) :: rat) \<le> of_nat (2 ^ 45)" using le by (simp only: of_nat_le_iff)
    ultimately show ?thesis by simp
  qed
  then show ?thesis by (simp add: sketch_in_range_def list_sketch_def)
qed

lemma ex_input_ok:
  "input_in_range list_sketch ex_input" "bounds_in_range nano_amount ex_input" "no_pressure ex_input"
proof -
  have "f64_const (- 1) = Fin (- 1)" using to_f64_small [of "- 1" 1] binary64.rnd_of_int [of "- 1"] by (simp add: f64_const_def)
  then show "no_pressure ex_input"
    by (simp add: no_pressure_def ex_input_def SchedulerBalanceUnknown_def fle_def)
  show "bounds_in_range nano_amount ex_input"
    by (simp add: bounds_in_range_def ex_input_def cpu_range_def nano_amount_def)
  show "input_in_range list_sketch ex_input"
    using list_sketch_in_range [of "[100, 200, 300]"] list_sketch_in_range [of "[1000, 2000]"]
    by (simp add: input_in_range_def ex_input_def in_rng_def sketch_in_range_def [of _ None])
qed

theorem Compute_request_le_limit_witness:
  "\<exists>r. Compute list_sketch nano_api ex_input = Inr r \<and> ordered_rec nano_amount r"
  using Compute_request_le_limit [OF nano.quantity_axioms list_sketch.ddsketch_axioms ex_input_ok] by blast

end
