(* ===== verification/Feedback.thy ===== *)
theory Feedback
  imports Recommend_Spec
begin

text \<open>
  \<open>internal/recommend/feedback.go\<close>: the running ratio of observed to recommended usage per
  container, and the bias provider that scales recommendations by it.  The interface of a provider
  is the locale \<open>bias_provider\<close>; \<open>NoopBias\<close> and \<open>LiveBias\<close> implement it.
\<close>

definition biasAlpha :: rat where "biasAlpha = 1 / 10"
definition minSamples :: int where "minSamples = 10"
definition biasMaxUp :: f64 where "biasMaxUp = f64_const (130 / 100)"
definition biasMaxDown :: f64 where "biasMaxDown = f64_const (85 / 100)"

record ContainerFeedback =
  CPURatio :: f64
  MemRatio :: f64
  CPUSamples :: int
  MemSamples :: int
  SampleCount :: int
  PredictionRatioLegacy :: f64

definition zero_feedback :: ContainerFeedback where
  "zero_feedback = \<lparr>CPURatio = Fin 0, MemRatio = Fin 0, CPUSamples = 0, MemSamples = 0, SampleCount = 0,
     PredictionRatioLegacy = Fin 0\<rparr>"

definition ratioFieldOK :: "f64 \<Rightarrow> bool" where
  "ratioFieldOK x \<longleftrightarrow> x \<noteq> NaN \<and> x \<noteq> PInf \<and> x \<noteq> NInf"

definition SanitizeFeedbackRatios :: "ContainerFeedback option \<Rightarrow> ContainerFeedback option" where
  "SanitizeFeedbackRatios fb = (case fb of None \<Rightarrow> None
     | Some f \<Rightarrow>
         let f1 = (if \<not> ratioFieldOK (CPURatio f) then f\<lparr>CPURatio := Fin 0\<rparr> else f);
             f2 = (if \<not> ratioFieldOK (MemRatio f1) then f1\<lparr>MemRatio := Fin 0\<rparr> else f1)
         in Some f2)"

definition MigrateLegacyFeedback :: "ContainerFeedback option \<Rightarrow> ContainerFeedback option" where
  "MigrateLegacyFeedback fb = (case fb of None \<Rightarrow> None
     | Some f \<Rightarrow>
         let f1 = (if flt (Fin 0) (PredictionRatioLegacy f) \<and> feq (CPURatio f) (Fin 0) \<and> feq (MemRatio f) (Fin 0)
                   then f\<lparr>CPURatio := PredictionRatioLegacy f, MemRatio := PredictionRatioLegacy f\<rparr> else f)
         in SanitizeFeedbackRatios (Some (f1\<lparr>PredictionRatioLegacy := Fin 0\<rparr>)))"

definition feedbackFiniteRatio :: "f64 \<Rightarrow> f64" where
  "feedbackFiniteRatio x = (if ratioFieldOK x then x else f64_const 1)"

text \<open>The new ratio of one resource after \<open>samples\<close> earlier samples.\<close>

definition next_ratio :: "f64 \<Rightarrow> f64 \<Rightarrow> int \<Rightarrow> f64 \<Rightarrow> f64" where
  "next_ratio actual recommended samples old =
     (let r0 = fdiv actual recommended;
          r = (if \<not> ratioFieldOK r0 then f64_const 1 else r0);
          v = (if samples = 0 then r
               else fadd (fmul (f64_const biasAlpha) r) (fmul (f64_const (1 - biasAlpha)) old))
      in feedbackFiniteRatio v)"

definition RecordUsage :: "f64 \<Rightarrow> f64 \<Rightarrow> f64 \<Rightarrow> f64 \<Rightarrow> ContainerFeedback \<Rightarrow> ContainerFeedback" where
  "RecordUsage cpuActual cpuRecommendedMilli memActual memRecommendedBytes f =
     (let f1 = (if flt (Fin 0) cpuRecommendedMilli \<and> ratioFieldOK cpuActual \<and> ratioFieldOK cpuRecommendedMilli
                then f\<lparr>CPURatio := next_ratio cpuActual cpuRecommendedMilli (CPUSamples f) (CPURatio f),
                       CPUSamples := wrap32 (CPUSamples f + 1)\<rparr>
                else f);
          f2 = (if flt (Fin 0) memRecommendedBytes \<and> ratioFieldOK memActual \<and> ratioFieldOK memRecommendedBytes
                then f1\<lparr>MemRatio := next_ratio memActual memRecommendedBytes (MemSamples f1) (MemRatio f1),
                        MemSamples := wrap32 (MemSamples f1 + 1)\<rparr>
                else f1)
      in f2\<lparr>SampleCount := wrap32 (SampleCount f2 + 1)\<rparr>)"

section \<open>The live provider\<close>

definition clampBiasRatio :: "f64 \<Rightarrow> f64" where
  "clampBiasRatio x =
     (if \<not> ratioFieldOK x then f64_const 1
      else if flt x biasMaxDown then biasMaxDown
      else if flt biasMaxUp x then biasMaxUp
      else x)"

definition scaleMilliQty :: "'q quantity_api \<Rightarrow> 'q \<Rightarrow> f64 \<Rightarrow> 'q" where
  "scaleMilliQty Q q ratio =
     NewMilliQuantity Q (int64_of_f64 (math_Round (fmul (f64_of_int (MilliValue Q q)) ratio))) DecimalSI"

definition scaleBytesQty :: "'q quantity_api \<Rightarrow> 'q \<Rightarrow> f64 \<Rightarrow> 'q" where
  "scaleBytesQty Q q ratio =
     NewQuantity Q (int64_of_f64 (math_Round (fmul (f64_of_int (Value Q q)) ratio))) BinarySI"

text \<open>The state of a \<open>LiveBias\<close>: \<open>None\<close> for a nil receiver or map; the map's values may be nil.\<close>

type_synonym feedback_map = "(string \<rightharpoonup> ContainerFeedback option) option"

definition feedback_of :: "feedback_map \<Rightarrow> string \<Rightarrow> ContainerFeedback option" where
  "feedback_of st name = (case st of None \<Rightarrow> None
     | Some m \<Rightarrow> (case m name of Some (Some f) \<Rightarrow> if SampleCount f < minSamples then None else Some f | _ \<Rightarrow> None))"

definition bias_ratios :: "ContainerFeedback \<Rightarrow> f64 \<times> f64" where
  "bias_ratios f =
     ((if CPUSamples f > 0 \<and> flt (Fin 0) (CPURatio f) then clampBiasRatio (CPURatio f) else f64_const 1),
      (if MemSamples f > 0 \<and> flt (Fin 0) (MemRatio f) then clampBiasRatio (MemRatio f) else f64_const 1))"

definition LiveBias_PredictionRatios :: "feedback_map \<Rightarrow> string \<Rightarrow> f64 \<times> f64" where
  "LiveBias_PredictionRatios st container =
     (case feedback_of st container of None \<Rightarrow> (f64_const 1, f64_const 1) | Some f \<Rightarrow> bias_ratios f)"

definition LiveBias_Apply :: "'q quantity_api \<Rightarrow> feedback_map \<Rightarrow> 'q Recommendation \<Rightarrow> ('q, 'sk) Input \<Rightarrow> 'q Recommendation" where
  "LiveBias_Apply Q st r inp =
     (case feedback_of st (InContainerName inp) of
        None \<Rightarrow> r
      | Some f \<Rightarrow>
          let (cpuR, memR) = bias_ratios f in
          if flt (math_Abs (fsub cpuR (f64_const 1))) biasRationaleEpsilon
             \<and> flt (math_Abs (fsub memR (f64_const 1))) biasRationaleEpsilon
          then r
          else r\<lparr>CPURequest := scaleMilliQty Q (CPURequest r) cpuR, CPULimit := scaleMilliQty Q (CPULimit r) cpuR,
                 MemoryRequest := scaleBytesQty Q (MemoryRequest r) memR, MemoryLimit := scaleBytesQty Q (MemoryLimit r) memR\<rparr>)"

definition NewLiveBias :: "'q quantity_api \<Rightarrow> feedback_map \<Rightarrow> ('q, 'sk) BiasProvider" where
  "NewLiveBias Q st = \<lparr>bias_Apply = LiveBias_Apply Q st, PredictionRatios = LiveBias_PredictionRatios st\<rparr>"

section \<open>What a bias provider promises\<close>

definition bias_ratio_ok :: "f64 \<Rightarrow> bool" where
  "bias_ratio_ok x \<longleftrightarrow> fle biasMaxDown x \<and> fle x biasMaxUp"

locale bias_provider = quantity Q amount for Q :: "'q quantity_api" and amount +
  fixes B :: "('q, 'sk) BiasProvider"
  assumes Apply_frame: "ContainerName (bias_Apply B r inp) = ContainerName r \<and> Rationale (bias_Apply B r inp) = Rationale r"
    and ratios_ok: "bias_ratio_ok (fst (PredictionRatios B name)) \<and> bias_ratio_ok (snd (PredictionRatios B name))"
    and Apply_ordered: "rec_range amount r \<Longrightarrow> ordered_rec amount r \<Longrightarrow> ordered_rec amount (bias_Apply B r inp)"
    and Apply_neutral: "PredictionRatios B (InContainerName inp) = (f64_const 1, f64_const 1) \<Longrightarrow> bias_Apply B r inp = r"
begin

text \<open>The biased engine returns whatever the strategy does, and keeps requests within limits.\<close>

lemma engine_ordered:
  assumes "ddsketch S" "input_in_range S inp" "bounds_in_range amount inp" "no_pressure inp"
  shows "\<exists>r. biasedEngine_Compute S Q (New mode (Some B)) inp = Inr r \<and> ordered_rec amount r"
proof -
  obtain r where r: "Strategy_Compute (eng_base (New mode (Some B))) S Q inp = Inr r" "ordered_rec amount r" "rec_range amount r"
    using Strategy_Compute_ordered [OF assms] by blast
  moreover have "eng_bias (New mode (Some B)) = B" by (simp add: New_def)
  ultimately show ?thesis
    using Apply_ordered [OF r(3,2), of inp]
    by (auto simp: biasedEngine_Compute_def Let_def split_def ordered_rec_def)
qed

lemma engine_name:
  "\<exists>r. biasedEngine_Compute S Q (New mode (Some B)) inp = Inr r \<and> ContainerName r = InContainerName inp"
proof -
  obtain r where "Strategy_Compute (eng_base (New mode (Some B))) S Q inp = Inr r" "ContainerName r = InContainerName inp"
    using Strategy_Compute_within by blast
  moreover have "eng_bias (New mode (Some B)) = B" by (simp add: New_def)
  ultimately show ?thesis using Apply_frame [of r inp] by (auto simp: biasedEngine_Compute_def Let_def split_def)
qed

end

section \<open>The two implementations\<close>

lemma bias_consts:
  "biasMaxDown = Fin (rnd64 (17 / 20))" "biasMaxUp = Fin (rnd64 (13 / 10))" "f64_const 1 = Fin 1"
  "0 \<le> rnd64 (17 / 20)" "rnd64 (17 / 20) \<le> 1" "1 \<le> rnd64 (13 / 10)" "rnd64 (13 / 10) \<le> 2"
  using to_f64_small [of "17 / 20" 1] to_f64_small [of "13 / 10" 2] to_f64_small [of 1 1] binary64.rnd_of_int [of 1]
    binary64.rnd_nonneg [of "17 / 20"] binary64.rnd_le_int [of "17 / 20" 1] binary64.rnd_ge_int [of 1 "13 / 10"]
    binary64.rnd_le_int [of "13 / 10" 2]
  by (simp_all add: biasMaxDown_def biasMaxUp_def f64_const_def)

lemma bias_ratio_ok_cases:
  assumes "bias_ratio_ok x" obtains c where "x = Fin c" "0 \<le> c" "c \<le> 2"
proof -
  have "fle (Fin (rnd64 (17 / 20))) x" "fle x (Fin (rnd64 (13 / 10)))"
    using assms by (simp_all add: bias_ratio_ok_def bias_consts)
  then obtain c where "x = Fin c" "rnd64 (17 / 20) \<le> c" "c \<le> rnd64 (13 / 10)"
    by (cases x) (auto simp: fle_def)
  then show ?thesis using that [of c] bias_consts(4,7) by linarith
qed

lemma one_ratio_ok: "bias_ratio_ok (f64_const 1)"
  using bias_consts(5,6) by (simp add: bias_ratio_ok_def bias_consts fp_simps)

lemma clampBiasRatio_ok: "bias_ratio_ok (clampBiasRatio x)"
proof (cases x)
  case (Fin c)
  have "rnd64 (17 / 20) \<le> rnd64 (13 / 10)" using bias_consts(5,6) by linarith
  with Fin show ?thesis by (auto simp: clampBiasRatio_def ratioFieldOK_def bias_ratio_ok_def bias_consts(1,2) fp_simps)
qed (simp_all add: clampBiasRatio_def ratioFieldOK_def one_ratio_ok)

lemma bias_ratios_ok: "bias_ratio_ok (fst (bias_ratios f)) \<and> bias_ratio_ok (snd (bias_ratios f))"
  by (simp add: bias_ratios_def clampBiasRatio_ok one_ratio_ok)

lemma one_minus_one: "fsub (f64_const 1) (f64_const 1) = Fin 0"
  by (simp add: bias_consts(3) fsub_def to_f64_def)

lemma eps_nonzero: "flt (Fin 0) biasRationaleEpsilon"
proof -
  have "\<bar>rnd64 (1 / 1000000) - 1 / 1000000\<bar> \<le> 1 / 2000000" using binary64.rnd_rel [of "1 / 1000000"] by simp
  then have "0 < rnd64 (1 / 1000000)" unfolding abs_le_iff by linarith
  then show ?thesis unfolding conjunct1 [OF eps_positive] by (simp only: flt.simps)
qed

text \<open>Scaling an integer by a ratio: monotone, non-negative, and small.\<close>

lemma scaled_round:
  assumes "0 \<le> c" "c \<le> 2" "0 \<le> m" "m \<le> n" "n \<le> 2 ^ 48"
  shows "\<exists>x y. int64_of_f64 (math_Round (fmul (f64_of_int m) (Fin c))) = x \<and>
    int64_of_f64 (math_Round (fmul (f64_of_int n) (Fin c))) = y \<and> 0 \<le> x \<and> x \<le> y \<and> y \<le> 2 ^ 49"
proof -
  have f: "f64_of_int m = Fin (of_int m)" "f64_of_int n = Fin (of_int n)"
    using assms by (auto intro!: f64_of_int_exact)
  have le: "of_int m * c \<le> of_int n * c" "0 \<le> of_int m * c"
    using assms by (simp_all add: mult_right_mono)
  have "of_int n * c \<le> of_int (2 ^ 48) * 2" using assms by (intro mult_mono) simp_all
  then have b: "of_int n * c \<le> of_int (2 ^ 49)" by simp
  have t: "to_f64 z = Fin (rnd64 z)" if "0 \<le> z" "z \<le> of_int (2 ^ 49)" for z
    using that by (intro to_f64_small [of _ "2 ^ 49"]) auto
  have r: "0 \<le> rnd64 (of_int m * c)" "rnd64 (of_int m * c) \<le> rnd64 (of_int n * c)" "rnd64 (of_int n * c) \<le> of_int (2 ^ 49)"
    using le b binary64.rnd_nonneg binary64.rnd_mono binary64.rnd_le_int [of _ "2 ^ 49"] by auto
  have m49: "of_int m * c \<le> of_int (2 ^ 49)" "rnd64 (of_int m * c) \<le> of_int (2 ^ 49)" "0 \<le> rnd64 (of_int n * c)" "0 \<le> of_int n * c"
    using le b r by linarith+
  show ?thesis
    using round_away_range [of _ "2 ^ 49", OF r(1) m49(2)] round_away_range [of _ "2 ^ 49", OF m49(3) r(3)]
      round_away_mono [OF r(2)] f t [OF le(2) m49(1)] t [OF m49(4) b] by simp
qed

context quantity
begin

lemma NoopBias_provider: "bias_provider Q amount NoopBias"
  by unfold_locales (simp_all add: NoopBias_def one_ratio_ok)

lemma scaleMilliQty_mono:
  assumes "cpu_range (amount a)" "cpu_range (amount b)" "amount a \<le> amount b" "bias_ratio_ok x"
  shows "amount (scaleMilliQty Q a x) \<le> amount (scaleMilliQty Q b x)"
proof -
  obtain c where c: "x = Fin c" "0 \<le> c" "c \<le> 2" using assms(4) by (rule bias_ratio_ok_cases)
  note ma = cpu_MilliValue [OF assms(1)] and mb = cpu_MilliValue [OF assms(2)]
  have "MilliValue Q a \<le> MilliValue Q b" using assms(3) ma(3) mb(3) by (simp add: ceiling_mono)
  then show ?thesis
    using scaled_round [OF c(2,3) ma(1) _ mb(2)] by (auto simp: scaleMilliQty_def c(1) amount_NewMilli is_i64_def divide_right_mono)
qed

lemma scaleBytesQty_mono:
  assumes "mem_range (amount a)" "mem_range (amount b)" "amount a \<le> amount b" "bias_ratio_ok x"
  shows "amount (scaleBytesQty Q a x) \<le> amount (scaleBytesQty Q b x)"
proof -
  obtain c where c: "x = Fin c" "0 \<le> c" "c \<le> 2" using assms(4) by (rule bias_ratio_ok_cases)
  note ma = mem_Value [OF assms(1)] and mb = mem_Value [OF assms(2)]
  have "Value Q a \<le> Value Q b" using assms(3) ma(3) mb(3) by (simp add: ceiling_mono)
  then show ?thesis
    using scaled_round [OF c(2,3) ma(1) _ mb(2)] by (auto simp: scaleBytesQty_def c(1) amount_New is_i64_def)
qed

lemma LiveBias_provider: "bias_provider Q amount (NewLiveBias Q st)"
proof unfold_locales
  fix r :: "'q Recommendation" and inp :: "('q, 'sk) Input" and name
  show "ContainerName (bias_Apply (NewLiveBias Q st) r inp) = ContainerName r
      \<and> Rationale (bias_Apply (NewLiveBias Q st) r inp) = Rationale r"
    by (auto simp: NewLiveBias_def LiveBias_Apply_def split_def Let_def split: option.split)
  show "bias_ratio_ok (fst (PredictionRatios (NewLiveBias Q st) name)) \<and> bias_ratio_ok (snd (PredictionRatios (NewLiveBias Q st) name))"
    by (auto simp: NewLiveBias_def LiveBias_PredictionRatios_def bias_ratios_ok one_ratio_ok split: option.split)
  show "ordered_rec amount (bias_Apply (NewLiveBias Q st) r inp)" if "rec_range amount r" "ordered_rec amount r"
    using that bias_ratios_ok
    by (auto simp: NewLiveBias_def LiveBias_Apply_def split_def Let_def ordered_rec_def rec_range_def
        scaleMilliQty_mono scaleBytesQty_mono split: option.split)
  assume "PredictionRatios (NewLiveBias Q st) (InContainerName inp) = (f64_const 1, f64_const 1)"
  then show "bias_Apply (NewLiveBias Q st) r inp = r"
    using eps_nonzero
    by (auto simp: NewLiveBias_def LiveBias_Apply_def LiveBias_PredictionRatios_def one_minus_one split_def Let_def split: option.splits)
qed

end

sublocale quantity \<subseteq> noop: bias_provider Q amount NoopBias
  by (rule NoopBias_provider)

sublocale quantity \<subseteq> live: bias_provider Q amount "NewLiveBias Q st" for st
  by (rule LiveBias_provider)

section \<open>The recorded ratios\<close>

definition feedback_ok :: "ContainerFeedback \<Rightarrow> bool" where
  "feedback_ok f \<longleftrightarrow> nonneg (CPURatio f) \<and> nonneg (MemRatio f)"

lemma ratioFieldOK_finite: "ratioFieldOK x \<longleftrightarrow> is_finite x"
  by (cases x) (simp_all add: ratioFieldOK_def)

lemma nonneg_one: "nonneg (f64_const 1)"
  by (simp add: bias_consts(3))

lemma feedbackFiniteRatio_nonneg: "nonneg (FiniteOrZero x) \<Longrightarrow> nonneg (feedbackFiniteRatio x)"
  by (cases x) (simp_all add: feedbackFiniteRatio_def ratioFieldOK_def FiniteOrZero_def nonneg_one)

lemma next_ratio_nonneg:
  assumes "nonneg actual" "flt (Fin 0) recommended" "ratioFieldOK recommended" "nonneg old"
  shows "nonneg (next_ratio actual recommended samples old)"
proof -
  obtain a b where ab: "actual = Fin a" "0 \<le> a" "recommended = Fin b" "0 < b"
    using assms(1-3) by (cases recommended) (auto simp: nonneg_def ratioFieldOK_def)
  let ?r = "if \<not> ratioFieldOK (fdiv actual recommended) then f64_const 1 else fdiv actual recommended"
  have "nonneg (FiniteOrZero (fdiv actual recommended))" using ab by (simp add: nonneg_FiniteOrZero)
  then have r: "nonneg ?r" by (auto simp: ratioFieldOK_finite nonneg_one)
  have "nonneg (FiniteOrZero (fadd (fmul (f64_const biasAlpha) ?r) (fmul (f64_const (1 - biasAlpha)) old)))"
    using weighted_nonneg [of biasAlpha "1 - biasAlpha", OF _ _ _ _ r assms(4)] by (simp add: biasAlpha_def)
  moreover have "nonneg (FiniteOrZero ?r)" using r by (simp add: nonneg_finite)
  ultimately show ?thesis by (simp add: next_ratio_def Let_def feedbackFiniteRatio_nonneg)
qed

lemma RecordUsage_keeps_ok:
  assumes "feedback_ok f" "nonneg cpu" "nonneg mem"
  shows "feedback_ok (RecordUsage cpu cpuRec mem memRec f)"
  using assms by (simp add: RecordUsage_def Let_def feedback_ok_def next_ratio_nonneg)

section \<open>The guarantees\<close>


definition ex_feedback :: feedback_map where
  "ex_feedback = Some [''app'' \<mapsto> Some \<lparr>CPURatio = Fin 2, MemRatio = Fin (1 / 2), CPUSamples = 12, MemSamples = 12,
     SampleCount = 12, PredictionRatioLegacy = Fin 0\<rparr>]"


text \<open>
  The correction factors lie between 0.85 and 1.30 for every persisted state, NaN and
  infinities included, and are exactly 1 for a container without feedback or with fewer than ten
  samples, whose recommendation is then returned unchanged.
\<close>

theorem LiveBias_ratios:
  "(let (c, m) = LiveBias_PredictionRatios st name in
      fle biasMaxDown c \<and> fle c biasMaxUp \<and> fle biasMaxDown m \<and> fle m biasMaxUp) \<and>
   (feedback_of st (InContainerName inp) = None \<longrightarrow> LiveBias_Apply Q st r inp = r)"
  using bias_ratios_ok one_ratio_ok
  by (auto simp: LiveBias_PredictionRatios_def LiveBias_Apply_def split_def bias_ratio_ok_def split: option.split)

theorem LiveBias_ratios_witness:
  "LiveBias_Apply nano_api (Some [''app'' \<mapsto> Some (zero_feedback\<lparr>SampleCount := 9\<rparr>)]) (ex_rec 1 2 3 4) ex_input = ex_rec 1 2 3 4"
  using LiveBias_ratios [where st = "Some [''app'' \<mapsto> Some (zero_feedback\<lparr>SampleCount := 9\<rparr>)]"
      and inp = ex_input and Q = nano_api and r = "ex_rec 1 2 3 4"]
  by (simp add: feedback_of_def ex_input_def minSamples_def)

text \<open>
  Recording usage keeps both ratios finite and non-negative, whatever was recommended, and
  counts samples modulo 32 bits; a ratio read back from storage is finite after sanitizing.
\<close>

theorem RecordUsage_invariant:
  assumes "feedback_ok f" "nonneg cpu" "nonneg mem"
  shows "feedback_ok (RecordUsage cpu cpuRec mem memRec f)
    \<and> SampleCount (RecordUsage cpu cpuRec mem memRec f) = wrap32 (SampleCount f + 1)"
  using RecordUsage_keeps_ok [OF assms] by (simp add: RecordUsage_def Let_def)

theorem RecordUsage_invariant_witness:
  "feedback_ok (RecordUsage (Fin 50) (Fin 100) (Fin 0) NaN zero_feedback)"
  using RecordUsage_invariant [of zero_feedback "Fin 50" "Fin 0" "Fin 100" NaN] by (simp add: feedback_ok_def zero_feedback_def)

lemma MigrateLegacyFeedback_finite:
  "MigrateLegacyFeedback (Some f) = Some g \<Longrightarrow> is_finite (CPURatio g) \<and> is_finite (MemRatio g) \<and> PredictionRatioLegacy g = Fin 0"
  by (auto simp: MigrateLegacyFeedback_def SanitizeFeedbackRatios_def Let_def ratioFieldOK_finite)

text \<open>
  The scaling comes after the clamp to the user's bounds: a recommendation at the minimum of 100m
  leaves the provider at 85m when the learned ratio is one half.
\<close>

theorem bias_leaves_user_bounds:
  "MilliValue nano_api (CPURequest (LiveBias_Apply nano_api
     (Some [''app'' \<mapsto> Some (zero_feedback\<lparr>CPURatio := Fin (1 / 2), CPUSamples := 12, SampleCount := 12\<rparr>)])
     (ex_rec 100 200 0 0) (ex_input\<lparr>InMinCPU := Some (NewMilliQuantity nano_api 100 DecimalSI)\<rparr>))) = 85"
proof -
  let ?c = "7656119366529843 / 9007199254740992 :: rat"
  have c: "rnd64 (17 / 20) = ?c" "rnd64 (?c - 1) = ?c - 1" "rnd64 (100 * ?c) = 85" by code_simp+
  have down: "biasMaxDown = Fin ?c" by (simp only: bias_consts c)
  have "rnd64 (1 / 1000000) \<le> 1 / 100000" using binary64.rnd_rel [of "1 / 1000000"] unfolding abs_le_iff by simp
  then have eps: "\<not> flt (Fin \<bar>?c - 1\<bar>) biasRationaleEpsilon" unfolding conjunct1 [OF eps_positive] by simp
  have "to_f64 (?c - 1) = Fin (?c - 1)" "to_f64 (100 * ?c) = Fin 85" unfolding to_f64_def c(2,3) by simp_all
  then have f: "fsub (Fin ?c) (Fin 1) = Fin (?c - 1)" "fmul (Fin 100) (Fin ?c) = Fin 85" "f64_of_int 100 = Fin 100"
    using f64_of_int_exact [of 100] by (simp_all add: fsub_def)
  have "bias_ratios (zero_feedback\<lparr>CPURatio := Fin (1 / 2), CPUSamples := 12, SampleCount := 12\<rparr>) = (Fin ?c, Fin 1)"
    by (simp add: down bias_ratios_def zero_feedback_def clampBiasRatio_def ratioFieldOK_def bias_consts(3))
  moreover have "int64_of_f64 (math_Round (Fin 85)) = 85" using round_away_range [of 85 85] round_away_of_int [of 85]
    by (simp only: of_int_numeral) simp
  moreover have "MilliValue nano_api (CPURequest (ex_rec 100 200 0 0)) = 100" by (simp add: ex_simps)
  moreover have "MilliValue nano_api (NewMilliQuantity nano_api 85 DecimalSI) = 85" by (simp add: ex_simps)
  ultimately show ?thesis
    using eps by (simp add: LiveBias_Apply_def feedback_of_def ex_input_def minSamples_def zero_feedback_def bias_consts(3)
        scaleMilliQty_def f [simplified] f)
qed

end
