(* ===== verification/Holt_Winters.thy ===== *)
theory Holt_Winters
  imports Aggregate
begin

text \<open>
  \<open>internal/aggregate/holtwinters.go\<close>: triple exponential smoothing with 24 hourly seasons.
  \<open>HW_Update\<close> returns the new state and the forecast; the method's receiver is its first argument.
  The array of seasons is a list of length 24, and the hour is brought into range before it is
  used as an index.
\<close>

record HWState =
  Level :: f64
  Trend :: f64
  Season :: "f64 list"
  Alpha :: f64
  Beta :: f64
  Gamma :: f64
  Samples :: int

definition hwLevelEpsilon :: f64 where
  "hwLevelEpsilon = f64_const (1 / 10 ^ 12)"

definition DefaultHWState :: HWState where
  "DefaultHWState = \<lparr> Level = Fin 0, Trend = Fin 0, Season = replicate 24 (f64_const 1),
     Alpha = f64_const (3 / 10), Beta = f64_const (1 / 10), Gamma = f64_const (1 / 10), Samples = 0 \<rparr>"

definition sanitizeState :: "HWState \<Rightarrow> HWState" where
  "sanitizeState h = h\<lparr>
     Level := (if \<not> IsFinite (Level h) then Fin 0 else Level h),
     Trend := (if \<not> IsFinite (Trend h) then Fin 0 else Trend h),
     Season := map (\<lambda>s. if \<not> IsFinite s then f64_const 1 else s) (Season h) \<rparr>"

text \<open>\<open>Sanitize\<close> on a nil receiver does nothing.\<close>

definition HW_Sanitize :: "HWState option \<Rightarrow> HWState option" where
  "HW_Sanitize h = map_option sanitizeState h"

definition hw_hour :: "int \<Rightarrow> int" where
  "hw_hour hour = (let hour = (if hour < 0 then 0 else hour) in if hour > 23 then hour smod 24 else hour)"

definition HW_Update :: "HWState \<Rightarrow> f64 \<Rightarrow> int \<Rightarrow> HWState \<times> f64" where
  "HW_Update h x hour =
     (let x = FiniteOrZero x; hour = hw_hour hour in
      if Samples h < 24 then
        let level = fadd (Level h) (fdiv (fsub x (Level h)) (f64_of_int (wrap32 (Samples h + 1))));
            h1 = h\<lparr>Level := (if \<not> IsFinite level then Fin 0 else level), Samples := wrap32 (Samples h + 1)\<rparr>
        in (h1, x)
      else
        let s0 = Season h ! nat hour;
            s = (if feq s0 (Fin 0) \<or> \<not> IsFinite s0 then f64_const 1 else s0);
            prevLevel = Level h;
            level = fadd (fmul (Alpha h) (fdiv x s)) (fmul (fsub (f64_const 1) (Alpha h)) (fadd (Level h) (Trend h)));
            trend = fadd (fmul (Beta h) (fsub level prevLevel)) (fmul (fsub (f64_const 1) (Beta h)) (Trend h));
            levelForRatio = (if flt (math_Abs level) hwLevelEpsilon then hwLevelEpsilon else level);
            ratio0 = fdiv x levelForRatio;
            ratio = (if \<not> IsFinite ratio0 then f64_const 1 else ratio0);
            season = fadd (fmul (Gamma h) ratio) (fmul (fsub (f64_const 1) (Gamma h)) s);
            season = (if \<not> IsFinite season then s else season);
            h1 = h\<lparr>Level := level, Trend := trend, Season := (Season h)[nat hour := season],
                   Samples := wrap32 (Samples h + 1)\<rparr>;
            h2 = sanitizeState h1;
            next = (hour + 1) smod 24;
            sn0 = Season h2 ! nat next;
            sn = (if feq sn0 (Fin 0) \<or> \<not> IsFinite sn0 then f64_const 1 else sn0);
            out = fmul (fadd (Level h2) (Trend h2)) sn
        in (h2, if \<not> IsFinite out then Fin 0 else out))"

section \<open>What an update keeps\<close>

text \<open>The 24 seasons are there and everything that is persisted as JSON is a number.\<close>

definition hw_ok :: "HWState \<Rightarrow> bool" where
  "hw_ok h \<longleftrightarrow> length (Season h) = 24 \<and> is_finite (Level h) \<and> is_finite (Trend h) \<and> list_all is_finite (Season h)"

lemma f64_const_1 [fp_simps]: "f64_const 1 = Fin 1"
  using to_f64_small [of 1 1] binary64.rnd_of_int [of 1] by (simp add: f64_const_def)

lemma is_finite_f64_const_1 [simp]: "is_finite (f64_const 1)"
  by (simp add: f64_const_1)

lemma hw_hour_range: "0 \<le> hw_hour hour \<and> hw_hour hour < 24"
proof -
  have "k smod 24 = k mod 24" if "0 \<le> k" for k :: int
    using that by (cases "k = 0") (simp_all add: signed_modulo_int_def sgn_if)
  then show ?thesis by (simp add: hw_hour_def Let_def)
qed

lemma hw_hour_id: "0 \<le> hour \<Longrightarrow> hour < 24 \<Longrightarrow> hw_hour hour = hour"
  by (simp add: hw_hour_def)

lemma sanitizeState_ok: "length (Season h) = 24 \<Longrightarrow> hw_ok (sanitizeState h)"
  by (auto simp: hw_ok_def sanitizeState_def IsFinite_def list_all_iff)

lemma sanitizeState_id: "hw_ok h \<Longrightarrow> sanitizeState h = h"
  by (simp add: hw_ok_def sanitizeState_def IsFinite_def list_all_iff map_idI)

lemma DefaultHWState_ok: "hw_ok DefaultHWState"
  by (simp add: hw_ok_def DefaultHWState_def list_all_iff)

lemma HW_Update_forecast_finite: "is_finite (snd (HW_Update h x hour))"
  by (simp add: HW_Update_def Let_def IsFinite_def)

lemma HW_Update_level_finite: "is_finite (Level (fst (HW_Update h x hour)))"
  by (simp add: HW_Update_def Let_def IsFinite_def sanitizeState_def)

lemma HW_Update_ok: "hw_ok h \<Longrightarrow> hw_ok (fst (HW_Update h x hour))"
proof (cases "Samples h < 24")
  case True
  assume "hw_ok h"
  with True show ?thesis by (simp add: HW_Update_def Let_def hw_ok_def IsFinite_def)
next
  case False
  assume "hw_ok h"
  then have "length (Season h) = 24" by (simp add: hw_ok_def)
  with False show ?thesis by (simp add: HW_Update_def Let_def sanitizeState_ok)
qed

lemma HW_Update_repairs:
  "length (Season h) = 24 \<Longrightarrow> 24 \<le> Samples h \<Longrightarrow> hw_ok (fst (HW_Update h x hour))"
  by (simp add: HW_Update_def Let_def sanitizeState_ok)

lemma HW_Update_Samples: "Samples (fst (HW_Update h x hour)) = wrap32 (Samples h + 1)"
  by (simp add: HW_Update_def Let_def sanitizeState_def)

lemma HW_Update_params:
  "Alpha (fst (HW_Update h x hour)) = Alpha h \<and> Beta (fst (HW_Update h x hour)) = Beta h
   \<and> Gamma (fst (HW_Update h x hour)) = Gamma h"
  by (simp add: HW_Update_def Let_def sanitizeState_def)

text \<open>While the state warms up the forecast is the sample itself and trend and seasons rest.\<close>

lemma HW_Update_warmup:
  "Samples h < 24 \<Longrightarrow> snd (HW_Update h x hour) = FiniteOrZero x \<and>
     Trend (fst (HW_Update h x hour)) = Trend h \<and> Season (fst (HW_Update h x hour)) = Season h"
  by (simp add: HW_Update_def Let_def)

text \<open>Only the current hour's season moves.\<close>

lemma HW_Update_other_seasons:
  assumes "hw_ok h" "0 \<le> k" "k < 24" "k \<noteq> hw_hour hour"
  shows "Season (fst (HW_Update h x hour)) ! nat k = Season h ! nat k"
proof -
  have "nat (hw_hour hour) \<noteq> nat k" using assms hw_hour_range [of hour] by auto
  moreover have "is_finite (Season h ! nat k)" using assms by (auto simp: hw_ok_def list_all_length)
  ultimately show ?thesis
    using assms by (simp add: HW_Update_def Let_def sanitizeState_def hw_ok_def IsFinite_def)
qed

fun HW_run :: "HWState \<Rightarrow> (f64 \<times> int) list \<Rightarrow> HWState" where
  "HW_run h [] = h"
| "HW_run h ((x, hour) # xs) = HW_run (fst (HW_Update h x hour)) xs"

lemma HW_run_ok: "hw_ok h \<Longrightarrow> hw_ok (HW_run h xs)"
  by (induction h xs rule: HW_run.induct) (auto intro: HW_Update_ok)

section \<open>What the forecaster promises\<close>

text \<open>
  Claim C11: whatever the samples and hours, NaN and infinities included, a well-formed Holt-Winters
  state stays well-formed (24 finite seasonal factors, finite level and trend) over any run; the next
  forecast is a finite number, the sample counter counts modulo 32 bits, the smoothing parameters do
  not move, and only the seasonal factor of the sample's hour does.
\<close>

theorem HW_run_invariant:
  assumes "hw_ok h"
  shows "let h1 = HW_run h xs; (h2, forecast) = HW_Update h1 x hour in
     hw_ok h1 \<and> hw_ok h2 \<and> is_finite forecast \<and> Samples h2 = wrap32 (Samples h1 + 1) \<and>
     Alpha h2 = Alpha h1 \<and> Beta h2 = Beta h1 \<and> Gamma h2 = Gamma h1 \<and>
     (\<forall>k \<in> {0..<24}. k = hw_hour hour \<or> Season h2 ! nat k = Season h1 ! nat k)"
proof -
  have "\<forall>k \<in> {0..<24}. k = hw_hour hour \<or> Season (fst (HW_Update (HW_run h xs) x hour)) ! nat k = Season (HW_run h xs) ! nat k"
    by (meson HW_Update_other_seasons HW_run_ok assms atLeastLessThan_iff)
  then show ?thesis
    using HW_run_ok [OF assms, of xs] HW_Update_params [of "HW_run h xs" x hour]
    by (simp add: split_def Let_def HW_Update_ok HW_Update_forecast_finite HW_Update_Samples)
qed

theorem HW_run_invariant_witness:
  "hw_ok (HW_run DefaultHWState [(Fin 100, 3), (NaN, 3), (PInf, 27), (Fin (- 5), - 1)])"
  using HW_run_invariant [OF DefaultHWState_ok, of "[(Fin 100, 3), (NaN, 3), (PInf, 27), (Fin (- 5), - 1)]" NaN 0]
  by (simp add: split_def Let_def del: HW_run.simps)

end
