(* ===== verification/Changepoint.thy ===== *)
theory Changepoint
  imports Aggregate
begin

text \<open>
  \<open>internal/changepoint\<close>: the two-sided CUSUM detector (\<open>cusum.go\<close>) and the handlers that are
  told about a shift (\<open>handler.go\<close>).  Methods on a pointer receiver return the new state.
\<close>

section \<open>CUSUM\<close>

record CusumState =
  SPos :: f64
  SNeg :: f64

record CusumConfig =
  CfgK :: f64
  CfgH :: f64

definition DefaultCPUConfig :: CusumConfig where
  "DefaultCPUConfig = \<lparr>CfgK = f64_const 25, CfgH = f64_const 125\<rparr>"

definition DefaultMemConfig :: CusumConfig where
  "DefaultMemConfig = \<lparr>CfgK = f64_const (16 * 1024 * 1024), CfgH = f64_const (80 * 1024 * 1024)\<rparr>"

definition cusum_zero :: CusumState where
  "cusum_zero = \<lparr>SPos = Fin 0, SNeg = Fin 0\<rparr>"

definition Cusum_Update :: "CusumState \<Rightarrow> f64 \<Rightarrow> f64 \<Rightarrow> CusumConfig \<Rightarrow> CusumState \<times> bool" where
  "Cusum_Update s x target cfg =
     (if \<not> is_finite x \<or> \<not> is_finite target then (s, False)
      else
        let s1 = (if \<not> is_finite (SPos s) \<or> \<not> is_finite (SNeg s) then s\<lparr>SPos := Fin 0, SNeg := Fin 0\<rparr> else s);
            s2 = s1\<lparr>SPos := math_Max (Fin 0) (fsub (fsub (fadd (SPos s1) x) target) (CfgK cfg))\<rparr>;
            s3 = s2\<lparr>SNeg := math_Max (Fin 0) (fsub (fadd (fsub (SNeg s2) x) target) (CfgK cfg))\<rparr>
        in if \<not> is_finite (SPos s3) \<or> \<not> is_finite (SNeg s3)
           then (s3\<lparr>SPos := Fin 0, SNeg := Fin 0\<rparr>, False)
           else (s3, flt (CfgH cfg) (SPos s3) \<or> flt (CfgH cfg) (SNeg s3)))"

definition Cusum_Reset :: "CusumState \<Rightarrow> CusumState" where
  "Cusum_Reset s = s\<lparr>SPos := Fin 0, SNeg := Fin 0\<rparr>"

definition Cusum_Sanitize :: "CusumState option \<Rightarrow> CusumState option" where
  "Cusum_Sanitize so = (case so of None \<Rightarrow> None
     | Some s \<Rightarrow> Some (if \<not> is_finite (SPos s) \<or> \<not> is_finite (SNeg s)
                       then s\<lparr>SPos := Fin 0, SNeg := Fin 0\<rparr> else s))"

section \<open>Handlers\<close>

record 'o ShiftEvent =
  ShiftContainerName :: string
  ShiftResource :: string
  ShiftAt :: gotime
  OldMean :: f64
  NewMean :: f64
  InvolvedObject :: "'o option"

text \<open>
  The repository has one handler, \<open>EventRecorderHandler\<close>, with a possibly nil recorder; a nil
  handler is \<open>None\<close>.  The effect of a handler is the events it records.
\<close>

record 'o RecordedEvent =
  EventRegarding :: 'o
  EventReason :: string
  EventAction :: string
  EventNote :: string

datatype Handler = EventRecorderHandler (has_recorder: bool)

definition OnShift :: "Handler \<Rightarrow> 'o ShiftEvent \<Rightarrow> 'o RecordedEvent list" where
  "OnShift h e =
     (case InvolvedObject e of
        None \<Rightarrow> []
      | Some obj \<Rightarrow>
          if \<not> has_recorder h then []
          else [\<lparr>EventRegarding = obj, EventReason = ''CusumShift'', EventAction = ''CusumShiftDetected'',
                 EventNote = ''CUSUM shift detected for container '' @ ShiftContainerName e @ '' ('' @ ShiftResource e
                   @ ''): oldMean='' @ fmt_fixed 2 (OldMean e) @ '' newMean='' @ fmt_fixed 2 (NewMean e)\<rparr>])"

definition Notify :: "Handler option list option \<Rightarrow> 'o ShiftEvent \<Rightarrow> 'o RecordedEvent list" where
  "Notify d e = (case d of None \<Rightarrow> []
     | Some hs \<Rightarrow> concat (map (\<lambda>h. case h of None \<Rightarrow> [] | Some h' \<Rightarrow> OnShift h' e) hs))"

section \<open>Invariant of the accumulators\<close>

definition cusum_ok :: "CusumState \<Rightarrow> bool" where
  "cusum_ok s \<longleftrightarrow> nonneg (SPos s) \<and> nonneg (SNeg s)"

lemma cusum_zero_ok [simp]: "cusum_ok cusum_zero"
  by (simp add: cusum_ok_def cusum_zero_def)

lemma Cusum_Reset_ok [simp]: "cusum_ok (Cusum_Reset s)"
  by (simp add: cusum_ok_def Cusum_Reset_def)

lemma math_Max_0_nonneg: "is_finite (math_Max (Fin 0) x) \<Longrightarrow> nonneg (math_Max (Fin 0) x)"
  using math_Max_nonneg [of x] by (auto simp: nonneg_def)

lemma Cusum_Update_ok:
  "is_finite x \<Longrightarrow> is_finite target \<Longrightarrow> cusum_ok (fst (Cusum_Update s x target cfg))"
  by (simp add: Cusum_Update_def Let_def cusum_ok_def math_Max_0_nonneg)

lemma Cusum_Update_keeps_ok: "cusum_ok s \<Longrightarrow> cusum_ok (fst (Cusum_Update s x target cfg))"
proof (cases "is_finite x \<and> is_finite target")
  case True
  then show ?thesis using Cusum_Update_ok by blast
qed (auto simp: Cusum_Update_def)

lemma Cusum_Update_detects_iff:
  "snd (Cusum_Update s x target cfg) \<Longrightarrow>
     is_finite x \<and> is_finite target \<and>
     (flt (CfgH cfg) (SPos (fst (Cusum_Update s x target cfg))) \<or> flt (CfgH cfg) (SNeg (fst (Cusum_Update s x target cfg))))"
  unfolding Cusum_Update_def Let_def by (auto split: if_splits)

section \<open>Exactness on whole numbers\<close>

text \<open>Below \<open>2 ^ 53\<close> the arithmetic of whole-number doubles is that of the integers.\<close>

definition fint :: "int \<Rightarrow> f64" where
  "fint n = Fin (of_int n)"

lemma to_f64_int: "\<bar>n\<bar> \<le> 2 ^ 53 \<Longrightarrow> to_f64 (of_int n) = fint n"
  using f64_of_int_exact [of n] by (simp add: f64_of_int_def fint_def)

lemma fadd_int: "\<bar>a + b\<bar> \<le> 2 ^ 53 \<Longrightarrow> fadd (fint a) (fint b) = fint (a + b)"
  using to_f64_int [of "a + b"] by (simp add: fint_def)

lemma fsub_int: "\<bar>a - b\<bar> \<le> 2 ^ 53 \<Longrightarrow> fsub (fint a) (fint b) = fint (a - b)"
  using fadd_int [of a "- b"] by (simp add: fsub_def fint_def)

lemma math_Max_int: "math_Max (Fin 0) (fint a) = fint (max 0 a)"
  by (auto simp: fint_def math_Max_Fin max_def)

lemma flt_int [simp]: "flt (fint a) (fint b) \<longleftrightarrow> a < b"
  by (simp add: fint_def)

lemma is_finite_fint [simp]: "is_finite (fint n)"
  by (simp add: fint_def)

definition small :: "int \<Rightarrow> bool" where
  "small n \<longleftrightarrow> \<bar>n\<bar> \<le> 2 ^ 50"

lemma Cusum_Update_int:
  assumes "small p" "small q" "small x" "small t" "small k"
  shows "Cusum_Update \<lparr>SPos = fint p, SNeg = fint q\<rparr> (fint x) (fint t) \<lparr>CfgK = fint k, CfgH = fint h\<rparr> =
    (\<lparr>SPos = fint (max 0 (p + x - t - k)), SNeg = fint (max 0 (q - x + t - k))\<rparr>,
     h < max 0 (p + x - t - k) \<or> h < max 0 (q - x + t - k))"
  using assms
  by (simp add: Cusum_Update_def Let_def small_def fadd_int fsub_int math_Max_int abs_le_iff)

text \<open>The detector fed with samples until it fires.\<close>

fun cusum_detects :: "CusumState \<Rightarrow> CusumConfig \<Rightarrow> (f64 \<times> f64) list \<Rightarrow> bool" where
  "cusum_detects s cfg [] = False"
| "cusum_detects s cfg ((x, t) # xs) =
     (let (s', d) = Cusum_Update s x t cfg in d \<or> cusum_detects s' cfg xs)"

lemma cusum_detects_shift_aux:
  assumes "small x" "small t" "small k" "0 \<le> k" "0 \<le> h" "k < x - t"
    and "0 \<le> p" "p + int n * (x - t - k) \<le> 2 ^ 50" "p \<le> h"
  shows "cusum_detects \<lparr>SPos = fint p, SNeg = fint 0\<rparr> \<lparr>CfgK = fint k, CfgH = fint h\<rparr> (replicate n (fint x, fint t))
           \<longleftrightarrow> h < p + int n * (x - t - k)"
  using assms(7-9)
proof (induction n arbitrary: p)
  case (Suc n)
  define d where "d = x - t - k"
  have d: "0 < d" using assms(6) by (simp add: d_def)
  have "0 \<le> int n * d" using d by simp
  moreover have "p + (d + int n * d) \<le> 2 ^ 50"
    using Suc.prems(2) unfolding d_def [symmetric] by (simp add: algebra_simps)
  ultimately have p: "p + d \<le> 2 ^ 50" "p \<le> 2 ^ 50" using d by linarith+
  have U: "Cusum_Update \<lparr>SPos = fint p, SNeg = fint 0\<rparr> (fint x) (fint t) \<lparr>CfgK = fint k, CfgH = fint h\<rparr> =
    (\<lparr>SPos = fint (p + d), SNeg = fint 0\<rparr>, h < p + d)"
    using Cusum_Update_int [of p 0 x t k h] assms(1-6) Suc.prems(1) p d
    by (auto simp: small_def d_def max_def algebra_simps)
  show ?case
  proof (cases "h < p + d")
    case True
    moreover have "0 \<le> int n * d" using d by simp
    ultimately show ?thesis using U by (simp add: d_def algebra_simps)
  next
    case False
    have "p + d + int n * (x - t - k) \<le> 2 ^ 50"
      using Suc.prems(2) by (simp add: d_def algebra_simps)
    then show ?thesis
      using U False Suc.IH [of "p + d"] Suc.prems(1) d by (simp add: d_def algebra_simps)
  qed
qed simp

lemma cusum_quiet_aux:
  assumes "small k" "0 \<le> h" "\<forall>(x, t) \<in> set xs. small x \<and> small t \<and> \<bar>x - t\<bar> \<le> k"
  shows "\<not> cusum_detects cusum_zero \<lparr>CfgK = fint k, CfgH = fint h\<rparr> (map (\<lambda>(x, t). (fint x, fint t)) xs)"
  using assms(3)
proof (induction xs)
  case (Cons p xs)
  obtain x t where p: "p = (x, t)" by force
  with Cons.prems have b: "small x" "small t" "\<bar>x - t\<bar> \<le> k" by auto
  then have "max 0 (x - t - k) = 0" "max 0 (t - x - k) = 0" by linarith+
  then have "Cusum_Update \<lparr>SPos = fint 0, SNeg = fint 0\<rparr> (fint x) (fint t) \<lparr>CfgK = fint k, CfgH = fint h\<rparr> =
    (\<lparr>SPos = fint 0, SNeg = fint 0\<rparr>, False)"
    using Cusum_Update_int [of 0 0 x t k h] assms(1,2) b by (simp add: small_def)
  with Cons p show ?case by (simp add: cusum_zero_def fint_def)
qed simp

lemma DefaultCPUConfig_int: "DefaultCPUConfig = \<lparr>CfgK = fint 25, CfgH = fint 125\<rparr>"
  using to_f64_int [of 25] to_f64_int [of 125] by (simp add: DefaultCPUConfig_def f64_const_def)

lemma DefaultMemConfig_int: "DefaultMemConfig = \<lparr>CfgK = fint 16777216, CfgH = fint 83886080\<rparr>"
  using to_f64_int [of 16777216] to_f64_int [of 83886080] by (simp add: DefaultMemConfig_def f64_const_def)

section \<open>What the detector promises\<close>

text \<open>
  Claim C9: after a level shift the detector fires, and at the predicted cycle.  From a reset state,
  \<open>n\<close> samples at distance \<open>x - t\<close> above the target, more than the slack \<open>k\<close>, raise an alarm exactly
  when \<open>n * (x - t - k)\<close> exceeds the threshold \<open>h\<close> (all numbers whole and below \<open>2 ^ 50\<close>, where the
  code's float64 arithmetic is exact).
\<close>

theorem cusum_detects_level_shift:
  assumes "small x" "small t" "small k" "0 \<le> k" "0 \<le> h" "k < x - t" "int n * (x - t - k) \<le> 2 ^ 50"
  shows "cusum_detects cusum_zero \<lparr>CfgK = fint k, CfgH = fint h\<rparr> (replicate n (fint x, fint t))
           \<longleftrightarrow> h < int n * (x - t - k)"
  using cusum_detects_shift_aux [OF assms(1-6), of 0 n] assms(5,7) by (simp add: cusum_zero_def fint_def)

theorem cusum_detects_level_shift_witness:
  "cusum_detects cusum_zero DefaultCPUConfig (replicate 6 (fint 150, fint 100)) \<and>
   \<not> cusum_detects cusum_zero DefaultCPUConfig (replicate 5 (fint 150, fint 100))"
  using cusum_detects_level_shift [of 150 100 25 125 6] cusum_detects_level_shift [of 150 100 25 125 5]
  by (simp add: small_def DefaultCPUConfig_int)

text \<open>
  Claim C10: the detector raises no false alarm.  Any sequence of samples that stay within the slack
  \<open>k\<close> of their targets, however long, leaves it silent.
\<close>

theorem cusum_no_false_alarm:
  assumes "small k" "0 \<le> h" "\<forall>(x, t) \<in> set xs. small x \<and> small t \<and> \<bar>x - t\<bar> \<le> k"
  shows "\<not> cusum_detects cusum_zero \<lparr>CfgK = fint k, CfgH = fint h\<rparr> (map (\<lambda>(x, t). (fint x, fint t)) xs)"
  using assms by (rule cusum_quiet_aux)

theorem cusum_no_false_alarm_witness:
  "\<not> cusum_detects cusum_zero DefaultMemConfig (map (\<lambda>(x, t). (fint x, fint t)) [(2^28, 2^28 - 2^24), (2^28 - 2^24, 2^28)])"
  using cusum_no_false_alarm [of 16777216 83886080 "[(2^28, 2^28 - 2^24), (2^28 - 2^24, 2^28)]"]
  by (simp add: small_def DefaultMemConfig_int)

text \<open>
  A state without NaN or negative sums stays so under every sample, whatever its value, and
  an alarm is raised only for a finite sample and target, with one of the two new sums above the
  threshold.
\<close>

theorem Cusum_Update_invariant:
  assumes "cusum_ok s"
  shows "cusum_ok (fst (Cusum_Update s x target cfg)) \<and>
    (snd (Cusum_Update s x target cfg) \<longrightarrow> is_finite x \<and> is_finite target \<and>
       (flt (CfgH cfg) (SPos (fst (Cusum_Update s x target cfg))) \<or> flt (CfgH cfg) (SNeg (fst (Cusum_Update s x target cfg)))))"
  using Cusum_Update_keeps_ok [OF assms] Cusum_Update_detects_iff by blast

theorem Cusum_Update_invariant_witness: "cusum_ok (fst (Cusum_Update cusum_zero NaN PInf DefaultCPUConfig))"
  using Cusum_Update_invariant [of cusum_zero NaN PInf DefaultCPUConfig] by simp

end
