(* ===== verification/Ml_State.thy ===== *)
theory Ml_State
  imports Cluster Feedback Holt_Winters Changepoint
begin

text \<open>
  The learned state of a workload profile: its data (\<open>mlstate/types.go\<close>), its persistence as JSON in
  a ConfigMap (\<open>mlstate/repository.go\<close>) and the helpers of \<open>controller/reconcile_ml_helpers.go\<close>.
  The JSON encoder and the API client are parameters.
\<close>

section \<open>The state\<close>

record ContainerCUSUM =
  CuCPU :: CusumState
  CuMemory :: CusumState

record ContainerHW =
  HwCPU :: "HWState option"
  HwMemory :: "HWState option"

record MLState =
  MlCUSUM :: "(string, ContainerCUSUM option) gomap"
  MlFeedback :: "(string, ContainerFeedback option) gomap"
  MlHW :: "(string, ContainerHW option) gomap"
  MlLastOOMKill :: "(string, gotime option) gomap"

definition New_MLState :: MLState where
  "New_MLState = \<lparr>MlCUSUM = [], MlFeedback = [], MlHW = [], MlLastOOMKill = []\<rparr>"

definition mlstateConfigMapName :: "string \<Rightarrow> string" where
  "mlstateConfigMapName profileName = ''mlstate-'' @ profileName"

record CtrlOwnerReference = OwnerReference +
  OwnerUID :: string
  OwnerIsController :: bool
  OwnerBlockDeletion :: bool

definition controllerOwnerRef :: "'q WorkloadProfile \<Rightarrow> CtrlOwnerReference" where
  "controllerOwnerRef profile =
     \<lparr>OwnerAPIVersion = ''autosize.saturdai.auto/v1'', OwnerKind = ''WorkloadProfile'',
      OwnerName = ProfileName profile, OwnerUID = ProfileUID profile,
      OwnerIsController = True, OwnerBlockDeletion = True\<rparr>"

record ConfigMap =
  CmName :: string
  CmNamespace :: string
  CmOwners :: "CtrlOwnerReference list"
  CmData :: "(string, string) gomap"

section \<open>Loading and saving\<close>

text \<open>
  \<open>json.Unmarshal\<close> into a fresh state: a \<open>null\<close> leaves a nil map (\<open>None\<close>), a nil pointer in a map is
  \<open>Some None\<close>.
\<close>

record RawState =
  RawCUSUM :: "(string, ContainerCUSUM option) gomap option"
  RawFeedback :: "(string, ContainerFeedback option) gomap option"
  RawHW :: "(string, ContainerHW option) gomap option"
  RawLastOOMKill :: "(string, gotime option) gomap option"

record json_codec =
  JMarshal :: "MLState \<Rightarrow> string + string"
  JUnmarshal :: "string \<Rightarrow> string + RawState"

definition map_values :: "('v \<Rightarrow> 'v) \<Rightarrow> (string, 'v) gomap \<Rightarrow> (string, 'v) gomap" where
  "map_values f m = map (\<lambda>(k, v). (k, f v)) m"

definition sanitize_cusum :: "ContainerCUSUM option \<Rightarrow> ContainerCUSUM option" where
  "sanitize_cusum cu = (case cu of None \<Rightarrow> None
     | Some c \<Rightarrow> Some (c\<lparr>CuCPU := the (Cusum_Sanitize (Some (CuCPU c))), CuMemory := the (Cusum_Sanitize (Some (CuMemory c)))\<rparr>))"

definition sanitize_hw :: "ContainerHW option \<Rightarrow> ContainerHW option" where
  "sanitize_hw hw = (case hw of None \<Rightarrow> None
     | Some h \<Rightarrow> Some (h\<lparr>HwCPU := HW_Sanitize (HwCPU h), HwMemory := HW_Sanitize (HwMemory h)\<rparr>))"

definition or_empty :: "('k, 'v) gomap option \<Rightarrow> ('k, 'v) gomap" where
  "or_empty m = (case m of None \<Rightarrow> [] | Some x \<Rightarrow> x)"

definition Load :: "json_codec \<Rightarrow> ('c, ConfigMap, 'sel) kind_client \<Rightarrow> 'c \<Rightarrow> 'q WorkloadProfile \<Rightarrow> api_error + MLState" where
  "Load J M c profile =
     (case KGet M c (ProfileNamespace profile, mlstateConfigMapName (ProfileName profile)) of
        Inl e \<Rightarrow> if IsNotFound e then Inr New_MLState else Inl e
      | Inr cm \<Rightarrow>
          (case map_of (CmData cm) ''state'' of
             None \<Rightarrow> Inr New_MLState
           | Some raw \<Rightarrow>
               if raw = '''' then Inr New_MLState
               else (case JUnmarshal J raw of
                   Inl _ \<Rightarrow> Inr New_MLState
                 | Inr state \<Rightarrow>
                     Inr \<lparr>MlCUSUM = map_values sanitize_cusum (or_empty (RawCUSUM state)),
                          MlFeedback = map_values MigrateLegacyFeedback (or_empty (RawFeedback state)),
                          MlHW = map_values sanitize_hw (or_empty (RawHW state)),
                          MlLastOOMKill = or_empty (RawLastOOMKill state)\<rparr>)))"

definition Save :: "json_codec \<Rightarrow> ('c, ConfigMap, 'sel) kind_client \<Rightarrow> 'c \<Rightarrow> 'q WorkloadProfile \<Rightarrow> MLState option
    \<Rightarrow> api_error option \<times> 'c" where
  "Save J M c profile stateo =
     (let state = (case stateo of None \<Rightarrow> New_MLState | Some s \<Rightarrow> s) in
      case JMarshal J state of
        Inl e \<Rightarrow> (Some (plain_error e), c)
      | Inr raw \<Rightarrow>
          let name = mlstateConfigMapName (ProfileName profile) in
          (case KGet M c (ProfileNamespace profile, name) of
             Inl e \<Rightarrow>
               if IsNotFound e
               then KCreate M c \<lparr>CmName = name, CmNamespace = ProfileNamespace profile,
                      CmOwners = [controllerOwnerRef profile], CmData = [(''state'', raw)]\<rparr>
               else (Some e, c)
           | Inr cm \<Rightarrow> KPatch M c cm (cm\<lparr>CmData := [(''state'', raw)]\<rparr>)))"

text \<open>\<open>saveMLState\<close>: without a repository nothing is persisted.\<close>

definition saveMLState :: "json_codec \<Rightarrow> ('c, ConfigMap, 'sel) kind_client option \<Rightarrow> 'c \<Rightarrow> 'q WorkloadProfile \<Rightarrow> MLState
    \<Rightarrow> api_error option \<times> 'c" where
  "saveMLState J repo c profile state = (case repo of None \<Rightarrow> (None, c) | Some M \<Rightarrow> Save J M c profile (Some state))"

section \<open>Helpers of the controller\<close>

definition lastRecommendationFor :: "'q WorkloadProfile \<Rightarrow> string \<Rightarrow> 'q Recommendation option" where
  "lastRecommendationFor profile container =
     find (\<lambda>r. ContainerName r = container) (Recommendations (Status profile))"

text \<open>The \<open>ensure\<close> helpers return the entry and the state in which it exists.\<close>

definition zero_cusum :: ContainerCUSUM where
  "zero_cusum = \<lparr>CuCPU = cusum_zero, CuMemory = cusum_zero\<rparr>"

definition ensureContainerCUSUM :: "MLState \<Rightarrow> string \<Rightarrow> ContainerCUSUM \<times> MLState" where
  "ensureContainerCUSUM ml name =
     (case map_of (MlCUSUM ml) name of
        Some (Some cu) \<Rightarrow> (cu, ml)
      | _ \<Rightarrow> (zero_cusum, ml\<lparr>MlCUSUM := gm_put name (Some zero_cusum) (MlCUSUM ml)\<rparr>))"

definition ensureContainerFeedback :: "MLState \<Rightarrow> string \<Rightarrow> ContainerFeedback \<times> MLState" where
  "ensureContainerFeedback ml name =
     (case map_of (MlFeedback ml) name of
        Some (Some fb) \<Rightarrow> (fb, ml)
      | _ \<Rightarrow> (zero_feedback, ml\<lparr>MlFeedback := gm_put name (Some zero_feedback) (MlFeedback ml)\<rparr>))"

definition ensureContainerHW :: "MLState \<Rightarrow> string \<Rightarrow> HWState \<times> HWState \<times> MLState" where
  "ensureContainerHW ml name =
     (let hw = (case map_of (MlHW ml) name of
                  Some (Some h) \<Rightarrow> h
                | _ \<Rightarrow> \<lparr>HwCPU = Some DefaultHWState, HwMemory = Some DefaultHWState\<rparr>);
          c = (case HwCPU hw of None \<Rightarrow> DefaultHWState | Some x \<Rightarrow> x);
          m = (case HwMemory hw of None \<Rightarrow> DefaultHWState | Some x \<Rightarrow> x)
      in (c, m, ml\<lparr>MlHW := gm_put name (Some \<lparr>HwCPU = Some c, HwMemory = Some m\<rparr>) (MlHW ml)\<rparr>))"

definition utcQuadrantIndex :: "gotime \<Rightarrow> int" where
  "utcQuadrantIndex t = utc_hour t sdiv 6"

definition quadSketchGet :: "string list \<Rightarrow> int \<Rightarrow> string" where
  "quadSketchGet sk i = (if i \<ge> 0 \<and> i < int (length sk) then sk ! nat i else '''')"

text \<open>The loop that appends empty strings until index \<open>i\<close> exists.\<close>

function pad_to :: "string list \<Rightarrow> int \<Rightarrow> string list" where
  "pad_to sk i = (if int (length sk) \<le> i then pad_to (sk @ ['''']) i else sk)"
  by pat_completeness auto
termination by (relation "measure (\<lambda>(sk, i). nat (i + 1 - int (length sk)))") auto

declare pad_to.simps [simp del]

definition quadSketchSet :: "string list \<Rightarrow> int \<Rightarrow> string \<Rightarrow> string list" where
  "quadSketchSet sk i v = (pad_to sk i)[nat i := v]"

definition clearQuadrantSketches :: "string list \<Rightarrow> string list" where
  "clearQuadrantSketches sk = []"

definition pruneMLState :: "MLState option \<Rightarrow> string list \<Rightarrow> MLState option" where
  "pruneMLState mlo active =
     map_option (\<lambda>ml. ml\<lparr>
        MlCUSUM := filter (\<lambda>(k, _). k \<in> set active) (MlCUSUM ml),
        MlFeedback := filter (\<lambda>(k, _). k \<in> set active) (MlFeedback ml),
        MlHW := filter (\<lambda>(k, _). k \<in> set active) (MlHW ml),
        MlLastOOMKill := filter (\<lambda>(k, _). k \<in> set active) (MlLastOOMKill ml)\<rparr>) mlo"

section \<open>What is kept of the learned state\<close>

text \<open>Everything that is written as JSON is a number: \<open>json.Marshal\<close> fails on NaN and infinities.\<close>

definition opt_all :: "('v \<Rightarrow> bool) \<Rightarrow> 'v option \<Rightarrow> bool" where
  "opt_all P v = (case v of None \<Rightarrow> True | Some x \<Rightarrow> P x)"

definition gm_all :: "('v \<Rightarrow> bool) \<Rightarrow> (string, 'v option) gomap \<Rightarrow> bool" where
  "gm_all P m \<longleftrightarrow> gomap_ok m \<and> (\<forall>(k, v) \<in> set m. opt_all P v)"

definition cusum_fin :: "ContainerCUSUM \<Rightarrow> bool" where
  "cusum_fin c \<longleftrightarrow> is_finite (SPos (CuCPU c)) \<and> is_finite (SNeg (CuCPU c)) \<and> is_finite (SPos (CuMemory c)) \<and> is_finite (SNeg (CuMemory c))"

definition feedback_fin :: "ContainerFeedback \<Rightarrow> bool" where
  "feedback_fin f \<longleftrightarrow> is_finite (CPURatio f) \<and> is_finite (MemRatio f) \<and> is_finite (PredictionRatioLegacy f)"

definition smoothing_fin :: "HWState \<Rightarrow> bool" where
  "smoothing_fin h \<longleftrightarrow> is_finite (Alpha h) \<and> is_finite (Beta h) \<and> is_finite (Gamma h)"

definition hw_fin :: "ContainerHW \<Rightarrow> bool" where
  "hw_fin h \<longleftrightarrow> opt_all (\<lambda>x. hw_ok x \<and> smoothing_fin x) (HwCPU h) \<and> opt_all (\<lambda>x. hw_ok x \<and> smoothing_fin x) (HwMemory h)"

definition ml_ok :: "MLState \<Rightarrow> bool" where
  "ml_ok ml \<longleftrightarrow> gm_all cusum_fin (MlCUSUM ml) \<and> gm_all feedback_fin (MlFeedback ml) \<and> gm_all hw_fin (MlHW ml)
     \<and> gomap_ok (MlLastOOMKill ml)"

lemma gm_all_Nil [simp]: "gm_all P []"
  by (simp add: gm_all_def)

lemma gm_all_put [simp]: "gm_all P m \<Longrightarrow> opt_all P v \<Longrightarrow> gm_all P (gm_put k v m)"
  by (auto simp: gm_all_def dest: gm_put_values)

lemma gm_all_lookup: "gm_all P m \<Longrightarrow> map_of m k = Some (Some x) \<Longrightarrow> P x"
  by (fastforce simp: gm_all_def opt_all_def dest: map_of_SomeD)

lemma gm_all_filter [simp]: "gm_all P m \<Longrightarrow> gm_all P (filter Q m)"
  by (auto simp: gm_all_def)

lemma opt_all_simps [simp]: "opt_all P None" "opt_all P (Some x) = P x"
  by (simp_all add: opt_all_def)

lemma keys_map_values [simp]: "map fst (map_values f m) = map fst m"
  by (simp add: map_values_def split_def comp_def)

lemma map_of_map_values: "map_of (map_values f m) k = map_option f (map_of m k)"
  by (induction m) (auto simp: map_values_def)

lemma gm_all_map_values:
  assumes "gm_all P m" "\<And>v. opt_all P v \<Longrightarrow> opt_all R (f v)"
  shows "gm_all R (map_values f m)"
proof -
  have "gomap_ok (map_values f m)" using assms(1) by (simp add: gm_all_def gomap_ok_def)
  then show ?thesis using assms by (auto simp: gm_all_def map_values_def)
qed

lemma map_values_id:
  assumes "\<And>k v. (k, v) \<in> set m \<Longrightarrow> f v = v"
  shows "map_values f m = m"
  unfolding map_values_def using assms by (intro map_idI) auto

lemma New_MLState_ok [simp]: "ml_ok New_MLState"
  by (simp add: ml_ok_def New_MLState_def)

lemma zero_cusum_fin [simp]: "cusum_fin zero_cusum"
  by (simp add: cusum_fin_def zero_cusum_def cusum_zero_def)

lemma zero_feedback_fin [simp]: "feedback_fin zero_feedback"
  by (simp add: feedback_fin_def zero_feedback_def)

lemma default_hw_fin [simp]: "hw_ok DefaultHWState \<and> smoothing_fin DefaultHWState"
  using to_f64_small [of "3 / 10" 1] to_f64_small [of "1 / 10" 1]
  by (intro conjI DefaultHWState_ok) (simp add: smoothing_fin_def DefaultHWState_def f64_const_def)

subsection \<open>The \<open>ensure\<close> helpers\<close>

lemma ensureContainerCUSUM_ok:
  "ml_ok ml \<Longrightarrow> ensureContainerCUSUM ml name = (cu, ml') \<Longrightarrow>
     cusum_fin cu \<and> ml_ok ml' \<and> map_of (MlCUSUM ml') name = Some (Some cu)"
  by (auto simp: ensureContainerCUSUM_def ml_ok_def dest: gm_all_lookup split: option.splits)

lemma ensureContainerFeedback_ok:
  "ml_ok ml \<Longrightarrow> ensureContainerFeedback ml name = (fb, ml') \<Longrightarrow>
     feedback_fin fb \<and> ml_ok ml' \<and> map_of (MlFeedback ml') name = Some (Some fb)"
  by (auto simp: ensureContainerFeedback_def ml_ok_def dest: gm_all_lookup split: option.splits)

lemma ensureContainerHW_ok:
  assumes "ml_ok ml" "ensureContainerHW ml name = (c, m, ml')"
  shows "hw_ok c \<and> smoothing_fin c \<and> hw_ok m \<and> smoothing_fin m \<and> ml_ok ml'"
proof -
  define hw where "hw = (case map_of (MlHW ml) name of Some (Some h) \<Rightarrow> h
       | _ \<Rightarrow> \<lparr>HwCPU = Some DefaultHWState, HwMemory = Some DefaultHWState\<rparr>)"
  have "hw_fin hw"
    using assms(1) by (auto simp: hw_def ml_ok_def hw_fin_def [of "\<lparr>HwCPU = _, HwMemory = _\<rparr>"] dest: gm_all_lookup split: option.split)
  then have "hw_ok c \<and> smoothing_fin c \<and> hw_ok m \<and> smoothing_fin m"
    using assms(2) by (auto simp: ensureContainerHW_def hw_def [symmetric] Let_def hw_fin_def split: option.splits)
  moreover have "ml' = ml\<lparr>MlHW := gm_put name (Some \<lparr>HwCPU = Some c, HwMemory = Some m\<rparr>) (MlHW ml)\<rparr>"
    using assms(2) by (auto simp: ensureContainerHW_def Let_def)
  ultimately show ?thesis using assms(1) by (simp add: ml_ok_def hw_fin_def)
qed

subsection \<open>Quadrants\<close>

lemma pad_to_simps:
  "0 \<le> i \<Longrightarrow> pad_to sk i = sk @ replicate (Suc (nat i) - length sk) ''''"
proof (induction sk i rule: pad_to.induct)
  case (1 sk i)
  show ?case
  proof (cases "int (length sk) \<le> i")
    case True
    then have "Suc (nat i) - length sk = Suc (Suc (nat i) - length (sk @ [[]]))" by auto
    with True 1 show ?thesis by (simp add: pad_to.simps [of sk i])
  qed (use 1 in \<open>simp add: pad_to.simps [of sk i]\<close>)
qed

lemma utcQuadrantIndex_range: "0 \<le> utcQuadrantIndex t \<and> utcQuadrantIndex t < 4"
proof -
  have "0 \<le> h div 6 \<and> h div 6 < 4" if "0 \<le> h" "h < 24" for h :: int using that by presburger
  then show ?thesis using utc_hour_range [of t] by (simp add: utcQuadrantIndex_def sdiv_nonneg)
qed

lemma quadSketchSet_length:
  "0 \<le> i \<Longrightarrow> length (quadSketchSet sk i v) = max (length sk) (Suc (nat i))"
  by (simp add: quadSketchSet_def pad_to_simps)

lemma quadSketchGet_Set:
  assumes "0 \<le> i"
  shows "quadSketchGet (quadSketchSet sk i v) j = (if j = i then v else quadSketchGet sk j)"
proof (cases "0 \<le> j \<and> j < int (max (length sk) (Suc (nat i)))")
  case True
  then show ?thesis using assms quadSketchSet_length [OF assms, of sk v]
    by (auto simp: quadSketchGet_def quadSketchSet_def pad_to_simps nth_list_update nth_append)
next
  case False
  then show ?thesis using assms quadSketchSet_length [OF assms, of sk v] by (auto simp: quadSketchGet_def)
qed

subsection \<open>Loading\<close>

text \<open>
  What the JSON decoder guarantees by the types it fills: an array of 24 seasons, distinct keys, and
  numbers (JSON has no other floats) in the fields that \<open>Load\<close> does not check.
\<close>

definition raw_typed :: "RawState \<Rightarrow> bool" where
  "raw_typed r \<longleftrightarrow> gomap_ok (or_empty (RawCUSUM r)) \<and> gomap_ok (or_empty (RawFeedback r)) \<and> gomap_ok (or_empty (RawLastOOMKill r))
     \<and> gm_all (\<lambda>h. opt_all (\<lambda>x. length (Season x) = 24 \<and> smoothing_fin x) (HwCPU h)
                   \<and> opt_all (\<lambda>x. length (Season x) = 24 \<and> smoothing_fin x) (HwMemory h)) (or_empty (RawHW r))"

lemma sanitize_cusum_fin: "opt_all cusum_fin (sanitize_cusum v)"
  by (simp add: sanitize_cusum_def Cusum_Sanitize_def cusum_fin_def split: option.split)

lemma migrate_fin: "opt_all feedback_fin (MigrateLegacyFeedback v)"
  by (simp add: MigrateLegacyFeedback_def SanitizeFeedbackRatios_def feedback_fin_def Let_def ratioFieldOK_finite split: option.split)

lemma sanitizeState_smoothing [simp]: "smoothing_fin (sanitizeState x) = smoothing_fin x"
  by (simp add: smoothing_fin_def sanitizeState_def)

lemma sanitize_hw_fin:
  assumes "opt_all (\<lambda>h. opt_all (\<lambda>x. length (Season x) = 24 \<and> smoothing_fin x) (HwCPU h)
                   \<and> opt_all (\<lambda>x. length (Season x) = 24 \<and> smoothing_fin x) (HwMemory h)) v"
  shows "opt_all hw_fin (sanitize_hw v)"
  using assms by (auto simp: sanitize_hw_def hw_fin_def opt_all_def HW_Sanitize_def sanitizeState_ok split: option.splits)

lemma gm_all_any: "gm_all (\<lambda>_. True) m = gomap_ok m"
  by (auto simp: gm_all_def opt_all_def split: option.split)

lemma Load_ok:
  assumes "\<And>s r. JUnmarshal J s = Inr r \<Longrightarrow> raw_typed r" "Load J M c profile = Inr st"
  shows "ml_ok st"
proof -
  have "ml_ok \<lparr>MlCUSUM = map_values sanitize_cusum (or_empty (RawCUSUM r)),
               MlFeedback = map_values MigrateLegacyFeedback (or_empty (RawFeedback r)),
               MlHW = map_values sanitize_hw (or_empty (RawHW r)), MlLastOOMKill = or_empty (RawLastOOMKill r)\<rparr>"
    if "raw_typed r" for r
    using that
    by (auto simp: ml_ok_def raw_typed_def gm_all_any [symmetric] sanitize_cusum_fin migrate_fin
        intro: gm_all_map_values sanitize_hw_fin)
  with assms show ?thesis by (auto simp: Load_def split: sum.splits option.splits if_splits)
qed

text \<open>A state that is sanitized already is loaded as it is.\<close>

definition raw_of :: "MLState \<Rightarrow> RawState" where
  "raw_of st = \<lparr>RawCUSUM = Some (MlCUSUM st), RawFeedback = Some (MlFeedback st), RawHW = Some (MlHW st),
     RawLastOOMKill = Some (MlLastOOMKill st)\<rparr>"

definition migrated :: "MLState \<Rightarrow> bool" where
  "migrated st \<longleftrightarrow> gm_all (\<lambda>f. PredictionRatioLegacy f = Fin 0) (MlFeedback st)"

lemma sanitize_cusum_id: "opt_all cusum_fin v \<Longrightarrow> sanitize_cusum v = v"
  by (auto simp: sanitize_cusum_def Cusum_Sanitize_def cusum_fin_def opt_all_def split: option.splits)

lemma migrate_id:
  "opt_all feedback_fin v \<Longrightarrow> opt_all (\<lambda>f. PredictionRatioLegacy f = Fin 0) v \<Longrightarrow> MigrateLegacyFeedback v = v"
  by (auto simp: MigrateLegacyFeedback_def SanitizeFeedbackRatios_def Let_def ratioFieldOK_finite feedback_fin_def
      opt_all_def split: option.splits)

lemma sanitize_hw_id: "opt_all hw_fin v \<Longrightarrow> sanitize_hw v = v"
  by (auto simp: sanitize_hw_def HW_Sanitize_def hw_fin_def opt_all_def sanitizeState_id split: option.splits)

lemma gm_all_elem: "gm_all P m \<Longrightarrow> (k, v) \<in> set m \<Longrightarrow> opt_all P v"
  by (auto simp: gm_all_def)

lemma Load_stored:
  assumes "ml_ok st" "migrated st" "JUnmarshal J raw = Inr (raw_of st)" "raw \<noteq> ''''"
    and "KGet M c (ProfileNamespace profile, mlstateConfigMapName (ProfileName profile)) = Inr cm"
    and "map_of (CmData cm) ''state'' = Some raw"
  shows "Load J M c profile = Inr st"
proof -
  have "map_values sanitize_cusum (MlCUSUM st) = MlCUSUM st" "map_values sanitize_hw (MlHW st) = MlHW st"
    "map_values MigrateLegacyFeedback (MlFeedback st) = MlFeedback st"
    using assms(1,2)
    by (auto simp: ml_ok_def migrated_def intro!: map_values_id sanitize_cusum_id sanitize_hw_id migrate_id elim: gm_all_elem)
  with assms(3-6) show ?thesis by (simp add: Load_def raw_of_def or_empty_def)
qed

definition cm_key :: "ConfigMap \<Rightarrow> objkey" where
  "cm_key cm = (CmNamespace cm, CmName cm)"

text \<open>The server keeps the data and the name of a config map.\<close>

definition cm_agrees :: "ConfigMap \<Rightarrow> ConfigMap \<Rightarrow> bool" where
  "cm_agrees x y \<longleftrightarrow> cm_key y = cm_key x \<and> CmData y = CmData x"

lemma pruned_lookup:
  "map_of (filter (\<lambda>(k, _). k \<in> set active) m) n = (if n \<in> set active then map_of m n else None)"
  by (induction m) auto

lemma pruneMLState_ok: "ml_ok ml \<Longrightarrow> pruneMLState (Some ml) active = Some ml' \<Longrightarrow> ml_ok ml'"
  by (auto simp: pruneMLState_def ml_ok_def)

section \<open>What persistence promises\<close>

text \<open>
  Claim C20: whatever text the ConfigMap holds, loading the learned state fails only when the API call
  fails with something else than not-found; otherwise it yields a state in which every accumulator,
  ratio, level, trend and seasonal factor is a finite number, so that it can be written back.
\<close>

theorem Load_sanitized:
  assumes "\<forall>s r. JUnmarshal J s = Inr r \<longrightarrow> raw_typed r"
  shows "case Load J M c profile of
           Inl e \<Rightarrow> KGet M c (ProfileNamespace profile, mlstateConfigMapName (ProfileName profile)) = Inl e \<and> \<not> IsNotFound e
         | Inr st \<Rightarrow> ml_ok st"
proof (cases "Load J M c profile")
  case (Inl e)
  then show ?thesis by (auto simp: Load_def split: sum.splits option.splits if_splits)
next
  case (Inr st)
  with Load_ok [of J M c profile st] assms show ?thesis by simp
qed

text \<open>
  Claim C21: a learned state that was saved is loaded again as it was: after a successful save the next
  load yields the same state, unless the read itself fails, and no other config map is touched.
\<close>

theorem Save_Load_round_trip:
  assumes "object_store M objs cm_key labelled cm_agrees"
    and "ml_ok st" "migrated st"
    and "JMarshal J st = Inr raw" "raw \<noteq> ''''" "JUnmarshal J raw = Inr (raw_of st)"
    and "Save J M c profile (Some st) = (None, c')"
  shows "let key = (ProfileNamespace profile, mlstateConfigMapName (ProfileName profile)) in
      (case KGet M c' key of
         Inl e \<Rightarrow> \<not> IsNotFound e \<and> Load J M c' profile = Inl e
       | Inr _ \<Rightarrow> Load J M c' profile = Inr st)
      \<and> (\<forall>k. k = key \<or> objs c' k = objs c k)"
proof -
  let ?key = "(ProfileNamespace profile, mlstateConfigMapName (ProfileName profile))"
  have "\<exists>y. CmData y = [(''state'', raw)] \<and> objs c' = (objs c)(?key \<mapsto> y)"
  proof (cases "KGet M c ?key")
    case (Inl e)
    then have "KCreate M c \<lparr>CmName = mlstateConfigMapName (ProfileName profile), CmNamespace = ProfileNamespace profile,
                CmOwners = [controllerOwnerRef profile], CmData = [(''state'', raw)]\<rparr> = (None, c')"
      using assms(4,7) by (simp add: Save_def Let_def split: if_splits)
    from object_store.create_ok [OF assms(1) this] show ?thesis by (auto simp: cm_agrees_def cm_key_def)
  next
    case (Inr cm)
    note stored = object_store.get_ok [OF assms(1) Inr]
    have key: "cm_key cm = ?key" using object_store.stored_key [OF assms(1) stored] .
    then have "cm_key (cm\<lparr>CmData := [(''state'', raw)]\<rparr>) = ?key" by (simp add: cm_key_def)
    moreover have "KPatch M c cm (cm\<lparr>CmData := [(''state'', raw)]\<rparr>) = (None, c')"
      using assms(4,7) Inr by (simp add: Save_def Let_def)
    ultimately show ?thesis
      using object_store.patch_ok [OF assms(1), of c cm "cm\<lparr>CmData := [(''state'', raw)]\<rparr>" c'] stored
      by (auto simp: cm_agrees_def)
  qed
  then obtain y where y: "CmData y = [(''state'', raw)]" "objs c' = (objs c)(?key \<mapsto> y)" by blast
  have "case KGet M c' ?key of Inl e \<Rightarrow> \<not> IsNotFound e \<and> Load J M c' profile = Inl e
       | Inr _ \<Rightarrow> Load J M c' profile = Inr st"
  proof (cases "KGet M c' ?key")
    case (Inl e)
    then have "\<not> IsNotFound e" using object_store.get_missing [OF assms(1) Inl] y(2) by auto
    with Inl show ?thesis by (simp add: Load_def)
  next
    case (Inr cm)
    then have "cm = y" using object_store.get_ok [OF assms(1) Inr] y(2) by simp
    then show ?thesis using Inr y(1) Load_stored [OF assms(2,3,6,5) Inr] by simp
  qed
  with y(2) show ?thesis by (simp add: Let_def)
qed

definition ex_ml :: MLState where
  "ex_ml = \<lparr>MlCUSUM = [(''app'', Some zero_cusum), (''old'', None)], MlFeedback = [(''app'', Some zero_feedback)],
     MlHW = [(''app'', Some \<lparr>HwCPU = Some DefaultHWState, HwMemory = None\<rparr>)], MlLastOOMKill = [(''app'', Some second_ns)]\<rparr>"

definition ex_codec :: json_codec where
  "ex_codec = \<lparr>JMarshal = (\<lambda>st. if st = ex_ml then Inr ''{state}'' else Inl ''unsupported''),
     JUnmarshal = (\<lambda>s. if s = ''{state}'' then Inr (raw_of ex_ml) else Inl ''invalid'')\<rparr>"

definition ex_repo :: "(ConfigMap mem_server, ConfigMap, unit) kind_client" where
  "ex_repo = mem_client cm_key (\<lambda>_ _. True)"

definition ex_cms :: "ConfigMap mem_server" where
  "ex_cms = \<lparr>MemObjs = [((''ns'', ''other''), \<lparr>CmName = ''other'', CmNamespace = ''ns'', CmOwners = [], CmData = []\<rparr>)], MemFaults = []\<rparr>"

definition ex_owner :: "nano_quantity WorkloadProfile" where
  "ex_owner = \<lparr>ProfileName = ''web'', ProfileNamespace = ''ns'', ProfileUID = ''u1'', ProfileGeneration = 1,
     ProfileLabels = Map.empty, ProfileDeleting = False,
     Spec = \<lparr>TargetRef = \<lparr>TargetKind = ''Deployment'', TargetName = ''web''\<rparr>, Mode = '''', SpecContainers = [],
             CooldownMinutes = None, CollectionIntervalSeconds = None\<rparr>,
     Status = \<lparr>Containers = [], MetricsRecommendations = [], Recommendations = [], LastApplied = None, LastEvaluated = None,
               DownsizePauseCyclesRemaining = 0, BinPacking = None, Conditions = []\<rparr>\<rparr>"

lemma ex_ml_facts: "ml_ok ex_ml" "migrated ex_ml" "raw_typed (raw_of ex_ml)"
  using default_hw_fin
  by (simp_all add: ex_ml_def ml_ok_def migrated_def gm_all_def gomap_ok_def hw_fin_def zero_feedback_def raw_typed_def raw_of_def
      or_empty_def feedback_fin_def hw_ok_def)

lemma mem_config_maps: "object_store (mem_client cm_key f) (mem_objs cm_key) cm_key f cm_agrees"
  by (rule mem.weaken_agreement) (auto simp: cm_agrees_def)

theorem Save_Load_round_trip_witness:
  "Load ex_codec ex_repo (snd (Save ex_codec ex_repo ex_cms ex_owner (Some ex_ml))) ex_owner = Inr ex_ml"
proof -
  have "Save ex_codec ex_repo ex_cms ex_owner (Some ex_ml) = (None, snd (Save ex_codec ex_repo ex_cms ex_owner (Some ex_ml)))"
    by (simp add: Save_def ex_codec_def ex_repo_def ex_cms_def ex_owner_def mem_client_def mem_get_def mem_objs_def mem_put_def
        mem_write_def not_found_def mlstateConfigMapName_def cm_key_def Let_def)
  from Save_Load_round_trip [OF mem_config_maps [of "\<lambda>_ _. True", folded ex_repo_def] ex_ml_facts(1,2) _ _ _ this, of "''{state}''"]
  moreover have "IsNotFound e" if "KGet ex_repo c k = Inl e" for c k e
    using that by (auto simp: ex_repo_def mem_client_def mem_get_def not_found_def split: option.splits)
  ultimately show ?thesis
    by (simp add: ex_codec_def Let_def split: sum.splits)
qed

theorem Load_sanitized_witness:
  "ml_ok (case Load ex_codec ex_repo ex_cms ex_owner of Inr st \<Rightarrow> st)"
proof -
  have typed: "\<forall>s r. JUnmarshal ex_codec s = Inr r \<longrightarrow> raw_typed r"
    using ex_ml_facts(3) by (simp add: ex_codec_def)
  moreover have "Load ex_codec ex_repo ex_cms ex_owner = Inr New_MLState"
    by (simp add: Load_def ex_repo_def ex_cms_def ex_owner_def mem_client_def mem_get_def mem_objs_def not_found_def
        mlstateConfigMapName_def cm_key_def)
  ultimately show ?thesis using Load_sanitized [OF typed, of ex_repo ex_cms ex_owner] by simp
qed

text \<open>
  Pruning drops exactly the entries of containers that left the template, from all four
  maps, and leaves every other entry as it is; a nil state stays nil.
\<close>

theorem pruneMLState_exact:
  "pruneMLState None active = None \<and>
   (\<exists>ml'. pruneMLState (Some ml) active = Some ml' \<and>
     ((\<forall>n. map_of (MlCUSUM ml') n = (if n \<in> set active then map_of (MlCUSUM ml) n else None)) \<and>
       (\<forall>n. map_of (MlFeedback ml') n = (if n \<in> set active then map_of (MlFeedback ml) n else None)) \<and>
       (\<forall>n. map_of (MlHW ml') n = (if n \<in> set active then map_of (MlHW ml) n else None)) \<and>
       (\<forall>n. map_of (MlLastOOMKill ml') n = (if n \<in> set active then map_of (MlLastOOMKill ml) n else None))))"
  by (simp add: pruneMLState_def pruned_lookup)

text \<open>
  The four quadrant sketches behave as an array whose missing entries are empty: setting the
  quadrant of any time makes it readable, leaves the other quadrants as they were, and the list never
  grows beyond four entries.
\<close>

theorem quadrant_sketches_array:
  assumes "length sk \<le> 4"
  shows "let q = utcQuadrantIndex t; sk' = quadSketchSet sk q v in
     quadSketchGet sk' q = v \<and> (\<forall>j. j = q \<or> quadSketchGet sk' j = quadSketchGet sk j) \<and> length sk' \<le> 4"
  using utcQuadrantIndex_range [of t] assms by (auto simp: Let_def quadSketchGet_Set quadSketchSet_length)

theorem quadrant_sketches_array_witness:
  "length [''a''] \<le> 4 \<and> utcQuadrantIndex (14 * 60 * minute_ns) = 2 \<and> quadSketchGet (quadSketchSet [''a''] 2 ''x'') 0 = ''a''"
proof -
  have q: "utcQuadrantIndex (14 * 60 * minute_ns) = 2"
    by (simp add: utcQuadrantIndex_def utc_hour_def minute_ns_def second_ns_def sdiv_nonneg)
  have "quadSketchGet (quadSketchSet [''a''] 2 ''x'') 0 = quadSketchGet [''a''] 0"
  proof -
    have "(0::int) = 2 \<or> quadSketchGet (quadSketchSet [''a''] 2 ''x'') 0 = quadSketchGet [''a''] 0"
      by (rule quadrant_sketches_array [of "[''a'']" "14 * 60 * minute_ns" "''x''", unfolded q Let_def,
            THEN conjunct2, THEN conjunct1, THEN spec]) simp
    then show ?thesis by simp
  qed
  with q show ?thesis by (simp add: quadSketchGet_def)
qed

end
