(* ===== verification/Usage.thy ===== *)
theory Usage
  imports Api_Types
begin

text \<open>
  What the controller reads from the nodes: the usage of a container per node and its weighted mean
  (\<open>controller/usage.go\<close>), the free share of the nodes a workload runs on
  (\<open>controller/scheduler_hints.go\<close>), and the sketches kept per node (\<open>controller/node_sketches.go\<close>).
  The kubelet's answers and the API server's objects are arguments.
\<close>

section \<open>Kubelet summaries\<close>

text \<open>The fields of \<open>kubelet/summary.go\<close> that are read; nil pointers are \<open>None\<close>.\<close>

record KContainerStats =
  KcName :: string
  UsageNanoCores :: "int option option"
  WorkingSetBytes :: "int option option"

record KPodStats =
  RefName :: string
  RefNamespace :: string
  KContainers :: "KContainerStats list"

record Summary =
  SumPods :: "KPodStats list"

section \<open>Usage per node\<close>

record nodeUsageSample =
  CPUMilli :: f64
  MemBytes :: f64

record acc =
  cpuSum :: f64
  memSum :: f64
  cpuN :: int
  memN :: int

definition zero_acc :: acc where
  "zero_acc = \<lparr>cpuSum = Fin 0, memSum = Fin 0, cpuN = 0, memN = 0\<rparr>"

definition pod_key :: "string \<Rightarrow> string \<Rightarrow> string" where
  "pod_key ns name = ns @ ''/'' @ name"

definition pod_stats :: "(string, Summary option) gomap \<Rightarrow> 'q Pod \<Rightarrow> KPodStats option" where
  "pod_stats summaries pod =
     (case map_of summaries (PodNodeName pod) of
        Some (Some s) \<Rightarrow> index_by (\<lambda>p. pod_key (RefNamespace p) (RefName p)) (SumPods s)
                          (pod_key (PodNamespace pod) (PodName pod))
      | _ \<Rightarrow> None)"

definition add_stats :: "KContainerStats \<Rightarrow> acc \<Rightarrow> acc" where
  "add_stats cs a =
     (let a1 = (case UsageNanoCores cs of
                  Some (Some n) \<Rightarrow> a\<lparr>cpuSum := fadd (cpuSum a) (fdiv (f64_of_int n) (f64_const 1000000)), cpuN := cpuN a + 1\<rparr>
                | _ \<Rightarrow> a)
      in case WorkingSetBytes cs of
           Some (Some b) \<Rightarrow> a1\<lparr>memSum := fadd (memSum a1) (f64_of_int b), memN := memN a1 + 1\<rparr>
         | _ \<Rightarrow> a1)"

text \<open>One pod: the first container of that name counts, for the node the pod runs on.\<close>

definition usage_pod :: "(string, Summary option) gomap \<Rightarrow> string \<Rightarrow> string
    \<Rightarrow> (string, acc) gomap \<times> (string, int) gomap \<Rightarrow> 'q Pod \<Rightarrow> (string, acc) gomap \<times> (string, int) gomap" where
  "usage_pod summaries ns container st pod =
     (let (byNode, podCounts) = st; node = PodNodeName pod in
      if PodNamespace pod \<noteq> ns \<or> node = '''' then st
      else case pod_stats summaries pod of
        None \<Rightarrow> st
      | Some ps \<Rightarrow>
          (case find (\<lambda>cs. KcName cs = container) (KContainers ps) of
             None \<Rightarrow> st
           | Some cs \<Rightarrow>
               let a = (case map_of byNode node of None \<Rightarrow> zero_acc | Some a \<Rightarrow> a);
                   c = (case map_of podCounts node of None \<Rightarrow> 0 | Some n \<Rightarrow> n)
               in (gm_put node (add_stats cs a) byNode, gm_put node (c + 1) podCounts)))"

definition node_mean :: "acc \<Rightarrow> nodeUsageSample" where
  "node_mean a =
     \<lparr>CPUMilli = (if cpuN a > 0 then fdiv (cpuSum a) (f64_of_int (cpuN a)) else Fin 0),
      MemBytes = (if memN a > 0 then fdiv (memSum a) (f64_of_int (memN a)) else Fin 0)\<rparr>"

definition weigh :: "(string, int) gomap \<Rightarrow> f64 \<times> f64 \<times> int \<Rightarrow> string \<times> nodeUsageSample \<Rightarrow> f64 \<times> f64 \<times> int" where
  "weigh podCounts st p =
     (let (cpuWeighted, memWeighted, totalPods) = st;
          (node, s) = p;
          c = (case map_of podCounts node of None \<Rightarrow> 0 | Some n \<Rightarrow> n)
      in if c > 0 then (fadd cpuWeighted (fmul (CPUMilli s) (f64_of_int c)),
                        fadd memWeighted (fmul (MemBytes s) (f64_of_int c)), totalPods + c)
         else st)"

definition collectUsageBreakdown :: "(string list \<Rightarrow> string list) \<Rightarrow> (string, Summary option) gomap \<Rightarrow> string \<Rightarrow> 'q Pod list
    \<Rightarrow> string \<Rightarrow> (string, nodeUsageSample) gomap \<times> f64 \<times> f64" where
  "collectUsageBreakdown ord summaries ns pods container =
     (let (byNode, podCounts) = foldl (usage_pod summaries ns container) ([], []) pods;
          perNode = map (\<lambda>(node, a). (node, node_mean a)) (go_range ord byNode);
          (cpuWeighted, memWeighted, totalPods) = foldl (weigh podCounts) (Fin 0, Fin 0, 0) perNode;
          cpuMilliMean = (if totalPods > 0 then fdiv cpuWeighted (f64_of_int totalPods) else Fin 0);
          memBytesMean = (if totalPods > 0 then fdiv memWeighted (f64_of_int totalPods) else Fin 0)
      in (perNode, FiniteOrZero cpuMilliMean, FiniteOrZero memBytesMean))"

definition MaxFloat64 :: f64 where
  "MaxFloat64 = Fin (2 ^ 1024 - 2 ^ 971)"

definition hetero_step :: "f64 \<times> f64 \<times> f64 \<Rightarrow> nodeUsageSample \<Rightarrow> f64 \<times> f64 \<times> f64" where
  "hetero_step st v =
     (let (minV, maxV, total) = st; c = CPUMilli v
      in (if flt c minV then c else minV, if flt maxV c then c else maxV, fadd total c))"

definition cpuHeteroScore :: "(string list \<Rightarrow> string list) \<Rightarrow> (string, nodeUsageSample) gomap \<Rightarrow> f64" where
  "cpuHeteroScore ord perNode =
     (if length perNode < 2 then Fin 0
      else
        let (minV, maxV, total) = foldl hetero_step (MaxFloat64, Fin 0, Fin 0) (map snd (go_range ord perNode));
            mean = fdiv total (f64_of_int (int (length perNode)));
            den = math_Max mean (f64_const (1 / 1000000));
            spread = fdiv (fsub maxV minV) den
        in if flt spread (Fin 0) then Fin 0
           else if flt (f64_const 1) spread then f64_const 1
           else spread)"

section \<open>Scheduler hints\<close>

record nodeSchedulerState =
  AllocatableCPUMilli :: int
  AllocatableMemBytes :: int
  RequestedCPUMilli :: int
  RequestedMemBytes :: int

text \<open>\<open>list.Cpu().MilliValue()\<close> and \<open>list.Memory().Value()\<close>; the accessors never return nil.\<close>

definition list_milli :: "'q quantity_api \<Rightarrow> 'q ResourceList option \<Rightarrow> int" where
  "list_milli Q rl = (case ListCpu Q (case rl of None \<Rightarrow> Map.empty | Some l \<Rightarrow> l) of None \<Rightarrow> 0 | Some q \<Rightarrow> MilliValue Q q)"

definition list_bytes :: "'q quantity_api \<Rightarrow> 'q ResourceList option \<Rightarrow> int" where
  "list_bytes Q rl = (case ListMemory Q (case rl of None \<Rightarrow> Map.empty | Some l \<Rightarrow> l) of None \<Rightarrow> 0 | Some q \<Rightarrow> Value Q q)"

definition podRequestsTotal :: "'q quantity_api \<Rightarrow> 'q Pod \<Rightarrow> int \<times> int" where
  "podRequestsTotal Q p =
     foldl (\<lambda>(cpu, mem) c. (wrap64 (cpu + list_milli Q (Requests (Resources c))), wrap64 (mem + list_bytes Q (Requests (Resources c)))))
       (0, 0) (PodContainers p)"

text \<open>The API server's answers: a node's allocatable resources, and the pods bound to a node.\<close>

record 'q node_api =
  GetNode :: "string \<Rightarrow> string + 'q ResourceList option"
  ListPodsOnNode :: "string \<Rightarrow> string + 'q Pod list"

definition running_requests :: "'q quantity_api \<Rightarrow> 'q Pod list \<Rightarrow> int \<times> int" where
  "running_requests Q pods =
     foldl (\<lambda>(reqCPU, reqMem) p.
         if PodPhase p = ''Succeeded'' \<or> PodPhase p = ''Failed'' then (reqCPU, reqMem)
         else let (cpu, mem) = podRequestsTotal Q p in (wrap64 (reqCPU + cpu), wrap64 (reqMem + mem)))
       (0, 0) pods"

definition fetch_node :: "'q quantity_api \<Rightarrow> 'q node_api \<Rightarrow> (string, nodeSchedulerState) gomap \<Rightarrow> string
    \<Rightarrow> (string, nodeSchedulerState) gomap" where
  "fetch_node Q N result name =
     (if name = '''' then result
      else case GetNode N name of
        Inl _ \<Rightarrow> result
      | Inr allocatable \<Rightarrow>
          (case ListPodsOnNode N name of
             Inl _ \<Rightarrow> result
           | Inr pods \<Rightarrow>
               let (reqCPU, reqMem) = running_requests Q pods
               in gm_put name \<lparr>AllocatableCPUMilli = list_milli Q allocatable, AllocatableMemBytes = list_bytes Q allocatable,
                               RequestedCPUMilli = reqCPU, RequestedMemBytes = reqMem\<rparr> result))"

definition fetchNodeSchedulerStates :: "'q quantity_api \<Rightarrow> 'q node_api \<Rightarrow> string list \<Rightarrow> (string, nodeSchedulerState) gomap" where
  "fetchNodeSchedulerStates Q N nodeNames = foldl (fetch_node Q N) [] nodeNames"

definition free_share :: "nodeSchedulerState \<Rightarrow> f64" where
  "free_share s =
     (let cpuFree = fsub (f64_const 1) (fdiv (f64_of_int (RequestedCPUMilli s)) (f64_of_int (AllocatableCPUMilli s)));
          memFree = fsub (f64_const 1) (fdiv (f64_of_int (RequestedMemBytes s)) (f64_of_int (AllocatableMemBytes s)))
      in fdiv (fadd (math_Max (Fin 0) cpuFree) (math_Max (Fin 0) memFree)) (f64_const 2))"

definition score_step :: "f64 \<times> int \<Rightarrow> nodeSchedulerState \<Rightarrow> f64 \<times> int" where
  "score_step st s =
     (let (total, count) = st in
      if AllocatableCPUMilli s = 0 \<or> AllocatableMemBytes s = 0 then st
      else (fadd total (free_share s), count + 1))"

definition leastAllocatedScore :: "(string list \<Rightarrow> string list) \<Rightarrow> (string, nodeSchedulerState) gomap \<Rightarrow> f64" where
  "leastAllocatedScore ord states =
     (if states = [] then Fin 0
      else let (total, count) = foldl score_step (Fin 0, 0) (map snd (go_range ord states))
           in if count = 0 then Fin 0 else fdiv total (f64_of_int count))"

definition nodePressureLabel :: "f64 \<Rightarrow> string" where
  "nodePressureLabel score =
     (if flt (f64_const (4 / 10)) score then ''low''
      else if flt (f64_const (15 / 100)) score then ''medium''
      else ''high'')"

section \<open>Node sketches\<close>

definition node_cpu_sample :: "f64 \<Rightarrow> NodeSketchEntry ResourceSample" where
  "node_cpu_sample v = \<lparr>SampleValue = v, GetSketch = NodeCPUSketch, SetSketch = (\<lambda>enc e. e\<lparr>NodeCPUSketch := enc\<rparr>),
     GetEMA = (\<lambda>_. (Fin 0, Fin 0)), SetEMA = (\<lambda>_ _ e. e)\<rparr>"

definition node_mem_sample :: "f64 \<Rightarrow> NodeSketchEntry ResourceSample" where
  "node_mem_sample v = \<lparr>SampleValue = v, GetSketch = NodeMemSketch, SetSketch = (\<lambda>enc e. e\<lparr>NodeMemSketch := enc\<rparr>),
     GetEMA = (\<lambda>_. (Fin 0, Fin 0)), SetEMA = (\<lambda>_ _ e. e)\<rparr>"

interpretation node_cpu: sketch_store "node_cpu_sample v" for v
  by unfold_locales (simp_all add: node_cpu_sample_def)

interpretation node_mem: sketch_store "node_mem_sample v" for v
  by unfold_locales (simp_all add: node_mem_sample_def)

fun indexNodeSketchEntries :: "nat \<Rightarrow> NodeSketchEntry list \<Rightarrow> (string \<rightharpoonup> nat) \<Rightarrow> (string \<rightharpoonup> nat)" where
  "indexNodeSketchEntries i [] m = m"
| "indexNodeSketchEntries i (e # es) m = indexNodeSketchEntries (Suc i) es (m(NodeName e \<mapsto> i))"

text \<open>A failing sketch update is logged and leaves the entry as it was.\<close>

definition update_entry :: "('sk, 'pb) sketch_api \<Rightarrow> gotime \<Rightarrow> nodeUsageSample \<Rightarrow> NodeSketchEntry \<Rightarrow> NodeSketchEntry" where
  "update_entry S now sample e =
     (let e0 = e\<lparr>LastSeen := Some now\<rparr>;
          e1 = (case UpdateSketchOnly S (node_cpu_sample (CPUMilli sample)) e0 of Inl _ \<Rightarrow> e0 | Inr x \<Rightarrow> x)
      in case UpdateSketchOnly S (node_mem_sample (MemBytes sample)) e1 of Inl _ \<Rightarrow> e1 | Inr x \<Rightarrow> x)"

definition node_sketch_step :: "('sk, 'pb) sketch_api \<Rightarrow> gotime \<Rightarrow> NodeSketchEntry list \<times> (string \<rightharpoonup> nat)
    \<Rightarrow> string \<times> nodeUsageSample \<Rightarrow> NodeSketchEntry list \<times> (string \<rightharpoonup> nat)" where
  "node_sketch_step S now st p =
     (let (entries, byName) = st;
          (node, sample) = p;
          (entries1, byName1, idx) =
            (case byName node of
               Some i \<Rightarrow> (entries, byName, i)
             | None \<Rightarrow> (entries @ [\<lparr>NodeName = node, LastSeen = None, NodeCPUSketch = '''', NodeMemSketch = ''''\<rparr>],
                        byName(node \<mapsto> length entries), length entries))
      in (entries1[idx := update_entry S now sample (entries1 ! idx)], byName1))"

definition lastSeenTime :: "gotime option \<Rightarrow> gotime" where
  "lastSeenTime t = (case t of None \<Rightarrow> 0 | Some x \<Rightarrow> x)"

definition capNodeSketches :: "NodeSketchEntry list \<Rightarrow> nat \<Rightarrow> NodeSketchEntry list" where
  "capNodeSketches entries mx =
     (if length entries \<le> mx then entries
      else drop (length entries - mx) (sort_key (\<lambda>e. lastSeenTime (LastSeen e)) entries))"

definition updateNodeSketches :: "(string list \<Rightarrow> string list) \<Rightarrow> ('sk, 'pb) sketch_api \<Rightarrow> (string, nodeUsageSample) gomap \<Rightarrow> gotime
    \<Rightarrow> ProfileContainerStatus \<Rightarrow> ProfileContainerStatus" where
  "updateNodeSketches ord S perNode now st =
     (if perNode = [] then st\<lparr>Stats := (Stats st)\<lparr>NodeSketches := []\<rparr>\<rparr>
      else
        let es0 = NodeSketches (Stats st);
            (es1, _) = foldl (node_sketch_step S now) (es0, indexNodeSketchEntries 0 es0 Map.empty) (go_range ord perNode);
            es2 = filter (\<lambda>e. map_of perNode (NodeName e) \<noteq> None) es1
        in st\<lparr>Stats := (Stats st)\<lparr>NodeSketches := capNodeSketches es2 MaxNodeSketches\<rparr>\<rparr>)"

definition clearNodeSketchesCPU :: "NodeSketchEntry list \<Rightarrow> NodeSketchEntry list" where
  "clearNodeSketchesCPU entries = map (\<lambda>e. e\<lparr>NodeCPUSketch := ''''\<rparr>) entries"

definition clearNodeSketchesMem :: "NodeSketchEntry list \<Rightarrow> NodeSketchEntry list" where
  "clearNodeSketchesMem entries = map (\<lambda>e. e\<lparr>NodeMemSketch := ''''\<rparr>) entries"

end
