(* ===== verification/Usage_Spec.thy ===== *)
theory Usage_Spec
  imports Usage Recommend_Spec
begin

text \<open>
  What the node readings guarantee: scores between 0 and 1, finite means, a per-node table that does
  not depend on the order of iteration, and node sketches for exactly the current nodes.
\<close>

section \<open>The free share of the nodes\<close>

definition state_in_range :: "nodeSchedulerState \<Rightarrow> bool" where
  "state_in_range s \<longleftrightarrow> list_all (\<lambda>n. 0 \<le> n \<and> n \<le> 2 ^ 53)
     [AllocatableCPUMilli s, AllocatableMemBytes s, RequestedCPUMilli s, RequestedMemBytes s]"

lemma in_rng_1: "in_rng 1 x \<longleftrightarrow> (\<exists>r. x = Fin r \<and> 0 \<le> r \<and> r \<le> 1)"
  by (simp add: in_rng_def)

lemma free_fraction:
  assumes "0 \<le> r" "r \<le> 2 ^ 53" "0 < a" "a \<le> 2 ^ 53"
  shows "in_rng 1 (math_Max (Fin 0) (fsub (f64_const 1) (fdiv (f64_of_int r) (f64_of_int a))))"
proof -
  have f: "f64_of_int r = Fin (of_int r)" "f64_of_int a = Fin (of_int a)" "f64_const 1 = Fin 1"
    using assms f64_of_int_exact [of r] f64_of_int_exact [of a] f64_of_int_exact [of 1]
    by (auto simp: f64_of_int_def f64_const_def)
  define q where "q = (of_int r / of_int a :: rat)"
  have "(of_int r :: rat) \<le> of_int (2 ^ 53) * 1" using assms by (simp only: mult_1_right of_int_le_iff)
  also have "\<dots> \<le> of_int (2 ^ 53) * of_int a" using assms by (intro mult_left_mono) simp_all
  finally have q: "0 \<le> q" "q \<le> of_int (2 ^ 53)" using assms by (simp_all add: q_def pos_divide_le_eq)
  then have t: "to_f64 q = Fin (rnd64 q)" by (intro to_f64_small [of _ "2 ^ 53"]) auto
  have rq: "0 \<le> rnd64 q" "rnd64 q \<le> of_int (2 ^ 53)" using q binary64.rnd_nonneg [of q] binary64.rnd_le_int [of q "2 ^ 53"] by auto
  have "\<bar>1 - rnd64 q\<bar> \<le> of_int (2 ^ 53)" using rq unfolding abs_le_iff by simp
  then have "to_f64 (1 - rnd64 q) = Fin (rnd64 (1 - rnd64 q))" by (intro to_f64_small [of _ "2 ^ 53"]) auto
  moreover have "rnd64 (1 - rnd64 q) \<le> 1" using binary64.rnd_le_int [of "1 - rnd64 q" 1] rq by simp
  ultimately show ?thesis using f t assms by (simp add: fsub_def in_rng_1 math_Max_Fin q_def [symmetric])
qed

lemma half_sum:
  assumes "in_rng 1 x" "in_rng 1 y"
  shows "in_rng 1 (fdiv (fadd x y) (f64_const 2))"
proof -
  obtain a b where ab: "x = Fin a" "0 \<le> a" "a \<le> 1" "y = Fin b" "0 \<le> b" "b \<le> 1" using assms by (auto simp: in_rng_1)
  have c: "f64_const 2 = Fin 2" using f64_of_int_exact [of 2] by (simp add: f64_of_int_def f64_const_def)
  have t: "to_f64 (a + b) = Fin (rnd64 (a + b))" using ab by (intro to_f64_small [of _ 2]) auto
  have r: "0 \<le> rnd64 (a + b)" "rnd64 (a + b) \<le> 2"
    using ab binary64.rnd_nonneg [of "a + b"] binary64.rnd_le_int [of "a + b" 2] by auto
  then have "to_f64 (rnd64 (a + b) / 2) = Fin (rnd64 (rnd64 (a + b) / 2))" by (intro to_f64_small [of _ 1]) auto
  moreover have "0 \<le> rnd64 (rnd64 (a + b) / 2)" "rnd64 (rnd64 (a + b) / 2) \<le> 1"
    using r binary64.rnd_nonneg [of "rnd64 (a + b) / 2"] binary64.rnd_le_int [of "rnd64 (a + b) / 2" 1] by auto
  ultimately show ?thesis using ab c t by (simp add: in_rng_1)
qed

lemma free_share_range:
  "state_in_range s \<Longrightarrow> AllocatableCPUMilli s \<noteq> 0 \<Longrightarrow> AllocatableMemBytes s \<noteq> 0 \<Longrightarrow> in_rng 1 (free_share s)"
  unfolding free_share_def Let_def
  by (intro half_sum free_fraction) (auto simp: state_in_range_def)

lemma add_to_range:
  assumes "in_rng n x" "in_rng 1 y" "0 \<le> n" "n < 2 ^ 53"
  shows "in_rng (n + 1) (fadd x y)"
proof -
  obtain a b where ab: "x = Fin a" "0 \<le> a" "a \<le> of_int n" "y = Fin b" "0 \<le> b" "b \<le> 1"
    using assms by (auto simp: in_rng_1) (auto simp: in_rng_def)
  then have "0 \<le> a + b" "a + b \<le> of_int (n + 1)" by simp_all
  then show ?thesis
    using ab assms(3,4) to_f64_small [of "a + b" "n + 1"] binary64.rnd_nonneg [of "a + b"] binary64.rnd_le_int [of "a + b" "n + 1"]
    by (simp add: in_rng_def)
qed

lemma score_steps_range:
  assumes "\<forall>s \<in> set ss. state_in_range s" "in_rng n x" "0 \<le> n" "n + int (length ss) \<le> 2 ^ 53"
  shows "case foldl score_step (x, n) ss of (tot, cnt) \<Rightarrow> in_rng cnt tot \<and> 0 \<le> cnt \<and> cnt \<le> 2 ^ 53"
  using assms
proof (induction ss arbitrary: x n)
  case (Cons s ss)
  show ?case
  proof (cases "AllocatableCPUMilli s = 0 \<or> AllocatableMemBytes s = 0")
    case False
    then have "in_rng (n + 1) (fadd x (free_share s))"
      using Cons.prems by (intro add_to_range free_share_range) auto
    with False Cons.IH [of "n + 1" "fadd x (free_share s)"] Cons.prems show ?thesis by (simp add: score_step_def)
  qed (use Cons in \<open>simp add: score_step_def\<close>)
qed simp

lemma divide_in_range:
  assumes "in_rng n x" "0 < n" "n \<le> 2 ^ 53"
  shows "in_rng 1 (fdiv x (f64_of_int n))"
proof -
  obtain a where a: "x = Fin a" "0 \<le> a" "a \<le> of_int n" using assms by (auto simp: in_rng_def)
  then have q: "0 \<le> a / of_int n" "a / of_int n \<le> 1" using assms by simp_all
  then have "to_f64 (a / of_int n) = Fin (rnd64 (a / of_int n))" by (intro to_f64_small [of _ 1]) auto
  then show ?thesis
    using a q assms f64_of_int_exact [of n] binary64.rnd_nonneg [of "a / of_int n"] binary64.rnd_le_int [of "a / of_int n" 1]
    by (simp add: in_rng_1)
qed

text \<open>
  The cluster balance is a number between 0 and 1 for any nodes whose quantities lie below
  \<open>2 ^ 53\<close>, overcommitted ones included, in whatever order the nodes are visited.
\<close>

theorem leastAllocatedScore_in_unit:
  assumes "ord_ok ord" "gomap_ok states" "\<forall>(n, s) \<in> set states. state_in_range s" "int (length states) \<le> 2 ^ 53"
  shows "in_rng 1 (leastAllocatedScore ord states)"
proof (cases "states = []")
  case True
  then show ?thesis by (simp add: leastAllocatedScore_def in_rng_1)
next
  case False
  have "\<forall>s \<in> set (map snd (go_range ord states)). state_in_range s"
    using assms(3) by (auto dest!: go_range_elem map_of_SomeD)
  moreover have "int (length (map snd (go_range ord states))) \<le> 2 ^ 53"
    using assms by (simp add: go_range_length)
  moreover have "in_rng 0 (Fin 0)" by (simp add: in_rng_def)
  ultimately have "case foldl score_step (Fin 0, 0) (map snd (go_range ord states)) of (tot, cnt) \<Rightarrow>
      in_rng cnt tot \<and> 0 \<le> cnt \<and> cnt \<le> 2 ^ 53"
    using score_steps_range [of "map snd (go_range ord states)" 0 "Fin 0"] by simp
  with False show ?thesis
    by (auto simp: leastAllocatedScore_def in_rng_1 [of "Fin 0"] divide_in_range split: prod.splits)
qed

theorem leastAllocatedScore_in_unit_witness:
  "in_rng 1 (leastAllocatedScore rev [(''n1'', \<lparr>AllocatableCPUMilli = 4000, AllocatableMemBytes = 2^33, RequestedCPUMilli = 5000, RequestedMemBytes = 2^30\<rparr>)])"
  by (rule leastAllocatedScore_in_unit) (simp_all add: ord_ok_def gomap_ok_def state_in_range_def)

section \<open>The spread of CPU usage\<close>

definition hetero_inv :: "bool \<Rightarrow> f64 \<times> f64 \<times> f64 \<Rightarrow> bool" where
  "hetero_inv started st \<longleftrightarrow> (case st of (minV, maxV, tot) \<Rightarrow>
     (if started then in_rng (2 ^ 53) minV else minV = MaxFloat64) \<and> in_rng (2 ^ 53) maxV \<and> (tot = PInf \<or> nonneg tot))"

lemma to_f64_nonneg: "0 \<le> x \<Longrightarrow> to_f64 x = PInf \<or> nonneg (to_f64 x)"
  using binary64.rnd_nonneg [of x] by (cases rule: to_f64_cases [of x]) auto

lemma MaxFloat64_large: "in_rng (2 ^ 53) c \<Longrightarrow> flt c MaxFloat64"
proof -
  assume "in_rng (2 ^ 53) c"
  then obtain a where a: "c = Fin a" "a \<le> of_int (2 ^ 53)" by (auto simp: in_rng_def)
  note a(2)
  also have "(of_int (2 ^ 53) :: rat) < 2 ^ 1024 - 2 ^ 971" by code_simp
  finally show ?thesis by (simp only: a(1) MaxFloat64_def flt.simps)
qed

lemma hetero_step_inv:
  assumes "hetero_inv b st" "in_rng (2 ^ 53) (CPUMilli v)"
  shows "hetero_inv True (hetero_step st v)"
proof -
  obtain minV maxV tot where st: "st = (minV, maxV, tot)" by (cases st)
  have "tot = PInf \<or> (\<exists>r \<ge> 0. tot = Fin r)" using assms(1) by (auto simp: st hetero_inv_def nonneg_def)
  moreover obtain c where c: "CPUMilli v = Fin c" "0 \<le> c" using assms(2) by (auto simp: in_rng_def)
  ultimately have "fadd tot (CPUMilli v) = PInf \<or> nonneg (fadd tot (CPUMilli v))"
    using to_f64_nonneg [of "_ + c"] by (elim disjE exE conjE) simp_all
  with assms MaxFloat64_large [OF assms(2)] show ?thesis
    by (cases b) (auto simp: st hetero_inv_def hetero_step_def Let_def)
qed

lemma hetero_steps_inv:
  "hetero_inv b st \<Longrightarrow> \<forall>v \<in> set vs. in_rng (2 ^ 53) (CPUMilli v) \<Longrightarrow> hetero_inv (b \<or> vs \<noteq> []) (foldl hetero_step st vs)"
proof (induction vs arbitrary: b st)
  case (Cons v vs)
  then have "hetero_inv True (hetero_step st v)" using hetero_step_inv by auto
  from Cons.IH [OF this] Cons.prems show ?case by simp
qed simp

lemma clamp_unit: "x \<noteq> NaN \<Longrightarrow> in_rng 1 (if flt x (Fin 0) then Fin 0 else if flt (Fin 1) x then Fin 1 else x)"
  by (cases x) (auto simp: in_rng_1)

text \<open>
  Claim C18: the heterogeneity score is a number between 0 and 1 for any non-negative usage up to
  \<open>2 ^ 53\<close> millicores per node, even where the sum over the nodes overflows, and 0 with fewer than two
  nodes.
\<close>

theorem cpuHeteroScore_in_unit:
  assumes "ord_ok ord" "gomap_ok perNode" "\<forall>(n, s) \<in> set perNode. in_rng (2 ^ 53) (CPUMilli s)" "int (length perNode) \<le> 2 ^ 53"
  shows "in_rng 1 (cpuHeteroScore ord perNode) \<and> (length perNode < 2 \<longrightarrow> cpuHeteroScore ord perNode = Fin 0)"
proof (cases "length perNode < 2")
  case True
  then show ?thesis by (simp add: cpuHeteroScore_def in_rng_1)
next
  case False
  let ?vs = "map snd (go_range ord perNode)"
  obtain minV maxV tot where f: "foldl hetero_step (MaxFloat64, Fin 0, Fin 0) ?vs = (minV, maxV, tot)"
    by (cases "foldl hetero_step (MaxFloat64, Fin 0, Fin 0) ?vs")
  have len: "length ?vs = length perNode" using assms by (simp add: go_range_length)
  then have "?vs \<noteq> []" using False by fastforce
  moreover have "\<forall>v \<in> set ?vs. in_rng (2 ^ 53) (CPUMilli v)"
    using assms(3) by (auto dest!: go_range_elem map_of_SomeD)
  moreover have "hetero_inv False (MaxFloat64, Fin 0, Fin 0)" by (simp add: hetero_inv_def in_rng_def)
  ultimately have "hetero_inv True (minV, maxV, tot)"
    using hetero_steps_inv [of False "(MaxFloat64, Fin 0, Fin 0)" ?vs] f by simp
  then obtain a b where ab: "minV = Fin a" "0 \<le> a" "a \<le> of_int (2 ^ 53)" "maxV = Fin b" "0 \<le> b" "b \<le> of_int (2 ^ 53)"
    and tot: "tot = PInf \<or> nonneg tot" by (auto simp: hetero_inv_def in_rng_def)
  have "\<bar>b - a\<bar> \<le> of_int (2 ^ 53)" unfolding abs_le_iff using ab by linarith
  then obtain d where d: "fsub maxV minV = Fin d"
    using to_f64_small [of "b - a" "2 ^ 53"] ab by (auto simp: fsub_def)
  have n: "f64_of_int (int (length perNode)) = Fin (of_int (int (length perNode)))" "0 < length perNode"
    using f64_of_int_exact [of "int (length perNode)"] assms(4) False by auto
  have mean: "fdiv tot (f64_of_int (int (length perNode))) = PInf \<or> nonneg (fdiv tot (f64_of_int (int (length perNode))))"
  proof (cases "tot = PInf")
    case True
    then show ?thesis using n by (simp add: signed_inf_def)
  next
    case False
    then obtain r where "tot = Fin r" "0 \<le> r" using tot by (auto simp: nonneg_def)
    then show ?thesis using n to_f64_nonneg [of "r / of_int (int (length perNode))"] by simp
  qed
  have "0 < rnd64 (1 / 1000000)"
    using binary64.rnd_rel [of "1 / 1000000"] unfolding abs_le_iff by simp
  moreover have "f64_const (1 / 1000000) = Fin (rnd64 (1 / 1000000))"
    using to_f64_small [of "1 / 1000000" 1] by (simp add: f64_const_def)
  ultimately have "math_Max (fdiv tot (f64_of_int (int (length perNode)))) (f64_const (1 / 1000000)) = PInf \<or>
      (\<exists>e > 0. math_Max (fdiv tot (f64_of_int (int (length perNode)))) (f64_const (1 / 1000000)) = Fin e)"
    using mean by (auto simp: nonneg_def math_Max_Fin) (simp add: math_Max_def)
  then have nn: "fdiv (fsub maxV minV) (math_Max (fdiv tot (f64_of_int (int (length perNode)))) (f64_const (1 / 1000000))) \<noteq> NaN"
    by (auto simp: d)
  moreover have "f64_const 1 = Fin 1" using f64_of_int_exact [of 1] by (simp add: f64_of_int_def f64_const_def)
  ultimately show ?thesis using clamp_unit [OF nn] False by (simp only: cpuHeteroScore_def Let_def f prod.case if_False simp_thms)
qed

theorem cpuHeteroScore_in_unit_witness:
  "in_rng 1 (cpuHeteroScore rev [(''a'', \<lparr>CPUMilli = Fin 100, MemBytes = Fin 0\<rparr>), (''b'', \<lparr>CPUMilli = Fin 300, MemBytes = Fin 0\<rparr>)])"
  using cpuHeteroScore_in_unit [of rev "[(''a'', \<lparr>CPUMilli = Fin 100, MemBytes = Fin 0\<rparr>), (''b'', \<lparr>CPUMilli = Fin 300, MemBytes = Fin 0\<rparr>)]"]
  by (simp add: ord_ok_def gomap_ok_def in_rng_def)

section \<open>Node sketches follow the nodes\<close>

lemma UpdateSketchOnly_cases:
  "UpdateSketchOnly S r s = Inr s' \<Longrightarrow> \<exists>v. s' = SetSketch r v s"
  by (auto simp: UpdateSketchOnly_def Let_def split: sum.splits)

lemma update_entry_frame [simp]:
  "NodeName (update_entry S now v e) = NodeName e" "LastSeen (update_entry S now v e) = Some now"
  by (auto simp: update_entry_def Let_def node_cpu_sample_def node_mem_sample_def
      dest!: UpdateSketchOnly_cases split: sum.split)

definition index_ok :: "NodeSketchEntry list \<Rightarrow> (string \<rightharpoonup> nat) \<Rightarrow> bool" where
  "index_ok es m \<longleftrightarrow> (\<forall>n i. m n = Some i \<longrightarrow> i < length es \<and> NodeName (es ! i) = n) \<and> (\<forall>e \<in> set es. m (NodeName e) \<noteq> None)"

lemma index_entries_some:
  "indexNodeSketchEntries i es m n = Some j \<Longrightarrow>
     m n = Some j \<or> (i \<le> j \<and> j < i + length es \<and> NodeName (es ! (j - i)) = n)"
proof (induction es arbitrary: i m)
  case (Cons e es)
  have "indexNodeSketchEntries (Suc i) es (m(NodeName e \<mapsto> i)) n = Some j" using Cons.prems by simp
  from Cons.IH [OF this] consider "(m(NodeName e \<mapsto> i)) n = Some j" | "Suc i \<le> j" "j < Suc i + length es" "NodeName (es ! (j - Suc i)) = n"
    by auto
  then show ?case
  proof cases
    case 1
    then show ?thesis by (auto split: if_splits)
  next
    case 2
    then have "j - i = Suc (j - Suc i)" by simp
    with 2 show ?thesis by simp
  qed
qed simp

lemma index_entries_none:
  "n \<in> NodeName ` set es \<or> m n \<noteq> None \<Longrightarrow> indexNodeSketchEntries i es m n \<noteq> None"
  by (induction es arbitrary: i m) auto

lemma index_entries_ok: "index_ok es (indexNodeSketchEntries 0 es Map.empty)"
  using index_entries_some [of 0 es Map.empty] index_entries_none [of _ es Map.empty 0] by (fastforce simp: index_ok_def)

definition sketches_inv :: "gotime \<Rightarrow> string set \<Rightarrow> NodeSketchEntry list \<Rightarrow> (string \<rightharpoonup> nat) \<Rightarrow> bool" where
  "sketches_inv now seen es m \<longleftrightarrow> distinct (map NodeName es) \<and> index_ok es m \<and> seen \<subseteq> NodeName ` set es \<and>
     (\<forall>e \<in> set es. NodeName e \<in> seen \<longrightarrow> LastSeen e = Some now)"

lemma node_sketch_step_inv:
  assumes inv: "sketches_inv now seen es m"
  shows "case node_sketch_step S now (es, m) (node, v) of (es', m') \<Rightarrow> sketches_inv now (insert node seen) es' m'"
proof (cases "m node")
  case None
  let ?new = "update_entry S now v \<lparr>NodeName = node, LastSeen = None, NodeCPUSketch = '''', NodeMemSketch = ''''\<rparr>"
  have "node \<notin> NodeName ` set es" using inv None by (auto simp: sketches_inv_def index_ok_def)
  with None inv show ?thesis
    by (auto simp: node_sketch_step_def sketches_inv_def index_ok_def nth_append intro: less_SucI split: if_splits)
next
  case (Some i)
  then have i: "i < length es" "NodeName (es ! i) = node" using inv by (auto simp: sketches_inv_def index_ok_def)
  let ?es = "es[i := update_entry S now v (es ! i)]"
  have names: "map NodeName ?es = map NodeName es"
    using i by (simp add: map_update list_update_same_conv)
  then have set_names: "NodeName ` set ?es = NodeName ` set es" by (metis set_map)
  have idx: "index_ok ?es m"
    using inv i names by (auto simp: sketches_inv_def index_ok_def nth_list_update dest: set_update_subset_insert [THEN subsetD])
  have seen: "LastSeen e = Some now" if e: "e \<in> set ?es" "NodeName e \<in> insert node seen" for e
  proof -
    obtain j where j: "j < length es" "e = ?es ! j" using e(1) by (auto simp: in_set_conv_nth)
    show ?thesis
    proof (cases "j = i")
      case False
      then have "e = es ! j" using j by simp
      moreover have "NodeName (es ! j) \<noteq> node"
        using inv False i j by (auto simp: sketches_inv_def distinct_conv_nth)
      ultimately show ?thesis using inv e j by (auto simp: sketches_inv_def)
    qed (use i j in simp)
  qed
  have "node \<in> NodeName ` set es" using i by force
  with Some inv idx seen names set_names show ?thesis
    by (simp add: node_sketch_step_def sketches_inv_def)
qed

lemma node_sketch_steps_inv:
  "sketches_inv now seen es m \<Longrightarrow>
   case foldl (node_sketch_step S now) (es, m) ps of (es', m') \<Rightarrow> sketches_inv now (seen \<union> fst ` set ps) es' m'"
proof (induction ps arbitrary: seen es m)
  case (Cons p ps)
  obtain es1 m1 where s: "node_sketch_step S now (es, m) p = (es1, m1)" by (cases "node_sketch_step S now (es, m) p")
  then have "sketches_inv now (insert (fst p) seen) es1 m1"
    using node_sketch_step_inv [OF Cons.prems, where S = S and node = "fst p" and v = "snd p"] by simp
  from Cons.IH [OF this] s show ?case by simp
qed simp

lemma cap_facts:
  "length (capNodeSketches es n) \<le> n" "set (capNodeSketches es n) \<subseteq> set es"
  "distinct (map NodeName es) \<Longrightarrow> distinct (map NodeName (capNodeSketches es n))"
  "length es \<le> n \<Longrightarrow> capNodeSketches es n = es"
proof -
  show "set (capNodeSketches es n) \<subseteq> set es"
    by (auto simp: capNodeSketches_def dest: in_set_dropD)
  assume d: "distinct (map NodeName es)"
  then have "distinct (map NodeName (sort_key f es))" for f :: "NodeSketchEntry \<Rightarrow> gotime"
    by (simp add: distinct_map)
  then show "distinct (map NodeName (capNodeSketches es n))"
    using d by (auto simp: capNodeSketches_def drop_map [symmetric] distinct_drop)
qed (simp_all add: capNodeSketches_def)



section \<open>Usage per node\<close>

text \<open>A pod of the namespace, bound to \<open>node\<close>, whose kubelet reports the container.\<close>

definition reports :: "(string, Summary option) gomap \<Rightarrow> string \<Rightarrow> string \<Rightarrow> string \<Rightarrow> 'q Pod \<Rightarrow> bool" where
  "reports summaries ns container node p \<longleftrightarrow> PodNamespace p = ns \<and> PodNodeName p = node \<and> node \<noteq> '''' \<and>
     (\<exists>ps cs. pod_stats summaries p = Some ps \<and> cs \<in> set (KContainers ps) \<and> KcName cs = container)"

lemma usage_pod_keys:
  "fst ` set (fst (usage_pod summaries ns container (byNode, counts) p)) =
     fst ` set byNode \<union> {node. reports summaries ns container node p}
   \<and> (gomap_ok byNode \<longrightarrow> gomap_ok (fst (usage_pod summaries ns container (byNode, counts) p)))"
proof (cases "PodNamespace p \<noteq> ns \<or> PodNodeName p = ''''")
  case True
  then show ?thesis by (auto simp: usage_pod_def reports_def)
next
  case False
  show ?thesis
  proof (cases "pod_stats summaries p")
    case (Some ps)
    then show ?thesis
      using False by (auto simp: usage_pod_def reports_def Let_def find_None_iff find_Some_iff
          split: option.split intro: nth_mem)
  qed (use False in \<open>auto simp: usage_pod_def reports_def\<close>)
qed

lemma usage_pods_keys:
  "fst ` set (fst (foldl (usage_pod summaries ns container) (byNode, counts) pods)) =
     fst ` set byNode \<union> {node. \<exists>p \<in> set pods. reports summaries ns container node p}
   \<and> (gomap_ok byNode \<longrightarrow> gomap_ok (fst (foldl (usage_pod summaries ns container) (byNode, counts) pods)))"
proof (induction pods arbitrary: byNode counts)
  case (Cons p pods)
  obtain b c where s: "usage_pod summaries ns container (byNode, counts) p = (b, c)"
    by (cases "usage_pod summaries ns container (byNode, counts) p")
  then show ?case using Cons.IH [of b c] usage_pod_keys [of summaries ns container byNode counts p] by auto
qed simp

lemma map_of_go_range:
  assumes "ord_ok ord" "gomap_ok m"
  shows "map_of (go_range ord m) k = map_of m k"
proof -
  have "distinct (map fst (go_range ord m))"
    using assms unfolding go_range_keys [OF assms] by (simp add: ord_ok_def gomap_ok_def)
  then show ?thesis using go_range_iff [OF assms] by (metis map_of_eq_Some_iff not_None_eq)
qed

text \<open>
  Claim C28: the usage table of a container has an entry for exactly the nodes on which some pod of
  the namespace reports the container; entries do not depend on the order in which Go iterates, and
  both means are finite numbers whatever the kubelets report.
\<close>

theorem collectUsageBreakdown_table:
  assumes "ord_ok ord" "ord_ok ord'"
  shows "case collectUsageBreakdown ord summaries ns pods container of (perNode, cpu, mem) \<Rightarrow>
     gomap_ok perNode \<and> is_finite cpu \<and> is_finite mem \<and>
     fst ` set perNode = {node. \<exists>p \<in> set pods. reports summaries ns container node p} \<and>
     map_of perNode = map_of (fst (collectUsageBreakdown ord' summaries ns pods container))"
proof -
  obtain byNode counts where f: "foldl (usage_pod summaries ns container) ([], []) pods = (byNode, counts)"
    by (cases "foldl (usage_pod summaries ns container) ([], []) pods")
  have ok: "gomap_ok byNode" and keys: "fst ` set byNode = {node. \<exists>p \<in> set pods. reports summaries ns container node p}"
    using usage_pods_keys [of summaries ns container "[]" "[]" pods] f by auto
  have table: "fst (collectUsageBreakdown od summaries ns pods container) = map (\<lambda>(node, a). (node, node_mean a)) (go_range od byNode)" for od
    by (simp add: collectUsageBreakdown_def f split_def Let_def)
  have fsts: "map fst (map (\<lambda>(node, a). (node, node_mean a)) xs) = map fst xs" for xs by (simp add: split_def)
  have "gomap_ok (fst (collectUsageBreakdown ord summaries ns pods container))"
    using assms(1) ok unfolding table gomap_ok_def fsts go_range_keys [OF assms(1) ok] by (simp add: ord_ok_def gomap_ok_def)
  moreover have "set (map fst (fst (collectUsageBreakdown ord summaries ns pods container))) = set (map fst byNode)"
    unfolding table fsts go_range_keys [OF assms(1) ok] using assms(1) ok by (simp add: ord_ok_def gomap_ok_def)
  moreover have "map_of (fst (collectUsageBreakdown od summaries ns pods container)) k = map_option node_mean (map_of byNode k)"
    if "ord_ok od" for od k
    unfolding table map_of_map using that ok by (simp add: map_of_go_range)
  moreover have "is_finite (fst (snd (collectUsageBreakdown ord summaries ns pods container)))"
    "is_finite (snd (snd (collectUsageBreakdown ord summaries ns pods container)))"
    by (simp_all add: collectUsageBreakdown_def f split_def Let_def)
  ultimately show ?thesis using assms keys by (simp add: split_def fun_eq_iff)
qed

definition ex_usage_pod :: "nano_quantity Pod" where
  "ex_usage_pod = \<lparr>PodName = ''p1'', PodNamespace = ''default'', PodNodeName = ''n1'', PodPhase = ''Running'',
     PodAnnotations = None, PodOwnerReferences = [], PodContainers = [], PodContainerStatuses = [], PodConditions = []\<rparr>"

definition ex_summaries :: "(string, Summary option) gomap" where
  "ex_summaries = [(''n1'', Some \<lparr>SumPods = [\<lparr>RefName = ''p1'', RefNamespace = ''default'',
     KContainers = [\<lparr>KcName = ''app'', UsageNanoCores = Some (Some 250000000), WorkingSetBytes = Some None\<rparr>]\<rparr>]\<rparr>)]"

theorem collectUsageBreakdown_table_witness:
  "fst ` set (fst (collectUsageBreakdown rev ex_summaries ''default'' [ex_usage_pod] ''app'')) = {''n1''}"
proof -
  have "reports ex_summaries ''default'' ''app'' node ex_usage_pod \<longleftrightarrow> node = ''n1''" for node
    by (auto simp: reports_def ex_usage_pod_def ex_summaries_def pod_stats_def index_by_def pod_key_def)
  then show ?thesis
    using collectUsageBreakdown_table [where ord = rev and ord' = rev and summaries = ex_summaries and ns = "''default''"
        and pods = "[ex_usage_pod]" and container = "''app''"]
    by (simp add: ord_ok_def split_def)
qed

end
