(* ===== verification/Ingest.thy ===== *)
theory Ingest
  imports Ml_State Usage_Spec
begin

text \<open>
  One observation of one container: \<open>controller/reconcile_ingest.go\<close>.  Status and learned state are
  passed and returned; the events of the shift handlers are part of the result.  Every call of
  \<open>r.now()\<close> reads the clock anew, so the clock is a function of the place that reads it.
\<close>

section \<open>The samples\<close>

datatype clock_reading = CpuShiftAt | MemShiftAt | HourAt | QuadrantAt | NodesAt

definition upd_cpu :: "(CPUStats \<Rightarrow> CPUStats) \<Rightarrow> ProfileContainerStatus \<Rightarrow> ProfileContainerStatus" where
  "upd_cpu f st = st\<lparr>Stats := (Stats st)\<lparr>CPU := f (CPU (Stats st))\<rparr>\<rparr>"

definition upd_mem :: "(MemoryStats \<Rightarrow> MemoryStats) \<Rightarrow> ProfileContainerStatus \<Rightarrow> ProfileContainerStatus" where
  "upd_mem f st = st\<lparr>Stats := (Stats st)\<lparr>Memory := f (Memory (Stats st))\<rparr>\<rparr>"

definition upd_nodes :: "(NodeSketchEntry list \<Rightarrow> NodeSketchEntry list) \<Rightarrow> ProfileContainerStatus \<Rightarrow> ProfileContainerStatus" where
  "upd_nodes f st = st\<lparr>Stats := (Stats st)\<lparr>NodeSketches := f (NodeSketches (Stats st))\<rparr>\<rparr>"

definition cpu_sample :: "f64 \<Rightarrow> ProfileContainerStatus ResourceSample" where
  "cpu_sample v = \<lparr>SampleValue = v,
     GetSketch = (\<lambda>st. CPUSketchB64 (CPU (Stats st))),
     SetSketch = (\<lambda>enc. upd_cpu (\<lambda>c. c\<lparr>CPUSketchB64 := enc\<rparr>)),
     GetEMA = (\<lambda>st. (CPUEMAShort (CPU (Stats st)), CPUEMALong (CPU (Stats st)))),
     SetEMA = (\<lambda>s l. upd_cpu (\<lambda>c. c\<lparr>CPUEMAShort := s, CPUEMALong := l\<rparr>))\<rparr>"

definition mem_sample :: "f64 \<Rightarrow> ProfileContainerStatus ResourceSample" where
  "mem_sample v = \<lparr>SampleValue = v,
     GetSketch = (\<lambda>st. MemSketchB64 (Memory (Stats st))),
     SetSketch = (\<lambda>enc. upd_mem (\<lambda>c. c\<lparr>MemSketchB64 := enc\<rparr>)),
     GetEMA = (\<lambda>st. (MemEMAShort (Memory (Stats st)), MemEMALong (Memory (Stats st)))),
     SetEMA = (\<lambda>s l. upd_mem (\<lambda>c. c\<lparr>MemEMAShort := s, MemEMALong := l\<rparr>))\<rparr>"

definition cpu_quad_sample :: "f64 \<Rightarrow> int \<Rightarrow> ProfileContainerStatus ResourceSample" where
  "cpu_quad_sample v quad = \<lparr>SampleValue = v,
     GetSketch = (\<lambda>st. quadSketchGet (CPUQuadrantSketches (CPU (Stats st))) quad),
     SetSketch = (\<lambda>enc. upd_cpu (\<lambda>c. c\<lparr>CPUQuadrantSketches := quadSketchSet (CPUQuadrantSketches c) quad enc\<rparr>)),
     GetEMA = (\<lambda>_. (Fin 0, Fin 0)),
     SetEMA = (\<lambda>_ _ st. st)\<rparr>"

definition mem_quad_sample :: "f64 \<Rightarrow> int \<Rightarrow> ProfileContainerStatus ResourceSample" where
  "mem_quad_sample v quad = \<lparr>SampleValue = v,
     GetSketch = (\<lambda>st. quadSketchGet (MemQuadrantSketches (Memory (Stats st))) quad),
     SetSketch = (\<lambda>enc. upd_mem (\<lambda>c. c\<lparr>MemQuadrantSketches := quadSketchSet (MemQuadrantSketches c) quad enc\<rparr>)),
     GetEMA = (\<lambda>_. (Fin 0, Fin 0)),
     SetEMA = (\<lambda>_ _ st. st)\<rparr>"

interpretation cpu_sample: sample_store "cpu_sample v" for v
  by unfold_locales (simp_all add: cpu_sample_def upd_cpu_def)

interpretation mem_sample: sample_store "mem_sample v" for v
  by unfold_locales (simp_all add: mem_sample_def upd_mem_def)

interpretation cpu_quad: sketch_store "cpu_quad_sample v (int q)" for v q
  by unfold_locales (simp_all add: cpu_quad_sample_def upd_cpu_def quadSketchGet_Set)

interpretation mem_quad: sketch_store "mem_quad_sample v (int q)" for v q
  by unfold_locales (simp_all add: mem_quad_sample_def upd_mem_def quadSketchGet_Set)

section \<open>Shifts\<close>

text \<open>
  A CUSUM alarm is reported, the accumulators restart, and the histories that describe the old
  level (global, quadrant and node sketches) are emptied.
\<close>

definition shift_cpu :: "Handler option list option \<Rightarrow> 'q WorkloadProfile \<Rightarrow> (clock_reading \<Rightarrow> gotime) \<Rightarrow> string \<Rightarrow> f64 \<Rightarrow> f64
    \<Rightarrow> ContainerCUSUM \<Rightarrow> ProfileContainerStatus
    \<Rightarrow> ContainerCUSUM \<times> ProfileContainerStatus \<times> 'q WorkloadProfile RecordedEvent list" where
  "shift_cpu det profile clock cname cpuMilli cpuLongBefore cu st =
     (let (s, alarm) = Cusum_Update (CuCPU cu) cpuMilli cpuLongBefore DefaultCPUConfig in
      if alarm
      then (cu\<lparr>CuCPU := Cusum_Reset s\<rparr>,
            upd_nodes clearNodeSketchesCPU (upd_cpu (\<lambda>c. c\<lparr>CPUSketchB64 := '''', CPUQuadrantSketches := clearQuadrantSketches (CPUQuadrantSketches c)\<rparr>) st),
            (if det \<noteq> None then Notify det \<lparr>ShiftContainerName = cname, ShiftResource = ''cpu'', ShiftAt = clock CpuShiftAt,
                OldMean = cpuLongBefore, NewMean = cpuMilli, InvolvedObject = Some profile\<rparr> else []))
      else (cu\<lparr>CuCPU := s\<rparr>, st, []))"

definition shift_mem :: "Handler option list option \<Rightarrow> 'q WorkloadProfile \<Rightarrow> (clock_reading \<Rightarrow> gotime) \<Rightarrow> string \<Rightarrow> f64 \<Rightarrow> f64
    \<Rightarrow> ContainerCUSUM \<Rightarrow> ProfileContainerStatus
    \<Rightarrow> ContainerCUSUM \<times> ProfileContainerStatus \<times> 'q WorkloadProfile RecordedEvent list" where
  "shift_mem det profile clock cname memBytes memLongBefore cu st =
     (let (s, alarm) = Cusum_Update (CuMemory cu) memBytes memLongBefore DefaultMemConfig in
      if alarm
      then (cu\<lparr>CuMemory := Cusum_Reset s\<rparr>,
            upd_nodes clearNodeSketchesMem (upd_mem (\<lambda>c. c\<lparr>MemSketchB64 := '''', MemQuadrantSketches := clearQuadrantSketches (MemQuadrantSketches c)\<rparr>) st),
            (if det \<noteq> None then Notify det \<lparr>ShiftContainerName = cname, ShiftResource = ''memory'', ShiftAt = clock MemShiftAt,
                OldMean = memLongBefore, NewMean = memBytes, InvolvedObject = Some profile\<rparr> else []))
      else (cu\<lparr>CuMemory := s\<rparr>, st, []))"

section \<open>Ingestion\<close>

definition record_feedback :: "'q quantity_api \<Rightarrow> 'q WorkloadProfile \<Rightarrow> string \<Rightarrow> f64 \<Rightarrow> f64 \<Rightarrow> MLState \<Rightarrow> MLState" where
  "record_feedback Q profile cname cpuMilli memBytes ml =
     (case lastRecommendationFor profile cname of
        None \<Rightarrow> ml
      | Some rc \<Rightarrow>
          let (fb, ml1) = ensureContainerFeedback ml cname;
              fb1 = RecordUsage cpuMilli (f64_of_int (MilliValue Q (CPURequest rc)))
                      memBytes (f64_of_int (Value Q (MemoryRequest rc))) fb
          in ml1\<lparr>MlFeedback := gm_put cname (Some fb1) (MlFeedback ml1)\<rparr>)"

definition update_slope :: "f64 \<Rightarrow> int \<Rightarrow> bool \<Rightarrow> ProfileContainerStatus \<Rightarrow> ProfileContainerStatus" where
  "update_slope prevMemShort priorSlopeStreak priorMemObserved st =
     (let (streak, positive) = UpdateMemorySlope prevMemShort (MemEMAShort (Memory (Stats st))) priorSlopeStreak
                                 DefaultMemorySlopeCycles priorMemObserved
      in upd_mem (\<lambda>m. m\<lparr>SlopeStreak := streak, SlopePositive := positive\<rparr>) st)"

definition forecast :: "MLState \<Rightarrow> string \<Rightarrow> f64 \<Rightarrow> f64 \<Rightarrow> int \<Rightarrow> f64 \<times> f64 \<times> MLState" where
  "forecast ml cname cpuMilli memBytes hour =
     (let (c, m, ml1) = ensureContainerHW ml cname;
          (c1, forecastCPU) = HW_Update c cpuMilli hour;
          (m1, forecastMem) = HW_Update m memBytes hour
      in (forecastCPU, forecastMem, ml1\<lparr>MlHW := gm_put cname (Some \<lparr>HwCPU = Some c1, HwMemory = Some m1\<rparr>) (MlHW ml1)\<rparr>))"

text \<open>The events are emitted even when a later step of the same ingestion fails.\<close>

definition ingestContainerMetrics ::
  "('sk, 'pb) sketch_api \<Rightarrow> 'q quantity_api \<Rightarrow> (string list \<Rightarrow> string list) \<Rightarrow> Handler option list option
   \<Rightarrow> (clock_reading \<Rightarrow> gotime) \<Rightarrow> 'q WorkloadProfile \<Rightarrow> MLState \<Rightarrow> ProfileContainerStatus \<Rightarrow> string \<Rightarrow> f64 \<Rightarrow> f64
   \<Rightarrow> (string, nodeUsageSample) gomap
   \<Rightarrow> (string + f64 \<times> f64 \<times> MLState \<times> ProfileContainerStatus) \<times> 'q WorkloadProfile RecordedEvent list" where
  "ingestContainerMetrics S Q ord det clock profile ml st cname cpuMilli memBytes perNode =
     (let st0 = st\<lparr>StatusName := cname\<rparr>;
          ml1 = record_feedback Q profile cname cpuMilli memBytes ml;
          cpuLongBefore = CPUEMALong (CPU (Stats st0));
          memLongBefore = MemEMALong (Memory (Stats st0))
      in case Update S (cpu_sample cpuMilli) st0 of Inl e \<Rightarrow> (Inl e, [])
      | Inr st1 \<Rightarrow>
         let prevMemShort = MemEMAShort (Memory (Stats st1));
             priorMemObserved = (MemLastUpdated (Memory (Stats st1)) \<noteq> None);
             priorSlopeStreak = SlopeStreak (Memory (Stats st1))
         in case Update S (mem_sample memBytes) st1 of Inl e \<Rightarrow> (Inl e, [])
         | Inr st2 \<Rightarrow>
            let st3 = update_slope prevMemShort priorSlopeStreak priorMemObserved st2;
                (cu, ml2) = ensureContainerCUSUM ml1 cname;
                (cu1, st4, ev1) = shift_cpu det profile clock cname cpuMilli cpuLongBefore cu st3;
                (cu2, st5, ev2) = shift_mem det profile clock cname memBytes memLongBefore cu1 st4;
                ml3 = ml2\<lparr>MlCUSUM := gm_put cname (Some cu2) (MlCUSUM ml2)\<rparr>;
                quad = utcQuadrantIndex (clock QuadrantAt)
            in case Update S (cpu_quad_sample cpuMilli quad) st5 of Inl e \<Rightarrow> (Inl e, ev1 @ ev2)
            | Inr st6 \<Rightarrow>
              (case Update S (mem_quad_sample memBytes quad) st6 of Inl e \<Rightarrow> (Inl e, ev1 @ ev2)
               | Inr st7 \<Rightarrow>
                 let (forecastCPU, forecastMem, ml4) = forecast ml3 cname cpuMilli memBytes (utc_hour (clock HourAt));
                     st8 = updateNodeSketches ord S perNode (clock NodesAt) st7
                 in (Inr (forecastCPU, forecastMem, ml4, st8), ev1 @ ev2)))"

section \<open>Facts about the steps\<close>

lemma upd_simps [simp]:
  "CPU (Stats (upd_mem f st)) = CPU (Stats st)" "Memory (Stats (upd_cpu g st)) = Memory (Stats st)"
  "CPU (Stats (upd_cpu g st)) = g (CPU (Stats st))" "Memory (Stats (upd_mem f st)) = f (Memory (Stats st))"
  "CPU (Stats (upd_nodes h st)) = CPU (Stats st)" "Memory (Stats (upd_nodes h st)) = Memory (Stats st)"
  "StatusName (upd_mem f st) = StatusName st" "StatusName (upd_cpu g st) = StatusName st" "StatusName (upd_nodes h st) = StatusName st"
  "NodeSketches (Stats (upd_mem f st)) = NodeSketches (Stats st)" "NodeSketches (Stats (upd_cpu g st)) = NodeSketches (Stats st)"
  "NodeSketches (Stats (upd_nodes h st)) = h (NodeSketches (Stats st))"
  by (simp_all add: upd_mem_def upd_cpu_def upd_nodes_def)

text \<open>The averages of a container are non-negative numbers.\<close>

definition averages_ok :: "ProfileContainerStatus \<Rightarrow> bool" where
  "averages_ok st \<longleftrightarrow> nonneg (CPUEMAShort (CPU (Stats st))) \<and> nonneg (CPUEMALong (CPU (Stats st)))
     \<and> nonneg (MemEMAShort (Memory (Stats st))) \<and> nonneg (MemEMALong (Memory (Stats st)))"

lemma Update_cases:
  assumes "Update S r s = Inr s'"
  obtains enc where "s' = SetSketch r enc s" | enc a b where "s' = SetEMA r a b (SetSketch r enc s)"
  using assms by (auto simp: Update_def Let_def split: sum.splits if_splits prod.splits)

lemma cpu_sample_frame:
  assumes "Update S (cpu_sample v) st = Inr st'"
  shows "Memory (Stats st') = Memory (Stats st) \<and> StatusName st' = StatusName st \<and>
    NodeSketches (Stats st') = NodeSketches (Stats st) \<and> CPUQuadrantSketches (CPU (Stats st')) = CPUQuadrantSketches (CPU (Stats st))"
  using assms by (elim Update_cases) (simp_all add: cpu_sample_def)

lemma mem_sample_frame:
  assumes "Update S (mem_sample v) st = Inr st'"
  shows "CPU (Stats st') = CPU (Stats st) \<and> StatusName st' = StatusName st \<and> NodeSketches (Stats st') = NodeSketches (Stats st)
    \<and> MemQuadrantSketches (Memory (Stats st')) = MemQuadrantSketches (Memory (Stats st))"
  using assms by (elim Update_cases) (simp_all add: mem_sample_def)

lemma cpu_quad_frame:
  assumes "Update S (cpu_quad_sample v q) st = Inr st'"
  shows "\<exists>enc. st' = upd_cpu (\<lambda>c. c\<lparr>CPUQuadrantSketches := quadSketchSet (CPUQuadrantSketches c) q enc\<rparr>) st"
  using assms by (elim Update_cases) (auto simp: cpu_quad_sample_def)

lemma mem_quad_frame:
  assumes "Update S (mem_quad_sample v q) st = Inr st'"
  shows "\<exists>enc. st' = upd_mem (\<lambda>c. c\<lparr>MemQuadrantSketches := quadSketchSet (MemQuadrantSketches c) q enc\<rparr>) st"
  using assms by (elim Update_cases) (auto simp: mem_quad_sample_def)

lemma cpu_sample_averages: "Update S (cpu_sample v) st = Inr st' \<Longrightarrow> averages_ok st \<Longrightarrow> averages_ok st'"
  using cpu_sample_frame [of S v st st'] cpu_sample.Update_EMA_nonneg [of S v st st']
  by (simp add: averages_ok_def cpu_sample_def)

lemma mem_sample_averages: "Update S (mem_sample v) st = Inr st' \<Longrightarrow> averages_ok st \<Longrightarrow> averages_ok st'"
  using mem_sample_frame [of S v st st'] mem_sample.Update_EMA_nonneg [of S v st st']
  by (simp add: averages_ok_def mem_sample_def)

lemma quad_averages:
  "Update S (cpu_quad_sample v q) st = Inr st' \<Longrightarrow> averages_ok st' = averages_ok st"
  "Update S (mem_quad_sample v q) st = Inr st' \<Longrightarrow> averages_ok st' = averages_ok st"
  by (auto dest!: cpu_quad_frame mem_quad_frame simp: averages_ok_def)

lemma slope_averages [simp]: "averages_ok (update_slope p k o' st) = averages_ok st"
  by (simp add: update_slope_def averages_ok_def split_def Let_def)

lemma nodes_averages [simp]: "averages_ok (updateNodeSketches ord S perNode now st) = averages_ok st"
  by (simp add: updateNodeSketches_def averages_ok_def split_def Let_def)

lemma Cusum_Update_fin:
  assumes "is_finite (SPos s) \<and> is_finite (SNeg s)"
  shows "is_finite (SPos (fst (Cusum_Update s x t cfg))) \<and> is_finite (SNeg (fst (Cusum_Update s x t cfg)))"
  using assms by (simp add: Cusum_Update_def Let_def)

lemma shift_cpu_ok:
  assumes "shift_cpu det profile clock cname x t cu st = (cu', st', ev)"
  shows "(cusum_fin cu \<longrightarrow> cusum_fin cu') \<and> averages_ok st' = averages_ok st \<and> StatusName st' = StatusName st"
  using assms Cusum_Update_fin [of "CuCPU cu" x t DefaultCPUConfig]
  by (auto simp: shift_cpu_def split_def Let_def cusum_fin_def averages_ok_def Cusum_Reset_def split: if_splits)

lemma shift_mem_ok:
  assumes "shift_mem det profile clock cname x t cu st = (cu', st', ev)"
  shows "(cusum_fin cu \<longrightarrow> cusum_fin cu') \<and> averages_ok st' = averages_ok st \<and> StatusName st' = StatusName st"
  using assms Cusum_Update_fin [of "CuMemory cu" x t DefaultMemConfig]
  by (auto simp: shift_mem_def split_def Let_def cusum_fin_def averages_ok_def Cusum_Reset_def split: if_splits)

lemma RecordUsage_fin: "feedback_fin f \<Longrightarrow> feedback_fin (RecordUsage a b c d f)"
  by (simp add: RecordUsage_def Let_def feedback_fin_def next_ratio_def feedbackFiniteRatio_def ratioFieldOK_finite)

lemma record_feedback_ok: "ml_ok ml \<Longrightarrow> ml_ok (record_feedback Q profile cname x y ml)"
proof -
  assume ok: "ml_ok ml"
  obtain fb ml1 where e: "ensureContainerFeedback ml cname = (fb, ml1)" by (cases "ensureContainerFeedback ml cname")
  from ensureContainerFeedback_ok [OF ok e] show ?thesis
    using ok by (simp add: record_feedback_def e Let_def ml_ok_def RecordUsage_fin split: option.split)
qed

lemma HW_Update_smoothing: "smoothing_fin (fst (HW_Update h x hour)) = smoothing_fin h"
  using HW_Update_params [of h x hour] by (simp add: smoothing_fin_def)

lemma forecast_ok:
  assumes "ml_ok ml" "forecast ml cname x y hour = (fc, fm, ml')"
  shows "ml_ok ml' \<and> is_finite fc \<and> is_finite fm"
proof -
  obtain c m ml1 where e: "ensureContainerHW ml cname = (c, m, ml1)" by (cases "ensureContainerHW ml cname")
  from ensureContainerHW_ok [OF assms(1) e]
  have "hw_fin \<lparr>HwCPU = Some (fst (HW_Update c x hour)), HwMemory = Some (fst (HW_Update m y hour))\<rparr>"
    by (simp add: hw_fin_def HW_Update_ok HW_Update_smoothing)
  with assms(2) e ensureContainerHW_ok [OF assms(1) e] show ?thesis
    by (auto simp: forecast_def split_def Let_def ml_ok_def HW_Update_forecast_finite)
qed

text \<open>The states a successful ingestion passes through.\<close>

lemma ingest_steps:
  assumes "ingestContainerMetrics S Q ord det clock profile ml st cname cpuMilli memBytes perNode = (Inr (fc, fm, ml', st'), ev)"
  obtains st1 st2 cu ml2 cu1 st4 ev1 cu2 st5 ev2 st6 st7 where
    "Update S (cpu_sample cpuMilli) (st\<lparr>StatusName := cname\<rparr>) = Inr st1"
    "Update S (mem_sample memBytes) st1 = Inr st2"
    "ensureContainerCUSUM (record_feedback Q profile cname cpuMilli memBytes ml) cname = (cu, ml2)"
    "shift_cpu det profile clock cname cpuMilli (CPUEMALong (CPU (Stats st))) cu
       (update_slope (MemEMAShort (Memory (Stats st1))) (SlopeStreak (Memory (Stats st1))) (MemLastUpdated (Memory (Stats st1)) \<noteq> None) st2)
       = (cu1, st4, ev1)"
    "shift_mem det profile clock cname memBytes (MemEMALong (Memory (Stats st))) cu1 st4 = (cu2, st5, ev2)"
    "Update S (cpu_quad_sample cpuMilli (utcQuadrantIndex (clock QuadrantAt))) st5 = Inr st6"
    "Update S (mem_quad_sample memBytes (utcQuadrantIndex (clock QuadrantAt))) st6 = Inr st7"
    "forecast (ml2\<lparr>MlCUSUM := gm_put cname (Some cu2) (MlCUSUM ml2)\<rparr>) cname cpuMilli memBytes (utc_hour (clock HourAt)) = (fc, fm, ml')"
    "st' = updateNodeSketches ord S perNode (clock NodesAt) st7" "ev = ev1 @ ev2"
  using assms
  by (auto simp: ingestContainerMetrics_def Let_def split: sum.splits prod.splits)

lemma ingest_keeps_ml:
  assumes "ingestContainerMetrics S Q ord det clock profile ml st cname cpuMilli memBytes perNode = (Inr (fc, fm, ml', st'), ev)"
    and "ml_ok ml"
  shows "ml_ok ml' \<and> is_finite fc \<and> is_finite fm"
  using assms(1)
proof (cases rule: ingest_steps)
  case (1 st1 st2 cu ml2 cu1 st4 ev1 cu2 st5 ev2 st6 st7)
  have c: "cusum_fin cu \<and> ml_ok ml2"
    using ensureContainerCUSUM_ok [OF record_feedback_ok [OF assms(2)] 1(3)] by simp
  then have "cusum_fin cu2" using shift_cpu_ok [OF 1(4)] shift_mem_ok [OF 1(5)] by simp
  with c have "ml_ok (ml2\<lparr>MlCUSUM := gm_put cname (Some cu2) (MlCUSUM ml2)\<rparr>)" by (simp add: ml_ok_def)
  from forecast_ok [OF this 1(8)] show ?thesis .
qed

lemma ingest_keeps_averages:
  assumes "ingestContainerMetrics S Q ord det clock profile ml st cname cpuMilli memBytes perNode = (Inr (fc, fm, ml', st'), ev)"
    and "averages_ok st"
  shows "averages_ok st'"
  using assms(1)
proof (cases rule: ingest_steps)
  case (1 st1 st2 cu ml2 cu1 st4 ev1 cu2 st5 ev2 st6 st7)
  have "averages_ok (st\<lparr>StatusName := cname\<rparr>)" using assms(2) by (simp add: averages_ok_def)
  from mem_sample_averages [OF 1(2) cpu_sample_averages [OF 1(1) this]]
  have "averages_ok st5" using shift_cpu_ok [OF 1(4)] shift_mem_ok [OF 1(5)] by simp
  then show ?thesis using quad_averages(1) [OF 1(6)] quad_averages(2) [OF 1(7)] 1(9) by simp
qed

lemma utcQuadrant_nat: "utcQuadrantIndex t = int (nat (utcQuadrantIndex t))"
  using utcQuadrantIndex_range [of t] by simp

lemma ingest_total:
  assumes "ddsketch S"
  obtains fc fm ml' st' ev
  where "ingestContainerMetrics S Q ord det clock profile ml st cname cpuMilli memBytes perNode = (Inr (fc, fm, ml', st'), ev)"
proof -
  note q = utcQuadrant_nat [of "clock QuadrantAt"]
  obtain st1 where 1: "Update S (cpu_sample cpuMilli) (st\<lparr>StatusName := cname\<rparr>) = Inr st1"
    using cpu_sample.Update_total [OF assms] by blast
  obtain st2 where 2: "Update S (mem_sample memBytes) st1 = Inr st2" using mem_sample.Update_total [OF assms] by blast
  have 3: "Update S (cpu_quad_sample cpuMilli (utcQuadrantIndex (clock QuadrantAt))) s0 \<noteq> Inl e" for s0 e
    using cpu_quad.Update_total [OF assms, of cpuMilli "nat (utcQuadrantIndex (clock QuadrantAt))" s0] q by auto
  have 4: "Update S (mem_quad_sample memBytes (utcQuadrantIndex (clock QuadrantAt))) s0 \<noteq> Inl e" for s0 e
    using mem_quad.Update_total [OF assms, of memBytes "nat (utcQuadrantIndex (clock QuadrantAt))" s0] q by auto
  have "fst (ingestContainerMetrics S Q ord det clock profile ml st cname cpuMilli memBytes perNode) \<noteq> Inl e" for e
    using 3 4 by (simp add: ingestContainerMetrics_def Let_def 1 2 split_def split: sum.split)
  then obtain x where "fst (ingestContainerMetrics S Q ord det clock profile ml st cname cpuMilli memBytes perNode) = Inr x"
    by (cases "fst (ingestContainerMetrics S Q ord det clock profile ml st cname cpuMilli memBytes perNode)") auto
  then show thesis using that by (metis prod.collapse)
qed

lemma record_feedback_CUSUM [simp]: "MlCUSUM (record_feedback Q profile cname x y ml) = MlCUSUM ml"
  by (simp add: record_feedback_def ensureContainerFeedback_def split_def Let_def split: option.split)

lemma forecast_CUSUM: "forecast ml cname x y hour = (fc, fm, ml') \<Longrightarrow> MlCUSUM ml' = MlCUSUM ml"
  by (auto simp: forecast_def ensureContainerHW_def split_def Let_def)

lemma ensure_same_CUSUM:
  "MlCUSUM a = MlCUSUM b \<Longrightarrow> fst (ensureContainerCUSUM a name) = fst (ensureContainerCUSUM b name)"
  by (simp add: ensureContainerCUSUM_def split: option.split)

lemma updateNodeSketches_frame [simp]:
  "CPU (Stats (updateNodeSketches ord S perNode now st)) = CPU (Stats st)"
  "Memory (Stats (updateNodeSketches ord S perNode now st)) = Memory (Stats st)"
  "StatusName (updateNodeSketches ord S perNode now st) = StatusName st"
  by (simp_all add: updateNodeSketches_def split_def Let_def)

lemma update_slope_frame [simp]:
  "CPU (Stats (update_slope p k b st)) = CPU (Stats st)"
  "MemSketchB64 (Memory (Stats (update_slope p k b st))) = MemSketchB64 (Memory (Stats st))"
  "MemQuadrantSketches (Memory (Stats (update_slope p k b st))) = MemQuadrantSketches (Memory (Stats st))"
  "StatusName (update_slope p k b st) = StatusName st"
  by (simp_all add: update_slope_def split_def Let_def)

lemma quadSketchGet_Nil [simp]: "quadSketchGet [] j = ''''"
  by (auto simp: quadSketchGet_def)

text \<open>The sketch a history text becomes when one sample is added to it.\<close>

definition one_more :: "('sk, 'pb) sketch_api \<Rightarrow> string \<Rightarrow> f64 \<Rightarrow> string \<Rightarrow> bool" where
  "one_more S old v new \<longleftrightarrow> (\<exists>sk. decodeSketch S old = Inr sk \<and>
     SketchToBase64 S (Some (snd (SketchAdd S sk (FiniteOrZero v)))) = Inr new)"

lemma cpu_history:
  assumes "ingestContainerMetrics S Q ord det clock profile ml st cname cpuMilli memBytes perNode = (Inr (fc, fm, ml', st'), ev)"
  defines "alarm \<equiv> snd (Cusum_Update (CuCPU (fst (ensureContainerCUSUM ml cname))) cpuMilli (CPUEMALong (CPU (Stats st))) DefaultCPUConfig)"
    and "q \<equiv> utcQuadrantIndex (clock QuadrantAt)"
  shows "(if alarm then CPUSketchB64 (CPU (Stats st')) = '''' else one_more S (CPUSketchB64 (CPU (Stats st))) cpuMilli (CPUSketchB64 (CPU (Stats st')))) \<and>
     (\<forall>j. let old = if alarm then '''' else quadSketchGet (CPUQuadrantSketches (CPU (Stats st))) j;
              new = quadSketchGet (CPUQuadrantSketches (CPU (Stats st'))) j
          in if j = q then one_more S old cpuMilli new else new = old)"
  using assms(1)
proof (cases rule: ingest_steps)
  case (1 st1 st2 cu ml2 cu1 st4 ev1 cu2 st5 ev2 st6 st7)
  have cu: "fst (ensureContainerCUSUM ml cname) = cu"
    using 1(3) ensure_same_CUSUM [of "record_feedback Q profile cname cpuMilli memBytes ml" ml cname] by simp
  have a: "one_more S (CPUSketchB64 (CPU (Stats st))) cpuMilli (CPUSketchB64 (CPU (Stats st1)))"
    "CPUQuadrantSketches (CPU (Stats st1)) = CPUQuadrantSketches (CPU (Stats st))"
    using cpu_sample.Update_sketch [OF 1(1)] cpu_sample_frame [OF 1(1)] by (simp_all add: one_more_def cpu_sample_def)
  have b: "CPU (Stats st2) = CPU (Stats st1)" using mem_sample_frame [OF 1(2)] by simp
  have c: "CPU (Stats st4) = (if alarm then (CPU (Stats st2))\<lparr>CPUSketchB64 := '''', CPUQuadrantSketches := []\<rparr> else CPU (Stats st2))"
    using 1(4) cu by (auto simp: shift_cpu_def alarm_def split_def Let_def clearQuadrantSketches_def split: if_splits)
  have d: "CPU (Stats st5) = CPU (Stats st4)" using 1(5) by (auto simp: shift_mem_def split_def Let_def split: if_splits)
  have e: "one_more S (quadSketchGet (CPUQuadrantSketches (CPU (Stats st5))) q) cpuMilli (quadSketchGet (CPUQuadrantSketches (CPU (Stats st6))) q)"
    using cpu_quad.Update_sketch [of S cpuMilli "nat q" st5 st6] 1(6) utcQuadrant_nat [of "clock QuadrantAt"]
    by (simp add: one_more_def q_def cpu_quad_sample_def)
  obtain enc where enc: "st6 = upd_cpu (\<lambda>c. c\<lparr>CPUQuadrantSketches := quadSketchSet (CPUQuadrantSketches c) q enc\<rparr>) st5"
    using cpu_quad_frame [OF 1(6)] by (auto simp: q_def)
  have f: "CPU (Stats st7) = CPU (Stats st6)" using mem_quad_frame [OF 1(7)] by auto
  have "0 \<le> q" using utcQuadrantIndex_range by (simp add: q_def)
  with a b c d e f enc 1(9) show ?thesis by (cases alarm) (simp_all add: Let_def quadSketchGet_Set)
qed

lemma mem_history:
  assumes "ingestContainerMetrics S Q ord det clock profile ml st cname cpuMilli memBytes perNode = (Inr (fc, fm, ml', st'), ev)"
  defines "alarm \<equiv> snd (Cusum_Update (CuMemory (fst (ensureContainerCUSUM ml cname))) memBytes (MemEMALong (Memory (Stats st))) DefaultMemConfig)"
    and "q \<equiv> utcQuadrantIndex (clock QuadrantAt)"
  shows "(if alarm then MemSketchB64 (Memory (Stats st')) = '''' else one_more S (MemSketchB64 (Memory (Stats st))) memBytes (MemSketchB64 (Memory (Stats st')))) \<and>
     (\<forall>j. let old = if alarm then '''' else quadSketchGet (MemQuadrantSketches (Memory (Stats st))) j;
              new = quadSketchGet (MemQuadrantSketches (Memory (Stats st'))) j
          in if j = q then one_more S old memBytes new else new = old)"
  using assms(1)
proof (cases rule: ingest_steps)
  case (1 st1 st2 cu ml2 cu1 st4 ev1 cu2 st5 ev2 st6 st7)
  have cu: "CuMemory (fst (ensureContainerCUSUM ml cname)) = CuMemory cu1"
    using 1(3,4) ensure_same_CUSUM [of "record_feedback Q profile cname cpuMilli memBytes ml" ml cname]
    by (auto simp: shift_cpu_def split_def Let_def split: if_splits)
  have a: "Memory (Stats st1) = Memory (Stats st)" using cpu_sample_frame [OF 1(1)] by simp
  have b: "one_more S (MemSketchB64 (Memory (Stats st1))) memBytes (MemSketchB64 (Memory (Stats st2)))"
    "MemQuadrantSketches (Memory (Stats st2)) = MemQuadrantSketches (Memory (Stats st1))"
    using mem_sample.Update_sketch [OF 1(2)] mem_sample_frame [OF 1(2)] by (simp_all add: one_more_def mem_sample_def)
  have c: "MemSketchB64 (Memory (Stats st4)) = MemSketchB64 (Memory (Stats st2))"
    "MemQuadrantSketches (Memory (Stats st4)) = MemQuadrantSketches (Memory (Stats st2))"
    using 1(4) by (auto simp: shift_cpu_def split_def Let_def split: if_splits)
  have d: "Memory (Stats st5) = (if alarm then (Memory (Stats st4))\<lparr>MemSketchB64 := '''', MemQuadrantSketches := []\<rparr> else Memory (Stats st4))"
    using 1(5) cu by (auto simp: shift_mem_def alarm_def split_def Let_def clearQuadrantSketches_def split: if_splits)
  have e: "Memory (Stats st6) = Memory (Stats st5)" using cpu_quad_frame [OF 1(6)] by auto
  have f: "one_more S (quadSketchGet (MemQuadrantSketches (Memory (Stats st6))) q) memBytes (quadSketchGet (MemQuadrantSketches (Memory (Stats st7))) q)"
    using mem_quad.Update_sketch [of S memBytes "nat q" st6 st7] 1(7) utcQuadrant_nat [of "clock QuadrantAt"]
    by (simp add: one_more_def q_def mem_quad_sample_def)
  obtain enc where enc: "st7 = upd_mem (\<lambda>c. c\<lparr>MemQuadrantSketches := quadSketchSet (MemQuadrantSketches c) q enc\<rparr>) st6"
    using mem_quad_frame [OF 1(7)] by (auto simp: q_def)
  have "0 \<le> q" using utcQuadrantIndex_range by (simp add: q_def)
  with a b c d e f enc 1(9) show ?thesis by (cases alarm) (simp_all add: Let_def quadSketchGet_Set)
qed

section \<open>What ingestion promises\<close>

text \<open>
  Claim C22: one observation never fails when the sketch library works, whatever the sample (NaN and
  infinities included), the stored texts and the iteration order; it keeps the learned state finite
  and the averages non-negative numbers, yields finite forecasts, and names the status after the
  container.
\<close>

theorem ingest_invariant:
  assumes "ddsketch S" "ml_ok ml" "averages_ok st"
  shows "\<exists>fc fm ml' st' ev.
    ingestContainerMetrics S Q ord det clock profile ml st cname cpuMilli memBytes perNode = (Inr (fc, fm, ml', st'), ev) \<and>
    ml_ok ml' \<and> averages_ok st' \<and> is_finite fc \<and> is_finite fm \<and> StatusName st' = cname"
proof -
  obtain fc fm ml' st' ev where i:
    "ingestContainerMetrics S Q ord det clock profile ml st cname cpuMilli memBytes perNode = (Inr (fc, fm, ml', st'), ev)"
    by (rule ingest_total [OF assms(1)])
  have "StatusName st' = cname"
    using i
  proof (cases rule: ingest_steps)
    case (1 st1 st2 cu ml2 cu1 st4 ev1 cu2 st5 ev2 st6 st7)
    have "StatusName st2 = cname" using cpu_sample_frame [OF 1(1)] mem_sample_frame [OF 1(2)] by simp
    moreover have "StatusName st7 = StatusName st5" using cpu_quad_frame [OF 1(6)] mem_quad_frame [OF 1(7)] by auto
    ultimately show ?thesis using shift_cpu_ok [OF 1(4)] shift_mem_ok [OF 1(5)] 1(9) by simp
  qed
  then show ?thesis using i ingest_keeps_ml [OF i assms(2)] ingest_keeps_averages [OF i assms(3)] by blast
qed

lemma zero_status_averages [simp]: "averages_ok zero_ContainerStatus"
  by (simp add: averages_ok_def zero_ContainerStatus_def zero_CPUStats_def zero_MemoryStats_def)

theorem ingest_invariant_witness:
  "\<exists>fc fm ml' st' ev. ingestContainerMetrics list_sketch nano_api rev None (\<lambda>_. 0) ex_owner New_MLState zero_ContainerStatus ''app''
      NaN PInf [] = (Inr (fc, fm, ml', st'), ev) \<and> ml_ok ml' \<and> StatusName st' = ''app''"
  using ingest_invariant [OF list_sketch.ddsketch_axioms New_MLState_ok zero_status_averages,
      of nano_api rev None "\<lambda>_. 0" ex_owner "''app''" NaN PInf "[]"] by blast

text \<open>
  Claim C23: what an observation does to the persisted histories of a container.  Without a CUSUM
  alarm the global sketch gains exactly the one sample; with one it is emptied, and so is every
  quadrant.  The sample then goes to the quadrant of the current hour and to no other.  The same
  holds of CPU and of memory, each with its own detector.
\<close>

theorem ingest_histories:
  assumes "ingestContainerMetrics S Q ord det clock profile ml st cname cpuMilli memBytes perNode = (Inr (fc, fm, ml', st'), ev)"
  shows "let cu = fst (ensureContainerCUSUM ml cname);
             q = utcQuadrantIndex (clock QuadrantAt);
             cpuAlarm = snd (Cusum_Update (CuCPU cu) cpuMilli (CPUEMALong (CPU (Stats st))) DefaultCPUConfig);
             memAlarm = snd (Cusum_Update (CuMemory cu) memBytes (MemEMALong (Memory (Stats st))) DefaultMemConfig);
             history = (\<lambda>alarm v global global' quads quads'.
                (if alarm then global' = '''' else one_more S global v global') \<and>
                (\<forall>j. let old = if alarm then '''' else quadSketchGet quads j; new = quadSketchGet quads' j
                     in if j = q then one_more S old v new else new = old))
    in history cpuAlarm cpuMilli (CPUSketchB64 (CPU (Stats st))) (CPUSketchB64 (CPU (Stats st')))
         (CPUQuadrantSketches (CPU (Stats st))) (CPUQuadrantSketches (CPU (Stats st'))) \<and>
       history memAlarm memBytes (MemSketchB64 (Memory (Stats st))) (MemSketchB64 (Memory (Stats st')))
         (MemQuadrantSketches (Memory (Stats st))) (MemQuadrantSketches (Memory (Stats st')))"
  unfolding Let_def using cpu_history [OF assms, unfolded Let_def] mem_history [OF assms, unfolded Let_def] by (rule conjI)

lemma to_f64_numeral:
  "(numeral k :: int) \<le> 2 ^ 53 \<Longrightarrow> to_f64 (numeral k) = Fin (numeral k)"
  "(numeral k :: int) \<le> 2 ^ 53 \<Longrightarrow> to_f64 (- numeral k) = Fin (- numeral k)"
  using f64_of_int_exact [of "numeral k"] f64_of_int_exact [of "- numeral k"] by (simp_all add: f64_of_int_def)

lemma alarm_500: "snd (Cusum_Update cusum_zero (Fin 500) (Fin 0) DefaultCPUConfig)"
  by (simp add: Cusum_Update_def cusum_zero_def DefaultCPUConfig_def f64_const_def Let_def fsub_def to_f64_numeral math_Max_Fin)

theorem ingest_histories_witness:
  "\<exists>fc fm ml' st' ev. ingestContainerMetrics list_sketch nano_api rev None (\<lambda>_. 0) ex_owner New_MLState zero_ContainerStatus ''app''
      (Fin 500) (Fin 0) [] = (Inr (fc, fm, ml', st'), ev) \<and> CPUSketchB64 (CPU (Stats st')) = ''''"
proof -
  obtain fc fm ml' st' ev where i: "ingestContainerMetrics list_sketch nano_api rev None (\<lambda>_. 0) ex_owner New_MLState
      zero_ContainerStatus ''app'' (Fin 500) (Fin 0) [] = (Inr (fc, fm, ml', st'), ev)"
    by (rule ingest_total [OF list_sketch.ddsketch_axioms])
  have z: "CuCPU (fst (ensureContainerCUSUM New_MLState ''app'')) = cusum_zero" "CPUEMALong (CPU (Stats zero_ContainerStatus)) = Fin 0"
    by (simp_all add: ensureContainerCUSUM_def New_MLState_def zero_ContainerStatus_def zero_CPUStats_def zero_cusum_def)
  show ?thesis using i ingest_histories [OF i, unfolded Let_def z] alarm_500 by auto
qed

text \<open>
  A detector without state compares with an average of zero, so the first sample of a workload that
  uses more than 150m is an alarm: it is reported as a shift and its sketch is emptied at once.
\<close>

theorem first_sample_reported_as_shift:
  assumes "ddsketch S"
  shows "\<exists>fc fm ml' st' ev. ingestContainerMetrics S Q ord (Some [Some (EventRecorderHandler True)]) clock profile
      New_MLState zero_ContainerStatus cname (Fin 500) memBytes perNode = (Inr (fc, fm, ml', st'), ev)
    \<and> ev \<noteq> [] \<and> CPUSketchB64 (CPU (Stats st')) = ''''"
proof -
  obtain fc fm ml' st' ev where i: "ingestContainerMetrics S Q ord (Some [Some (EventRecorderHandler True)]) clock profile
      New_MLState zero_ContainerStatus cname (Fin 500) memBytes perNode = (Inr (fc, fm, ml', st'), ev)"
    by (rule ingest_total [OF assms])
  have z: "fst (ensureContainerCUSUM New_MLState cname) = zero_cusum" "CPUEMALong (CPU (Stats zero_ContainerStatus)) = Fin 0"
    "CuCPU zero_cusum = cusum_zero"
    by (simp_all add: ensureContainerCUSUM_def New_MLState_def zero_ContainerStatus_def zero_CPUStats_def zero_cusum_def)
  have empty: "CPUSketchB64 (CPU (Stats st')) = ''''"
    using cpu_history [OF i] alarm_500 by (simp add: z)
  from i have "ev \<noteq> []"
  proof (cases rule: ingest_steps)
    case (1 st1 st2 cu ml2 cu1 st4 ev1 cu2 st5 ev2 st6 st7)
    have "cu = zero_cusum"
      using 1(3) z(1) ensure_same_CUSUM [of "record_feedback Q profile cname (Fin 500) memBytes New_MLState" New_MLState cname] by simp
    then have "ev1 \<noteq> []" using 1(4) alarm_500
      by (auto simp: shift_cpu_def z split_def Let_def Notify_def OnShift_def)
    with 1(10) show ?thesis by simp
  qed
  with i empty show ?thesis by blast
qed

end
