(* ===== verification/Parent_Types.thy ===== *)
theory Parent_Types
  imports Cluster
begin

text \<open>
  The resources that select many workloads: \<open>api/v1/namespaceprofile_types.go\<close> and
  \<open>api/v1/clusterprofile_types.go\<close>, with the fields the controllers read or write.  A label selector
  is data of the API machinery, the type variable \<open>'ls\<close>.
\<close>

record WorkloadKinds =
  KindDeployment :: "bool option"
  KindStatefulSet :: "bool option"

record 'ls WorkloadSelector =
  LabelSelector :: "'ls option"
  SelectAll :: bool
  Kinds :: "WorkloadKinds option"

record 'q PolicySpec =
  PolicyMode :: string
  PolicyContainers :: "'q ContainerOverride list"
  PolicyCooldownMinutes :: "int option"
  PolicyCollectionIntervalSeconds :: "int option"

record ('q, 'ls) NamespaceProfileSpec =
  NspSelector :: "'ls WorkloadSelector"
  NspPolicy :: "'q PolicySpec"
  NspMaxTargets :: "int option"

record ChildReference =
  ChildName :: string
  ChildTargetKind :: string
  ChildTargetName :: string

record NamespaceProfileStatus =
  NspResolvedCount :: int
  NspActiveChildren :: int
  NspChildren :: "ChildReference list"
  NspConditions :: "Condition list"

record ('q, 'ls) NamespaceProfile =
  NspName :: string
  NspNamespace :: string
  NspUID :: string
  NspGeneration :: int
  NspDeleting :: bool
  NspSpec :: "('q, 'ls) NamespaceProfileSpec"
  NspStatus :: NamespaceProfileStatus

record ('q, 'ls) ClusterProfileSpec =
  CspNamespaceSelector :: "'ls option"
  CspSelector :: "'ls WorkloadSelector"
  CspPolicy :: "'q PolicySpec"
  CspMaxTargets :: "int option"

record ClusterChildReference =
  CChildNamespace :: string
  CChildName :: string
  CChildTargetKind :: string
  CChildTargetName :: string

record ClusterProfileStatus =
  CspMatchedNamespaces :: int
  CspResolvedCount :: int
  CspActiveChildren :: int
  CspChildren :: "ClusterChildReference list"
  CspConditions :: "Condition list"

record ('q, 'ls) ClusterProfile =
  CspName :: string
  CspGeneration :: int
  CspFinalizers :: "string list"
  CspDeleting :: bool
  CspSpec :: "('q, 'ls) ClusterProfileSpec"
  CspStatus :: ClusterProfileStatus

section \<open>The profiles a parent creates\<close>

text \<open>The zero value of a status, and the child that has only a name yet.\<close>

definition zero_ProfileStatus :: "'q WorkloadProfileStatus" where
  "zero_ProfileStatus = \<lparr>Containers = [], MetricsRecommendations = [], Recommendations = [], LastApplied = None,
     LastEvaluated = None, DownsizePauseCyclesRemaining = 0, BinPacking = None, Conditions = []\<rparr>"

definition profile_key :: "'q WorkloadProfile \<Rightarrow> objkey" where
  "profile_key p = (ProfileNamespace p, ProfileName p)"

end
