(* ===== verification/Conditions.thy ===== *)
theory Conditions
  imports Parent_Types
begin

text \<open>
  Status conditions of a workload profile and the summaries shown in them (the last part of
  \<open>controller/reconcile.go\<close>), and the status write (\<open>controller/status_write.go\<close>).  Library code
  they call is a parameter: \<open>apimeta.SetStatusCondition\<close> and \<open>retry.RetryOnConflict\<close>, each with a
  locale for what it documents.
\<close>

section \<open>Conditions\<close>

definition find_condition :: "Condition list \<Rightarrow> string \<Rightarrow> Condition option" where
  "find_condition cs typ = find (\<lambda>c. CondType c = typ) cs"

locale condition_setter =
  fixes set_cond :: "Condition list \<Rightarrow> Condition \<Rightarrow> Condition list"
  assumes set_same: "find_condition (set_cond cs c) (CondType c) = Some c"
    and set_other: "typ \<noteq> CondType c \<Longrightarrow> find_condition (set_cond cs c) typ = find_condition cs typ"

text \<open>The documented algorithm: replace the condition of that type, or append it.\<close>

fun put_condition :: "Condition list \<Rightarrow> Condition \<Rightarrow> Condition list" where
  "put_condition [] c = [c]"
| "put_condition (x # xs) c = (if CondType x = CondType c then c # xs else x # put_condition xs c)"

interpretation put: condition_setter put_condition
proof
  show "find_condition (put_condition cs c) (CondType c) = Some c" for cs c
    by (induction cs c rule: put_condition.induct) (auto simp: find_condition_def)
  show "find_condition (put_condition cs c) t = find_condition cs t" if "t \<noteq> CondType c" for cs c t
    using that by (induction cs c rule: put_condition.induct) (auto simp: find_condition_def)
qed

definition setCondition :: "(Condition list \<Rightarrow> Condition \<Rightarrow> Condition list) \<Rightarrow> 'q WorkloadProfile \<Rightarrow> string \<Rightarrow> string \<Rightarrow> string \<Rightarrow> string
    \<Rightarrow> 'q WorkloadProfile" where
  "setCondition set_cond profile typ status reason message =
     profile\<lparr>Status := (Status profile)\<lparr>Conditions := set_cond (Conditions (Status profile))
       \<lparr>CondType = typ, CondStatus = status, CondReason = reason, CondMessage = message,
        CondObservedGeneration = ProfileGeneration profile\<rparr>\<rparr>\<rparr>"

definition conditionStatus :: "'q WorkloadProfile \<Rightarrow> string \<Rightarrow> string" where
  "conditionStatus profile typ =
     (case find_condition (Conditions (Status profile)) typ of Some c \<Rightarrow> CondStatus c | None \<Rightarrow> ConditionFalse)"

definition conditionMessage :: "'q WorkloadProfile \<Rightarrow> string \<Rightarrow> string" where
  "conditionMessage profile typ =
     (case find_condition (Conditions (Status profile)) typ of Some c \<Rightarrow> CondMessage c | None \<Rightarrow> '''')"

definition syncProfileReady :: "(Condition list \<Rightarrow> Condition \<Rightarrow> Condition list) \<Rightarrow> 'q WorkloadProfile \<Rightarrow> 'q WorkloadProfile" where
  "syncProfileReady set_cond profile =
     (let targetOK = (conditionStatus profile ConditionTypeTargetResolved = ConditionTrue);
          metricsOK = (conditionStatus profile ConditionTypeMetricsAvailable = ConditionTrue)
      in if targetOK \<and> metricsOK
         then setCondition set_cond profile ConditionTypeProfileReady ConditionTrue ''Ready'' ''target resolved and metrics available''
         else
           let (reason, msg) =
                 (if \<not> targetOK
                  then (let msg = conditionMessage profile ConditionTypeTargetResolved
                        in (''TargetNotReady'', if msg = '''' then ''target workload not ready'' else msg))
                  else (let msg = conditionMessage profile ConditionTypeMetricsAvailable
                        in (''MetricsNotAvailable'', if msg = '''' then ''metrics not yet available'' else msg)))
           in setCondition set_cond profile ConditionTypeProfileReady ConditionFalse reason msg)"

text \<open>\<open>sort.Strings\<close> orders by bytes, which is the lexicographic order of the character lists.\<close>

definition formatReasonCounts :: "(string, int) gomap \<Rightarrow> string" where
  "formatReasonCounts reasonCounts =
     (if reasonCounts = [] then ''''
      else str_join '','' (map (\<lambda>reason. reason @ '':'' @ itoa (the (map_of reasonCounts reason))) (sort (map fst reasonCounts))))"

definition formatRestartPolicyWarning :: "int \<Rightarrow> string" where
  "formatRestartPolicyWarning count = (if count \<le> 0 then '''' else ''; restart_policy_requires_restart='' @ itoa count)"

section \<open>Writing the status\<close>

definition benignStatusAPIErr :: "api_error option \<Rightarrow> bool" where
  "benignStatusAPIErr err = (case err of None \<Rightarrow> False
     | Some e \<Rightarrow>
         if ErrKind e = KNotFound \<or> ErrKind e = KGone \<or> ErrKind e = KResourceExpired then True
         else str_contains (ErrText e) ''Precondition failed'' \<and> str_contains (ErrText e) ''UID'')"

definition statusFiniteOrZero :: "f64 \<Rightarrow> f64" where
  "statusFiniteOrZero x = (if x = NaN \<or> x = PInf \<or> x = NInf then Fin 0 else x)"

definition sanitize_container :: "ProfileContainerStatus \<Rightarrow> ProfileContainerStatus" where
  "sanitize_container c = c\<lparr>Stats := (Stats c)\<lparr>
     CPU := (CPU (Stats c))\<lparr>CPUEMAShort := statusFiniteOrZero (CPUEMAShort (CPU (Stats c))),
                            CPUEMALong := statusFiniteOrZero (CPUEMALong (CPU (Stats c)))\<rparr>,
     Memory := (Memory (Stats c))\<lparr>MemEMAShort := statusFiniteOrZero (MemEMAShort (Memory (Stats c))),
                                  MemEMALong := statusFiniteOrZero (MemEMALong (Memory (Stats c)))\<rparr>\<rparr>\<rparr>"

definition sanitizeStatusFloats :: "'q WorkloadProfileStatus \<Rightarrow> 'q WorkloadProfileStatus" where
  "sanitizeStatusFloats st = st\<lparr>Containers := map sanitize_container (Containers st)\<rparr>"

text \<open>
  \<open>RetryOnConflict\<close> runs the function again while it returns a conflict, a bounded number of times,
  and returns what the last run returned.
\<close>

inductive conflict_runs :: "('c \<Rightarrow> api_error option \<times> 'c) \<Rightarrow> 'c \<Rightarrow> 'c \<Rightarrow> bool" for f where
  first_run: "conflict_runs f c c"
| next_run: "f c = (Some e, c1) \<Longrightarrow> ErrKind e = KConflict \<Longrightarrow> conflict_runs f c1 c2 \<Longrightarrow> conflict_runs f c c2"

inductive_cases conflict_runsE: "conflict_runs f c c2"

locale conflict_retry =
  fixes retry :: "('c \<Rightarrow> api_error option \<times> 'c) \<Rightarrow> 'c \<Rightarrow> api_error option \<times> 'c"
  assumes last_run: "\<exists>c1. conflict_runs f c c1 \<and> retry f c = f c1"

text \<open>The default of client-go makes five attempts.\<close>

fun attempts :: "nat \<Rightarrow> ('c \<Rightarrow> api_error option \<times> 'c) \<Rightarrow> 'c \<Rightarrow> api_error option \<times> 'c" where
  "attempts 0 f c = f c"
| "attempts (Suc n) f c =
     (case f c of
        (Some e, c1) \<Rightarrow> if ErrKind e = KConflict then attempts n f c1 else (Some e, c1)
      | (None, c1) \<Rightarrow> (None, c1))"

interpretation five_attempts: conflict_retry "attempts 4"
proof
  show "\<exists>c1. conflict_runs f c c1 \<and> attempts 4 f c = f c1" for f :: "'c \<Rightarrow> api_error option \<times> 'c" and c
  proof -
    have "\<exists>c1. conflict_runs f c c1 \<and> attempts n f c = f c1" for n
    proof (induction n arbitrary: c)
      case (Suc n)
      obtain e c1 where f: "f c = (e, c1)" by (cases "f c")
      show ?case
      proof (cases "\<exists>x. e = Some x \<and> ErrKind x = KConflict")
        case True
        then obtain x where x: "e = Some x" "ErrKind x = KConflict" by blast
        obtain c2 where "conflict_runs f c1 c2" "attempts n f c1 = f c2" using Suc by blast
        with f x show ?thesis by (auto intro: next_run)
      next
        case False
        then show ?thesis using f by (auto intro!: exI [of _ c] first_run split: option.split)
      qed
    qed (auto intro: first_run)
    then show ?thesis .
  qed
qed

definition status_attempt :: "('c, 'q WorkloadProfile, 'sel) kind_client \<Rightarrow> 'q WorkloadProfile \<Rightarrow> 'c \<Rightarrow> api_error option \<times> 'c" where
  "status_attempt P profile c =
     (case KGet P c (ProfileNamespace profile, ProfileName profile) of
        Inl e \<Rightarrow> if IsNotFound e then (None, c) else (Some (wrap_error ''get WorkloadProfile for status'' e), c)
      | Inr fresh \<Rightarrow>
          if ProfileDeleting fresh then (None, c)
          else let (err, c1) = KStatus P c (fresh\<lparr>Status := Status profile\<rparr>) in
               if err \<noteq> None \<and> benignStatusAPIErr err then (None, c1) else (err, c1))"

text \<open>The profile in memory keeps the sanitized status; it is returned with the outcome.\<close>

definition persistStatus ::
  "(('c \<Rightarrow> api_error option \<times> 'c) \<Rightarrow> 'c \<Rightarrow> api_error option \<times> 'c) \<Rightarrow> ('c, 'q WorkloadProfile, 'sel) kind_client
   \<Rightarrow> 'c \<Rightarrow> 'q WorkloadProfile \<Rightarrow> api_error option \<times> 'c \<times> 'q WorkloadProfile" where
  "persistStatus retry P c profile =
     (let profile1 = profile\<lparr>Status := sanitizeStatusFloats (Status profile)\<rparr>;
          (err, c1) = retry (status_attempt P profile1) c
      in (err, c1, profile1))"

section \<open>Facts\<close>

lemma conditionStatus_set:
  assumes "condition_setter set_cond"
  shows "conditionStatus (setCondition set_cond p t s r m) t' = (if t' = t then s else conditionStatus p t')"
    and "conditionMessage (setCondition set_cond p t s r m) t' = (if t' = t then m else conditionMessage p t')"
  using condition_setter.set_same [OF assms, of "Conditions (Status p)" "\<lparr>CondType = t, CondStatus = s, CondReason = r, CondMessage = m, CondObservedGeneration = ProfileGeneration p\<rparr>"]
    condition_setter.set_other [OF assms, of t' "\<lparr>CondType = t, CondStatus = s, CondReason = r, CondMessage = m, CondObservedGeneration = ProfileGeneration p\<rparr>" "Conditions (Status p)"]
  by (auto simp: conditionStatus_def conditionMessage_def setCondition_def)

lemma condition_types_distinct [simp]:
  "ConditionTypeTargetResolved \<noteq> ConditionTypeProfileReady" "ConditionTypeMetricsAvailable \<noteq> ConditionTypeProfileReady"
  "ConditionTypeTargetResolved \<noteq> ConditionTypeMetricsAvailable" "ConditionTypeActuationApplied \<noteq> ConditionTypeProfileReady"
  "ConditionTypeActuationApplied \<noteq> ConditionTypeTargetResolved" "ConditionTypeActuationApplied \<noteq> ConditionTypeMetricsAvailable"
  "ConditionTypeProfileReady \<noteq> ConditionTypeTargetResolved" "ConditionTypeProfileReady \<noteq> ConditionTypeMetricsAvailable"
  "ConditionTypeMetricsAvailable \<noteq> ConditionTypeTargetResolved" "ConditionTypeProfileReady \<noteq> ConditionTypeActuationApplied"
  "ConditionTypeTargetResolved \<noteq> ConditionTypeActuationApplied" "ConditionTypeMetricsAvailable \<noteq> ConditionTypeActuationApplied"
  by (simp_all add: ConditionTypeTargetResolved_def ConditionTypeProfileReady_def ConditionTypeMetricsAvailable_def ConditionTypeActuationApplied_def)

lemma cond_true_false [simp]: "ConditionTrue \<noteq> ConditionFalse" "ConditionFalse \<noteq> ConditionTrue"
  by (simp_all add: ConditionTrue_def ConditionFalse_def)

text \<open>Ready means: target resolved and metrics available.\<close>

definition ready_ok :: "'q WorkloadProfile \<Rightarrow> bool" where
  "ready_ok p \<longleftrightarrow> conditionStatus p ConditionTypeProfileReady =
     (if conditionStatus p ConditionTypeTargetResolved = ConditionTrue \<and> conditionStatus p ConditionTypeMetricsAvailable = ConditionTrue
      then ConditionTrue else ConditionFalse)"

lemma syncProfileReady_status:
  assumes "condition_setter set_cond"
  shows "conditionStatus (syncProfileReady set_cond p) t =
     (if t = ConditionTypeProfileReady
      then (if conditionStatus p ConditionTypeTargetResolved = ConditionTrue \<and> conditionStatus p ConditionTypeMetricsAvailable = ConditionTrue
            then ConditionTrue else ConditionFalse)
      else conditionStatus p t)"
  by (simp add: syncProfileReady_def Let_def conditionStatus_set [OF assms] split_def)

lemma ready_ok_sync [simp]: "condition_setter set_cond \<Longrightarrow> ready_ok (syncProfileReady set_cond p)"
  by (simp add: ready_ok_def syncProfileReady_status)

lemma setCondition_frame [simp]:
  "Spec (setCondition f p t s r m) = Spec p" "ProfileName (setCondition f p t s r m) = ProfileName p"
  "ProfileNamespace (setCondition f p t s r m) = ProfileNamespace p" "ProfileGeneration (setCondition f p t s r m) = ProfileGeneration p"
  "Recommendations (Status (setCondition f p t s r m)) = Recommendations (Status p)"
  "Containers (Status (setCondition f p t s r m)) = Containers (Status p)"
  "LastEvaluated (Status (setCondition f p t s r m)) = LastEvaluated (Status p)"
  "LastApplied (Status (setCondition f p t s r m)) = LastApplied (Status p)"
  "DownsizePauseCyclesRemaining (Status (setCondition f p t s r m)) = DownsizePauseCyclesRemaining (Status p)"
  "MetricsRecommendations (Status (setCondition f p t s r m)) = MetricsRecommendations (Status p)"
  by (simp_all add: setCondition_def)

lemma syncProfileReady_frame [simp]:
  "Spec (syncProfileReady f p) = Spec p" "ProfileName (syncProfileReady f p) = ProfileName p"
  "ProfileNamespace (syncProfileReady f p) = ProfileNamespace p" "ProfileGeneration (syncProfileReady f p) = ProfileGeneration p"
  "Recommendations (Status (syncProfileReady f p)) = Recommendations (Status p)"
  "Containers (Status (syncProfileReady f p)) = Containers (Status p)"
  "LastEvaluated (Status (syncProfileReady f p)) = LastEvaluated (Status p)"
  "LastApplied (Status (syncProfileReady f p)) = LastApplied (Status p)"
  "DownsizePauseCyclesRemaining (Status (syncProfileReady f p)) = DownsizePauseCyclesRemaining (Status p)"
  "MetricsRecommendations (Status (syncProfileReady f p)) = MetricsRecommendations (Status p)"
  by (simp_all add: syncProfileReady_def Let_def split_def)

lemma statusFiniteOrZero_finite [simp]: "is_finite (statusFiniteOrZero x)"
  by (cases x) (simp_all add: statusFiniteOrZero_def)

text \<open>What \<open>json.Marshal\<close> needs of a status: no average is NaN or infinite.\<close>

definition status_finite :: "'q WorkloadProfileStatus \<Rightarrow> bool" where
  "status_finite st \<longleftrightarrow> (\<forall>c \<in> set (Containers st). is_finite (CPUEMAShort (CPU (Stats c))) \<and> is_finite (CPUEMALong (CPU (Stats c)))
     \<and> is_finite (MemEMAShort (Memory (Stats c))) \<and> is_finite (MemEMALong (Memory (Stats c))))"

lemma sanitizeStatusFloats_finite [simp]: "status_finite (sanitizeStatusFloats st)"
  by (simp add: status_finite_def sanitizeStatusFloats_def sanitize_container_def)

lemma sanitizeStatusFloats_id: "status_finite st \<Longrightarrow> sanitizeStatusFloats st = st"
proof -
  have "statusFiniteOrZero x = x" if "is_finite x" for x using that by (cases x) (auto simp: statusFiniteOrZero_def)
  then show "status_finite st \<Longrightarrow> sanitizeStatusFloats st = st"
    by (simp add: status_finite_def sanitizeStatusFloats_def sanitize_container_def map_idI)
qed

text \<open>A status write stores the status and keeps the name.\<close>

definition profile_status_agrees :: "'q WorkloadProfile \<Rightarrow> 'q WorkloadProfile \<Rightarrow> bool" where
  "profile_status_agrees x y \<longleftrightarrow> profile_key y = profile_key x \<and> Status y = Status x"

text \<open>What one attempt without an error has done.\<close>

lemma status_attempt_done:
  assumes "status_store P objs profile_key labelled agrees profile_status_agrees"
    and "status_attempt P profile c = (None, c')"
  shows "objs c (profile_key profile) = None \<and> c' = c
    \<or> (\<exists>fresh. objs c (profile_key profile) = Some fresh \<and> ProfileDeleting fresh \<and> c' = c)
    \<or> (\<exists>fresh e. objs c (profile_key profile) = Some fresh \<and> benignStatusAPIErr (Some e)
            \<and> KStatus P c (fresh\<lparr>Status := Status profile\<rparr>) = (Some e, c'))
    \<or> (\<exists>y. Status y = Status profile \<and> objs c' = (objs c)(profile_key profile \<mapsto> y))"
proof -
  note store = status_store.axioms(1) [OF assms(1)]
  show ?thesis
  proof (cases "KGet P c (ProfileNamespace profile, ProfileName profile)")
    case (Inl e)
    then show ?thesis
      using assms(2) object_store.get_missing [OF store Inl] by (auto simp: status_attempt_def profile_key_def split: if_splits)
  next
    case (Inr fresh)
    note g = object_store.get_ok [OF store Inr]
    have key: "profile_key fresh = profile_key profile" using object_store.stored_key [OF store g] by (simp add: profile_key_def)
    show ?thesis
    proof (cases "ProfileDeleting fresh")
      case True
      then show ?thesis using assms(2) Inr g by (auto simp: status_attempt_def profile_key_def)
    next
      case False
      obtain err c1 where w: "KStatus P c (fresh\<lparr>Status := Status profile\<rparr>) = (err, c1)"
        by (cases "KStatus P c (fresh\<lparr>Status := Status profile\<rparr>)")
      show ?thesis
      proof (cases err)
        case None
        then have "c1 = c'" using assms(2) Inr False w by (simp add: status_attempt_def)
        with None w have ok: "KStatus P c (fresh\<lparr>Status := Status profile\<rparr>) = (None, c')" by simp
        obtain y where "profile_status_agrees (fresh\<lparr>Status := Status profile\<rparr>) y"
            "objs c' = (objs c)(profile_key (fresh\<lparr>Status := Status profile\<rparr>) \<mapsto> y)"
          using status_store.status_ok [OF assms(1) ok] by blast
        moreover have "profile_key (fresh\<lparr>Status := Status profile\<rparr>) = profile_key profile"
          using key by (simp add: profile_key_def)
        ultimately show ?thesis by (auto simp: profile_status_agrees_def)
      next
        case (Some e)
        then have "benignStatusAPIErr (Some e) \<and> c1 = c'"
          using assms(2) Inr False w by (auto simp: status_attempt_def split: if_splits)
        with Some w g show ?thesis by (auto simp: profile_key_def)
      qed
    qed
  qed
qed

definition ex_wp :: "nano_quantity WorkloadProfile" where
  "ex_wp = \<lparr>ProfileName = ''web'', ProfileNamespace = ''ns'', ProfileUID = ''u1'', ProfileGeneration = 1,
     ProfileLabels = Map.empty, ProfileDeleting = False,
     Spec = \<lparr>TargetRef = \<lparr>TargetKind = ''Deployment'', TargetName = ''web''\<rparr>, Mode = '''', SpecContainers = [],
             CooldownMinutes = None, CollectionIntervalSeconds = None\<rparr>,
     Status = \<lparr>Containers = [], MetricsRecommendations = [], Recommendations = [], LastApplied = None, LastEvaluated = None,
               DownsizePauseCyclesRemaining = 2, BinPacking = None, Conditions = []\<rparr>\<rparr>"

section \<open>What conditions and status writes promise\<close>

text \<open>
  Claim C24: after synchronisation the profile is ready exactly when its target is resolved and metrics
  are available; a profile that is not ready says why, with the message of the condition that fails
  (the target first) or a default, never with an empty text; the other conditions are untouched.
\<close>

theorem syncProfileReady_iff:
  assumes "condition_setter set_cond"
  shows "let p' = syncProfileReady set_cond p;
             ready = (conditionStatus p ConditionTypeTargetResolved = ConditionTrue
                      \<and> conditionStatus p ConditionTypeMetricsAvailable = ConditionTrue)
    in conditionStatus p' ConditionTypeProfileReady = (if ready then ConditionTrue else ConditionFalse)
     \<and> conditionMessage p' ConditionTypeProfileReady \<noteq> ''''
     \<and> (ready \<or> conditionMessage p' ConditionTypeProfileReady \<in>
          (let t = (if conditionStatus p ConditionTypeTargetResolved = ConditionTrue then ConditionTypeMetricsAvailable
                    else ConditionTypeTargetResolved)
           in if conditionMessage p t = '''' then {''target workload not ready'', ''metrics not yet available''}
              else {conditionMessage p t}))
     \<and> (\<forall>t. t = ConditionTypeProfileReady \<or> (conditionStatus p' t = conditionStatus p t \<and> conditionMessage p' t = conditionMessage p t))"
  by (simp add: syncProfileReady_def Let_def conditionStatus_set [OF assms])

theorem syncProfileReady_iff_witness:
  "condition_setter put_condition \<and>
   conditionStatus (syncProfileReady put_condition ex_wp) ConditionTypeProfileReady \<in> {ConditionTrue, ConditionFalse}"
  using syncProfileReady_iff [OF put.condition_setter_axioms, of ex_wp] put.condition_setter_axioms
  by (auto simp: Let_def split: if_splits)

text \<open>
  The summary of reasons does not depend on the iteration order of the map: two maps with the
  same entries are formatted alike, and the keys appear in sorted order.
\<close>

theorem formatReasonCounts_order_free:
  assumes "gomap_ok m" "gomap_ok m'" "map_of m = map_of m'"
  shows "formatReasonCounts m = formatReasonCounts m' \<and> sorted (sort (map fst m)) \<and> set (sort (map fst m)) = dom (map_of m)"
proof -
  have "set (map fst m) = set (map fst m')" using assms(3) by (metis dom_map_of_conv_image_fst set_map)
  then have "sort (map fst m) = sort (map fst m')"
    using assms(1,2) by (simp add: gomap_ok_def sorted_distinct_set_unique)
  moreover have "m = [] \<longleftrightarrow> m' = []" using assms(3) by (metis list.exhaust map_of_eq_empty_iff)
  ultimately show ?thesis by (simp add: formatReasonCounts_def assms(3) dom_map_of_conv_image_fst)
qed

theorem formatReasonCounts_order_free_witness:
  "formatReasonCounts [(''infeasible'', 2), (''deferred'', 1)] = formatReasonCounts [(''deferred'', 1), (''infeasible'', 2)]"
  using formatReasonCounts_order_free [of "[(''infeasible'', 2), (''deferred'', 1)]" "[(''deferred'', 1), (''infeasible'', 2)]"]
  by (simp add: gomap_ok_def fun_upd_twist)

text \<open>
  Claim C25: a status write never sends NaN or an infinity, changes nothing but the averages that are
  not numbers, and when it reports success then, after some conflicting attempts, the profile was
  gone, was being deleted, was refused with a benign delete-race error, or now holds exactly this
  status while every other profile is as it was.
\<close>

theorem persistStatus_effect:
  assumes "conflict_retry retry" "status_store P objs profile_key labelled agrees profile_status_agrees"
    and "persistStatus retry P c profile = (None, c', profile')"
  shows "profile' = profile\<lparr>Status := sanitizeStatusFloats (Status profile)\<rparr> \<and> status_finite (Status profile') \<and>
    (\<exists>c1. conflict_runs (status_attempt P profile') c c1 \<and>
      (objs c1 (profile_key profile) = None \<and> c' = c1
       \<or> (\<exists>fresh. objs c1 (profile_key profile) = Some fresh \<and> ProfileDeleting fresh \<and> c' = c1)
       \<or> (\<exists>fresh e. objs c1 (profile_key profile) = Some fresh \<and> benignStatusAPIErr (Some e)
            \<and> KStatus P c1 (fresh\<lparr>Status := Status profile'\<rparr>) = (Some e, c'))
       \<or> (\<exists>y. Status y = Status profile' \<and> objs c' = (objs c1)(profile_key profile \<mapsto> y))))"
proof -
  have p': "profile' = profile\<lparr>Status := sanitizeStatusFloats (Status profile)\<rparr>"
    "retry (status_attempt P profile') c = (None, c')"
    using assms(3) by (auto simp: persistStatus_def Let_def split: prod.splits)
  obtain c1 where c1: "conflict_runs (status_attempt P profile') c c1" "status_attempt P profile' c1 = (None, c')"
    using conflict_retry.last_run [OF assms(1), of "status_attempt P profile'" c] p'(2) by auto
  have "profile_key profile' = profile_key profile" using p'(1) by (simp add: profile_key_def)
  then show ?thesis using c1 p'(1) status_attempt_done [OF assms(2) c1(2)] by auto
qed

lemma mem_profiles: "status_store (mem_client profile_key f) (mem_objs profile_key) profile_key f (\<lambda>x y. profile_key y = profile_key x) profile_status_agrees"
  by (rule mem_status.weaken_status) (auto simp: profile_status_agrees_def)

definition ex_conflict :: api_error where
  "ex_conflict = \<lparr>ErrKind = KConflict, ErrText = ''the object has been modified''\<rparr>"

text \<open>A server that answers the first write with a conflict.\<close>

definition ex_profiles :: "nano_quantity WorkloadProfile mem_server" where
  "ex_profiles = \<lparr>MemObjs = [((''ns'', ''web''), ex_wp\<lparr>Status := (Status ex_wp)\<lparr>DownsizePauseCyclesRemaining := 0\<rparr>\<rparr>)], MemFaults = [Some ex_conflict]\<rparr>"

theorem persistStatus_effect_witness:
  "\<exists>c' p'. persistStatus (attempts 4) (mem_client profile_key (\<lambda>_ _. True)) ex_profiles ex_wp = (None, c', p') \<and> status_finite (Status p')
     \<and> map_option (\<lambda>p. DownsizePauseCyclesRemaining (Status p)) (mem_objs profile_key c' (''ns'', ''web'')) = Some 2"
proof -
  let ?r = "persistStatus (attempts 4) (mem_client profile_key (\<lambda>_ _. True)) ex_profiles ex_wp"
  have r: "?r = (None, fst (snd ?r), snd (snd ?r))"
    and w: "map_option (\<lambda>p. DownsizePauseCyclesRemaining (Status p)) (mem_objs profile_key (fst (snd ?r)) (''ns'', ''web'')) = Some 2"
    by (simp_all add: persistStatus_def Let_def status_attempt_def ex_profiles_def ex_wp_def mem_client_def mem_get_def mem_objs_def
        mem_put_def mem_write_def profile_key_def sanitizeStatusFloats_def ex_conflict_def numeral_eq_Suc benignStatusAPIErr_def
        str_contains_def sublist_code)
  show ?thesis using persistStatus_effect [OF five_attempts.conflict_retry_axioms mem_profiles r] r w by blast
qed

end
