(* ===== verification/Target.thy ===== *)
theory Target
  imports Parent_Types
begin

text \<open>
  \<open>internal/target\<close>: resolving a target reference (\<open>resolver.go\<close>), listing the workloads a selector
  matches, up to a cap (\<open>selector.go\<close>), and finding the workloads that another profile already
  manages (\<open>conflict.go\<close>).  The API client and the parser of label selectors are parameters.
\<close>

section \<open>Resolving\<close>

record ('q, 'ls) Workload =
  WlName :: string
  WlNamespace :: string
  WlSelector :: "'ls option"
  WlContainers :: "'q Container list"

text \<open>A \<open>runtime.Object\<close>; an object of another kind is its type name.\<close>

datatype ('q, 'ls) RuntimeObject =
    DeploymentObj "('q, 'ls) Workload" | StatefulSetObj "('q, 'ls) Workload" | OtherObj string

definition ErrKindNotSupported :: string where
  "ErrKindNotSupported = ''target kind not supported''"

text \<open>\<open>%q\<close> of a text of printable characters.\<close>

definition go_quote :: "string \<Rightarrow> string" where
  "go_quote s = [CHR 0x22] @ concat (map (\<lambda>ch. if ch = CHR 0x22 \<or> ch = CHR 0x5C then [CHR 0x5C, ch] else [ch]) s) @ [CHR 0x22]"

definition Resolve :: "('c, ('q, 'ls) Workload, 'sel) kind_client \<Rightarrow> ('c, ('q, 'ls) Workload, 'sel) kind_client \<Rightarrow> 'c
    \<Rightarrow> string \<Rightarrow> string \<Rightarrow> string \<Rightarrow> api_error + ('q, 'ls) RuntimeObject" where
  "Resolve D SS c ns kind name =
     (if kind = ''Deployment''
      then (case KGet D c (ns, name) of Inl e \<Rightarrow> Inl e | Inr obj \<Rightarrow> Inr (DeploymentObj obj))
      else if kind = ''StatefulSet''
      then (case KGet SS c (ns, name) of Inl e \<Rightarrow> Inl e | Inr obj \<Rightarrow> Inr (StatefulSetObj obj))
      else Inl (plain_error (ErrKindNotSupported @ '': '' @ go_quote kind)))"

definition Selector :: "('ls \<Rightarrow> api_error + 'sel) \<Rightarrow> ('q, 'ls) RuntimeObject \<Rightarrow> api_error + 'sel" where
  "Selector as_selector obj =
     (case obj of
        DeploymentObj t \<Rightarrow> (case WlSelector t of None \<Rightarrow> Inl (plain_error ''deployment has nil selector'') | Some ls \<Rightarrow> as_selector ls)
      | StatefulSetObj t \<Rightarrow> (case WlSelector t of None \<Rightarrow> Inl (plain_error ''statefulset has nil selector'') | Some ls \<Rightarrow> as_selector ls)
      | OtherObj _ \<Rightarrow> Inl (plain_error ErrKindNotSupported))"

definition containerNamesFromPodSpec :: "'q Container list option \<Rightarrow> string list" where
  "containerNamesFromPodSpec spec = (case spec of None \<Rightarrow> [] | Some cs \<Rightarrow> map CtrName cs)"

definition TemplateContainerNames :: "('q, 'ls) RuntimeObject \<Rightarrow> api_error + string list" where
  "TemplateContainerNames obj =
     (case obj of
        DeploymentObj t \<Rightarrow> Inr (containerNamesFromPodSpec (Some (WlContainers t)))
      | StatefulSetObj t \<Rightarrow> Inr (containerNamesFromPodSpec (Some (WlContainers t)))
      | OtherObj _ \<Rightarrow> Inl (plain_error ErrKindNotSupported))"

section \<open>Selecting\<close>

record WorkloadKey =
  KeyKind :: string
  KeyNamespace :: string
  KeyName :: string

definition key_String :: "WorkloadKey \<Rightarrow> string" where
  "key_String k = KeyNamespace k @ ''/'' @ KeyKind k @ ''/'' @ KeyName k"

definition DefaultMaxTargets :: int where "DefaultMaxTargets = 50"

definition selectorToLabels :: "('ls \<Rightarrow> api_error + 'sel) \<Rightarrow> 'ls WorkloadSelector \<Rightarrow> api_error + 'sel option" where
  "selectorToLabels as_selector sel =
     (case LabelSelector sel of
        None \<Rightarrow> if SelectAll sel then Inr None
                else Inl (plain_error ''labelSelector is required when selectAll is false'')
      | Some ls \<Rightarrow> (case as_selector ls of Inl e \<Rightarrow> Inl e | Inr s \<Rightarrow> Inr (Some s)))"

text \<open>The loop over a listing: it stops when the cap is reached.\<close>

fun append_keys :: "string \<Rightarrow> string \<Rightarrow> int \<Rightarrow> WorkloadKey list \<Rightarrow> ('q, 'ls) Workload list \<Rightarrow> WorkloadKey list" where
  "append_keys kind ns maxTargets keys [] = keys"
| "append_keys kind ns maxTargets keys (x # xs) =
     (if int (length keys) \<ge> maxTargets then keys
      else append_keys kind ns maxTargets (keys @ [\<lparr>KeyKind = kind, KeyNamespace = ns, KeyName = WlName x\<rparr>]) xs)"

definition label_filter_of :: "'sel option \<Rightarrow> 'sel label_filter" where
  "label_filter_of s = (case s of None \<Rightarrow> AllLabels | Some x \<Rightarrow> MatchingSelector x)"

definition include_kind :: "(WorkloadKinds \<Rightarrow> bool option) \<Rightarrow> 'ls WorkloadSelector \<Rightarrow> bool" where
  "include_kind field sel = (case Kinds sel of None \<Rightarrow> True | Some k \<Rightarrow> (case field k of None \<Rightarrow> True | Some b \<Rightarrow> b))"

definition ListWorkloads :: "('ls \<Rightarrow> api_error + 'sel) \<Rightarrow> ('c, ('q, 'ls) Workload, 'sel) kind_client \<Rightarrow> ('c, ('q, 'ls) Workload, 'sel) kind_client
    \<Rightarrow> 'c \<Rightarrow> string \<Rightarrow> 'ls WorkloadSelector \<Rightarrow> int \<Rightarrow> api_error + WorkloadKey list" where
  "ListWorkloads as_selector D SS c ns sel maxTargets0 =
     (let maxTargets = (if maxTargets0 \<le> 0 then DefaultMaxTargets else maxTargets0) in
      case selectorToLabels as_selector sel of
        Inl e \<Rightarrow> Inl (wrap_error ''parse label selector'' e)
      | Inr labelSel \<Rightarrow>
          (case (if include_kind KindDeployment sel
                 then (case KList D c (Some ns) (label_filter_of labelSel) of
                         Inl e \<Rightarrow> Inl (wrap_error ''list deployments'' e)
                       | Inr items \<Rightarrow> Inr (append_keys ''Deployment'' ns maxTargets [] items))
                 else Inr []) of
             Inl e \<Rightarrow> Inl e
           | Inr keys \<Rightarrow>
               if include_kind KindStatefulSet sel \<and> int (length keys) < maxTargets
               then (case KList SS c (Some ns) (label_filter_of labelSel) of
                       Inl e \<Rightarrow> Inl (wrap_error ''list statefulsets'' e)
                     | Inr items \<Rightarrow> Inr (append_keys ''StatefulSet'' ns maxTargets keys items))
               else Inr keys))"

definition matchNamespaces :: "('ls \<Rightarrow> api_error + 'sel) \<Rightarrow> ('c, string, 'sel) kind_client \<Rightarrow> 'c \<Rightarrow> 'ls option \<Rightarrow> api_error + string list" where
  "matchNamespaces as_selector N c nsSel =
     (case (case nsSel of None \<Rightarrow> Inr AllLabels
            | Some ls \<Rightarrow> (case as_selector ls of Inl e \<Rightarrow> Inl (wrap_error ''parse namespace selector'' e) | Inr s \<Rightarrow> Inr (MatchingSelector s))) of
        Inl e \<Rightarrow> Inl e
      | Inr filt \<Rightarrow>
          (case KList N c None filt of
             Inl e \<Rightarrow> Inl (wrap_error ''list namespaces'' e)
           | Inr names \<Rightarrow> Inr names))"

definition MatchedNamespaceCount :: "('ls \<Rightarrow> api_error + 'sel) \<Rightarrow> ('c, string, 'sel) kind_client \<Rightarrow> 'c \<Rightarrow> 'ls option \<Rightarrow> api_error + int" where
  "MatchedNamespaceCount as_selector N c nsSel =
     (case matchNamespaces as_selector N c nsSel of Inl e \<Rightarrow> Inl e | Inr ns \<Rightarrow> Inr (int (length ns)))"

fun list_namespaces :: "(string \<Rightarrow> int \<Rightarrow> api_error + WorkloadKey list) \<Rightarrow> int \<Rightarrow> WorkloadKey list \<Rightarrow> string list
    \<Rightarrow> api_error + WorkloadKey list" where
  "list_namespaces list_ns maxTargets keys [] = Inr keys"
| "list_namespaces list_ns maxTargets keys (ns # nss) =
     (let remaining = maxTargets - int (length keys) in
      if remaining \<le> 0 then Inr keys
      else case list_ns ns remaining of
        Inl e \<Rightarrow> Inl (wrap_error (''namespace '' @ go_quote ns) e)
      | Inr nsKeys \<Rightarrow> list_namespaces list_ns maxTargets (keys @ nsKeys) nss)"

definition ListClusterWorkloads :: "('ls \<Rightarrow> api_error + 'sel) \<Rightarrow> ('c, string, 'sel) kind_client \<Rightarrow> ('c, ('q, 'ls) Workload, 'sel) kind_client
    \<Rightarrow> ('c, ('q, 'ls) Workload, 'sel) kind_client \<Rightarrow> 'c \<Rightarrow> 'ls option \<Rightarrow> 'ls WorkloadSelector \<Rightarrow> int \<Rightarrow> api_error + WorkloadKey list" where
  "ListClusterWorkloads as_selector N D SS c nsSel wSel maxTargets0 =
     (let maxTargets = (if maxTargets0 \<le> 0 then 200 else maxTargets0) in
      case matchNamespaces as_selector N c nsSel of
        Inl e \<Rightarrow> Inl e
      | Inr namespaces \<Rightarrow>
          list_namespaces (\<lambda>ns remaining. ListWorkloads as_selector D SS c ns wSel remaining) maxTargets [] namespaces)"

section \<open>Conflicts\<close>

record ConflictResult =
  Free :: "WorkloadKey list"
  Conflicting :: "(string, string) gomap"

definition label_of :: "'q WorkloadProfile \<Rightarrow> string \<Rightarrow> string" where
  "label_of wp l = (case ProfileLabels wp l of None \<Rightarrow> '''' | Some v \<Rightarrow> v)"

definition isOurs :: "string \<Rightarrow> string \<Rightarrow> 'q WorkloadProfile \<Rightarrow> bool" where
  "isOurs parentKind parentName wp \<longleftrightarrow> label_of wp LabelParentKind = parentKind \<and> label_of wp LabelParentName = parentName"

definition claim_key :: "string \<Rightarrow> 'q WorkloadProfile \<Rightarrow> string" where
  "claim_key ns wp = key_String \<lparr>KeyKind = TargetKind (TargetRef (Spec wp)), KeyNamespace = ns, KeyName = TargetName (TargetRef (Spec wp))\<rparr>"

definition claim_owner :: "'q WorkloadProfile \<Rightarrow> string" where
  "claim_owner wp =
     (if label_of wp LabelManagedBy = '''' then ''WorkloadProfile/'' @ ProfileName wp
      else label_of wp LabelParentKind @ ''/'' @ label_of wp LabelParentName)"

definition claim_step :: "string \<Rightarrow> string \<Rightarrow> string \<Rightarrow> (string \<rightharpoonup> string) \<Rightarrow> 'q WorkloadProfile \<Rightarrow> (string \<rightharpoonup> string)" where
  "claim_step ns parentKind parentName claimed wp =
     (if isOurs parentKind parentName wp then claimed else claimed(claim_key ns wp \<mapsto> claim_owner wp))"

definition conflict_step :: "(string \<rightharpoonup> string) \<Rightarrow> ConflictResult \<Rightarrow> WorkloadKey \<Rightarrow> ConflictResult" where
  "conflict_step claimed result k =
     (case claimed (key_String k) of
        Some owner \<Rightarrow> result\<lparr>Conflicting := gm_put (key_String k) owner (Conflicting result)\<rparr>
      | None \<Rightarrow> result\<lparr>Free := Free result @ [k]\<rparr>)"

definition DetectConflicts :: "('c, 'q WorkloadProfile, 'sel) kind_client \<Rightarrow> 'c \<Rightarrow> string \<Rightarrow> WorkloadKey list \<Rightarrow> string \<Rightarrow> string
    \<Rightarrow> api_error + ConflictResult" where
  "DetectConflicts P c ns keys parentKind parentName =
     (case KList P c (Some ns) AllLabels of
        Inl e \<Rightarrow> Inl (wrap_error ''list workload profiles'' e)
      | Inr items \<Rightarrow>
          let claimed = foldl (claim_step ns parentKind parentName) Map.empty items
          in Inr (foldl (conflict_step claimed) \<lparr>Free = [], Conflicting = []\<rparr> keys))"

section \<open>Facts\<close>

definition wl_key :: "string \<Rightarrow> string \<Rightarrow> ('q, 'ls) Workload \<Rightarrow> WorkloadKey" where
  "wl_key kind ns x = \<lparr>KeyKind = kind, KeyNamespace = ns, KeyName = WlName x\<rparr>"

lemma append_keys_take:
  "append_keys kind ns mx keys xs = keys @ take (nat (mx - int (length keys))) (map (wl_key kind ns) xs)"
proof (induction kind ns mx keys xs rule: append_keys.induct)
  case (2 kind ns mx keys x xs)
  show ?case
  proof (cases "int (length keys) \<ge> mx")
    case False
    then have "nat (mx - int (length keys)) = Suc (nat (mx - int (length (keys @ [wl_key kind ns x]))))" by simp
    with False 2 show ?thesis by (simp add: wl_key_def)
  qed simp
qed simp

definition target_cap :: "int \<Rightarrow> int \<Rightarrow> int" where
  "target_cap deflt n = (if n \<le> 0 then deflt else n)"

text \<open>What a listing returns of one kind; a kind that is not selected returns nothing.\<close>

definition listing :: "('c, ('q, 'ls) Workload, 'sel) kind_client \<Rightarrow> 'c \<Rightarrow> string \<Rightarrow> 'sel option \<Rightarrow> bool \<Rightarrow> api_error + ('q, 'ls) Workload list" where
  "listing F c ns labelSel included = (if included then KList F c (Some ns) (label_filter_of labelSel) else Inr [])"

definition all_keys :: "string \<Rightarrow> ('q, 'ls) Workload list \<Rightarrow> ('q, 'ls) Workload list \<Rightarrow> WorkloadKey list" where
  "all_keys ns ds ss = map (wl_key ''Deployment'' ns) ds @ map (wl_key ''StatefulSet'' ns) ss"

lemma ListWorkloads_ok:
  assumes "selectorToLabels as_selector sel = Inr labelSel"
    and "listing D c ns labelSel (include_kind KindDeployment sel) = Inr ds"
    and "listing SS c ns labelSel (include_kind KindStatefulSet sel) = Inr ss"
  shows "ListWorkloads as_selector D SS c ns sel n = Inr (take (nat (target_cap DefaultMaxTargets n)) (all_keys ns ds ss))"
proof -
  let ?cap = "target_cap DefaultMaxTargets n"
  have cap: "(if n \<le> 0 then DefaultMaxTargets else n) = ?cap" by (simp add: target_cap_def)
  let ?keys = "take (nat ?cap) (map (wl_key ''Deployment'' ns) ds)"
  have d: "(if include_kind KindDeployment sel
            then (case KList D c (Some ns) (label_filter_of labelSel) of
                    Inl e \<Rightarrow> Inl (wrap_error ''list deployments'' e)
                  | Inr items \<Rightarrow> Inr (append_keys ''Deployment'' ns ?cap [] items))
            else Inr []) = (Inr ?keys :: api_error + WorkloadKey list)"
    using assms(2) by (auto simp: listing_def append_keys_take split: if_splits)
  show ?thesis
  proof (cases "include_kind KindStatefulSet sel \<and> int (length ?keys) < ?cap")
    case True
    then have "length ds < nat ?cap" by auto
    with True assms(1,3) d show ?thesis
      by (auto simp: ListWorkloads_def Let_def cap listing_def append_keys_take all_keys_def nat_diff_distrib')
  next
    case False
    have "ss = [] \<or> nat ?cap \<le> length ds" using False assms(3) by (auto simp: listing_def)
    with False assms(1) d show ?thesis by (auto simp: ListWorkloads_def Let_def cap all_keys_def)
  qed
qed

lemma taken_keys: "k \<in> set (take m (map (wl_key kind ns) xs)) \<Longrightarrow> KeyKind k = kind \<and> KeyNamespace k = ns"
  by (auto dest!: in_set_takeD simp: wl_key_def)

text \<open>What a successful listing has read.\<close>

lemma ListWorkloads_members:
  assumes "ListWorkloads as_selector D SS c ns sel n = Inr keys"
  obtains filt ds ss where
    "ds = [] \<or> include_kind KindDeployment sel \<and> KList D c (Some ns) filt = Inr ds"
    "ss = [] \<or> include_kind KindStatefulSet sel \<and> KList SS c (Some ns) filt = Inr ss"
    "keys = take (nat (target_cap DefaultMaxTargets n)) (all_keys ns ds ss)"
proof -
  define cap where "cap = target_cap DefaultMaxTargets n"
  have cap: "(if n \<le> 0 then DefaultMaxTargets else n) = cap" by (simp add: cap_def target_cap_def)
  define first :: "_ \<Rightarrow> api_error + WorkloadKey list" where "first = (\<lambda>ls. if include_kind KindDeployment sel
                 then (case KList D c (Some ns) (label_filter_of ls) of
                         Inl e \<Rightarrow> Inl (wrap_error ''list deployments'' e)
                       | Inr items \<Rightarrow> Inr (append_keys ''Deployment'' ns cap [] items))
                 else Inr [])"
  define rest :: "_ \<Rightarrow> WorkloadKey list \<Rightarrow> api_error + WorkloadKey list" where "rest = (\<lambda>ls ks. if include_kind KindStatefulSet sel \<and> int (length ks) < cap
               then (case KList SS c (Some ns) (label_filter_of ls) of
                       Inl e \<Rightarrow> Inl (wrap_error ''list statefulsets'' e)
                     | Inr items \<Rightarrow> Inr (append_keys ''StatefulSet'' ns cap ks items))
               else Inr ks)"
  have "ListWorkloads as_selector D SS c ns sel n = (case selectorToLabels as_selector sel of
        Inl e \<Rightarrow> Inl (wrap_error ''parse label selector'' e)
      | Inr ls \<Rightarrow> (case first ls of Inl e \<Rightarrow> Inl e | Inr ks \<Rightarrow> rest ls ks))"
    unfolding ListWorkloads_def Let_def cap first_def rest_def by (rule refl)
  with assms obtain ls ks where ks: "first ls = Inr ks" "rest ls ks = Inr keys" by (auto split: sum.splits)
  obtain ds where ds: "ds = [] \<or> include_kind KindDeployment sel \<and> KList D c (Some ns) (label_filter_of ls) = Inr ds"
      "ks = take (nat cap) (map (wl_key ''Deployment'' ns) ds)"
    using ks(1) by (auto simp: first_def append_keys_take split: sum.splits if_splits)
  obtain ss where ss: "ss = [] \<or> include_kind KindStatefulSet sel \<and> KList SS c (Some ns) (label_filter_of ls) = Inr ss"
      "keys = ks @ take (nat (cap - int (length ks))) (map (wl_key ''StatefulSet'' ns) ss)"
    using ks(2) by (auto simp: rest_def append_keys_take split: sum.splits if_splits)
  have "nat (cap - int (length ds)) = nat cap - length ds" by linarith
  then have "keys = take (nat cap) (all_keys ns ds ss)"
    unfolding ss(2) ds(2) by (simp add: all_keys_def min_def)
  with ds(1) ss(1) show ?thesis using that unfolding cap_def by blast
qed

lemma ListWorkloads_sound:
  assumes "ListWorkloads as_selector D SS c ns sel n = Inr keys"
  shows "int (length keys) \<le> target_cap DefaultMaxTargets n \<and>
     (\<forall>k \<in> set keys. KeyNamespace k = ns \<and>
        (KeyKind k = ''Deployment'' \<and> include_kind KindDeployment sel \<or> KeyKind k = ''StatefulSet'' \<and> include_kind KindStatefulSet sel))"
proof -
  have "0 \<le> target_cap DefaultMaxTargets n" by (simp add: target_cap_def DefaultMaxTargets_def)
  moreover obtain filt ds ss where
    "ds = [] \<or> include_kind KindDeployment sel \<and> KList D c (Some ns) filt = Inr ds"
    "ss = [] \<or> include_kind KindStatefulSet sel \<and> KList SS c (Some ns) filt = Inr ss"
    "keys = take (nat (target_cap DefaultMaxTargets n)) (all_keys ns ds ss)"
    by (rule ListWorkloads_members [OF assms])
  ultimately show ?thesis by (auto simp: all_keys_def wl_key_def dest!: in_set_takeD)
qed

lemma list_namespaces_take:
  assumes "\<And>ns r. 0 < r \<Longrightarrow> list_ns ns r = Inr (take (nat r) (full ns))" "int (length keys) \<le> mx"
  shows "list_namespaces list_ns mx keys nss = Inr (take (nat mx) (keys @ concat (map full nss)))"
  using assms(2)
proof (induction nss arbitrary: keys)
  case (Cons ns nss)
  show ?case
  proof (cases "mx - int (length keys) \<le> 0")
    case True
    with Cons.prems have "nat mx = length keys" by linarith
    with True show ?thesis by simp
  next
    case False
    let ?ks = "take (nat (mx - int (length keys))) (full ns)"
    have "int (length (keys @ ?ks)) \<le> mx" using False by auto
    from Cons.IH [OF this] have "list_namespaces list_ns mx keys (ns # nss) = Inr (take (nat mx) ((keys @ ?ks) @ concat (map full nss)))"
      using False assms(1) by (simp add: Let_def)
    moreover have "take (nat mx) ((keys @ ?ks) @ concat (map full nss)) = take (nat mx) (keys @ full ns @ concat (map full nss))"
    proof -
      have "nat (mx - int (length keys)) = nat mx - length keys" by linarith
      then show ?thesis using False by (cases "nat mx - length keys \<le> length (full ns)") (simp_all add: take_append)
    qed
    ultimately show ?thesis by simp
  qed
qed simp

lemma claim_steps:
  "foldl (claim_step ns pk pn) m items k =
     (case find (\<lambda>wp. \<not> isOurs pk pn wp \<and> claim_key ns wp = k) (rev items) of Some wp \<Rightarrow> Some (claim_owner wp) | None \<Rightarrow> m k)"
  by (induction items arbitrary: m rule: rev_induct) (auto simp: claim_step_def)

lemma conflict_steps_free:
  "Free (foldl (conflict_step claimed) r keys) = Free r @ filter (\<lambda>k. claimed (key_String k) = None) keys"
  by (induction keys arbitrary: r) (auto simp: conflict_step_def split: option.split)

lemma conflict_steps_conflicting:
  "map_of (Conflicting (foldl (conflict_step claimed) r keys)) s =
     (if s \<in> key_String ` set keys \<and> claimed s \<noteq> None then claimed s else map_of (Conflicting r) s)"
  by (induction keys arbitrary: r) (auto simp: conflict_step_def split: option.split)

section \<open>What selection and conflict detection promise\<close>

text \<open>
  The workloads found in a namespace are all in it, of a selected kind and at most as many as
  the cap (50 when the cap is not positive); and when the listings succeed they are a prefix of the
  complete list, Deployments before StatefulSets, cut at the cap.
\<close>

theorem ListWorkloads_capped_prefix:
  "(\<forall>keys. ListWorkloads as_selector D SS c ns sel n = Inr keys \<longrightarrow>
      int (length keys) \<le> target_cap DefaultMaxTargets n \<and>
      (\<forall>k \<in> set keys. KeyNamespace k = ns \<and>
        (KeyKind k = ''Deployment'' \<and> include_kind KindDeployment sel \<or> KeyKind k = ''StatefulSet'' \<and> include_kind KindStatefulSet sel)))
   \<and> (\<forall>labelSel ds ss. selectorToLabels as_selector sel = Inr labelSel
        \<and> listing D c ns labelSel (include_kind KindDeployment sel) = Inr ds
        \<and> listing SS c ns labelSel (include_kind KindStatefulSet sel) = Inr ss \<longrightarrow>
      ListWorkloads as_selector D SS c ns sel n = Inr (take (nat (target_cap DefaultMaxTargets n)) (all_keys ns ds ss)))"
  using ListWorkloads_sound [of as_selector D SS c ns sel n] ListWorkloads_ok [of as_selector sel _ D c ns _ SS _ n] by blast

text \<open>
  Claim C26: across namespaces the keys are those of the matched namespaces in their order, cut at the
  total cap (200 when the cap is not positive): listing namespace by namespace with the remaining
  budget gives the same as listing everything and cutting once.
\<close>

theorem ListClusterWorkloads_capped_prefix:
  assumes "selectorToLabels as_selector sel = Inr labelSel" "matchNamespaces as_selector N c nsSel = Inr nss"
    and "\<forall>ns. listing D c ns labelSel (include_kind KindDeployment sel) = Inr (ds ns)"
    and "\<forall>ns. listing SS c ns labelSel (include_kind KindStatefulSet sel) = Inr (ss ns)"
  shows "ListClusterWorkloads as_selector N D SS c nsSel sel n =
     Inr (take (nat (target_cap 200 n)) (concat (map (\<lambda>ns. all_keys ns (ds ns) (ss ns)) nss)))"
proof -
  have "ListWorkloads as_selector D SS c ns sel r = Inr (take (nat r) (all_keys ns (ds ns) (ss ns)))" if "0 < r" for ns r
    using ListWorkloads_ok [OF assms(1) spec [OF assms(3)] spec [OF assms(4)], of ns r] that by (simp add: target_cap_def)
  from list_namespaces_take [of "\<lambda>ns r. ListWorkloads as_selector D SS c ns sel r" "\<lambda>ns. all_keys ns (ds ns) (ss ns)", OF this, of "[]" "target_cap 200 n" nss]
  show ?thesis
    using assms(2) by (cases "n \<le> 0") (simp_all add: ListClusterWorkloads_def Let_def target_cap_def)
qed

definition ex_wl :: "string \<Rightarrow> string \<Rightarrow> (nano_quantity, unit) Workload" where
  "ex_wl ns name = \<lparr>WlName = name, WlNamespace = ns, WlSelector = None, WlContainers = []\<rparr>"

text \<open>A listing that answers the same two workloads in every namespace.\<close>

definition ex_lister :: "string list \<Rightarrow> (unit, (nano_quantity, unit) Workload, unit) kind_client" where
  "ex_lister names = \<lparr>KGet = (\<lambda>_ _. Inl not_found), KList = (\<lambda>_ nso _. Inr (map (ex_wl (case nso of None \<Rightarrow> '''' | Some n \<Rightarrow> n)) names)),
     KCreate = (\<lambda>c _. (None, c)), KUpdate = (\<lambda>c _. (None, c)), KStatus = (\<lambda>c _. (None, c)), KPatch = (\<lambda>c _ _. (None, c)),
     KDelete = (\<lambda>c _. (None, c)), KCreateOrUpdate = (\<lambda>c _ _. (None, c))\<rparr>"

definition ex_ns_lister :: "(unit, string, unit) kind_client" where
  "ex_ns_lister = \<lparr>KGet = (\<lambda>_ _. Inl not_found), KList = (\<lambda>_ _ _. Inr [''a'', ''b'']),
     KCreate = (\<lambda>c _. (None, c)), KUpdate = (\<lambda>c _. (None, c)), KStatus = (\<lambda>c _. (None, c)), KPatch = (\<lambda>c _ _. (None, c)),
     KDelete = (\<lambda>c _. (None, c)), KCreateOrUpdate = (\<lambda>c _ _. (None, c))\<rparr>"

definition ex_sel :: "unit WorkloadSelector" where
  "ex_sel = \<lparr>LabelSelector = None, SelectAll = True, Kinds = None\<rparr>"

theorem ListClusterWorkloads_capped_prefix_witness:
  "map_sum id (map key_String) (ListClusterWorkloads (\<lambda>_. Inr ()) ex_ns_lister (ex_lister [''x'', ''y'']) (ex_lister [''z'']) () None ex_sel 4) =
     Inr [''a/Deployment/x'', ''a/Deployment/y'', ''a/StatefulSet/z'', ''b/Deployment/x'']"
proof -
  have l: "\<forall>ns. listing (ex_lister names) () ns None (include_kind f ex_sel) = Inr (map (ex_wl ns) names)" for names f
    by (simp add: listing_def ex_lister_def include_kind_def ex_sel_def)
  have "selectorToLabels (\<lambda>_. Inr ()) ex_sel = (Inr None :: api_error + unit option)"
    "matchNamespaces (\<lambda>_. Inr ()) ex_ns_lister () (None :: unit option) = Inr [''a'', ''b'']"
    by (simp_all add: selectorToLabels_def ex_sel_def matchNamespaces_def ex_ns_lister_def)
  from ListClusterWorkloads_capped_prefix [OF this l [of "[''x'', ''y'']" KindDeployment] l [of "[''z'']" KindStatefulSet], of 4]
  show ?thesis
    by (simp add: target_cap_def all_keys_def wl_key_def ex_wl_def key_String_def numeral_eq_Suc)
qed

theorem ListWorkloads_capped_prefix_witness:
  "ListWorkloads (\<lambda>_. Inr ()) (ex_lister [''x'', ''y'']) (ex_lister [''z'']) () ''a'' ex_sel 1 =
     Inr [\<lparr>KeyKind = ''Deployment'', KeyNamespace = ''a'', KeyName = ''x''\<rparr>]"
proof -
  have "selectorToLabels (\<lambda>_. Inr ()) ex_sel = (Inr None :: api_error + unit option)
    \<and> listing (ex_lister [''x'', ''y'']) () ''a'' None (include_kind KindDeployment ex_sel) = Inr (map (ex_wl ''a'') [''x'', ''y''])
    \<and> listing (ex_lister [''z'']) () ''a'' None (include_kind KindStatefulSet ex_sel) = Inr (map (ex_wl ''a'') [''z''])"
    by (simp add: selectorToLabels_def listing_def ex_lister_def include_kind_def ex_sel_def)
  from mp [OF spec [OF spec [OF spec [OF conjunct2 [OF ListWorkloads_capped_prefix]]]] this, of 1]
  show ?thesis by (simp add: target_cap_def all_keys_def wl_key_def ex_wl_def)
qed

text \<open>
  Claim C27: conflict detection splits the keys: free, in their order, are exactly those that no profile
  of the namespace outside the parent's own children targets; every other key is reported with the
  owner of the last profile that claims it.
\<close>

theorem DetectConflicts_partition:
  assumes "KList P c (Some ns) AllLabels = Inr items"
  shows "\<exists>r. DetectConflicts P c ns keys parentKind parentName = Inr r \<and>
    (let claimants = (\<lambda>s. filter (\<lambda>wp. \<not> isOurs parentKind parentName wp \<and> claim_key ns wp = s) items) in
      Free r = filter (\<lambda>k. claimants (key_String k) = []) keys \<and>
      (\<forall>s. map_of (Conflicting r) s =
         (if s \<in> key_String ` set keys \<and> claimants s \<noteq> [] then Some (claim_owner (last (claimants s))) else None)))"
proof -
  let ?claimed = "foldl (claim_step ns parentKind parentName) Map.empty items"
  let ?r = "foldl (conflict_step ?claimed) \<lparr>Free = [], Conflicting = []\<rparr> keys"
  have found: "find Q (rev items) = (if filter Q items = [] then None else Some (last (filter Q items)))" for Q
    by (induction items rule: rev_induct) auto
  have "DetectConflicts P c ns keys parentKind parentName = Inr ?r"
    using assms by (simp add: DetectConflicts_def Let_def)
  moreover have "?claimed s = (let cl = filter (\<lambda>wp. \<not> isOurs parentKind parentName wp \<and> claim_key ns wp = s) items in
      if cl = [] then None else Some (claim_owner (last cl)))" for s
    unfolding claim_steps found Let_def by simp
  ultimately show ?thesis
    by (intro exI [of _ ?r]) (simp add: conflict_steps_free conflict_steps_conflicting Let_def)
qed

definition ex_profile_of :: "string \<Rightarrow> (string \<rightharpoonup> string) \<Rightarrow> string \<Rightarrow> nano_quantity WorkloadProfile" where
  "ex_profile_of name lbls tgt = \<lparr>ProfileName = name, ProfileNamespace = ''ns'', ProfileUID = ''u'', ProfileGeneration = 1,
     ProfileLabels = lbls, ProfileDeleting = False,
     Spec = \<lparr>TargetRef = \<lparr>TargetKind = ''Deployment'', TargetName = tgt\<rparr>, Mode = '''', SpecContainers = [],
             CooldownMinutes = None, CollectionIntervalSeconds = None\<rparr>,
     Status = zero_ProfileStatus\<rparr>"

definition ex_claims :: "nano_quantity WorkloadProfile mem_server" where
  "ex_claims = \<lparr>MemObjs = [((''ns'', ''w''), ex_profile_of ''w'' Map.empty ''x''),
      ((''ns'', ''c''), ex_profile_of ''c'' [LabelManagedBy \<mapsto> ''true'', LabelParentKind \<mapsto> ''NamespaceProfile'', LabelParentName \<mapsto> ''p''] ''y'')],
     MemFaults = []\<rparr>"

theorem DetectConflicts_partition_witness:
  "\<exists>r. DetectConflicts (mem_client profile_key (\<lambda>_ _. True)) ex_claims ''ns''
      (map (wl_key ''Deployment'' ''ns'') (map (ex_wl ''ns'') [''x'', ''y'', ''z''])) ''NamespaceProfile'' ''p'' = Inr r
    \<and> map KeyName (Free r) = [''y'', ''z''] \<and> map_of (Conflicting r) ''ns/Deployment/x'' = Some ''WorkloadProfile/w''"
proof -
  have "KList (mem_client profile_key (\<lambda>_ _. True)) ex_claims (Some ''ns'') AllLabels =
      Inr [ex_profile_of ''w'' Map.empty ''x'',
           ex_profile_of ''c'' [LabelManagedBy \<mapsto> ''true'', LabelParentKind \<mapsto> ''NamespaceProfile'', LabelParentName \<mapsto> ''p''] ''y'']"
    by (simp add: mem_client_def mem_all_def mem_objs_def ex_claims_def map_filter_simps profile_key_def ex_profile_of_def)
  from DetectConflicts_partition [OF this, of "map (wl_key ''Deployment'' ''ns'') (map (ex_wl ''ns'') [''x'', ''y'', ''z''])" "''NamespaceProfile''" "''p''"]
  show ?thesis
    by (force simp: ex_profile_of_def isOurs_def label_of_def claim_key_def key_String_def wl_key_def ex_wl_def claim_owner_def Let_def
        LabelManagedBy_def LabelParentKind_def LabelParentName_def)
qed

end
