(* ===== verification/Canonical.thy ===== *)
theory Canonical
  imports Safety_Spec
begin

text \<open>
  \<open>internal/resourcecanonical/quantity.go\<close>: the quantities of a recommendation are round-tripped
  through their canonical strings before they are stored in the status.
\<close>

definition Canonicalize :: "'q quantity_api \<Rightarrow> 'q \<Rightarrow> string + 'q" where
  "Canonicalize Q q = ParseQuantity Q (QString Q q)"

definition CanonicalizeRecommendation :: "'q quantity_api \<Rightarrow> 'q Recommendation \<Rightarrow> string + 'q Recommendation" where
  "CanonicalizeRecommendation Q r =
     (case Canonicalize Q (CPURequest r) of Inl e \<Rightarrow> Inl e
      | Inr a \<Rightarrow> (case Canonicalize Q (CPULimit r) of Inl e \<Rightarrow> Inl e
      | Inr b \<Rightarrow> (case Canonicalize Q (MemoryRequest r) of Inl e \<Rightarrow> Inl e
      | Inr c \<Rightarrow> (case Canonicalize Q (MemoryLimit r) of Inl e \<Rightarrow> Inl e
      | Inr d \<Rightarrow> Inr (r\<lparr>CPURequest := a, CPULimit := b, MemoryRequest := c, MemoryLimit := d\<rparr>)))))"

text \<open>The first failing recommendation ends the loop with its error.\<close>

fun CanonicalizeRecommendations :: "'q quantity_api \<Rightarrow> 'q Recommendation list \<Rightarrow> string + 'q Recommendation list" where
  "CanonicalizeRecommendations Q [] = Inr []"
| "CanonicalizeRecommendations Q (r # rs) =
     (case CanonicalizeRecommendation Q r of Inl e \<Rightarrow> Inl e
      | Inr r' \<Rightarrow> (case CanonicalizeRecommendations Q rs of Inl e \<Rightarrow> Inl e | Inr rs' \<Rightarrow> Inr (r' # rs')))"

definition same_amounts :: "('q \<Rightarrow> rat) \<Rightarrow> 'q Recommendation \<Rightarrow> 'q Recommendation \<Rightarrow> bool" where
  "same_amounts amount r r' \<longleftrightarrow> ContainerName r' = ContainerName r \<and> Rationale r' = Rationale r \<and>
     amount (CPURequest r') = amount (CPURequest r) \<and> amount (CPULimit r') = amount (CPULimit r) \<and>
     amount (MemoryRequest r') = amount (MemoryRequest r) \<and> amount (MemoryLimit r') = amount (MemoryLimit r)"

context quantity
begin

lemma Canonicalize_total: "\<exists>q'. Canonicalize Q q = Inr q' \<and> amount q' = amount q"
  unfolding Canonicalize_def by (rule Parse_String)

lemma CanonicalizeRecommendation_total: "\<exists>r'. CanonicalizeRecommendation Q r = Inr r' \<and> same_amounts amount r r'"
  using Canonicalize_total [of "CPURequest r"] Canonicalize_total [of "CPULimit r"]
    Canonicalize_total [of "MemoryRequest r"] Canonicalize_total [of "MemoryLimit r"]
  by (auto simp: CanonicalizeRecommendation_def same_amounts_def)

lemma CanonicalizeRecommendations_total:
  "\<exists>rs'. CanonicalizeRecommendations Q rs = Inr rs' \<and> list_all2 (same_amounts amount) rs rs'"
proof (induction rs)
  case (Cons r rs)
  then show ?case using CanonicalizeRecommendation_total [of r] by auto
qed simp

end

text \<open>
  Canonicalizing never fails and loses nothing: every recommendation keeps its container,
  its rationale, its place in the list and the exact amounts of its four quantities.
\<close>

theorem CanonicalizeRecommendations_preserves:
  assumes "quantity Q amount"
  shows "\<exists>rs'. CanonicalizeRecommendations Q rs = Inr rs' \<and> list_all2 (same_amounts amount) rs rs'"
  using assms by (rule quantity.CanonicalizeRecommendations_total)

theorem CanonicalizeRecommendations_preserves_witness:
  "\<exists>rs'. CanonicalizeRecommendations nano_api [ex_rec 1 2 3 4] = Inr rs' \<and> length rs' = 1"
  using CanonicalizeRecommendations_preserves [OF nano.quantity_axioms, of "[ex_rec 1 2 3 4]"]
  by (auto simp: list_all2_Cons1)

end
