(* ===== verification/Actuate.thy ===== *)
theory Actuate
  imports Safety_Spec
begin

text \<open>
  \<open>internal/actuate/patch.go\<close>: the containers of running pods are patched from the recommendations
  and sent to the pod/resize subresource.  The API server is a parameter: \<open>ResizePod\<close> and \<open>GetPod\<close>
  act on a cluster state \<open>'cl\<close> that is passed along.  \<open>reflect.DeepEqual\<close> on resources is equality
  of the representation.
\<close>

section \<open>Patching the pod spec\<close>

definition patch_container :: "(string \<rightharpoonup> 'q Recommendation) \<Rightarrow> (string \<rightharpoonup> bool) option \<Rightarrow> 'q Container \<Rightarrow> 'q Container" where
  "patch_container recs skipMemory c =
     (case recs (CtrName c) of
        None \<Rightarrow> c
      | Some r \<Rightarrow>
          let reqs = (case Requests (Resources c) of None \<Rightarrow> Map.empty | Some l \<Rightarrow> l);
              lims = (case Limits (Resources c) of None \<Rightarrow> Map.empty | Some l \<Rightarrow> l);
              reqs1 = reqs(ResourceCPU \<mapsto> CPURequest r);
              lims1 = lims(ResourceCPU \<mapsto> CPULimit r);
              skip = (case skipMemory of None \<Rightarrow> False | Some m \<Rightarrow> m (CtrName c) = Some True)
          in if skip then c\<lparr>Resources := \<lparr>Requests = Some reqs1, Limits = Some lims1\<rparr>\<rparr>
             else c\<lparr>Resources := \<lparr>Requests = Some (reqs1(ResourceMemory \<mapsto> MemoryRequest r)),
                                  Limits = Some (lims1(ResourceMemory \<mapsto> MemoryLimit r))\<rparr>\<rparr>)"

definition patchPodSpec :: "(string \<rightharpoonup> 'q Recommendation) \<Rightarrow> (string \<rightharpoonup> bool) option \<Rightarrow> 'q Container list \<Rightarrow> 'q Container list" where
  "patchPodSpec recs skipMemory cs = map (patch_container recs skipMemory) cs"

definition podSpecResourcesChanged :: "'q Container list \<Rightarrow> 'q Container list \<Rightarrow> bool" where
  "podSpecResourcesChanged before after =
     (if length before \<noteq> length after then True
      else list_ex (\<lambda>(b, a). Resources b \<noteq> Resources a) (zip before after))"

section \<open>Restart policy warnings\<close>

definition quantityChanged :: "'q quantity_api \<Rightarrow> 'q ResourceList option \<Rightarrow> 'q ResourceList option \<Rightarrow> string \<Rightarrow> bool" where
  "quantityChanged Q before after res =
     (if before = None \<and> after = None then False
      else case ((case before of None \<Rightarrow> None | Some l \<Rightarrow> l res), (case after of None \<Rightarrow> None | Some l \<Rightarrow> l res)) of
          (None, None) \<Rightarrow> False
        | (Some bq, Some aq) \<Rightarrow> Cmp Q bq aq \<noteq> 0
        | _ \<Rightarrow> True)"

definition RestartContainer :: string where "RestartContainer = ''RestartContainer''"

definition container_warnings :: "'q quantity_api \<Rightarrow> 'q Container \<Rightarrow> 'q Container \<Rightarrow> int" where
  "container_warnings Q bc ac =
     (if CtrName bc \<noteq> CtrName ac then 0
      else
        let changed = (\<lambda>res. quantityChanged Q (Requests (Resources bc)) (Requests (Resources ac)) res
                           \<or> quantityChanged Q (Limits (Resources bc)) (Limits (Resources ac)) res);
            cpuChanged = changed ResourceCPU;
            memChanged = changed ResourceMemory
        in if \<not> cpuChanged \<and> \<not> memChanged then 0
           else int (length (filter (\<lambda>(res, policy). policy = RestartContainer
                  \<and> (res = ResourceCPU \<and> cpuChanged \<or> res = ResourceMemory \<and> memChanged)) (ResizePolicy bc))))"

definition restartPolicyWarnings :: "'q quantity_api \<Rightarrow> 'q Container list \<Rightarrow> 'q Container list \<Rightarrow> int" where
  "restartPolicyWarnings Q before after =
     (if before = [] \<or> length before \<noteq> length after then 0
      else sum_list (map (\<lambda>(bc, ac). container_warnings Q bc ac) (zip before after)))"

section \<open>Reasons of failed resizes\<close>

definition bucketResizeReason :: "string \<Rightarrow> string" where
  "bucketResizeReason reason =
     (let r = to_lower reason in
      if str_contains r ''defer'' then ''deferred''
      else if str_contains r ''infeasible'' then ''infeasible''
      else if str_contains r ''forbidden'' \<or> str_contains r ''denied'' \<or> str_contains r ''unauthor'' then ''forbidden''
      else ''other'')"

definition is_resize_cond :: "PodCondition \<Rightarrow> bool" where
  "is_resize_cond c \<longleftrightarrow> PodCondType c = ''PodResizePending'' \<or> PodCondType c = ''PodResizeInProgress''"

definition extractResizeReasons :: "PodCondition list \<Rightarrow> string list" where
  "extractResizeReasons conds =
     (let resize = filter is_resize_cond conds;
          reasons = filter (\<lambda>r. r \<noteq> '''') (map PodCondReason (if resize \<noteq> [] then resize else conds))
      in sort reasons)"

definition count_up :: "string \<Rightarrow> int \<Rightarrow> (string, int) gomap \<Rightarrow> (string, int) gomap" where
  "count_up k n m = gm_put k ((case map_of m k of None \<Rightarrow> 0 | Some v \<Rightarrow> v) + n) m"

record ('cl, 'q) resize_api =
  ResizePod :: "'cl \<Rightarrow> 'q Pod \<Rightarrow> string option \<times> 'cl"
  GetPod :: "'cl \<Rightarrow> string \<Rightarrow> string \<Rightarrow> string + 'q Pod"

definition collectResizeReasonBuckets :: "('cl, 'q) resize_api \<Rightarrow> 'cl \<Rightarrow> 'q Pod \<Rightarrow> (string, int) gomap" where
  "collectResizeReasonBuckets C cl fallback =
     (let reasons0 = (case GetPod C cl (PodNamespace fallback) (PodName fallback) of
                        Inl _ \<Rightarrow> [] | Inr pod \<Rightarrow> extractResizeReasons (PodConditions pod));
          reasons = (if reasons0 = [] then extractResizeReasons (PodConditions fallback) else reasons0)
      in if reasons = [] then [(''unknown'', 1)]
         else foldl (\<lambda>out r. count_up (bucketResizeReason r) 1 out) [] reasons)"

section \<open>Apply\<close>

record ActuateResult =
  Resized :: int
  Noop :: int
  Failed :: int
  ReasonCounts :: "(string, int) gomap"
  RestartPolicyWarnings :: int

definition empty_result :: ActuateResult where
  "empty_result = \<lparr>Resized = 0, Noop = 0, Failed = 0, ReasonCounts = [], RestartPolicyWarnings = 0\<rparr>"

definition desired_pod :: "'q Recommendation list \<Rightarrow> (string \<rightharpoonup> bool) option \<Rightarrow> 'q Pod \<Rightarrow> 'q Pod" where
  "desired_pod recs skipMemory pod =
     pod\<lparr>PodContainers := patchPodSpec (index_by ContainerName recs) skipMemory (PodContainers pod)\<rparr>"

definition apply_pod :: "('cl, 'q) resize_api \<Rightarrow> 'q quantity_api \<Rightarrow> 'q Recommendation list \<Rightarrow> (string \<rightharpoonup> bool) option
    \<Rightarrow> ActuateResult \<times> 'cl \<Rightarrow> 'q Pod \<Rightarrow> ActuateResult \<times> 'cl" where
  "apply_pod C Q recs skipMemory st current =
     (let (res, cl) = st;
          desired = desired_pod recs skipMemory current;
          res1 = res\<lparr>RestartPolicyWarnings := RestartPolicyWarnings res
                       + restartPolicyWarnings Q (PodContainers current) (PodContainers desired)\<rparr>
      in if \<not> podSpecResourcesChanged (PodContainers current) (PodContainers desired)
         then (res1\<lparr>Noop := Noop res1 + 1\<rparr>, cl)
         else case ResizePod C cl desired of
             (Some _, cl') \<Rightarrow>
               (res1\<lparr>Failed := Failed res1 + 1,
                     ReasonCounts := foldl (\<lambda>m (k, n). count_up k n m) (ReasonCounts res1)
                                       (collectResizeReasonBuckets C cl' current)\<rparr>, cl')
           | (None, cl') \<Rightarrow> (res1\<lparr>Resized := Resized res1 + 1\<rparr>, cl'))"

definition Actuate_Apply :: "('cl, 'q) resize_api \<Rightarrow> 'q quantity_api \<Rightarrow> 'cl \<Rightarrow> 'q Pod list \<Rightarrow> 'q Recommendation list
    \<Rightarrow> (string \<rightharpoonup> bool) option \<Rightarrow> (ActuateResult \<times> string option) \<times> 'cl" where
  "Actuate_Apply C Q cl pods recs skipMemory =
     (if pods = [] \<or> recs = [] then ((empty_result, None), cl)
      else
        let (res, cl') = foldl (apply_pod C Q recs skipMemory) (empty_result, cl) pods
        in if Failed res > 0
           then ((res, Some (''pod resize failed for '' @ itoa (Failed res) @ '' pod(s); resized='' @ itoa (Resized res)
                   @ '' noop='' @ itoa (Noop res))), cl')
           else ((res, None), cl'))"

section \<open>Metrics\<close>

text \<open>
  \<open>internal/controller/actuation_metrics.go\<close>: the increments of the two counters, as (label, amount).
\<close>

definition actuationTotal_inc :: "ActuateResult \<Rightarrow> string option \<Rightarrow> string" where
  "actuationTotal_inc res err =
     (if err \<noteq> None then ''error'' else if Resized res = 0 then ''noop'' else ''success'')"

definition reasonTotal_incs :: "ActuateResult \<Rightarrow> (string \<times> int) list" where
  "reasonTotal_incs res =
     filter (\<lambda>(_, n). n > 0) (ReasonCounts res)
       @ (if RestartPolicyWarnings res > 0 then [(''restart_policy_requires_restart'', RestartPolicyWarnings res)] else [])"

section \<open>What a patch changes\<close>

lemma patch_container_name [simp]: "CtrName (patch_container recs skip c) = CtrName c"
  by (simp add: patch_container_def Let_def split: option.split)

text \<open>Patching twice is patching once.\<close>

lemma patch_container_idem: "patch_container recs skip (patch_container recs skip c) = patch_container recs skip c"
proof (cases "recs (CtrName c)")
  case (Some r)
  then show ?thesis
    by (auto simp: patch_container_def Let_def fun_upd_twist ResourceCPU_def ResourceMemory_def split: option.splits)
qed (simp add: patch_container_def)

lemma patchPodSpec_idem: "patchPodSpec recs skip (patchPodSpec recs skip cs) = patchPodSpec recs skip cs"
  by (simp add: patchPodSpec_def patch_container_idem)

lemma podSpecResourcesChanged_same [simp]: "\<not> podSpecResourcesChanged cs cs"
  by (auto simp: podSpecResourcesChanged_def list_ex_iff set_zip)

definition request_of :: "'q Container \<Rightarrow> string \<Rightarrow> 'q option" where
  "request_of c res = (case Requests (Resources c) of None \<Rightarrow> None | Some l \<Rightarrow> l res)"

definition limit_of :: "'q Container \<Rightarrow> string \<Rightarrow> 'q option" where
  "limit_of c res = (case Limits (Resources c) of None \<Rightarrow> None | Some l \<Rightarrow> l res)"

definition skipped :: "(string \<rightharpoonup> bool) option \<Rightarrow> string \<Rightarrow> bool" where
  "skipped skip n \<longleftrightarrow> (case skip of None \<Rightarrow> False | Some m \<Rightarrow> m n = Some True)"

lemma patch_container_values:
  assumes "recs (CtrName c) = Some r"
  shows "request_of (patch_container recs skip c) res =
      (if res = ResourceCPU then Some (CPURequest r)
       else if res = ResourceMemory \<and> \<not> skipped skip (CtrName c) then Some (MemoryRequest r) else request_of c res)"
    and "limit_of (patch_container recs skip c) res =
      (if res = ResourceCPU then Some (CPULimit r)
       else if res = ResourceMemory \<and> \<not> skipped skip (CtrName c) then Some (MemoryLimit r) else limit_of c res)"
  using assms
  by (auto simp: patch_container_def Let_def request_of_def limit_of_def skipped_def ResourceCPU_def ResourceMemory_def
      split: option.splits)

section \<open>Accounting\<close>

definition counted :: "ActuateResult \<Rightarrow> int" where
  "counted res = Resized res + Noop res + Failed res"

definition result_ok :: "ActuateResult \<Rightarrow> bool" where
  "result_ok res \<longleftrightarrow> 0 \<le> Resized res \<and> 0 \<le> Noop res \<and> 0 \<le> Failed res"

lemma apply_pod_counts:
  "counted (fst (apply_pod C Q recs skip (res, cl) p)) = counted res + 1 \<and>
   (result_ok res \<longrightarrow> result_ok (fst (apply_pod C Q recs skip (res, cl) p)))"
  by (auto simp: apply_pod_def Let_def counted_def result_ok_def split: prod.split option.split)

lemma apply_pods_counts:
  "counted (fst (foldl (apply_pod C Q recs skip) (res, cl) pods)) = counted res + int (length pods) \<and>
   (result_ok res \<longrightarrow> result_ok (fst (foldl (apply_pod C Q recs skip) (res, cl) pods)))"
proof (induction pods arbitrary: res cl)
  case (Cons p pods)
  obtain res' cl' where "apply_pod C Q recs skip (res, cl) p = (res', cl')" by (cases "apply_pod C Q recs skip (res, cl) p")
  with Cons [of res' cl'] apply_pod_counts [of C Q recs skip res cl p] show ?case by auto
qed simp

lemma apply_pod_settled:
  assumes "desired_pod recs skip p = p"
  shows "apply_pod C Q recs skip (res, cl) p =
    (res\<lparr>RestartPolicyWarnings := RestartPolicyWarnings res + restartPolicyWarnings Q (PodContainers p) (PodContainers p),
         Noop := Noop res + 1\<rparr>, cl)"
  using assms by (simp add: apply_pod_def Let_def)

lemma apply_pods_settled:
  assumes "\<forall>p \<in> set pods. desired_pod recs skip p = p"
  shows "snd (foldl (apply_pod C Q recs skip) (res, cl) pods) = cl \<and>
    Noop (fst (foldl (apply_pod C Q recs skip) (res, cl) pods)) = Noop res + int (length pods) \<and>
    Failed (fst (foldl (apply_pod C Q recs skip) (res, cl) pods)) = Failed res"
  using assms
proof (induction pods arbitrary: res)
  case (Cons p pods)
  then have "desired_pod recs skip p = p" by simp
  from apply_pod_settled [OF this, of C Q res cl] Cons show ?case by simp
qed simp

lemma desired_pod_idem: "desired_pod recs skip (desired_pod recs skip p) = desired_pod recs skip p"
  by (simp add: desired_pod_def patchPodSpec_idem)

section \<open>The guarantees\<close>

text \<open>
  Claim C15: the patch writes exactly the recommended values.  A container with a recommendation gets
  its CPU request and limit, and its memory request and limit unless memory is skipped for it; every
  other resource of it, and every container without a recommendation, is left as it was; names and
  order do not change.
\<close>

theorem patchPodSpec_exact:
  assumes "i < length cs"
  shows "length (patchPodSpec recs skip cs) = length cs \<and> CtrName (patchPodSpec recs skip cs ! i) = CtrName (cs ! i) \<and>
    (case recs (CtrName (cs ! i)) of
       None \<Rightarrow> patchPodSpec recs skip cs ! i = cs ! i
     | Some r \<Rightarrow> \<forall>res.
         request_of (patchPodSpec recs skip cs ! i) res =
           (if res = ResourceCPU then Some (CPURequest r)
            else if res = ResourceMemory \<and> \<not> skipped skip (CtrName (cs ! i)) then Some (MemoryRequest r) else request_of (cs ! i) res) \<and>
         limit_of (patchPodSpec recs skip cs ! i) res =
           (if res = ResourceCPU then Some (CPULimit r)
            else if res = ResourceMemory \<and> \<not> skipped skip (CtrName (cs ! i)) then Some (MemoryLimit r) else limit_of (cs ! i) res))"
proof (cases "recs (CtrName (cs ! i))")
  case None
  with assms show ?thesis by (simp add: patchPodSpec_def) (simp add: patch_container_def)
next
  case (Some r)
  with assms show ?thesis by (simp add: patchPodSpec_def patch_container_values)
qed

definition ex_container :: "nano_quantity Container" where
  "ex_container = \<lparr>CtrName = ''app'', Resources = \<lparr>Requests = None, Limits = Some [''gpu'' \<mapsto> NQ 1 DecimalSI]\<rparr>,
     ResizePolicy = [(''memory'', RestartContainer)]\<rparr>"

theorem patchPodSpec_exact_witness:
  "limit_of (patchPodSpec [''app'' \<mapsto> ex_rec 1 2 3 4] None [ex_container] ! 0) ''gpu'' = Some (NQ 1 DecimalSI)"
  using patchPodSpec_exact [of 0 "[ex_container]" "[''app'' \<mapsto> ex_rec 1 2 3 4]" None]
  by (auto simp: ex_container_def limit_of_def ResourceCPU_def ResourceMemory_def)


definition ex_pod :: "string \<Rightarrow> nano_quantity Pod" where
  "ex_pod name = \<lparr>PodName = name, PodNamespace = ''default'', PodNodeName = ''n1'', PodPhase = ''Running'',
     PodAnnotations = None, PodOwnerReferences = [], PodContainers = [ex_container], PodContainerStatuses = [],
     PodConditions = [\<lparr>PodCondType = ''PodResizePending'', PodCondReason = ''Deferred''\<rparr>]\<rparr>"

text \<open>A cluster that keeps the resized pods and refuses the pod called \<open>full\<close>.\<close>

definition ex_cluster_api :: "(nano_quantity Pod list, nano_quantity) resize_api" where
  "ex_cluster_api = \<lparr>ResizePod = (\<lambda>cl p. if PodName p = ''full'' then (Some ''infeasible'', cl) else (None, p # cl)),
     GetPod = (\<lambda>cl ns n. Inl ''not found'')\<rparr>"


text \<open>
  Claim C17: actuation settles.  Pods that already carry the recommended values cause no request to
  the API server: the cluster is untouched, every pod counts as unchanged, and there is no error.
\<close>

theorem Actuate_Apply_settles:
  assumes "recs \<noteq> []"
  shows "let ((res, err), cl') = Actuate_Apply C Q cl (map (desired_pod recs skip) pods) recs skip in
     cl' = cl \<and> err = None \<and> Noop res = int (length pods)"
proof (cases "pods = []")
  case False
  obtain res cl' where f: "foldl (apply_pod C Q recs skip) (empty_result, cl) (map (desired_pod recs skip) pods) = (res, cl')"
    by (cases "foldl (apply_pod C Q recs skip) (empty_result, cl) (map (desired_pod recs skip) pods)")
  have "cl' = cl" "Noop res = int (length pods)" "Failed res = 0"
    using apply_pods_settled [of "map (desired_pod recs skip) pods" recs skip C Q empty_result cl, unfolded f fst_conv snd_conv]
    by (simp_all add: desired_pod_idem empty_result_def)
  with f False assms show ?thesis by (simp add: Actuate_Apply_def)
qed (simp add: Actuate_Apply_def empty_result_def)

theorem Actuate_Apply_settles_witness:
  "snd (Actuate_Apply ex_cluster_api nano_api [] (map (desired_pod [ex_rec 1 2 3 4] None) [ex_pod ''full'']) [ex_rec 1 2 3 4] None) = []"
  using Actuate_Apply_settles [of "[ex_rec 1 2 3 4]" ex_cluster_api nano_api "[]" None "[ex_pod ''full'']"]
  by (simp add: split_def Let_def)

end
