(* ===== verification/Reconcile.thy ===== *)
theory Reconcile
  imports Ingest Conditions Target Canonical Actuate Podsignals
begin

text \<open>
  The workload controller: \<open>controller/reconcile.go\<close> and \<open>controller/workloadprofile_controller.go\<close>.
  One reconcile reads the target, its pods and the kubelet summaries, folds the observation of every
  container into status and learned state, computes and clamps recommendations, persists both, and
  finally actuates.  The parts come from the other theories; here they are put together in the
  order of the code, with every error path.
\<close>

section \<open>The reconciler\<close>

text \<open>Every call of \<open>r.now()\<close> has its own reading.\<close>

datatype instant =
    IngestAt string clock_reading | OOMCheckAt string | StatusAt string | BinPackedAt
  | RecommendAt string | SafetyAt | EvaluatedAt | AppliedAt

text \<open>
  The fields of \<open>WorkloadProfileReconciler\<close> and the libraries it uses: clients for the kinds of
  objects, the kubelet and pod/resize calls, node lookups, the JSON codec, sketches, quantities, the
  environment variable, the clock and the iteration order of Go's maps.
\<close>

record ('c, 'q, 'ls, 'sel, 'sk, 'pb) reconciler =
  rProfiles :: "('c, 'q WorkloadProfile, 'sel) kind_client"
  rDeployments :: "('c, ('q, 'ls) Workload, 'sel) kind_client"
  rStatefulSets :: "('c, ('q, 'ls) Workload, 'sel) kind_client"
  rPods :: "('c, 'q Pod, 'sel) kind_client"
  rAsSelector :: "'ls \<Rightarrow> api_error + 'sel"
  rFetchSummary :: "'c \<Rightarrow> string \<Rightarrow> string + Summary option"
  rNodes :: "'c \<Rightarrow> 'q node_api"
  rResize :: "('c, 'q) resize_api"
  rMLState :: "('c, ConfigMap, 'sel) kind_client option"
  rCodec :: json_codec
  rDetector :: "Handler option list option"
  rClock :: "instant \<Rightarrow> gotime"
  rOrd :: "string list \<Rightarrow> string list"
  rSketches :: "('sk, 'pb) sketch_api"
  rQuantity :: "'q quantity_api"
  rSetCond :: "Condition list \<Rightarrow> Condition \<Rightarrow> Condition list"
  rRetry :: "('c \<Rightarrow> api_error option \<times> 'c) \<Rightarrow> 'c \<Rightarrow> api_error option \<times> 'c"
  rActuationEnv :: string

definition actuationEnabled :: "string \<Rightarrow> bool" where
  "actuationEnabled v \<longleftrightarrow> v = ''true'' \<or> v = ''1''"

definition requeueAfter :: "'q WorkloadProfile \<Rightarrow> int" where
  "requeueAfter profile = wrap64 (CollectionInterval (Spec profile) * second_ns)"

definition metricsRequeueAfter :: "'q WorkloadProfile \<Rightarrow> int" where
  "metricsRequeueAfter profile = (let d = requeueAfter profile in if d < 10 * second_ns then 10 * second_ns else d)"

definition kubeletSummariesFullyUnavailable :: "int \<Rightarrow> int \<Rightarrow> bool" where
  "kubeletSummariesFullyUnavailable nodeCount summaryCount \<longleftrightarrow> nodeCount > 0 \<and> summaryCount = 0"

section \<open>Small helpers\<close>

record 'q minMax =
  MmMinCPU :: "'q option"
  MmMaxCPU :: "'q option"
  MmMinMemory :: "'q option"
  MmMaxMemory :: "'q option"

definition overridesMap :: "'q WorkloadProfile \<Rightarrow> (string \<rightharpoonup> 'q minMax)" where
  "overridesMap profile =
     foldl (\<lambda>out c. out(OverrideName c \<mapsto> \<lparr>MmMinCPU = MinCPU c, MmMaxCPU = MaxCPU c, MmMinMemory = MinMemory c, MmMaxMemory = MaxMemory c\<rparr>))
       Map.empty (SpecContainers (Spec profile))"

definition indexContainerStatus :: "ProfileContainerStatus list \<Rightarrow> (string \<rightharpoonup> ProfileContainerStatus)" where
  "indexContainerStatus items = index_by StatusName items"

definition status_or_zero :: "(string \<rightharpoonup> ProfileContainerStatus) \<Rightarrow> string \<Rightarrow> ProfileContainerStatus" where
  "status_or_zero byName n = (case byName n of None \<Rightarrow> zero_ContainerStatus | Some s \<Rightarrow> s)"

definition flattenContainerStatus :: "(string \<rightharpoonup> ProfileContainerStatus) \<Rightarrow> string list \<Rightarrow> ProfileContainerStatus list" where
  "flattenContainerStatus byName order = map (status_or_zero byName) order"

definition sketchBase64sFromNodes :: "ProfileContainerStatus \<Rightarrow> string list \<times> string list" where
  "sketchBase64sFromNodes st =
     (filter (\<lambda>s. s \<noteq> '''') (map NodeCPUSketch (NodeSketches (Stats st))),
      filter (\<lambda>s. s \<noteq> '''') (map NodeMemSketch (NodeSketches (Stats st))))"

definition sketch_or_nil :: "string + 'sk \<Rightarrow> 'sk option" where
  "sketch_or_nil r = (case r of Inl _ \<Rightarrow> None | Inr sk \<Rightarrow> Some sk)"

definition prefer_merged :: "('sk, 'pb) sketch_api \<Rightarrow> string list \<Rightarrow> 'sk option \<Rightarrow> 'sk option" where
  "prefer_merged S encs global =
     (if encs \<noteq> []
      then (case MergeSketchesFromBase64 S encs of
              Inl _ \<Rightarrow> global
            | Inr merged \<Rightarrow> if \<not> IsEmpty S merged then Some merged else global)
      else global)"

definition loadSketchesForRecommend :: "('sk, 'pb) sketch_api \<Rightarrow> ProfileContainerStatus \<Rightarrow> 'sk option \<times> 'sk option" where
  "loadSketchesForRecommend S st =
     (let (cpuEnc, memEnc) = sketchBase64sFromNodes st;
          cpu = sketch_or_nil (SketchFromBase64 S (CPUSketchB64 (CPU (Stats st))));
          mem = sketch_or_nil (SketchFromBase64 S (MemSketchB64 (Memory (Stats st))))
      in (prefer_merged S cpuEnc cpu, prefer_merged S memEnc mem))"

definition template_resources :: "('q, 'ls) Workload \<Rightarrow> string list \<Rightarrow> (string \<rightharpoonup> 'q ResourceRequirements)" where
  "template_resources t names =
     foldl (\<lambda>out c. foldl (\<lambda>out n. if CtrName c = n then out(n \<mapsto> Resources c) else out) out names) Map.empty (WlContainers t)"

definition currentResourcesFromTemplate :: "('q, 'ls) RuntimeObject \<Rightarrow> string list \<Rightarrow> api_error + (string \<rightharpoonup> 'q ResourceRequirements)" where
  "currentResourcesFromTemplate obj names =
     (case obj of
        DeploymentObj t \<Rightarrow> Inr (template_resources t names)
      | StatefulSetObj t \<Rightarrow> Inr (template_resources t names)
      | OtherObj ty \<Rightarrow> Inl (plain_error (''unsupported target '' @ ty)))"

section \<open>Observing the containers\<close>

record 'q observation =
  ObsByName :: "string \<rightharpoonup> ProfileContainerStatus"
  ObsMl :: MLState
  ObsSig :: Snapshot
  ObsSpike :: bool
  ObsHetero :: f64
  ObsForecasts :: "string \<rightharpoonup> f64 \<times> f64"
  ObsEvents :: "'q WorkloadProfile RecordedEvent list"

definition merge_oom :: "gotime \<Rightarrow> string \<Rightarrow> MLState \<Rightarrow> Snapshot \<Rightarrow> gotime option \<times> MLState \<times> Snapshot" where
  "merge_oom now cname ml sig =
     (let (mergedOOM, store) = persistedLastOOMKill now cname (oom_of sig cname) (Some (MlLastOOMKill ml));
          ml1 = ml\<lparr>MlLastOOMKill := or_empty store\<rparr>
      in case mergedOOM of
           None \<Rightarrow> (None, ml1, sig\<lparr>LastOOMKill := gm_delete cname (LastOOMKill sig)\<rparr>)
         | Some t \<Rightarrow> (Some t, ml1, sig\<lparr>LastOOMKill := gm_put cname (Some t) (LastOOMKill sig)\<rparr>))"

text \<open>One round of the loop over the template's containers; an error keeps the events emitted so far.\<close>

definition observe_container :: "('c, 'q, 'ls, 'sel, 'sk, 'pb) reconciler \<Rightarrow> 'q WorkloadProfile \<Rightarrow> (string, Summary option) gomap \<Rightarrow> 'q Pod list
    \<Rightarrow> bool \<Rightarrow> 'q observation \<Rightarrow> string \<Rightarrow> (string \<times> 'q WorkloadProfile RecordedEvent list) + 'q observation" where
  "observe_container R profile summaries pods baselineSeen ob cname =
     (let st = status_or_zero (ObsByName ob) cname;
          (perNode, cpuMilli, memBytes) = collectUsageBreakdown (rOrd R) summaries (ProfileNamespace profile) pods cname;
          h = cpuHeteroScore (rOrd R) perNode;
          maxHetero = (if flt (ObsHetero ob) h then h else ObsHetero ob);
          (outcome, events) = ingestContainerMetrics (rSketches R) (rQuantity R) (rOrd R) (rDetector R) (\<lambda>k. rClock R (IngestAt cname k))
                                profile (ObsMl ob) st cname cpuMilli memBytes perNode
      in case outcome of
           Inl e \<Rightarrow> Inl (e, ObsEvents ob @ events)
         | Inr (fCPU, fMem, ml1, st1) \<Rightarrow>
             let (mergedOOM, ml2, sig1) = merge_oom (rClock R (OOMCheckAt cname)) cname ml1 (ObsSig ob);
                 observedAt = rClock R (StatusAt cname);
                 st2 = upd_mem (\<lambda>m. m\<lparr>MemLastUpdated := Some observedAt\<rparr>) (upd_cpu (\<lambda>c. c\<lparr>CPULastUpdated := Some observedAt\<rparr>) st1);
                 st3 = the (applyLastOOMKillFromSnapshot (Some st2) mergedOOM);
                 prevRestart = StatRestartCount (Stats st3);
                 currentMax = restarts_of sig1 cname;
                 st4 = st3\<lparr>Stats := (Stats st3)\<lparr>StatRestartCount := currentMax\<rparr>\<rparr>
             in Inr \<lparr>ObsByName = (ObsByName ob)(cname \<mapsto> st4), ObsMl = ml2, ObsSig = sig1,
                     ObsSpike = (ObsSpike ob \<or> isRestartSpike prevRestart currentMax baselineSeen),
                     ObsHetero = maxHetero, ObsForecasts = (ObsForecasts ob)(cname \<mapsto> (fCPU, fMem)),
                     ObsEvents = ObsEvents ob @ events\<rparr>)"

fun observe_all :: "('c, 'q, 'ls, 'sel, 'sk, 'pb) reconciler \<Rightarrow> 'q WorkloadProfile \<Rightarrow> (string, Summary option) gomap \<Rightarrow> 'q Pod list
    \<Rightarrow> bool \<Rightarrow> 'q observation \<Rightarrow> string list \<Rightarrow> (string \<times> 'q WorkloadProfile RecordedEvent list) + 'q observation" where
  "observe_all R profile summaries pods baselineSeen ob [] = Inr ob"
| "observe_all R profile summaries pods baselineSeen ob (c # cs) =
     (case observe_container R profile summaries pods baselineSeen ob c of
        Inl e \<Rightarrow> Inl e
      | Inr ob1 \<Rightarrow> observe_all R profile summaries pods baselineSeen ob1 cs)"

section \<open>Scheduler hints\<close>

definition node_names :: "('c, 'q, 'ls, 'sel, 'sk, 'pb) reconciler \<Rightarrow> string \<Rightarrow> 'q Pod list \<Rightarrow> string list" where
  "node_names R ns pods =
     rOrd R (remdups (map PodNodeName (filter (\<lambda>p. PodNamespace p = ns \<and> PodNodeName p \<noteq> '''') pods)))"

definition scheduler_hints :: "('c, 'q, 'ls, 'sel, 'sk, 'pb) reconciler \<Rightarrow> 'c \<Rightarrow> string list \<Rightarrow> f64 option \<times> string" where
  "scheduler_hints R c nodeNames =
     (if nodeNames \<noteq> []
      then let states = fetchNodeSchedulerStates (rQuantity R) (rNodes R c) nodeNames in
           if states \<noteq> []
           then let s = leastAllocatedScore (rOrd R) states in (Some s, nodePressureLabel s)
           else (None, '''')
      else (None, ''''))"

section \<open>Recommending\<close>

definition recommend_input :: "('c, 'q, 'ls, 'sel, 'sk, 'pb) reconciler \<Rightarrow> string \<Rightarrow> (string \<rightharpoonup> 'q minMax) \<Rightarrow> f64
    \<Rightarrow> 'q observation \<Rightarrow> string \<Rightarrow> ('q, 'sk) Input" where
  "recommend_input R mode minMaxes schedInputScore ob cname =
     (let st = status_or_zero (ObsByName ob) cname;
          (cpuSketch, memSketch) = loadSketchesForRecommend (rSketches R) st;
          quad = utcQuadrantIndex (rClock R (RecommendAt cname));
          quadCPU = sketch_or_nil (SketchFromBase64 (rSketches R) (quadSketchGet (CPUQuadrantSketches (CPU (Stats st))) quad));
          quadMem = sketch_or_nil (SketchFromBase64 (rSketches R) (quadSketchGet (MemQuadrantSketches (Memory (Stats st))) quad));
          (fCPU, fMem) = (case ObsForecasts ob cname of None \<Rightarrow> (Fin 0, Fin 0) | Some f \<Rightarrow> f);
          mm = (case minMaxes cname of None \<Rightarrow> \<lparr>MmMinCPU = None, MmMaxCPU = None, MmMinMemory = None, MmMaxMemory = None\<rparr> | Some m \<Rightarrow> m)
      in \<lparr>InContainerName = cname, InMode = mode, CPUSketch = cpuSketch, MemSketch = memSketch,
          QuadrantCPUSketch = quadCPU, QuadrantMemSketch = quadMem,
          CPUEShort = CPUEMAShort (CPU (Stats st)), CPUELong = CPUEMALong (CPU (Stats st)),
          MemShort = MemEMAShort (Memory (Stats st)), MemLong = MemEMALong (Memory (Stats st)),
          ForecastCPU = fCPU, ForecastMem = fMem,
          InMinCPU = MmMinCPU mm, InMaxCPU = MmMaxCPU mm, InMinMemory = MmMinMemory mm, InMaxMemory = MmMaxMemory mm,
          SchedulerBalanceScore = schedInputScore\<rparr>)"

fun recommend_all :: "(string \<Rightarrow> string + 'q Recommendation) \<Rightarrow> string list \<Rightarrow> string + 'q Recommendation list" where
  "recommend_all compute [] = Inr []"
| "recommend_all compute (c # cs) =
     (case compute c of
        Inl e \<Rightarrow> Inl e
      | Inr r \<Rightarrow> (case recommend_all compute cs of Inl e \<Rightarrow> Inl e | Inr rs \<Rightarrow> Inr (r # rs)))"

section \<open>Outcomes\<close>

text \<open>
  What one reconcile leaves behind: the requested delay, the error, the cluster, the profile in
  memory, the events, and the increments of the actuation counters.
\<close>

record ('c, 'q) outcome =
  OutRequeue :: "int option"
  OutError :: "api_error option"
  OutCluster :: 'c
  OutProfile :: "'q WorkloadProfile"
  OutEvents :: "'q WorkloadProfile RecordedEvent list"
  OutMetrics :: "(string \<times> (string \<times> int) list) option"

definition failed :: "api_error \<Rightarrow> 'c \<Rightarrow> 'q WorkloadProfile \<Rightarrow> ('c, 'q) outcome" where
  "failed e c profile = \<lparr>OutRequeue = None, OutError = Some e, OutCluster = c, OutProfile = profile, OutEvents = [], OutMetrics = None\<rparr>"

definition done_with :: "int option \<Rightarrow> 'c \<Rightarrow> 'q WorkloadProfile \<Rightarrow> ('c, 'q) outcome" where
  "done_with requeue c profile = \<lparr>OutRequeue = requeue, OutError = None, OutCluster = c, OutProfile = profile, OutEvents = [], OutMetrics = None\<rparr>"

text \<open>The recurring \<open>if uerr := r.persistStatus(...); uerr != nil { return nil, uerr }\<close>.\<close>

definition persist_then :: "('c, 'q, 'ls, 'sel, 'sk, 'pb) reconciler \<Rightarrow> 'c \<Rightarrow> 'q WorkloadProfile
    \<Rightarrow> ('c \<Rightarrow> 'q WorkloadProfile \<Rightarrow> ('c, 'q) outcome) \<Rightarrow> ('c, 'q) outcome" where
  "persist_then R c profile next_step =
     (let (err, c1, profile1) = persistStatus (rRetry R) (rProfiles R) c profile in
      case err of Some e \<Rightarrow> failed e c1 profile1 | None \<Rightarrow> next_step c1 profile1)"

section \<open>Actuation\<close>

definition actuation_error_message :: "string \<Rightarrow> string \<Rightarrow> string \<Rightarrow> string" where
  "actuation_error_message err reasonSummary warningSuffix =
     (let msg = (if reasonSummary \<noteq> '''' then err @ ''; reasons='' @ reasonSummary else err)
      in if warningSuffix \<noteq> '''' then msg @ warningSuffix else msg)"

definition applyActuation :: "('c, 'q, 'ls, 'sel, 'sk, 'pb) reconciler \<Rightarrow> 'c \<Rightarrow> 'q WorkloadProfile \<Rightarrow> 'q Pod list
    \<Rightarrow> 'q Recommendation list \<Rightarrow> (string \<rightharpoonup> bool) \<Rightarrow> ('c, 'q) outcome" where
  "applyActuation R c profile pods recs skipMemory =
     (let ((result, err), c1) = Actuate_Apply (rResize R) (rQuantity R) c pods recs (Some skipMemory);
          metrics = (actuationTotal_inc result err, reasonTotal_incs result);
          reasonSummary = formatReasonCounts (ReasonCounts result);
          warningSuffix = formatRestartPolicyWarning (RestartPolicyWarnings result);
          set_cond = rSetCond R;
          out = (case err of
              Some e \<Rightarrow>
                let profile1 = syncProfileReady set_cond (setCondition set_cond profile ConditionTypeActuationApplied ConditionFalse
                                 ''PartialFailure'' (actuation_error_message e reasonSummary warningSuffix))
                in persist_then R c1 profile1 (done_with (Some (10 * second_ns)))
            | None \<Rightarrow>
                if Resized result = 0
                then let msg = ''no pod resize needed'' @ warningSuffix;
                         profile1 = syncProfileReady set_cond (setCondition set_cond profile ConditionTypeActuationApplied ConditionTrue ''Noop'' msg)
                     in persist_then R c1 profile1 (done_with None)
                else let reason = (if RestartPolicyWarnings result > 0 then ''AppliedWithRestartPolicyWarning'' else ''Applied'');
                         msg = ''resized='' @ itoa (Resized result) @ '' noop='' @ itoa (Noop result) @ warningSuffix;
                         profile1 = setCondition set_cond profile ConditionTypeActuationApplied ConditionTrue reason msg;
                         profile2 = profile1\<lparr>Status := (Status profile1)\<lparr>LastApplied := Some (rClock R AppliedAt)\<rparr>\<rparr>
                     in persist_then R c1 profile2 (done_with None))
      in out\<lparr>OutMetrics := Some metrics\<rparr>)"

section \<open>Observe and actuate\<close>

definition persistKubeletUnavailable :: "('c, 'q, 'ls, 'sel, 'sk, 'pb) reconciler \<Rightarrow> 'c \<Rightarrow> 'q WorkloadProfile \<Rightarrow> string list \<Rightarrow> ('c, 'q) outcome" where
  "persistKubeletUnavailable R c profile fetchErrs =
     (let msg0 = str_join ''; '' fetchErrs;
          msg = (if msg0 = '''' then ''kubelet summary fetch failed for all nodes with scheduled pods'' else msg0);
          profile1 = syncProfileReady (rSetCond R)
                       (setCondition (rSetCond R) profile ConditionTypeMetricsAvailable ConditionFalse ''KubeletUnavailable'' msg)
      in persist_then R c profile1 (\<lambda>c1 p. done_with (Some (metricsRequeueAfter p)) c1 p))"

text \<open>From the observed containers to the recommendations: the raw, the published metrics, the clamped.\<close>

record 'q plan =
  PlanMetrics :: "'q Recommendation list"
  PlanFinal :: "'q Recommendation list"
  PlanSafe :: "'q SafetyResult"

definition make_plan :: "('c, 'q, 'ls, 'sel, 'sk, 'pb) reconciler \<Rightarrow> 'q WorkloadProfile \<Rightarrow> ('q, 'ls) RuntimeObject \<Rightarrow> string list \<Rightarrow> string
    \<Rightarrow> f64 \<Rightarrow> 'q observation \<Rightarrow> bool \<Rightarrow> api_error + 'q plan" where
  "make_plan R profile obj tplNames mode schedInputScore ob block =
     (let S = rSketches R; Q = rQuantity R;
          minMaxes = overridesMap profile;
          engine = New mode (Some (NewLiveBias Q (Some (map_of (MlFeedback (ObsMl ob))))))
      in case recommend_all (\<lambda>cname. biasedEngine_Compute S Q engine (recommend_input R mode minMaxes schedInputScore ob cname)) tplNames of
           Inl e \<Rightarrow> Inl (plain_error e)
         | Inr recs \<Rightarrow>
             (case CanonicalizeRecommendations Q recs of
                Inl e \<Rightarrow> Inl (plain_error (''canonicalize metrics recommendations: '' @ e))
              | Inr metricsRecs \<Rightarrow>
                  (case currentResourcesFromTemplate obj tplNames of
                     Inl e \<Rightarrow> Inl e
                   | Inr curRes \<Rightarrow>
                       let safe = Safety_Apply Q profile recs curRes (ObsSig ob) (rClock R SafetyAt) block in
                       (case CanonicalizeRecommendations Q (ResRecommendations safe) of
                          Inl e \<Rightarrow> Inl (plain_error (''canonicalize recommendations: '' @ e))
                        | Inr finalRecs \<Rightarrow> Inr \<lparr>PlanMetrics = metricsRecs, PlanFinal = finalRecs, PlanSafe = safe\<rparr>))))"

definition observed_profile :: "('c, 'q, 'ls, 'sel, 'sk, 'pb) reconciler \<Rightarrow> 'c \<Rightarrow> 'q WorkloadProfile \<Rightarrow> 'q Pod list \<Rightarrow> string list
    \<Rightarrow> 'q observation \<Rightarrow> f64 \<times> 'q WorkloadProfile" where
  "observed_profile R c profile pods tplNames ob =
     (let nodeNames = node_names R (ProfileNamespace profile) pods;
          (schedBalance, nodePressure) = scheduler_hints R c nodeNames;
          hints = \<lparr>HeteroScore = ObsHetero ob, NodeCount = wrap32 (int (length nodeNames)), ObservedAt = Some (rClock R BinPackedAt),
                   SchedulerBalance = schedBalance, NodePressure = nodePressure\<rparr>
      in ((case schedBalance of None \<Rightarrow> SchedulerBalanceUnknown | Some s \<Rightarrow> s),
          profile\<lparr>Status := (Status profile)\<lparr>BinPacking := Some hints,
                     Containers := flattenContainerStatus (ObsByName ob) tplNames\<rparr>\<rparr>))"

definition planned_profile :: "('c, 'q, 'ls, 'sel, 'sk, 'pb) reconciler \<Rightarrow> 'q WorkloadProfile \<Rightarrow> 'q plan \<Rightarrow> int \<Rightarrow> 'q WorkloadProfile" where
  "planned_profile R profile pl pause =
     syncProfileReady (rSetCond R) (setCondition (rSetCond R)
       (profile\<lparr>Status := (Status profile)\<lparr>MetricsRecommendations := PlanMetrics pl, Recommendations := PlanFinal pl,
          DownsizePauseCyclesRemaining := pause, LastEvaluated := Some (rClock R EvaluatedAt)\<rparr>\<rparr>)
       ConditionTypeMetricsAvailable ConditionTrue ''Collected'' ''metrics processed'')"

definition publish :: "('c, 'q, 'ls, 'sel, 'sk, 'pb) reconciler \<Rightarrow> 'c \<Rightarrow> 'q WorkloadProfile \<Rightarrow> 'q Pod list \<Rightarrow> MLState \<Rightarrow> 'q plan \<Rightarrow> ('c, 'q) outcome" where
  "publish R c profile pods ml pl =
     persist_then R c profile (\<lambda>c1 profile1.
       let (err, c2) = saveMLState (rCodec R) (rMLState R) c1 profile1 ml in
       case err of
         Some e \<Rightarrow> failed e c2 profile1
       | None \<Rightarrow>
           if \<not> actuationEnabled (rActuationEnv R) \<or> \<not> ShouldPatch (PlanSafe pl)
           then done_with None c2 profile1
           else applyActuation R c2 profile1 pods (PlanFinal pl) (SkipMemory (PlanSafe pl)))"

definition runObserveAndActuate :: "('c, 'q, 'ls, 'sel, 'sk, 'pb) reconciler \<Rightarrow> 'c \<Rightarrow> 'q WorkloadProfile \<Rightarrow> ('q, 'ls) RuntimeObject \<Rightarrow> 'q Pod list
    \<Rightarrow> (string, Summary option) gomap \<Rightarrow> Snapshot \<Rightarrow> string \<Rightarrow> bool \<Rightarrow> int \<Rightarrow> ('c, 'q) outcome" where
  "runObserveAndActuate R c profile obj pods summaries sig mode baselineSeen pauseRemaining =
     (case TemplateContainerNames obj of
        Inl e \<Rightarrow> failed e c profile
      | Inr tplNames \<Rightarrow>
          (case (case rMLState R of None \<Rightarrow> Inr New_MLState | Some M \<Rightarrow> Load (rCodec R) M c profile) of
             Inl e \<Rightarrow> failed e c profile
           | Inr mlState \<Rightarrow>
               (case observe_all R profile summaries pods baselineSeen
                       \<lparr>ObsByName = indexContainerStatus (Containers (Status profile)), ObsMl = mlState, ObsSig = sig, ObsSpike = False,
                        ObsHetero = Fin 0, ObsForecasts = Map.empty, ObsEvents = []\<rparr> tplNames of
                  Inl (e, events) \<Rightarrow> (failed (plain_error e) c profile)\<lparr>OutEvents := events\<rparr>
                | Inr ob0 \<Rightarrow>
                    let (schedInputScore, profile1) = observed_profile R c profile pods tplNames ob0;
                        ob = ob0\<lparr>ObsMl := the (pruneMLState (Some (ObsMl ob0)) tplNames)\<rparr>;
                        block = blockDownsize pauseRemaining (ObsSpike ob);
                        pause = restartPauseAfterReconcile baselineSeen (ObsSpike ob) pauseRemaining;
                        out = (case make_plan R profile1 obj tplNames mode schedInputScore ob block of
                                 Inl e \<Rightarrow> failed e c profile1
                               | Inr pl \<Rightarrow> publish R c (planned_profile R profile1 pl pause) pods (ObsMl ob) pl)
                    in out\<lparr>OutEvents := ObsEvents ob\<rparr>)))"

section \<open>One reconcile\<close>

definition pod_nodes :: "('c, 'q, 'ls, 'sel, 'sk, 'pb) reconciler \<Rightarrow> 'q Pod list \<Rightarrow> string list" where
  "pod_nodes R pods = rOrd R (remdups (filter (\<lambda>n. n \<noteq> '''') (map PodNodeName pods)))"

definition fetch_step :: "(string \<Rightarrow> string + Summary option) \<Rightarrow> (string, Summary option) gomap \<times> string list \<Rightarrow> string
    \<Rightarrow> (string, Summary option) gomap \<times> string list" where
  "fetch_step fetch st n =
     (let (summaries, errs) = st in
      case fetch n of
        Inl e \<Rightarrow> (summaries, errs @ [n @ '': '' @ e])
      | Inr s \<Rightarrow> (gm_put n s summaries, errs))"

definition target_failed :: "('c, 'q, 'ls, 'sel, 'sk, 'pb) reconciler \<Rightarrow> 'c \<Rightarrow> 'q WorkloadProfile \<Rightarrow> api_error \<Rightarrow> ('c, 'q) outcome" where
  "target_failed R c profile err =
     (if IsNotFound err
      then persist_then R c (syncProfileReady (rSetCond R)
             (setCondition (rSetCond R) profile ConditionTypeTargetResolved ConditionFalse ''NotFound'' ''target workload not found''))
             (done_with None)
      else persist_then R c (syncProfileReady (rSetCond R)
             (setCondition (rSetCond R) profile ConditionTypeTargetResolved ConditionFalse ''Error'' (ErrText err)))
             (failed err))"

definition reconcile :: "('c, 'q, 'ls, 'sel, 'sk, 'pb) reconciler \<Rightarrow> 'c \<Rightarrow> 'q WorkloadProfile \<Rightarrow> ('c, 'q) outcome" where
  "reconcile R c profile0 =
     (let ns = ProfileNamespace profile0;
          mode = EffectiveMode (Spec profile0);
          baselineSeen = (LastEvaluated (Status profile0) \<noteq> None);
          pauseRemaining = DownsizePauseCyclesRemaining (Status profile0)
      in case Resolve (rDeployments R) (rStatefulSets R) c ns (TargetKind (TargetRef (Spec profile0))) (TargetName (TargetRef (Spec profile0))) of
           Inl err \<Rightarrow> target_failed R c profile0 err
         | Inr obj \<Rightarrow>
             let profile = setCondition (rSetCond R) profile0 ConditionTypeTargetResolved ConditionTrue ''Resolved'' ''target found'' in
             (case Selector (rAsSelector R) obj of
                Inl e \<Rightarrow> failed (wrap_error ''selector'' e) c profile
              | Inr sel \<Rightarrow>
                  (case KList (rPods R) c (Some ns) (MatchingSelector sel) of
                     Inl e \<Rightarrow> failed (wrap_error ''list pods'' e) c profile
                   | Inr pods \<Rightarrow>
                       let sig = collect_signals pods;
                           nodes = pod_nodes R pods;
                           (summaries, fetchErrs) = foldl (fetch_step (rFetchSummary R c)) ([], []) nodes
                       in if kubeletSummariesFullyUnavailable (int (length nodes)) (int (length summaries))
                          then persistKubeletUnavailable R c profile fetchErrs
                          else runObserveAndActuate R c profile obj pods summaries sig mode baselineSeen pauseRemaining)))"

text \<open>The controller's entry point: the object is read, and the outcome becomes a result for the queue.\<close>

definition WorkloadProfile_Reconcile :: "('c, 'q, 'ls, 'sel, 'sk, 'pb) reconciler \<Rightarrow> 'c \<Rightarrow> objkey
    \<Rightarrow> ctrl_Result \<times> api_error option \<times> 'c \<times> ('c, 'q) outcome option" where
  "WorkloadProfile_Reconcile R c req =
     (case KGet (rProfiles R) c req of
        Inl e \<Rightarrow> (no_requeue, IgnoreNotFound (Some e), c, None)
      | Inr profile \<Rightarrow>
          if ProfileDeleting profile then (no_requeue, None, c, None)
          else let out = reconcile R c profile in
               (case OutError out of
                  Some e \<Rightarrow> (no_requeue, Some e, OutCluster out, Some out)
                | None \<Rightarrow>
                    (case OutRequeue out of
                       Some d \<Rightarrow> (no_requeue\<lparr>RequeueAfter := d\<rparr>, None, OutCluster out, Some out)
                     | None \<Rightarrow> (no_requeue\<lparr>RequeueAfter := requeueAfter (OutProfile out)\<rparr>, None, OutCluster out, Some out))))"

end

