(* ===== verification/Reconcile_Spec.thy ===== *)
theory Reconcile_Spec
  imports Reconcile
begin

text \<open>
  What the workload controller guarantees as a whole: planning cannot fail and respects the decrease
  floor, the published conditions are consistent, a failing kubelet leaves what was learned alone,
  pods are resized only when everything before succeeded, and the queue gets the right delay.
\<close>

section \<open>The plan\<close>

lemma recommend_all_Inr: "recommend_all f cs = Inr rs \<Longrightarrow> list_all2 (\<lambda>c r. f c = Inr r) cs rs"
  by (induction cs arbitrary: rs) (auto split: sum.splits)

lemma recommend_all_total: "\<forall>c \<in> set cs. \<exists>r. f c = Inr r \<Longrightarrow> \<exists>rs. recommend_all f cs = Inr rs"
  by (induction cs) fastforce+

lemma template_resources_lookup:
  "template_resources t names n = (if n \<in> set names then map_option Resources (index_by CtrName (WlContainers t) n) else None)"
proof -
  have inner: "foldl (\<lambda>out n. if CtrName c = n then out(n \<mapsto> Resources c) else out) m names n =
      (if CtrName c = n \<and> n \<in> set names then Some (Resources c) else m n)" for c :: "'a Container" and m
    by (induction names arbitrary: m) auto
  have "foldl (\<lambda>out c. foldl (\<lambda>out n. if CtrName c = n then out(n \<mapsto> Resources c) else out) out names) m cs n =
      (case find (\<lambda>c. CtrName c = n \<and> n \<in> set names) (rev cs) of Some c \<Rightarrow> Some (Resources c) | None \<Rightarrow> m n)"
    for m and cs :: "'a Container list"
  proof (induction cs arbitrary: m rule: rev_induct)
    case (snoc c cs)
    then show ?case by (simp add: inner)
  qed simp
  then show ?thesis
    by (simp add: template_resources_def index_by_find find_None_iff split: option.split)
       (cases "n \<in> set names"; simp add: find_None_iff split: option.split)
qed

text \<open>The workload behind a supported object.\<close>

fun workload_of :: "('q, 'ls) RuntimeObject \<Rightarrow> ('q, 'ls) Workload option" where
  "workload_of (DeploymentObj t) = Some t"
| "workload_of (StatefulSetObj t) = Some t"
| "workload_of (OtherObj _) = None"

lemma current_resources:
  "workload_of obj = Some t \<Longrightarrow> currentResourcesFromTemplate obj names = Inr (template_resources t names)"
  by (cases obj) (simp_all add: currentResourcesFromTemplate_def)

lemma template_names: "workload_of obj = Some t \<Longrightarrow> TemplateContainerNames obj = Inr (map CtrName (WlContainers t))"
  by (cases obj) (simp_all add: TemplateContainerNames_def containerNamesFromPodSpec_def)

lemma Safety_Apply_names:
  "map ContainerName (ResRecommendations (Safety_Apply Q profile base current sig now hold)) = map ContainerName base"
proof (rule nth_equalityI)
  fix i assume "i < length (map ContainerName (ResRecommendations (Safety_Apply Q profile base current sig now hold)))"
  then have i: "i < length base" by (simp add: Safety_Apply_length)
  obtain r where "only_rationale (align_memory Q (base ! i)) r"
    "ResRecommendations (Safety_Apply Q profile base current sig now hold) ! i
       = clamp_one Q current (SkipMemory (Safety_Apply Q profile base current sig now hold)) hold (oom_override Q sig now r)"
    by (rule Safety_Apply_nth [OF i])
  then have "ContainerName (ResRecommendations (Safety_Apply Q profile base current sig now hold) ! i) = ContainerName (base ! i)"
    using only_rationaleD [of "align_memory Q (base ! i)" r]
    by (simp add: clamp_one_name oom_override_fields align_memory_def)
  with i show "map ContainerName (ResRecommendations (Safety_Apply Q profile base current sig now hold)) ! i = map ContainerName base ! i"
    by (simp add: Safety_Apply_length)
qed (simp add: Safety_Apply_length)

lemma make_plan_parts:
  assumes "make_plan R profile obj tplNames mode score ob block = Inr pl"
  obtains recs curRes where
    "list_all2 (\<lambda>c r. biasedEngine_Compute (rSketches R) (rQuantity R)
        (New mode (Some (NewLiveBias (rQuantity R) (Some (map_of (MlFeedback (ObsMl ob)))))))
        (recommend_input R mode (overridesMap profile) score ob c) = Inr r) tplNames recs"
    "CanonicalizeRecommendations (rQuantity R) recs = Inr (PlanMetrics pl)"
    "currentResourcesFromTemplate obj tplNames = Inr curRes"
    "PlanSafe pl = Safety_Apply (rQuantity R) profile recs curRes (ObsSig ob) (rClock R SafetyAt) block"
    "CanonicalizeRecommendations (rQuantity R) (ResRecommendations (PlanSafe pl)) = Inr (PlanFinal pl)"
  using assms by (auto simp: make_plan_def Let_def dest!: recommend_all_Inr split: sum.splits)

lemma same_amounts_names: "list_all2 (same_amounts amount) xs ys \<Longrightarrow> map ContainerName ys = map ContainerName xs"
  by (induction rule: list_all2_induct) (simp_all add: same_amounts_def)

lemma canonical_amounts:
  assumes "quantity Q amount" "CanonicalizeRecommendations Q rs = Inr rs'"
  shows "list_all2 (same_amounts amount) rs rs'"
  using quantity.CanonicalizeRecommendations_total [OF assms(1), of rs] assms(2) by auto

lemma rec_range_same: "same_amounts amount r r' \<Longrightarrow> rec_range amount r' = rec_range amount r"
  by (simp add: same_amounts_def rec_range_def)

lemma recommend_input_name [simp]: "InContainerName (recommend_input R mode mm score ob c) = c"
  by (simp add: recommend_input_def Let_def split_def)

lemma plan_recs_names:
  assumes "quantity (rQuantity R) amount"
    and "list_all2 (\<lambda>c r. biasedEngine_Compute (rSketches R) (rQuantity R) (New mode (Some (NewLiveBias (rQuantity R) st)))
        (recommend_input R mode mm score ob c) = Inr r) tplNames recs"
  shows "map ContainerName recs = tplNames"
  using assms(2)
proof (induction rule: list_all2_induct)
  case (Cons c cs r rs)
  then show ?case
    using bias_provider.engine_name [OF quantity.LiveBias_provider [OF assms(1)], of "rSketches R" mode st "recommend_input R mode mm score ob c"]
    by auto
qed simp

lemma make_plan_total:
  assumes "quantity (rQuantity R) amount" "workload_of obj = Some t"
  shows "\<exists>pl. make_plan R profile obj tplNames mode score ob block = Inr pl"
proof -
  define compute where "compute c = biasedEngine_Compute (rSketches R) (rQuantity R)
      (New mode (Some (NewLiveBias (rQuantity R) (Some (map_of (MlFeedback (ObsMl ob)))))))
      (recommend_input R mode (overridesMap profile) score ob c)" for c
  have "\<forall>c \<in> set tplNames. \<exists>r. compute c = Inr r"
    using bias_provider.engine_name [OF quantity.LiveBias_provider [OF assms(1)]] unfolding compute_def by blast
  then obtain recs where r: "recommend_all compute tplNames = Inr recs" using recommend_all_total by blast
  have c: "\<exists>rs'. CanonicalizeRecommendations (rQuantity R) rs = Inr rs'" for rs
    using quantity.CanonicalizeRecommendations_total [OF assms(1)] by blast
  obtain ms where m: "CanonicalizeRecommendations (rQuantity R) recs = Inr ms" using c by blast
  obtain fs where f: "CanonicalizeRecommendations (rQuantity R) (ResRecommendations (Safety_Apply (rQuantity R) profile recs
      (template_resources t tplNames) (ObsSig ob) (rClock R SafetyAt) block)) = Inr fs" using c by blast
  show ?thesis
    unfolding make_plan_def Let_def compute_def [symmetric] current_resources [OF assms(2)] by (simp add: r m f)
qed

lemma plan_names:
  assumes "quantity (rQuantity R) amount" "make_plan R profile obj tplNames mode score ob block = Inr pl"
  shows "map ContainerName (PlanMetrics pl) = tplNames" "map ContainerName (PlanFinal pl) = tplNames"
proof -
  obtain recs curRes where p: "list_all2 (\<lambda>c r. biasedEngine_Compute (rSketches R) (rQuantity R)
        (New mode (Some (NewLiveBias (rQuantity R) (Some (map_of (MlFeedback (ObsMl ob)))))))
        (recommend_input R mode (overridesMap profile) score ob c) = Inr r) tplNames recs"
    "CanonicalizeRecommendations (rQuantity R) recs = Inr (PlanMetrics pl)"
    "currentResourcesFromTemplate obj tplNames = Inr curRes"
    "PlanSafe pl = Safety_Apply (rQuantity R) profile recs curRes (ObsSig ob) (rClock R SafetyAt) block"
    "CanonicalizeRecommendations (rQuantity R) (ResRecommendations (PlanSafe pl)) = Inr (PlanFinal pl)"
    by (rule make_plan_parts [OF assms(2)])
  have n: "map ContainerName recs = tplNames" by (rule plan_recs_names [OF assms(1) p(1)])
  show "map ContainerName (PlanMetrics pl) = tplNames" "map ContainerName (PlanFinal pl) = tplNames"
    using same_amounts_names [OF canonical_amounts [OF assms(1) p(2)]] same_amounts_names [OF canonical_amounts [OF assms(1) p(5)]]
    by (simp_all add: n p(4) Safety_Apply_names)
qed

text \<open>The current resources of a container of the template.\<close>

definition current_of :: "('q, 'ls) Workload \<Rightarrow> string \<Rightarrow> 'q ResourceRequirements option" where
  "current_of t n = map_option Resources (index_by CtrName (WlContainers t) n)"

lemma plan_floor:
  assumes "quantity (rQuantity R) amount" "workload_of obj = Some t"
    and "make_plan R profile obj tplNames mode score ob block = Inr pl"
    and i: "i < length tplNames" and "rec_range amount (PlanMetrics pl ! i)"
    and cur: "current_of t (tplNames ! i) = Some cur" "cur_range (rQuantity R) amount (Some cur)"
    and "cur_milli (rQuantity R) (Requests cur) = Some cr" "cur_milli (rQuantity R) (Limits cur) = Some cl"
    and "cur_bytes (rQuantity R) (Requests cur) = Some mr" "cur_bytes (rQuantity R) (Limits cur) = Some ml"
  shows "same_amounts amount (ResRecommendations (PlanSafe pl) ! i) (PlanFinal pl ! i) \<and>
     (let v = view (rQuantity R) (ResRecommendations (PlanSafe pl) ! i) in
       at_least block cr (vCPUReq v) \<and> at_least block cl (vCPULim v) \<and>
       (slope_up (Containers (Status profile)) (tplNames ! i) \<or>
          at_least block ml (vMemLim v) \<and> at_least block mr (vMemReq v + 2 ^ 20)))"
proof -
  obtain recs curRes where p: "list_all2 (\<lambda>c r. biasedEngine_Compute (rSketches R) (rQuantity R)
        (New mode (Some (NewLiveBias (rQuantity R) (Some (map_of (MlFeedback (ObsMl ob)))))))
        (recommend_input R mode (overridesMap profile) score ob c) = Inr r) tplNames recs"
    "CanonicalizeRecommendations (rQuantity R) recs = Inr (PlanMetrics pl)"
    "currentResourcesFromTemplate obj tplNames = Inr curRes"
    "PlanSafe pl = Safety_Apply (rQuantity R) profile recs curRes (ObsSig ob) (rClock R SafetyAt) block"
    "CanonicalizeRecommendations (rQuantity R) (ResRecommendations (PlanSafe pl)) = Inr (PlanFinal pl)"
    by (rule make_plan_parts [OF assms(3)])
  have names: "map ContainerName recs = tplNames" by (rule plan_recs_names [OF assms(1) p(1)])
  then have len: "length recs = length tplNames" and name: "ContainerName (recs ! i) = tplNames ! i"
    using i by auto
  have same: "same_amounts amount (recs ! i) (PlanMetrics pl ! i)"
    and fin: "same_amounts amount (ResRecommendations (PlanSafe pl) ! i) (PlanFinal pl ! i)"
    using canonical_amounts [OF assms(1) p(2)] canonical_amounts [OF assms(1) p(5)] i len
    by (auto simp: p(4) Safety_Apply_length intro: list_all2_nthD)
  have r: "rec_range amount (recs ! i)" using assms(5) rec_range_same [OF same] by simp
  have "curRes (tplNames ! i) = Some cur"
    using p(3) cur(1) i by (auto simp: current_resources [OF assms(2)] template_resources_lookup current_of_def)
  from safety_floor [where base = recs and i = i and current = curRes, OF assms(1) _ r _ cur(2) assms(8-11),
      of profile "ObsSig ob" "rClock R SafetyAt" block] this fin show ?thesis
    using i len by (simp add: name p(4) Let_def)
qed

section \<open>Outcomes\<close>

text \<open>What the outcome of any path keeps of the profile, and what it establishes when there is no error.\<close>

definition outcome_ok :: "'q WorkloadProfile \<Rightarrow> ('c, 'q) outcome \<Rightarrow> bool" where
  "outcome_ok p out \<longleftrightarrow> Spec (OutProfile out) = Spec p \<and> profile_key (OutProfile out) = profile_key p \<and>
     (OutError out = None \<longrightarrow> ready_ok (OutProfile out) \<and> status_finite (Status (OutProfile out))
        \<and> OutRequeue out \<in> {None, Some (10 * second_ns), Some (metricsRequeueAfter p)})"

lemma profile_key_frame [simp]:
  "profile_key (setCondition f p t s r m) = profile_key p" "profile_key (syncProfileReady f p) = profile_key p"
  "profile_key (p\<lparr>Status := st\<rparr>) = profile_key p"
  by (simp_all add: profile_key_def)

lemma conditionStatus_sanitize [simp]:
  "conditionStatus (p\<lparr>Status := sanitizeStatusFloats (Status p)\<rparr>) t = conditionStatus p t"
  "conditionStatus (p\<lparr>Status := (Status p)\<lparr>LastApplied := a\<rparr>\<rparr>) t = conditionStatus p t"
  "conditionStatus (p\<lparr>Status := sanitizeStatusFloats ((Status p)\<lparr>LastApplied := a\<rparr>)\<rparr>) t = conditionStatus p t"
  by (simp_all add: conditionStatus_def sanitizeStatusFloats_def)

lemma ready_ok_sanitize [simp]: "ready_ok (p\<lparr>Status := sanitizeStatusFloats (Status p)\<rparr>) = ready_ok p"
  "ready_ok (p\<lparr>Status := (Status p)\<lparr>LastApplied := a\<rparr>\<rparr>) = ready_ok p"
  "ready_ok (p\<lparr>Status := sanitizeStatusFloats ((Status p)\<lparr>LastApplied := a\<rparr>)\<rparr>) = ready_ok p"
  by (simp_all add: ready_ok_def)

lemma ready_ok_applied [simp]:
  "condition_setter set_cond \<Longrightarrow> ready_ok (setCondition set_cond p ConditionTypeActuationApplied s r m) = ready_ok p"
  by (simp add: ready_ok_def conditionStatus_set)

lemma persist_then_cases:
  obtains e c1 where "persist_then R c p f = failed e c1 (p\<lparr>Status := sanitizeStatusFloats (Status p)\<rparr>)"
  | c1 where "persistStatus (rRetry R) (rProfiles R) c p = (None, c1, p\<lparr>Status := sanitizeStatusFloats (Status p)\<rparr>)"
      "persist_then R c p f = f c1 (p\<lparr>Status := sanitizeStatusFloats (Status p)\<rparr>)"
proof -
  obtain err c1 where "persistStatus (rRetry R) (rProfiles R) c p = (err, c1, p\<lparr>Status := sanitizeStatusFloats (Status p)\<rparr>)"
    by (simp add: persistStatus_def Let_def split_def)
  then show thesis using that by (cases err) (simp_all add: persist_then_def)
qed

lemma outcome_ok_failed: "Spec q = Spec p \<Longrightarrow> profile_key q = profile_key p \<Longrightarrow> outcome_ok p (failed e c q)"
  by (simp add: outcome_ok_def failed_def)

lemma outcome_ok_done:
  "Spec q = Spec p \<Longrightarrow> profile_key q = profile_key p \<Longrightarrow> ready_ok q \<Longrightarrow> status_finite (Status q)
    \<Longrightarrow> r \<in> {None, Some (10 * second_ns), Some (metricsRequeueAfter p)} \<Longrightarrow> outcome_ok p (done_with r c q)"
  by (simp add: outcome_ok_def done_with_def)

lemma outcome_ok_persist:
  assumes "Spec q = Spec p" "profile_key q = profile_key p"
    and "\<And>c1. outcome_ok p (f c1 (q\<lparr>Status := sanitizeStatusFloats (Status q)\<rparr>))"
  shows "outcome_ok p (persist_then R c q f)"
  by (rule persist_then_cases [of R c q f]) (use assms in \<open>simp_all add: outcome_ok_failed\<close>)

lemma outcome_ok_update [simp]:
  "outcome_ok p (out\<lparr>OutMetrics := m\<rparr>) = outcome_ok p out" "outcome_ok p (out\<lparr>OutEvents := ev\<rparr>) = outcome_ok p out"
  by (simp_all add: outcome_ok_def)

lemma applyActuation_ok:
  assumes "condition_setter (rSetCond R)" "Spec q = Spec p" "profile_key q = profile_key p" "ready_ok q"
  shows "outcome_ok p (applyActuation R c q pods recs skip)"
  unfolding applyActuation_def Let_def split_def outcome_ok_update
  by (auto intro!: outcome_ok_persist outcome_ok_done simp: assms split: option.split)

lemma target_failed_ok:
  assumes "condition_setter (rSetCond R)" shows "outcome_ok p (target_failed R c p e)"
  unfolding target_failed_def
  by (auto intro!: outcome_ok_persist outcome_ok_done outcome_ok_failed simp: assms)

lemma publish_ok:
  assumes "condition_setter (rSetCond R)" "Spec q = Spec p" "profile_key q = profile_key p" "ready_ok q"
  shows "outcome_ok p (publish R c q pods ml pl)"
  unfolding publish_def
proof (rule outcome_ok_persist [OF assms(2,3)])
  fix c1
  let ?q = "q\<lparr>Status := sanitizeStatusFloats (Status q)\<rparr>"
  obtain err c2 where s: "saveMLState (rCodec R) (rMLState R) c1 ?q ml = (err, c2)" by fastforce
  have "outcome_ok p (applyActuation R c2 ?q pods (PlanFinal pl) (SkipMemory (PlanSafe pl)))"
    by (rule applyActuation_ok) (simp_all add: assms)
  then show "outcome_ok p (let (err, c2) = saveMLState (rCodec R) (rMLState R) c1 ?q ml in
       case err of Some e \<Rightarrow> failed e c2 ?q
       | None \<Rightarrow> if \<not> actuationEnabled (rActuationEnv R) \<or> \<not> ShouldPatch (PlanSafe pl)
           then done_with None c2 ?q
           else applyActuation R c2 ?q pods (PlanFinal pl) (SkipMemory (PlanSafe pl)))"
    by (simp add: s assms outcome_ok_failed outcome_ok_done split: option.split)
qed

lemma planned_profile_frame [simp]:
  "Spec (planned_profile R p pl pause) = Spec p" "profile_key (planned_profile R p pl pause) = profile_key p"
  by (simp_all add: planned_profile_def)

lemma observed_profile_frame [simp]:
  "Spec (snd (observed_profile R c p pods names ob)) = Spec p"
  "profile_key (snd (observed_profile R c p pods names ob)) = profile_key p"
  by (simp_all add: observed_profile_def Let_def split_def)

lemma runObserveAndActuate_ok:
  assumes "condition_setter (rSetCond R)" "Spec q = Spec p" "profile_key q = profile_key p"
  shows "outcome_ok p (runObserveAndActuate R c q obj pods summaries sig mode seen remaining)"
  unfolding runObserveAndActuate_def Let_def split_def
  by (auto simp: assms outcome_ok_failed planned_profile_def [of R "snd x" for x] intro!: publish_ok split: sum.split)

lemma reconcile_ok:
  assumes "condition_setter (rSetCond R)"
  shows "outcome_ok p (reconcile R c p)"
  unfolding reconcile_def Let_def split_def persistKubeletUnavailable_def
  by (auto intro!: target_failed_ok outcome_ok_persist outcome_ok_done outcome_ok_failed runObserveAndActuate_ok
      simp: assms metricsRequeueAfter_def requeueAfter_def split: sum.split)

section \<open>Where the resize call is used\<close>

lemma resize_fields:
  "rProfiles (R\<lparr>rResize := X\<rparr>) = rProfiles R" "rDeployments (R\<lparr>rResize := X\<rparr>) = rDeployments R"
  "rStatefulSets (R\<lparr>rResize := X\<rparr>) = rStatefulSets R" "rPods (R\<lparr>rResize := X\<rparr>) = rPods R"
  "rAsSelector (R\<lparr>rResize := X\<rparr>) = rAsSelector R" "rFetchSummary (R\<lparr>rResize := X\<rparr>) = rFetchSummary R"
  "rNodes (R\<lparr>rResize := X\<rparr>) = rNodes R" "rMLState (R\<lparr>rResize := X\<rparr>) = rMLState R" "rCodec (R\<lparr>rResize := X\<rparr>) = rCodec R"
  "rDetector (R\<lparr>rResize := X\<rparr>) = rDetector R" "rClock (R\<lparr>rResize := X\<rparr>) = rClock R" "rOrd (R\<lparr>rResize := X\<rparr>) = rOrd R"
  "rSketches (R\<lparr>rResize := X\<rparr>) = rSketches R" "rQuantity (R\<lparr>rResize := X\<rparr>) = rQuantity R"
  "rSetCond (R\<lparr>rResize := X\<rparr>) = rSetCond R" "rRetry (R\<lparr>rResize := X\<rparr>) = rRetry R"
  "rActuationEnv (R\<lparr>rResize := X\<rparr>) = rActuationEnv R"
  by simp_all

lemma rResize_unused:
  "observe_container (R\<lparr>rResize := X\<rparr>) = observe_container R" "node_names (R\<lparr>rResize := X\<rparr>) = node_names R"
  "scheduler_hints (R\<lparr>rResize := X\<rparr>) = scheduler_hints R" "recommend_input (R\<lparr>rResize := X\<rparr>) = recommend_input R"
  "persist_then (R\<lparr>rResize := X\<rparr>) = persist_then R" "pod_nodes (R\<lparr>rResize := X\<rparr>) = pod_nodes R"
  "planned_profile (R\<lparr>rResize := X\<rparr>) = planned_profile R"
  unfolding fun_eq_iff observe_container_def node_names_def scheduler_hints_def recommend_input_def persist_then_def pod_nodes_def
      planned_profile_def resize_fields by blast+

lemma rResize_unused_composed:
  "observe_all (R\<lparr>rResize := X\<rparr>) p summaries pods seen ob cs = observe_all R p summaries pods seen ob cs"
  "observed_profile (R\<lparr>rResize := X\<rparr>) = observed_profile R" "make_plan (R\<lparr>rResize := X\<rparr>) = make_plan R"
  "persistKubeletUnavailable (R\<lparr>rResize := X\<rparr>) = persistKubeletUnavailable R"
  "target_failed (R\<lparr>rResize := X\<rparr>) = target_failed R"
proof -
  show "observe_all (R\<lparr>rResize := X\<rparr>) p summaries pods seen ob cs = observe_all R p summaries pods seen ob cs"
    by (induction cs arbitrary: ob) (simp_all add: rResize_unused split: sum.split)
qed (unfold fun_eq_iff observed_profile_def make_plan_def persistKubeletUnavailable_def target_failed_def resize_fields rResize_unused, blast+)

lemma publish_disabled:
  assumes "\<not> actuationEnabled (rActuationEnv R)"
  shows "publish (R\<lparr>rResize := X\<rparr>) c p pods ml pl = publish R c p pods ml pl"
proof -
  have "(\<not> actuationEnabled (rActuationEnv R) \<or> b) = True" for b using assms by simp
  then show ?thesis unfolding publish_def resize_fields rResize_unused by (simp only: if_True)
qed

lemma run_disabled:
  assumes "\<not> actuationEnabled (rActuationEnv R)"
  shows "runObserveAndActuate (R\<lparr>rResize := X\<rparr>) c p obj pods summaries sig mode seen remaining
       = runObserveAndActuate R c p obj pods summaries sig mode seen remaining"
  unfolding runObserveAndActuate_def resize_fields rResize_unused rResize_unused_composed publish_disabled [OF assms] ..

lemma persist_then_metrics:
  "(\<And>c1 q. OutMetrics (f c1 q) = None) \<Longrightarrow> OutMetrics (persist_then R c p f) = None"
  by (rule persist_then_cases [of R c p f]) (simp_all add: failed_def)

lemma no_metrics [simp]: "OutMetrics (failed e c p) = None" "OutMetrics (done_with r c p) = None"
  by (simp_all add: failed_def done_with_def)

lemma publish_metrics:
  assumes "OutMetrics (publish R c p pods ml pl) \<noteq> None"
  obtains c1 c2 where "actuationEnabled (rActuationEnv R)" "ShouldPatch (PlanSafe pl)"
    "persistStatus (rRetry R) (rProfiles R) c p = (None, c1, p\<lparr>Status := sanitizeStatusFloats (Status p)\<rparr>)"
    "saveMLState (rCodec R) (rMLState R) c1 (p\<lparr>Status := sanitizeStatusFloats (Status p)\<rparr>) ml = (None, c2)"
    "publish R c p pods ml pl = applyActuation R c2 (p\<lparr>Status := sanitizeStatusFloats (Status p)\<rparr>) pods (PlanFinal pl) (SkipMemory (PlanSafe pl))"
proof -
  let ?p = "p\<lparr>Status := sanitizeStatusFloats (Status p)\<rparr>"
  let ?next = "\<lambda>c1 profile1. let (err, c2) = saveMLState (rCodec R) (rMLState R) c1 profile1 ml in
       case err of Some e \<Rightarrow> failed e c2 profile1
       | None \<Rightarrow> if \<not> actuationEnabled (rActuationEnv R) \<or> \<not> ShouldPatch (PlanSafe pl)
           then done_with None c2 profile1
           else applyActuation R c2 profile1 pods (PlanFinal pl) (SkipMemory (PlanSafe pl))"
  have pub: "publish R c p pods ml pl = persist_then R c p ?next" by (simp add: publish_def)
  show thesis
  proof (rule persist_then_cases [of R c p ?next])
    fix c1
    assume c1: "persistStatus (rRetry R) (rProfiles R) c p = (None, c1, ?p)" "persist_then R c p ?next = ?next c1 ?p"
    obtain err c2 where s: "saveMLState (rCodec R) (rMLState R) c1 ?p ml = (err, c2)" by fastforce
    have m: "OutMetrics (?next c1 ?p) \<noteq> None" using assms c1(2) pub by simp
    then have "err = None" "actuationEnabled (rActuationEnv R)" "ShouldPatch (PlanSafe pl)"
      by (auto simp: s split: option.splits if_splits)
    then show thesis using that c1 s pub by simp
  qed (use assms pub in simp)
qed

text \<open>
  Actuation after everything else: a plan was made and is due, the status holding its recommendations
  and the learned state were written, and the outcome is that of resizing with the clamped plan.
\<close>

definition actuated_by_plan :: "('c, 'q, 'ls, 'sel, 'sk, 'pb) reconciler \<Rightarrow> 'c \<Rightarrow> ('q, 'ls) RuntimeObject \<Rightarrow> string \<Rightarrow> ('c, 'q) outcome \<Rightarrow> bool" where
  "actuated_by_plan R c obj mode out \<longleftrightarrow>
     (\<exists>q tplNames score ob block pl profile profile1 pods c1 c2.
        make_plan R q obj tplNames mode score ob block = Inr pl \<and> ShouldPatch (PlanSafe pl)
        \<and> Recommendations (Status profile) = PlanFinal pl
        \<and> persistStatus (rRetry R) (rProfiles R) c profile = (None, c1, profile1)
        \<and> saveMLState (rCodec R) (rMLState R) c1 profile1 (ObsMl ob) = (None, c2)
        \<and> OutCluster out = OutCluster (applyActuation R c2 profile1 pods (PlanFinal pl) (SkipMemory (PlanSafe pl))))"

lemma planned_profile_recommendations [simp]: "Recommendations (Status (planned_profile R p pl pause)) = PlanFinal pl"
  by (simp add: planned_profile_def)

lemma publish_actuated:
  assumes "make_plan R q obj tplNames mode score ob block = Inr pl"
  shows "OutMetrics (publish R c (planned_profile R q' pl pause) pods (ObsMl ob) pl) = None \<or>
    actuated_by_plan R c obj mode ((publish R c (planned_profile R q' pl pause) pods (ObsMl ob) pl)\<lparr>OutEvents := ev\<rparr>)"
proof (rule disjCI)
  let ?q = "planned_profile R q' pl pause"
  assume n: "\<not> actuated_by_plan R c obj mode ((publish R c ?q pods (ObsMl ob) pl)\<lparr>OutEvents := ev\<rparr>)"
  show "OutMetrics (publish R c ?q pods (ObsMl ob) pl) = None"
  proof (rule ccontr)
    assume "OutMetrics (publish R c ?q pods (ObsMl ob) pl) \<noteq> None"
    then obtain c1 c2 where p: "ShouldPatch (PlanSafe pl)"
      "persistStatus (rRetry R) (rProfiles R) c ?q = (None, c1, ?q\<lparr>Status := sanitizeStatusFloats (Status ?q)\<rparr>)"
      "saveMLState (rCodec R) (rMLState R) c1 (?q\<lparr>Status := sanitizeStatusFloats (Status ?q)\<rparr>) (ObsMl ob) = (None, c2)"
      "publish R c ?q pods (ObsMl ob) pl
         = applyActuation R c2 (?q\<lparr>Status := sanitizeStatusFloats (Status ?q)\<rparr>) pods (PlanFinal pl) (SkipMemory (PlanSafe pl))"
      by (rule publish_metrics)
    have "actuated_by_plan R c obj mode ((publish R c ?q pods (ObsMl ob) pl)\<lparr>OutEvents := ev\<rparr>)"
      unfolding actuated_by_plan_def
      by (intro exI conjI, rule assms, rule p(1), rule planned_profile_recommendations, rule p(2), rule p(3)) (simp add: p(4))
    with n show False ..
  qed
qed

lemma run_actuated:
  "OutMetrics (runObserveAndActuate R c p obj pods summaries sig mode seen remaining) = None
    \<or> actuated_by_plan R c obj mode (runObserveAndActuate R c p obj pods summaries sig mode seen remaining)"
  unfolding runObserveAndActuate_def Let_def split_def
  by (auto split: sum.splits dest: publish_actuated)

lemma reconcile_actuated:
  "OutMetrics (reconcile R c p) = None \<or> (\<exists>obj. Resolve (rDeployments R) (rStatefulSets R) c (ProfileNamespace p)
       (TargetKind (TargetRef (Spec p))) (TargetName (TargetRef (Spec p))) = Inr obj
     \<and> actuated_by_plan R c obj (EffectiveMode (Spec p)) (reconcile R c p))"
proof -
  have t: "OutMetrics (target_failed R c p e) = None" for e
    by (simp add: target_failed_def persist_then_metrics)
  have k: "OutMetrics (persistKubeletUnavailable R c q errs) = None" for q errs
    by (simp add: persistKubeletUnavailable_def Let_def persist_then_metrics)
  have r: "OutMetrics (runObserveAndActuate R c q obj pods summaries sig mode seen remaining) = None"
    if "\<not> actuated_by_plan R c obj mode (runObserveAndActuate R c q obj pods summaries sig mode seen remaining)"
    for q obj pods summaries sig mode seen remaining
    using run_actuated that by metis
  show ?thesis
    unfolding reconcile_def Let_def split_def
    by (auto simp: t k split: sum.split intro: r)
qed

lemma reconcile_disabled:
  assumes "\<not> actuationEnabled (rActuationEnv R)"
  shows "reconcile (R\<lparr>rResize := X\<rparr>) c p = reconcile R c p"
  unfolding reconcile_def resize_fields rResize_unused rResize_unused_composed run_disabled [OF assms] ..

section \<open>When no kubelet answers\<close>

lemma fetch_all_fail:
  "(\<And>n. n \<in> set ns \<Longrightarrow> fetch n = Inl (why n)) \<Longrightarrow>
     foldl (fetch_step fetch) (ss, es) ns = (ss, es @ map (\<lambda>n. n @ '': '' @ why n) ns)"
  by (induction ns arbitrary: es) (simp_all add: fetch_step_def)

lemma kubelet_down:
  assumes "Resolve (rDeployments R) (rStatefulSets R) c (ProfileNamespace p) (TargetKind (TargetRef (Spec p))) (TargetName (TargetRef (Spec p))) = Inr obj"
    and "Selector (rAsSelector R) obj = Inr sel" "KList (rPods R) c (Some (ProfileNamespace p)) (MatchingSelector sel) = Inr pods"
    and "pod_nodes R pods \<noteq> []" "\<And>n. n \<in> set (pod_nodes R pods) \<Longrightarrow> rFetchSummary R c n = Inl (why n)"
  shows "reconcile R c p = persistKubeletUnavailable R c
           (setCondition (rSetCond R) p ConditionTypeTargetResolved ConditionTrue ''Resolved'' ''target found'')
           (map (\<lambda>n. n @ '': '' @ why n) (pod_nodes R pods))"
  using fetch_all_fail [of "pod_nodes R pods" "rFetchSummary R c" why "[]" "[]"] assms
  by (simp add: reconcile_def Let_def kubeletSummariesFullyUnavailable_def)

lemma syncProfileReady_conditions [simp]:
  assumes "condition_setter set_cond" "t \<noteq> ConditionTypeProfileReady"
  shows "conditionStatus (syncProfileReady set_cond p) t = conditionStatus p t"
    "conditionMessage (syncProfileReady set_cond p) t = conditionMessage p t"
  using assms(2) by (simp_all add: syncProfileReady_def Let_def split_def conditionStatus_set [OF assms(1)])

lemma str_join_map_empty: "str_join sep xs = '''' \<Longrightarrow> set xs \<subseteq> {''''}"
  by (induction sep xs rule: str_join.induct) auto

lemma kubelet_down_profile:
  fixes R :: "('c, 'q, 'ls, 'sel, 'sk, 'pb) reconciler" and p :: "'q WorkloadProfile" and c :: 'c
  assumes "str_join ''; '' errs \<noteq> ''''"
  defines "q \<equiv> syncProfileReady (rSetCond R) (setCondition (rSetCond R) p ConditionTypeMetricsAvailable ConditionFalse
      ''KubeletUnavailable'' (str_join ''; '' errs))"
  defines "out \<equiv> persistKubeletUnavailable R c p errs"
  shows "OutProfile out = q\<lparr>Status := sanitizeStatusFloats (Status q)\<rparr> \<and> OutMetrics out = None \<and> OutEvents out = []
    \<and> (OutError out \<noteq> None \<or> OutRequeue out = Some (metricsRequeueAfter p))"
proof -
  have out: "out = persist_then R c q (\<lambda>c1 p. done_with (Some (metricsRequeueAfter p)) c1 p)"
    using assms(1) by (simp add: out_def q_def persistKubeletUnavailable_def Let_def)
  have "metricsRequeueAfter (q\<lparr>Status := s\<rparr>) = metricsRequeueAfter p" for s
    by (simp add: metricsRequeueAfter_def requeueAfter_def q_def)
  then show ?thesis
    unfolding out by (rule_tac persist_then_cases [of R c q "\<lambda>c1 p. done_with (Some (metricsRequeueAfter p)) c1 p"])
      (simp_all add: failed_def done_with_def)
qed

lemma sanitize_frame [simp]:
  "Recommendations (sanitizeStatusFloats st) = Recommendations st"
  "MetricsRecommendations (sanitizeStatusFloats st) = MetricsRecommendations st"
  "DownsizePauseCyclesRemaining (sanitizeStatusFloats st) = DownsizePauseCyclesRemaining st"
  "LastEvaluated (sanitizeStatusFloats st) = LastEvaluated st"
  "Containers (sanitizeStatusFloats st) = map sanitize_container (Containers st)"
  "Conditions (sanitizeStatusFloats st) = Conditions st"
  by (simp_all add: sanitizeStatusFloats_def)

lemma conditionMessage_sanitize [simp]:
  "conditionMessage (p\<lparr>Status := sanitizeStatusFloats (Status p)\<rparr>) t = conditionMessage p t"
  by (simp add: conditionMessage_def)

section \<open>What a reconcile guarantees\<close>

text \<open>
  Claim C29: planning cannot fail for a supported workload, whatever was observed, learned or configured:
  every container of the template gets exactly one recommendation, in the template's order, both in
  the published metrics and in what is actuated, and canonical text never changes an amount.
\<close>

theorem make_plan_complete:
  assumes "quantity (rQuantity R) amount" "workload_of obj = Some t"
  shows "\<exists>pl. make_plan R profile obj tplNames mode score ob block = Inr pl
     \<and> map ContainerName (PlanMetrics pl) = tplNames \<and> map ContainerName (PlanFinal pl) = tplNames
     \<and> list_all2 (same_amounts amount) (ResRecommendations (PlanSafe pl)) (PlanFinal pl)"
proof -
  obtain pl where pl: "make_plan R profile obj tplNames mode score ob block = Inr pl"
    using make_plan_total [OF assms, of profile tplNames mode score ob block] by blast
  then have "CanonicalizeRecommendations (rQuantity R) (ResRecommendations (PlanSafe pl)) = Inr (PlanFinal pl)"
    by (rule make_plan_parts)
  then have "list_all2 (same_amounts amount) (ResRecommendations (PlanSafe pl)) (PlanFinal pl)"
    by (rule canonical_amounts [OF assms(1)])
  then show ?thesis using pl plan_names [OF assms(1) pl] by blast
qed


text \<open>
  Claim C31: pods are touched last and only on purpose.  With actuation switched off the resize calls
  have no influence at all on a reconcile; and a reconcile that actuates has resolved its target, made
  a plan that is due, and stored both the status with these recommendations and the learned state
  before the first pod is resized with the clamped plan.
\<close>

theorem reconcile_actuates_last:
  "(actuationEnabled (rActuationEnv R) \<or> reconcile (R\<lparr>rResize := X\<rparr>) c p = reconcile R c p) \<and>
   (OutMetrics (reconcile R c p) = None \<or>
     (\<exists>obj. Resolve (rDeployments R) (rStatefulSets R) c (ProfileNamespace p)
              (TargetKind (TargetRef (Spec p))) (TargetName (TargetRef (Spec p))) = Inr obj
        \<and> actuated_by_plan R c obj (EffectiveMode (Spec p)) (reconcile R c p)))"
  using reconcile_disabled [of R X c p] reconcile_actuated [of R c p] by blast

text \<open>
  Claim C32: a reconcile never rewrites the specification or the identity of its profile, and when it
  ends without an error the profile is ready exactly if its target is resolved and metrics are
  available, no stored average is NaN or infinite, and the delay is the default or one of the two others.
\<close>

theorem reconcile_outcome:
  assumes "condition_setter (rSetCond R)"
  shows "Spec (OutProfile (reconcile R c p)) = Spec p \<and> profile_key (OutProfile (reconcile R c p)) = profile_key p \<and>
     (OutError (reconcile R c p) \<noteq> None \<or>
        ready_ok (OutProfile (reconcile R c p)) \<and> status_finite (Status (OutProfile (reconcile R c p)))
        \<and> OutRequeue (reconcile R c p) \<in> {None, Some (10 * second_ns), Some (metricsRequeueAfter p)})"
  using reconcile_ok [OF assms, of p c] unfolding outcome_ok_def by blast


text \<open>
  Claim C34: the queue sees a profile again: an interval the API admits gives a delay between ten seconds
  and five minutes after every reconcile without an error; a missing or deleting profile is dropped with
  nothing written, and only an error leaves the retry to the queue.
\<close>

theorem Reconcile_requeues:
  assumes "condition_setter (rSetCond R)"
    and "\<And>p. KGet (rProfiles R) c req = Inr p \<Longrightarrow> 10 \<le> CollectionInterval (Spec p) \<and> CollectionInterval (Spec p) \<le> 300"
  shows "case KGet (rProfiles R) c req of
      Inl e \<Rightarrow> WorkloadProfile_Reconcile R c req = (no_requeue, if IsNotFound e then None else Some e, c, None)
    | Inr p \<Rightarrow>
        (if ProfileDeleting p then WorkloadProfile_Reconcile R c req = (no_requeue, None, c, None)
         else \<exists>res err c' out. WorkloadProfile_Reconcile R c req = (res, err, c', Some out) \<and> Spec (OutProfile out) = Spec p
            \<and> (case err of Some e \<Rightarrow> res = no_requeue
               | None \<Rightarrow> 10 * second_ns \<le> RequeueAfter res \<and> RequeueAfter res \<le> 300 * second_ns \<and> ready_ok (OutProfile out)))"
proof (cases "KGet (rProfiles R) c req")
  case (Inl e)
  then show ?thesis by (simp add: WorkloadProfile_Reconcile_def IgnoreNotFound_def)
next
  case (Inr p)
  have iv: "10 \<le> CollectionInterval (Spec p)" "CollectionInterval (Spec p) \<le> 300" using assms(2) [OF Inr] by simp_all
  then have w: "wrap64 (CollectionInterval (Spec p) * second_ns) = CollectionInterval (Spec p) * second_ns"
    by (intro wrap64_id) (simp add: is_i64_def second_ns_def)
  note ok = reconcile_ok [OF assms(1), of p c, unfolded outcome_ok_def]
  show ?thesis
    using Inr iv ok w
    by (auto simp: WorkloadProfile_Reconcile_def Let_def metricsRequeueAfter_def requeueAfter_def second_ns_def no_requeue_def
        split: option.splits if_splits)
qed

section \<open>Witnesses\<close>

definition ex_web :: "(nano_quantity, unit) Workload" where
  "ex_web = \<lparr>WlName = ''web'', WlNamespace = ''ns'', WlSelector = Some (),
     WlContainers = [\<lparr>CtrName = ''app'', Resources = \<lparr>Requests = Some (ex_list 200 (2^28)), Limits = Some (ex_list 400 (2^29))\<rparr>,
                      ResizePolicy = []\<rparr>]\<rparr>"

definition ex_reconciler :: "string \<Rightarrow> (nano_quantity WorkloadProfile mem_server, nano_quantity, unit, unit, nat list, nat list) reconciler" where
  "ex_reconciler env = \<lparr>rProfiles = mem_client profile_key (\<lambda>_ _. True), rDeployments = const_client [ex_web],
     rStatefulSets = const_client [], rPods = const_client [(ex_pod ''web-0'')\<lparr>PodNamespace := ''ns''\<rparr>], rAsSelector = (\<lambda>_. Inr ()),
     rFetchSummary = (\<lambda>_ _. Inl ''connection refused''),
     rNodes = (\<lambda>_. \<lparr>GetNode = (\<lambda>_. Inl ''not found''), ListPodsOnNode = (\<lambda>_. Inl ''not found'')\<rparr>),
     rResize = \<lparr>ResizePod = (\<lambda>c _. (None, c)), GetPod = (\<lambda>_ _ _. Inl ''not found'')\<rparr>,
     rMLState = None, rCodec = ex_codec, rDetector = None, rClock = (\<lambda>_. 0), rOrd = id, rSketches = list_sketch,
     rQuantity = nano_api, rSetCond = put_condition, rRetry = attempts 4, rActuationEnv = env\<rparr>"

lemma ex_reconciler_simps [simp]:
  "rSketches (ex_reconciler env) = list_sketch" "rQuantity (ex_reconciler env) = nano_api" "rSetCond (ex_reconciler env) = put_condition"
  "rProfiles (ex_reconciler env) = mem_client profile_key (\<lambda>_ _. True)" "rRetry (ex_reconciler env) = attempts 4"
  by (simp_all add: ex_reconciler_def)

lemma ex_target:
  "Resolve (rDeployments (ex_reconciler env)) (rStatefulSets (ex_reconciler env)) c (ProfileNamespace ex_wp)
     (TargetKind (TargetRef (Spec ex_wp))) (TargetName (TargetRef (Spec ex_wp))) = Inr (DeploymentObj ex_web)"
  "Selector (rAsSelector (ex_reconciler env)) (DeploymentObj ex_web) = Inr ()"
  "KList (rPods (ex_reconciler env)) c (Some (ProfileNamespace ex_wp)) (MatchingSelector ()) = Inr [(ex_pod ''web-0'')\<lparr>PodNamespace := ''ns''\<rparr>]"
  "pod_nodes (ex_reconciler env) [(ex_pod ''web-0'')\<lparr>PodNamespace := ''ns''\<rparr>] = [''n1'']"
  "rFetchSummary (ex_reconciler env) c n = Inl ''connection refused''"
  by (simp_all add: ex_reconciler_def Resolve_def const_client_def ex_wp_def Selector_def ex_web_def pod_nodes_def ex_pod_def)

theorem make_plan_complete_witness:
  "\<exists>pl. make_plan (ex_reconciler ''true'') ex_wp (DeploymentObj ex_web) [''app''] ''balanced'' (Fin 0)
      \<lparr>ObsByName = Map.empty, ObsMl = New_MLState, ObsSig = NewSnapshot, ObsSpike = False, ObsHetero = Fin 0,
       ObsForecasts = Map.empty, ObsEvents = []\<rparr> False = Inr pl
    \<and> map ContainerName (PlanFinal pl) = [''app'']"
proof -
  have "quantity (rQuantity (ex_reconciler ''true'')) nano_amount" by (simp add: nano.quantity_axioms)
  then show ?thesis
    using make_plan_complete [where R = "ex_reconciler ''true''" and obj = "DeploymentObj ex_web" and tplNames = "[''app'']"]
    by (metis workload_of.simps(1))
qed

theorem reconcile_outcome_witness:
  "Spec (OutProfile (reconcile (ex_reconciler ''true'') ex_profiles ex_wp)) = Spec ex_wp
   \<and> profile_key (OutProfile (reconcile (ex_reconciler ''true'') ex_profiles ex_wp)) = (''ns'', ''web'')"
proof -
  have "profile_key ex_wp = (''ns'', ''web'')" by (simp add: profile_key_def ex_wp_def)
  then show ?thesis
    using reconcile_outcome [of "ex_reconciler ''true''" ex_profiles ex_wp] put.condition_setter_axioms by simp
qed


theorem Reconcile_requeues_witness:
  "case KGet (rProfiles (ex_reconciler ''true'')) ex_profiles (''ns'', ''web'') of
      Inl e \<Rightarrow> False
    | Inr p \<Rightarrow> \<exists>res err c' out. WorkloadProfile_Reconcile (ex_reconciler ''true'') ex_profiles (''ns'', ''web'') = (res, err, c', Some out)
            \<and> (case err of Some e \<Rightarrow> res = no_requeue
               | None \<Rightarrow> 10 * second_ns \<le> RequeueAfter res \<and> RequeueAfter res \<le> 300 * second_ns \<and> ready_ok (OutProfile out))"
proof -
  let ?p = "ex_wp\<lparr>Status := (Status ex_wp)\<lparr>DownsizePauseCyclesRemaining := 0\<rparr>\<rparr>"
  have g: "KGet (rProfiles (ex_reconciler ''true'')) ex_profiles (''ns'', ''web'') = Inr ?p"
    by (simp add: mem_client_def mem_get_def mem_objs_def ex_profiles_def profile_key_def ex_wp_def)
  have "CollectionInterval (Spec ex_wp) = 30" "\<not> ProfileDeleting ex_wp" by (simp_all add: ex_wp_def CollectionInterval_def)
  then show ?thesis
    using Reconcile_requeues [of "ex_reconciler ''true''" ex_profiles "(''ns'', ''web'')"] put.condition_setter_axioms g by auto
qed

definition ex_observation :: "nano_quantity observation" where
  "ex_observation = \<lparr>ObsByName = Map.empty, ObsMl = New_MLState, ObsSig = NewSnapshot, ObsSpike = False, ObsHetero = Fin 0,
     ObsForecasts = Map.empty, ObsEvents = []\<rparr>"

text \<open>A container that was never observed: every sketch is fresh and every average zero.\<close>

lemma ex_unobserved:
  fixes mode
  defines "inp \<equiv> recommend_input (ex_reconciler ''true'') mode (overridesMap ex_wp) SchedulerBalanceUnknown ex_observation ''app''"
  shows "input_in_range list_sketch inp" "bounds_in_range nano_amount inp" "no_pressure inp"
proof -
  have s: "sketch_or_nil (SketchFromBase64 list_sketch '''') = Some []"
    by (simp add: sketch_or_nil_def SketchFromBase64_def list_sketch_def)
  have l: "loadSketchesForRecommend list_sketch zero_ContainerStatus = (Some [], Some [])"
    using s by (simp add: loadSketchesForRecommend_def sketchBase64sFromNodes_def prefer_merged_def zero_ContainerStatus_def
      zero_CPUStats_def zero_MemoryStats_def Let_def)
  have q: "quadSketchGet [] k = ''''" for k by (auto simp: quadSketchGet_def)
  have i: "CPUSketch inp = Some []" "MemSketch inp = Some []" "QuadrantCPUSketch inp = Some []" "QuadrantMemSketch inp = Some []"
    "CPUEShort inp = Fin 0" "CPUELong inp = Fin 0" "MemShort inp = Fin 0" "MemLong inp = Fin 0" "ForecastCPU inp = Fin 0" "ForecastMem inp = Fin 0"
    "InMinCPU inp = None" "InMaxCPU inp = None" "InMinMemory inp = None" "InMaxMemory inp = None"
    "SchedulerBalanceScore inp = SchedulerBalanceUnknown"
    using l s q by (simp_all add: inp_def recommend_input_def Let_def ex_observation_def status_or_zero_def zero_ContainerStatus_def
        zero_CPUStats_def zero_MemoryStats_def overridesMap_def ex_wp_def)
  show "input_in_range list_sketch inp" using list_sketch_in_range [of "[]"] by (simp add: input_in_range_def i in_rng_def)
  show "bounds_in_range nano_amount inp" by (simp add: bounds_in_range_def i)
  have "f64_const (- 1) = Fin (- 1)" using to_f64_small [of "- 1" 1] binary64.rnd_of_int [of "- 1"] by (simp add: f64_const_def)
  then show "no_pressure inp" by (simp add: no_pressure_def i SchedulerBalanceUnknown_def fle_def)
qed

text \<open>Without feedback the biased engine returns the strategy's recommendation up to its rationale.\<close>

lemma unbiased_range:
  assumes "quantity Q amount" "ddsketch S" "input_in_range S inp" "bounds_in_range amount inp" "no_pressure inp"
    and "biasedEngine_Compute S Q (New mode (Some (NewLiveBias Q (Some Map.empty)))) inp = Inr r"
  shows "rec_range amount r"
proof -
  define B where "B = (NewLiveBias Q (Some Map.empty) :: ('a, 'b) BiasProvider)"
  obtain r0 where r0: "Strategy_Compute (eng_base (New mode (Some B))) S Q inp = Inr r0" "rec_range amount r0"
    using quantity.Strategy_Compute_ordered [OF assms(1-5)] by blast
  have b: "eng_bias (New mode (Some B)) = B" "bias_Apply B r inp = r" "PredictionRatios B n = (f64_const 1, f64_const 1)" for r n
    by (simp_all add: New_def B_def NewLiveBias_def LiveBias_Apply_def LiveBias_PredictionRatios_def feedback_of_def)
  show ?thesis
    using assms(6) r0(2) unfolding B_def [symmetric] biasedEngine_Compute_def b r0(1)
    by (auto simp: Let_def rec_range_def split: if_splits)
qed


end
