(* ===== verification/Sha256.thy ===== *)
theory Sha256
  imports Prelude "HOL-Library.Word"
begin

text \<open>
  SHA-256 as the Go standard library computes it (FIPS 180-4), on strings as byte lists, and the
  hexadecimal form of \<open>%x\<close>.  The names of child profiles are built from it.
\<close>

unbundle bit_operations_syntax

text \<open>
  The constants are the first 32 bits after the binary point of the cube roots and the square roots
  of the first primes; the root is found bit by bit, and the integer part is lost in the 32 bits.
\<close>

definition primes_to :: "nat \<Rightarrow> nat list" where
  "primes_to m = filter (\<lambda>n. list_all (\<lambda>d. n mod d \<noteq> 0) [2..<n]) [2..<Suc m]"

fun root_upto :: "nat \<Rightarrow> nat \<Rightarrow> nat \<Rightarrow> nat \<Rightarrow> nat" where
  "root_upto e n 0 r = r"
| "root_upto e n (Suc b) r = root_upto e n b (if (r + 2 ^ b) ^ e \<le> n then r + 2 ^ b else r)"

definition frac_root :: "nat \<Rightarrow> nat \<Rightarrow> 32 word" where
  "frac_root e p = of_nat (root_upto e (p * 2 ^ (32 * e)) 40 0)"

lemma root_upto_exact:
  "r ^ e \<le> n \<Longrightarrow> n < (r + 2 ^ b) ^ e \<Longrightarrow> root_upto e n b r ^ e \<le> n \<and> n < Suc (root_upto e n b r) ^ e"
  by (induction b arbitrary: r) (simp_all add: add.assoc flip: mult_2)

definition sha_K :: "32 word list" where
  "sha_K = map (frac_root 3) (primes_to 311)"

definition sha_H0 :: "32 word list" where
  "sha_H0 = map (frac_root 2) [2, 3, 5, 7, 11, 13, 17, 19]"

definition rotr :: "nat \<Rightarrow> 32 word \<Rightarrow> 32 word" where
  "rotr n x = drop_bit n x OR push_bit (32 - n) x"

text \<open>A one bit, zeros, and the length in bits as eight bytes, up to a multiple of 64 bytes.\<close>

definition sha_pad :: "int list \<Rightarrow> int list" where
  "sha_pad bs = bs @ 128 # replicate ((119 - length bs mod 64) mod 64) 0
     @ map (\<lambda>i. 8 * int (length bs) div 256 ^ (7 - i) mod 256) [0..<8]"

fun be_words :: "int list \<Rightarrow> 32 word list" where
  "be_words (a # b # c # d # rest) = of_int (a * 2 ^ 24 + b * 2 ^ 16 + c * 2 ^ 8 + d) # be_words rest"
| "be_words _ = []"

text \<open>The message schedule, newest word first.\<close>

fun sha_extend :: "nat \<Rightarrow> 32 word list \<Rightarrow> 32 word list" where
  "sha_extend 0 ws = ws"
| "sha_extend (Suc n) ws =
     (let s0 = (let x = ws ! 14 in rotr 7 x XOR rotr 18 x XOR drop_bit 3 x);
          s1 = (let x = ws ! 1 in rotr 17 x XOR rotr 19 x XOR drop_bit 10 x)
      in sha_extend n ((s1 + ws ! 6 + s0 + ws ! 15) # ws))"

type_synonym sha_state = "32 word \<times> 32 word \<times> 32 word \<times> 32 word \<times> 32 word \<times> 32 word \<times> 32 word \<times> 32 word"

fun sha_round :: "sha_state \<Rightarrow> 32 word \<times> 32 word \<Rightarrow> sha_state" where
  "sha_round (a, b, c, d, e, f, g, h) (k, w) =
     (let t1 = h + (rotr 6 e XOR rotr 11 e XOR rotr 25 e) + ((e AND f) XOR (NOT e AND g)) + k + w;
          t2 = (rotr 2 a XOR rotr 13 a XOR rotr 22 a) + ((a AND b) XOR (a AND c) XOR (b AND c))
      in (t1 + t2, a, b, c, d + t1, e, f, g))"

fun sha_tuple :: "32 word list \<Rightarrow> sha_state" where
  "sha_tuple [a, b, c, d, e, f, g, h] = (a, b, c, d, e, f, g, h)"
| "sha_tuple _ = (0, 0, 0, 0, 0, 0, 0, 0)"

definition sha_compress :: "32 word list \<Rightarrow> 32 word list \<Rightarrow> 32 word list" where
  "sha_compress hs block =
     (case foldl sha_round (sha_tuple hs) (zip sha_K (rev (sha_extend 48 (rev block)))) of
        (a, b, c, d, e, f, g, h) \<Rightarrow> map2 (+) hs [a, b, c, d, e, f, g, h])"

function sha_blocks :: "32 word list \<Rightarrow> 32 word list \<Rightarrow> 32 word list" where
  "sha_blocks hs ws = (if ws = [] then hs else sha_blocks (sha_compress hs (take 16 ws)) (drop 16 ws))"
  by auto
termination by (relation "measure (\<lambda>(hs, ws). length ws)") auto

declare sha_blocks.simps [simp del]

definition word_bytes :: "32 word \<Rightarrow> int list" where
  "word_bytes w = map (\<lambda>i. uint w div 256 ^ (3 - i) mod 256) [0..<4]"

definition Sum256 :: "string \<Rightarrow> int list" where
  "Sum256 s = concat (map word_bytes (sha_blocks sha_H0 (be_words (sha_pad (map of_char s)))))"

definition hex_digit :: "int \<Rightarrow> char" where
  "hex_digit n = (if n < 10 then char_of (48 + n) else char_of (87 + n))"

text \<open>\<open>fmt.Sprintf("%x", b)\<close> of a byte slice.\<close>

definition hex_of :: "int list \<Rightarrow> string" where
  "hex_of bs = concat (map (\<lambda>b. [hex_digit (b div 16), hex_digit (b mod 16)]) bs)"

section \<open>Lengths\<close>

lemma length_hex_of [simp]: "length (hex_of bs) = 2 * length bs"
  by (induction bs) (simp_all add: hex_of_def)

lemma length_sha_compress: "length hs = 8 \<Longrightarrow> length (sha_compress hs block) = 8"
  by (simp add: sha_compress_def split: prod.split)

lemma length_sha_blocks: "length hs = 8 \<Longrightarrow> length (sha_blocks hs ws) = 8"
proof (induction hs ws rule: sha_blocks.induct)
  case (1 hs ws)
  then show ?case by (subst sha_blocks.simps) (simp add: length_sha_compress)
qed

lemma length_Sum256 [simp]: "length (Sum256 s) = 32"
proof -
  have "length (concat (map word_bytes ws)) = 4 * length ws" for ws
    by (induction ws) (simp_all add: word_bytes_def)
  then show ?thesis by (simp add: Sum256_def length_sha_blocks sha_H0_def)
qed

end
