(* ===== verification/Childsync.thy ===== *)
theory Childsync
  imports Target Sha256
begin

text \<open>
  The children of a namespace or cluster profile: \<open>controller/childsync.go\<close>.  One workload profile per
  free key is created or updated, then every profile that carries the parent's labels and is not
  wanted any more is deleted.  \<open>CreateOrUpdate\<close> and the other calls are the client of \<open>Cluster\<close>;
  \<open>SetOwnerReference\<close> is a function of the library that may fail and sets a field nothing reads.
\<close>

section \<open>Names\<close>

definition truncate_name :: "string \<Rightarrow> nat \<Rightarrow> string" where
  "truncate_name s mx = (if length s \<le> mx then s else take mx s)"

definition childName :: "string \<Rightarrow> WorkloadKey \<Rightarrow> string" where
  "childName parentName key =
     (let h = Sum256 (parentName @ ''/'' @ KeyNamespace key @ ''/'' @ KeyKind key @ ''/'' @ KeyName key)
      in truncate_name parentName 40 @ ''-'' @ hex_of (take 4 h))"

section \<open>Creating and updating\<close>

definition parent_labels :: "string \<Rightarrow> string \<Rightarrow> (string \<times> string) list" where
  "parent_labels parentKind parentName =
     [(LabelManagedBy, ''true''), (LabelParentKind, parentKind), (LabelParentName, parentName)]"

definition new_child :: "string \<Rightarrow> WorkloadKey \<Rightarrow> 'q WorkloadProfile" where
  "new_child name key = \<lparr>ProfileName = name, ProfileNamespace = KeyNamespace key, ProfileUID = '''', ProfileGeneration = 0,
     ProfileLabels = Map.empty, ProfileDeleting = False,
     Spec = \<lparr>TargetRef = \<lparr>TargetKind = '''', TargetName = ''''\<rparr>, Mode = '''', SpecContainers = [],
             CooldownMinutes = None, CollectionIntervalSeconds = None\<rparr>,
     Status = zero_ProfileStatus\<rparr>"

definition child_spec :: "'q PolicySpec \<Rightarrow> WorkloadKey \<Rightarrow> 'q WorkloadProfileSpec" where
  "child_spec policy key = \<lparr>TargetRef = \<lparr>TargetKind = KeyKind key, TargetName = KeyName key\<rparr>,
     Mode = PolicyMode policy, SpecContainers = PolicyContainers policy, CooldownMinutes = PolicyCooldownMinutes policy,
     CollectionIntervalSeconds = PolicyCollectionIntervalSeconds policy\<rparr>"

text \<open>The mutation: labels and spec are overwritten, then the owner is set where there is one.\<close>

definition mutate_child :: "('q WorkloadProfile \<Rightarrow> api_error option) \<Rightarrow> string \<Rightarrow> string \<Rightarrow> 'q PolicySpec \<Rightarrow> WorkloadKey
    \<Rightarrow> 'q WorkloadProfile \<Rightarrow> api_error + 'q WorkloadProfile" where
  "mutate_child set_owner parentKind parentName policy key child =
     (let child1 = child\<lparr>ProfileLabels := map_of (parent_labels parentKind parentName), Spec := child_spec policy key\<rparr>
      in case set_owner child1 of Some e \<Rightarrow> Inl e | None \<Rightarrow> Inr child1)"

fun sync_keys :: "('c, 'q WorkloadProfile, 'sel) kind_client \<Rightarrow> (WorkloadKey \<Rightarrow> 'q WorkloadProfile \<Rightarrow> api_error + 'q WorkloadProfile)
    \<Rightarrow> (WorkloadKey \<Rightarrow> string) \<Rightarrow> (WorkloadKey \<Rightarrow> string) \<Rightarrow> 'c \<Rightarrow> WorkloadKey list \<Rightarrow> api_error option \<times> 'c" where
  "sync_keys P mutate name_of shown c [] = (None, c)"
| "sync_keys P mutate name_of shown c (key # keys) =
     (let (err, c1) = KCreateOrUpdate P c (new_child (name_of key) key) (mutate key) in
      case err of
        Some e \<Rightarrow> (Some (wrap_error (''sync child '' @ shown key) e), c1)
      | None \<Rightarrow> sync_keys P mutate name_of shown c1 keys)"

section \<open>Pruning\<close>

text \<open>A child is kept when it is desired; \<open>forgive\<close> is what the code makes of the error of a delete.\<close>

fun prune_children :: "('c, 'q WorkloadProfile, 'sel) kind_client \<Rightarrow> (api_error option \<Rightarrow> api_error option)
    \<Rightarrow> ('q WorkloadProfile \<Rightarrow> bool) \<Rightarrow> ('q WorkloadProfile \<Rightarrow> string) \<Rightarrow> 'c \<Rightarrow> 'q WorkloadProfile list \<Rightarrow> api_error option \<times> 'c" where
  "prune_children P forgive keep shown c [] = (None, c)"
| "prune_children P forgive keep shown c (wp # wps) =
     (if keep wp then prune_children P forgive keep shown c wps
      else let (err, c1) = KDelete P c wp in
           (case forgive err of
             Some e \<Rightarrow> (Some (wrap_error (''delete stale child '' @ shown wp) e), c1)
           | None \<Rightarrow> prune_children P forgive keep shown c1 wps))"

section \<open>The two synchronisations\<close>

definition syncChildren :: "('c, 'q WorkloadProfile, 'sel) kind_client \<Rightarrow> ('q WorkloadProfile \<Rightarrow> api_error option) \<Rightarrow> 'c
    \<Rightarrow> string \<Rightarrow> string \<Rightarrow> string \<Rightarrow> 'q PolicySpec \<Rightarrow> WorkloadKey list \<Rightarrow> (api_error + ChildReference list) \<times> 'c" where
  "syncChildren P set_owner c parentNamespace parentName parentKind policy freeKeys =
     (let name_of = childName parentName;
          (err, c1) = sync_keys P (mutate_child set_owner parentKind parentName policy) name_of name_of c freeKeys;
          children = map (\<lambda>key. \<lparr>ChildName = name_of key, ChildTargetKind = KeyKind key, ChildTargetName = KeyName key\<rparr>) freeKeys
      in case err of
           Some e \<Rightarrow> (Inl e, c1)
         | None \<Rightarrow>
             (case KList P c1 (Some parentNamespace) (MatchingLabels (parent_labels parentKind parentName)) of
                Inl e \<Rightarrow> (Inl (wrap_error ''list children for prune'' e), c1)
              | Inr items \<Rightarrow>
                  let (err2, c2) = prune_children P id (\<lambda>wp. ProfileName wp \<in> name_of ` set freeKeys) ProfileName c1 items
                  in (case err2 of Some e \<Rightarrow> Inl e | None \<Rightarrow> Inr children, c2)))"

definition ns_slash_name :: "string \<Rightarrow> string \<Rightarrow> string" where
  "ns_slash_name ns name = ns @ ''/'' @ name"

definition syncClusterChildren :: "('c, 'q WorkloadProfile, 'sel) kind_client \<Rightarrow> 'c \<Rightarrow> string \<Rightarrow> string \<Rightarrow> 'q PolicySpec
    \<Rightarrow> WorkloadKey list \<Rightarrow> (api_error + ClusterChildReference list) \<times> 'c" where
  "syncClusterChildren P c parentName parentKind policy freeKeys =
     (let name_of = childName parentName;
          (err, c1) = sync_keys P (mutate_child (\<lambda>_. None) parentKind parentName policy) name_of
                        (\<lambda>key. ns_slash_name (KeyNamespace key) (name_of key)) c freeKeys;
          children = map (\<lambda>key. \<lparr>CChildNamespace = KeyNamespace key, CChildName = name_of key,
                                 CChildTargetKind = KeyKind key, CChildTargetName = KeyName key\<rparr>) freeKeys
      in case err of
           Some e \<Rightarrow> (Inl e, c1)
         | None \<Rightarrow>
             (case KList P c1 None (MatchingLabels (parent_labels parentKind parentName)) of
                Inl e \<Rightarrow> (Inl (wrap_error ''list children for prune'' e), c1)
              | Inr items \<Rightarrow>
                  let (err2, c2) = prune_children P IgnoreNotFound
                        (\<lambda>wp. (ProfileNamespace wp, ProfileName wp) \<in> (\<lambda>key. (KeyNamespace key, name_of key)) ` set freeKeys)
                        (\<lambda>wp. ns_slash_name (ProfileNamespace wp) (ProfileName wp)) c1 items
                  in (case err2 of Some e \<Rightarrow> Inl e | None \<Rightarrow> Inr children, c2)))"

section \<open>Facts about names\<close>

lemma length_childName: "length (childName parentName key) = min 40 (length parentName) + 9"
  by (simp add: childName_def Let_def truncate_name_def)

text \<open>
  The cut at 40 characters can fall behind a dot: the name is then no DNS subdomain (a label may not
  start with a dash), and the API server refuses every child of that parent.
\<close>

lemma childName_dot_dash:
  assumes "length parentName > 40" "parentName ! 39 = CHR ''.''"
  shows "\<exists>pre post. childName parentName key = pre @ ''.-'' @ post"
proof -
  have "take 40 parentName = take 39 parentName @ [parentName ! 39]"
    using assms(1) take_Suc_conv_app_nth [of 39 parentName] by simp
  then have "childName parentName key = take 39 parentName @ ''.-'' @ hex_of (take 4 (Sum256 (parentName @ ''/'' @ KeyNamespace key @ ''/'' @ KeyKind key @ ''/'' @ KeyName key)))"
    using assms by (simp add: childName_def Let_def truncate_name_def)
  then show ?thesis by blast
qed

section \<open>The store of profiles\<close>

definition has_profile_labels :: "(string \<times> string) list \<Rightarrow> 'q WorkloadProfile \<Rightarrow> bool" where
  "has_profile_labels ls p \<longleftrightarrow> list_all (\<lambda>(k, v). ProfileLabels p k = Some v) ls"

text \<open>The server keeps the labels and the specification of what is sent.\<close>

definition child_agrees :: "'q WorkloadProfile \<Rightarrow> 'q WorkloadProfile \<Rightarrow> bool" where
  "child_agrees x y \<longleftrightarrow> profile_key y = profile_key x \<and> ProfileLabels y = ProfileLabels x \<and> Spec y = Spec x"

definition child_id :: "string \<Rightarrow> WorkloadKey \<Rightarrow> objkey" where
  "child_id parentName key = (KeyNamespace key, childName parentName key)"

text \<open>
  What a synchronisation is to achieve: each key has its child, with the parent's labels and the policy;
  other profiles with the parent's labels in scope are gone; the rest is as it was.
\<close>

definition children_synced :: "(string \<Rightarrow> bool) \<Rightarrow> string \<Rightarrow> string \<Rightarrow> 'q PolicySpec \<Rightarrow> WorkloadKey list
    \<Rightarrow> (objkey \<Rightarrow> 'q WorkloadProfile option) \<Rightarrow> (objkey \<Rightarrow> 'q WorkloadProfile option) \<Rightarrow> bool" where
  "children_synced in_scope parentKind parentName policy keys before after \<longleftrightarrow>
     (\<forall>key \<in> set keys. \<exists>x. after (child_id parentName key) = Some x
        \<and> has_profile_labels (parent_labels parentKind parentName) x \<and> Spec x = child_spec policy key) \<and>
     (\<forall>k. k \<in> child_id parentName ` set keys \<or>
        after k = (case before k of None \<Rightarrow> None
                   | Some x \<Rightarrow> if in_scope (fst k) \<and> has_profile_labels (parent_labels parentKind parentName) x then None else Some x))"

locale profile_store = object_store P objs profile_key has_profile_labels child_agrees
  for P :: "('c, 'q WorkloadProfile, 'sel) kind_client" and objs
begin

lemma sync_keys_ok:
  assumes mutate: "\<And>key x y. mutate key x = Inr y \<Longrightarrow> profile_key y = profile_key x \<and> good key (ProfileLabels y) (Spec y)"
    and "sync_keys P mutate name_of shown c keys = (None, c')"
  shows "(\<forall>k. k \<notin> (\<lambda>key. (KeyNamespace key, name_of key)) ` set keys \<longrightarrow> objs c' k = objs c k) \<and>
    (\<forall>key \<in> set keys. \<exists>key' \<in> set keys. \<exists>x. KeyNamespace key' = KeyNamespace key \<and> name_of key' = name_of key
       \<and> objs c' (KeyNamespace key, name_of key) = Some x \<and> good key' (ProfileLabels x) (Spec x))"
  using assms(2)
proof (induction keys arbitrary: c)
  case (Cons key keys)
  let ?id = "\<lambda>key. (KeyNamespace key, name_of key)"
  let ?new = "new_child (name_of key) key :: 'q WorkloadProfile"
  obtain c1 where c1: "KCreateOrUpdate P c ?new (mutate key) = (None, c1)" "sync_keys P mutate name_of shown c1 keys = (None, c')"
    using Cons.prems by (auto split: prod.splits option.splits)
  have new: "profile_key ?new = ?id key" by (simp add: profile_key_def new_child_def)
  obtain y z where yz: "mutate key (case objs c (?id key) of None \<Rightarrow> ?new | Some old \<Rightarrow> old) = Inr y"
      "child_agrees y z" "objs c1 = (objs c)(?id key \<mapsto> z)"
    using upsert_ok [OF c1(1)] unfolding new by blast
  have z: "good key (ProfileLabels z) (Spec z)" using mutate [OF yz(1)] yz(2) by (simp add: child_agrees_def)
  note IH = Cons.IH [OF c1(2)]
  show ?case
  proof (intro conjI ballI allI impI)
    fix k assume "k \<notin> ?id ` set (key # keys)"
    then show "objs c' k = objs c k" using spec [OF conjunct1 [OF IH], of k] yz(3) by simp
  next
    fix k assume k: "k \<in> set (key # keys)"
    show "\<exists>key' \<in> set (key # keys). \<exists>x. KeyNamespace key' = KeyNamespace k \<and> name_of key' = name_of k
       \<and> objs c' (?id k) = Some x \<and> good key' (ProfileLabels x) (Spec x)"
    proof (cases "?id k \<in> ?id ` set keys")
      case True
      then obtain k1 where k1: "k1 \<in> set keys" "KeyNamespace k1 = KeyNamespace k" "name_of k1 = name_of k" by auto
      from bspec [OF conjunct2 [OF IH] k1(1)] show ?thesis unfolding k1(2,3) by auto
    next
      case False
      then have "k = key" using k by auto
      then show ?thesis using False conjunct1 [OF IH] yz(3) z by auto
    qed
  qed
qed simp

lemma prune_children_ok:
  assumes "\<And>e. forgive e = None \<Longrightarrow> IgnoreNotFound e = None"
  shows "prune_children P forgive keep shown c items = (None, c') \<Longrightarrow>
     objs c' k = (if k \<in> profile_key ` {x \<in> set items. \<not> keep x} then None else objs c k)"
proof (induction items arbitrary: c)
  case (Cons x xs)
  show ?case
  proof (cases "keep x")
    case True
    then have "{y \<in> set (x # xs). \<not> keep y} = {y \<in> set xs. \<not> keep y}" by auto
    then show ?thesis using Cons True by simp
  next
    case False
    obtain err c1 where d: "KDelete P c x = (err, c1)" by fastforce
    with Cons.prems False have f: "forgive err = None" "prune_children P forgive keep shown c1 xs = (None, c')"
      by (auto split: option.splits)
    show ?thesis using Cons.IH [OF f(2)] delete_gone [OF d assms [OF f(1)]] False by auto
  qed
qed simp

text \<open>The loop over the keys makes the children and leaves every other profile alone.\<close>

lemma children_made:
  assumes "inj_on (child_id parentName) (set keys)"
    and "sync_keys P (mutate_child set_owner parentKind parentName policy) (childName parentName) shown c keys = (None, c1)"
  shows "k \<notin> child_id parentName ` set keys \<Longrightarrow> objs c1 k = objs c k"
    and "key \<in> set keys \<Longrightarrow> \<exists>x. objs c1 (child_id parentName key) = Some x
           \<and> has_profile_labels (parent_labels parentKind parentName) x \<and> Spec x = child_spec policy key"
proof -
  let ?L = "parent_labels parentKind parentName"
  have m: "\<And>key x y. mutate_child set_owner parentKind parentName policy key x = Inr y \<Longrightarrow>
     profile_key y = profile_key x \<and> ProfileLabels y = map_of ?L \<and> Spec y = child_spec policy key"
    by (auto simp: mutate_child_def Let_def profile_key_def split: option.splits)
  have id: "(\<lambda>key. (KeyNamespace key, childName parentName key)) = child_id parentName" by (simp add: child_id_def fun_eq_iff)
  note s = sync_keys_ok [where good = "\<lambda>key ls sp. ls = map_of ?L \<and> sp = child_spec policy key", OF m assms(2), unfolded id]
  show "objs c1 k = objs c k" if "k \<notin> child_id parentName ` set keys" using spec [OF conjunct1 [OF s], of k] that by simp
  assume key: "key \<in> set keys"
  obtain key' x where k: "key' \<in> set keys" "KeyNamespace key' = KeyNamespace key" "childName parentName key' = childName parentName key"
      "objs c1 (KeyNamespace key, childName parentName key) = Some x" "ProfileLabels x = map_of ?L" "Spec x = child_spec policy key'"
    using conjunct2 [OF s] key by blast
  then have "key' = key" using inj_onD [OF assms(1), of key' key] key by (simp add: child_id_def)
  moreover have "has_profile_labels ?L x"
    using k(5) by (simp add: has_profile_labels_def parent_labels_def LabelManagedBy_def LabelParentKind_def LabelParentName_def)
  ultimately show "\<exists>x. objs c1 (child_id parentName key) = Some x \<and> has_profile_labels ?L x \<and> Spec x = child_spec policy key"
    using k by (auto simp: child_id_def)
qed

text \<open>The stale children: labelled, in scope, and not among the keys.\<close>

lemma stale_children:
  assumes "KList P c1 nso (MatchingLabels L) = Inr items" "\<And>n. in_scope n = (case nso of None \<Rightarrow> True | Some m \<Rightarrow> n = m)"
    and "\<And>k. k \<notin> ids \<Longrightarrow> objs c1 k = objs c k"
    and "\<And>x. in_scope (ProfileNamespace x) \<Longrightarrow> keep x = (profile_key x \<in> ids)"
  shows "profile_key ` {x \<in> set items. \<not> keep x}
       = {k. k \<notin> ids \<and> in_scope (fst k) \<and> (\<exists>x. objs c k = Some x \<and> has_profile_labels L x)}" (is "?A = ?B")
proof
  have items: "set items = {x. objs c1 (profile_key x) = Some x \<and> has_profile_labels L x \<and> in_scope (ProfileNamespace x)}"
    using list_ok [OF assms(1)] by (auto simp: assms(2) profile_key_def split: option.splits)
  show "?A \<subseteq> ?B"
  proof
    fix k assume "k \<in> ?A"
    then obtain x where x: "k = profile_key x" "objs c1 k = Some x" "has_profile_labels L x" "in_scope (ProfileNamespace x)" "\<not> keep x"
      by (auto simp: items)
    then have "k \<notin> ids" using assms(4) by simp
    moreover from this have "objs c k = Some x" using x(2) assms(3) by simp
    ultimately show "k \<in> ?B" using x by (auto simp: profile_key_def)
  qed
  show "?B \<subseteq> ?A"
  proof
    fix k assume k: "k \<in> ?B"
    then obtain x where x: "objs c k = Some x" "has_profile_labels L x" by blast
    have "profile_key x = k" using x stored_key by blast
    moreover have "objs c1 k = Some x" using x k assms(3) by simp
    moreover have "in_scope (ProfileNamespace x)" using k \<open>profile_key x = k\<close> by (auto simp: profile_key_def)
    ultimately show "k \<in> ?A" using x k assms(4) by (auto simp: items image_iff intro!: exI [of _ x])
  qed
qed

text \<open>Both synchronisations: the loop over the keys, a listing in scope, the loop over the stale children.\<close>

lemma sync_then_prune:
  assumes "inj_on (child_id parentName) (set keys)"
    and "sync_keys P (mutate_child set_owner parentKind parentName policy) (childName parentName) shown c keys = (None, c1)"
    and "KList P c1 nso (MatchingLabels (parent_labels parentKind parentName)) = Inr items"
    and "\<And>n. in_scope n = (case nso of None \<Rightarrow> True | Some m \<Rightarrow> n = m)"
    and "prune_children P forgive keep shown' c1 items = (None, c')" "\<And>e. forgive e = None \<Longrightarrow> IgnoreNotFound e = None"
    and "\<And>x. in_scope (ProfileNamespace x) \<Longrightarrow> keep x = (profile_key x \<in> child_id parentName ` set keys)"
  shows "children_synced in_scope parentKind parentName policy keys (objs c) (objs c')"
proof -
  let ?ids = "child_id parentName ` set keys"
  note made = children_made [OF assms(1,2)]
  have after: "objs c' k = (if k \<in> profile_key ` {x \<in> set items. \<not> keep x} then None else objs c1 k)" for k
    by (rule prune_children_ok [OF assms(6) assms(5)])
  have stale: "profile_key ` {x \<in> set items. \<not> keep x} =
      {k. k \<notin> ?ids \<and> in_scope (fst k) \<and> (\<exists>x. objs c k = Some x \<and> has_profile_labels (parent_labels parentKind parentName) x)}"
    by (rule stale_children [OF assms(3,4) made(1) assms(7)])
  have "\<exists>x. objs c' (child_id parentName key) = Some x
        \<and> has_profile_labels (parent_labels parentKind parentName) x \<and> Spec x = child_spec policy key" if "key \<in> set keys" for key
    using made(2) [OF that] that unfolding after stale by simp
  moreover have "k \<in> ?ids \<or> objs c' k = (case objs c k of None \<Rightarrow> None
       | Some x \<Rightarrow> if in_scope (fst k) \<and> has_profile_labels (parent_labels parentKind parentName) x then None else Some x)" for k
    using after [of k] made(1) [of k] unfolding stale by (cases "k \<in> ?ids") (simp_all split: option.split)
  ultimately show ?thesis unfolding children_synced_def by blast
qed

end

interpretation mem_children: profile_store "mem_client profile_key has_profile_labels" "mem_objs profile_key"
  unfolding profile_store_def by (rule mem.weaken_agreement) (auto simp: child_agrees_def)

section \<open>What a synchronisation achieves\<close>

lemma syncChildren_steps:
  assumes "syncChildren P set_owner c ns parentName parentKind policy keys = (Inr children, c')"
  obtains c1 items where
    "sync_keys P (mutate_child set_owner parentKind parentName policy) (childName parentName) (childName parentName) c keys = (None, c1)"
    "KList P c1 (Some ns) (MatchingLabels (parent_labels parentKind parentName)) = Inr items"
    "prune_children P id (\<lambda>wp. ProfileName wp \<in> childName parentName ` set keys) ProfileName c1 items = (None, c')"
    "children = map (\<lambda>key. \<lparr>ChildName = childName parentName key, ChildTargetKind = KeyKind key, ChildTargetName = KeyName key\<rparr>) keys"
  using assms that by (auto simp: syncChildren_def Let_def split: prod.splits option.splits sum.splits)

lemma syncClusterChildren_steps:
  assumes "syncClusterChildren P c parentName parentKind policy keys = (Inr children, c')"
  obtains c1 items where
    "sync_keys P (mutate_child (\<lambda>_. None) parentKind parentName policy) (childName parentName)
        (\<lambda>key. ns_slash_name (KeyNamespace key) (childName parentName key)) c keys = (None, c1)"
    "KList P c1 None (MatchingLabels (parent_labels parentKind parentName)) = Inr items"
    "prune_children P IgnoreNotFound (\<lambda>wp. (ProfileNamespace wp, ProfileName wp) \<in> (\<lambda>key. (KeyNamespace key, childName parentName key)) ` set keys)
        (\<lambda>wp. ns_slash_name (ProfileNamespace wp) (ProfileName wp)) c1 items = (None, c')"
    "children = map (\<lambda>key. \<lparr>CChildNamespace = KeyNamespace key, CChildName = childName parentName key,
        CChildTargetKind = KeyKind key, CChildTargetName = KeyName key\<rparr>) keys"
  using assms that by (auto simp: syncClusterChildren_def Let_def split: prod.splits option.splits sum.splits)

lemma syncChildren_synced:
  fixes P :: "('c, 'q WorkloadProfile, 'sel) kind_client"
  assumes "profile_store P objs" "\<forall>key \<in> set keys. KeyNamespace key = ns" "inj_on (childName parentName) (set keys)"
    and "syncChildren P set_owner c ns parentName parentKind policy keys = (Inr children, c')"
  shows "children = map (\<lambda>key. \<lparr>ChildName = childName parentName key, ChildTargetKind = KeyKind key, ChildTargetName = KeyName key\<rparr>) keys
    \<and> children_synced (\<lambda>n. n = ns) parentKind parentName policy keys (objs c) (objs c')"
proof -
  obtain c1 items where s: "sync_keys P (mutate_child set_owner parentKind parentName policy) (childName parentName) (childName parentName) c keys = (None, c1)"
    "KList P c1 (Some ns) (MatchingLabels (parent_labels parentKind parentName)) = Inr items"
    "prune_children P id (\<lambda>wp. ProfileName wp \<in> childName parentName ` set keys) ProfileName c1 items = (None, c')"
    "children = map (\<lambda>key. \<lparr>ChildName = childName parentName key, ChildTargetKind = KeyKind key, ChildTargetName = KeyName key\<rparr>) keys"
    by (rule syncChildren_steps [OF assms(4)])
  have i: "inj_on (child_id parentName) (set keys)" using assms(3) by (auto simp: inj_on_def child_id_def)
  have k: "ProfileName x \<in> childName parentName ` set keys \<longleftrightarrow> profile_key x \<in> child_id parentName ` set keys"
    if "ProfileNamespace x = ns" for x :: "'q WorkloadProfile"
    using that assms(2) by (auto simp: profile_key_def child_id_def)
  have "children_synced (\<lambda>n. n = ns) parentKind parentName policy keys (objs c) (objs c')"
    by (rule profile_store.sync_then_prune [OF assms(1) i s(1,2) _ s(3)])
      (use k in \<open>simp_all add: IgnoreNotFound_def\<close>)
  with s(4) show ?thesis by simp
qed

lemma syncClusterChildren_synced:
  assumes "profile_store P objs" "inj_on (child_id parentName) (set keys)"
    and "syncClusterChildren P c parentName parentKind policy keys = (Inr children, c')"
  shows "children = map (\<lambda>key. \<lparr>CChildNamespace = KeyNamespace key, CChildName = childName parentName key,
        CChildTargetKind = KeyKind key, CChildTargetName = KeyName key\<rparr>) keys
    \<and> children_synced (\<lambda>n. True) parentKind parentName policy keys (objs c) (objs c')"
proof -
  obtain c1 items where s: "sync_keys P (mutate_child (\<lambda>_. None) parentKind parentName policy) (childName parentName)
        (\<lambda>key. ns_slash_name (KeyNamespace key) (childName parentName key)) c keys = (None, c1)"
    "KList P c1 None (MatchingLabels (parent_labels parentKind parentName)) = Inr items"
    "prune_children P IgnoreNotFound (\<lambda>wp. (ProfileNamespace wp, ProfileName wp) \<in> (\<lambda>key. (KeyNamespace key, childName parentName key)) ` set keys)
        (\<lambda>wp. ns_slash_name (ProfileNamespace wp) (ProfileName wp)) c1 items = (None, c')"
    "children = map (\<lambda>key. \<lparr>CChildNamespace = KeyNamespace key, CChildName = childName parentName key,
        CChildTargetKind = KeyKind key, CChildTargetName = KeyName key\<rparr>) keys"
    by (rule syncClusterChildren_steps [OF assms(3)])
  have "children_synced (\<lambda>n. True) parentKind parentName policy keys (objs c) (objs c')"
    by (rule profile_store.sync_then_prune [OF assms(1,2) s(1,2) _ s(3)]) (simp_all add: profile_key_def child_id_def)
  with s(4) show ?thesis by simp
qed

end
