(* ===== verification/Parents.thy ===== *)
theory Parents
  imports Childsync Conditions
begin

text \<open>
  The controllers of namespace and cluster profiles: \<open>controller/namespaceprofile_controller.go\<close> and
  \<open>controller/clusterprofile_controller.go\<close>.  Both list workloads, set aside those another profile
  claims, synchronise the children and write a status.  A cluster profile also holds a finalizer,
  because its children live in other namespaces and have no owner.
\<close>

section \<open>Shared steps\<close>

definition effectiveMaxTargets :: "int option \<Rightarrow> int \<Rightarrow> int" where
  "effectiveMaxTargets specMax defaultMax =
     (case specMax of Some m \<Rightarrow> if m > 0 then m else wrap32 defaultMax | None \<Rightarrow> wrap32 defaultMax)"

text \<open>One message per conflict, in the iteration order of the map.\<close>

definition conflict_messages :: "(string list \<Rightarrow> string list) \<Rightarrow> (string, string) gomap \<Rightarrow> string list" where
  "conflict_messages ord conflicting = map (\<lambda>(k, owner). k @ '' claimed by '' @ owner) (go_range ord conflicting)"

section \<open>Namespace profiles\<close>

record ('c, 'q, 'ls, 'sel) nsp_reconciler =
  nProfiles :: "('c, ('q, 'ls) NamespaceProfile, 'sel) kind_client"
  nDeployments :: "('c, ('q, 'ls) Workload, 'sel) kind_client"
  nStatefulSets :: "('c, ('q, 'ls) Workload, 'sel) kind_client"
  nChildren :: "('c, 'q WorkloadProfile, 'sel) kind_client"
  nAsSelector :: "'ls \<Rightarrow> api_error + 'sel"
  nSetOwner :: "('q, 'ls) NamespaceProfile \<Rightarrow> 'q WorkloadProfile \<Rightarrow> api_error option"
  nSetCond :: "Condition list \<Rightarrow> Condition \<Rightarrow> Condition list"
  nRetry :: "('c \<Rightarrow> api_error option \<times> 'c) \<Rightarrow> 'c \<Rightarrow> api_error option \<times> 'c"
  nOrd :: "string list \<Rightarrow> string list"

definition namespaceProfileResyncInterval :: int where
  "namespaceProfileResyncInterval = 60 * second_ns"

definition nsp_key :: "('q, 'ls) NamespaceProfile \<Rightarrow> objkey" where
  "nsp_key p = (NspNamespace p, NspName p)"

definition setNSPCondition :: "(Condition list \<Rightarrow> Condition \<Rightarrow> Condition list) \<Rightarrow> ('q, 'ls) NamespaceProfile
    \<Rightarrow> string \<Rightarrow> string \<Rightarrow> string \<Rightarrow> string \<Rightarrow> ('q, 'ls) NamespaceProfile" where
  "setNSPCondition set_cond p t status reason message =
     p\<lparr>NspStatus := (NspStatus p)\<lparr>NspConditions := set_cond (NspConditions (NspStatus p))
        \<lparr>CondType = t, CondStatus = status, CondReason = reason, CondMessage = message,
         CondObservedGeneration = NspGeneration p\<rparr>\<rparr>\<rparr>"

definition patchNSPStatus :: "('c, 'q, 'ls, 'sel) nsp_reconciler \<Rightarrow> 'c \<Rightarrow> ('q, 'ls) NamespaceProfile \<Rightarrow> api_error option \<times> 'c" where
  "patchNSPStatus R c p = nRetry R (\<lambda>c.
     case KGet (nProfiles R) c (nsp_key p) of
       Inl e \<Rightarrow> (Some e, c)
     | Inr fresh \<Rightarrow> KStatus (nProfiles R) c (fresh\<lparr>NspStatus := NspStatus p\<rparr>)) c"

type_synonym ('c, 'p) parent_outcome = "ctrl_Result \<times> api_error option \<times> 'c \<times> 'p option"

text \<open>The status is written; its error goes first, then the one that led here, else the given result.\<close>

definition nsp_finish :: "('c, 'q, 'ls, 'sel) nsp_reconciler \<Rightarrow> 'c \<Rightarrow> ('q, 'ls) NamespaceProfile \<Rightarrow> api_error option
    \<Rightarrow> ('c, ('q, 'ls) NamespaceProfile) parent_outcome" where
  "nsp_finish R c p err =
     (let (uerr, c1) = patchNSPStatus R c p in
      case uerr of
        Some e \<Rightarrow> (no_requeue, Some e, c1, Some p)
      | None \<Rightarrow> (case err of
            Some e \<Rightarrow> (no_requeue, Some e, c1, Some p)
          | None \<Rightarrow> (no_requeue\<lparr>RequeueAfter := namespaceProfileResyncInterval\<rparr>, None, c1, Some p)))"

definition nsp_no_targets :: "(Condition list \<Rightarrow> Condition \<Rightarrow> Condition list) \<Rightarrow> ('q, 'ls) NamespaceProfile \<Rightarrow> ('q, 'ls) NamespaceProfile" where
  "nsp_no_targets set_cond p =
     (let p1 = setNSPCondition set_cond p ConditionTypeSelectorResolved ConditionFalse ''NoTargetsFound'' ''selector matched zero workloads'';
          p2 = setNSPCondition set_cond p1 ConditionTypeSelectorConflict ConditionFalse ''NoConflict'' ''no targets to conflict'';
          p3 = setNSPCondition set_cond p2 ConditionTypeChildrenSynced ConditionFalse ''NoTargets'' ''nothing to sync''
      in p3\<lparr>NspStatus := (NspStatus p3)\<lparr>NspActiveChildren := 0, NspChildren := []\<rparr>\<rparr>)"

definition nsp_conflict_condition :: "(Condition list \<Rightarrow> Condition \<Rightarrow> Condition list) \<Rightarrow> ('q, 'ls) NamespaceProfile \<Rightarrow> string list
    \<Rightarrow> ('q, 'ls) NamespaceProfile" where
  "nsp_conflict_condition set_cond p msgs =
     (if msgs \<noteq> []
      then setNSPCondition set_cond p ConditionTypeSelectorConflict ConditionTrue ''OverlappingSelector'' (str_join ''; '' msgs)
      else setNSPCondition set_cond p ConditionTypeSelectorConflict ConditionFalse ''NoConflict'' ''no overlapping selectors'')"

definition nsp_sync :: "('c, 'q, 'ls, 'sel) nsp_reconciler \<Rightarrow> 'c \<Rightarrow> ('q, 'ls) NamespaceProfile \<Rightarrow> WorkloadKey list
    \<Rightarrow> ('c, ('q, 'ls) NamespaceProfile) parent_outcome" where
  "nsp_sync R c p free =
     (let (synced, c1) = syncChildren (nChildren R) (nSetOwner R p) c (NspNamespace p) (NspName p) ''NamespaceProfile''
                           (NspPolicy (NspSpec p)) free
      in case synced of
           Inl e \<Rightarrow> nsp_finish R c1 (setNSPCondition (nSetCond R) p ConditionTypeChildrenSynced ConditionFalse ''SyncError'' (ErrText e)) (Some e)
         | Inr children \<Rightarrow>
             let p1 = p\<lparr>NspStatus := (NspStatus p)\<lparr>NspActiveChildren := wrap32 (int (length children)), NspChildren := children\<rparr>\<rparr>
             in nsp_finish R c1 (setNSPCondition (nSetCond R) p1 ConditionTypeChildrenSynced ConditionTrue ''Synced''
                  (itoa (int (length children)) @ '' child WorkloadProfile(s) synced'')) None)"

definition NamespaceProfile_Reconcile :: "('c, 'q, 'ls, 'sel) nsp_reconciler \<Rightarrow> 'c \<Rightarrow> objkey
    \<Rightarrow> ('c, ('q, 'ls) NamespaceProfile) parent_outcome" where
  "NamespaceProfile_Reconcile R c req =
     (case KGet (nProfiles R) c req of
        Inl e \<Rightarrow> (no_requeue, IgnoreNotFound (Some e), c, None)
      | Inr profile \<Rightarrow>
          if NspDeleting profile then (no_requeue, None, c, None)
          else
            (case ListWorkloads (nAsSelector R) (nDeployments R) (nStatefulSets R) c (NspNamespace profile) (NspSelector (NspSpec profile))
                    (effectiveMaxTargets (NspMaxTargets (NspSpec profile)) DefaultMaxTargets) of
               Inl e \<Rightarrow> nsp_finish R c (setNSPCondition (nSetCond R) profile ConditionTypeSelectorResolved ConditionFalse ''ListError'' (ErrText e)) (Some e)
             | Inr keys \<Rightarrow>
                 let p0 = profile\<lparr>NspStatus := (NspStatus profile)\<lparr>NspResolvedCount := wrap32 (int (length keys))\<rparr>\<rparr> in
                 if keys = [] then nsp_finish R c (nsp_no_targets (nSetCond R) p0) None
                 else
                   let p1 = setNSPCondition (nSetCond R) p0 ConditionTypeSelectorResolved ConditionTrue ''Resolved''
                              (''matched '' @ itoa (int (length keys)) @ '' workload(s)'')
                   in (case DetectConflicts (nChildren R) c (NspNamespace profile) keys ''NamespaceProfile'' (NspName profile) of
                         Inl e \<Rightarrow> (no_requeue, Some (wrap_error ''detect conflicts'' e), c, Some p1)
                       | Inr conflicts \<Rightarrow>
                           nsp_sync R c (nsp_conflict_condition (nSetCond R) p1 (conflict_messages (nOrd R) (Conflicting conflicts)))
                             (Free conflicts))))"

text \<open>The profiles to look at again when a workload of the namespace changes.\<close>

definition mapWorkloadToNSP :: "('c, 'q, 'ls, 'sel) nsp_reconciler \<Rightarrow> 'c \<Rightarrow> string \<Rightarrow> objkey list" where
  "mapWorkloadToNSP R c ns =
     (case KList (nProfiles R) c (Some ns) AllLabels of Inl _ \<Rightarrow> [] | Inr items \<Rightarrow> map nsp_key items)"

section \<open>Cluster profiles\<close>

text \<open>The finalizer helpers of controller-runtime, with what they document.\<close>

record finalizer_api =
  ContainsFinalizer :: "string list \<Rightarrow> string \<Rightarrow> bool"
  AddFinalizer :: "string list \<Rightarrow> string \<Rightarrow> string list"
  RemoveFinalizer :: "string list \<Rightarrow> string \<Rightarrow> string list"

locale finalizers =
  fixes F :: finalizer_api
  assumes contains_iff: "ContainsFinalizer F fs f \<longleftrightarrow> f \<in> set fs"
    and add_set: "set (AddFinalizer F fs f) = insert f (set fs)"
    and remove_set: "set (RemoveFinalizer F fs f) = set fs - {f}"

definition list_finalizers :: finalizer_api where
  "list_finalizers = \<lparr>ContainsFinalizer = (\<lambda>fs f. f \<in> set fs), AddFinalizer = (\<lambda>fs f. if f \<in> set fs then fs else fs @ [f]),
     RemoveFinalizer = (\<lambda>fs f. filter (\<lambda>x. x \<noteq> f) fs)\<rparr>"

interpretation list_fin: finalizers list_finalizers
  by unfold_locales (auto simp: list_finalizers_def)

record ('c, 'q, 'ls, 'sel) csp_reconciler =
  cProfiles :: "('c, ('q, 'ls) ClusterProfile, 'sel) kind_client"
  cNamespaces :: "('c, string, 'sel) kind_client"
  cDeployments :: "('c, ('q, 'ls) Workload, 'sel) kind_client"
  cStatefulSets :: "('c, ('q, 'ls) Workload, 'sel) kind_client"
  cChildren :: "('c, 'q WorkloadProfile, 'sel) kind_client"
  cAsSelector :: "'ls \<Rightarrow> api_error + 'sel"
  cFinalizers :: finalizer_api
  cSetCond :: "Condition list \<Rightarrow> Condition \<Rightarrow> Condition list"
  cRetry :: "('c \<Rightarrow> api_error option \<times> 'c) \<Rightarrow> 'c \<Rightarrow> api_error option \<times> 'c"
  cOrd :: "string list \<Rightarrow> string list"

definition clusterProfileResyncInterval :: int where "clusterProfileResyncInterval = 90 * second_ns"
definition clusterProfileDefaultMaxTargets :: int where "clusterProfileDefaultMaxTargets = 200"
definition clusterProfileFinalizer :: string where "clusterProfileFinalizer = ''autosize.saturdai.auto/cluster-profile''"

text \<open>A cluster-scoped object has no namespace.\<close>

definition csp_key :: "('q, 'ls) ClusterProfile \<Rightarrow> objkey" where
  "csp_key p = ('''', CspName p)"

definition setCSPCondition :: "(Condition list \<Rightarrow> Condition \<Rightarrow> Condition list) \<Rightarrow> ('q, 'ls) ClusterProfile
    \<Rightarrow> string \<Rightarrow> string \<Rightarrow> string \<Rightarrow> string \<Rightarrow> ('q, 'ls) ClusterProfile" where
  "setCSPCondition set_cond p t status reason message =
     p\<lparr>CspStatus := (CspStatus p)\<lparr>CspConditions := set_cond (CspConditions (CspStatus p))
        \<lparr>CondType = t, CondStatus = status, CondReason = reason, CondMessage = message,
         CondObservedGeneration = CspGeneration p\<rparr>\<rparr>\<rparr>"

definition patchCSPStatus :: "('c, 'q, 'ls, 'sel) csp_reconciler \<Rightarrow> 'c \<Rightarrow> ('q, 'ls) ClusterProfile \<Rightarrow> api_error option \<times> 'c" where
  "patchCSPStatus R c p = cRetry R (\<lambda>c.
     case KGet (cProfiles R) c (csp_key p) of
       Inl e \<Rightarrow> (Some e, c)
     | Inr fresh \<Rightarrow> KStatus (cProfiles R) c (fresh\<lparr>CspStatus := CspStatus p\<rparr>)) c"

definition csp_finish :: "('c, 'q, 'ls, 'sel) csp_reconciler \<Rightarrow> 'c \<Rightarrow> ('q, 'ls) ClusterProfile \<Rightarrow> api_error option
    \<Rightarrow> ('c, ('q, 'ls) ClusterProfile) parent_outcome" where
  "csp_finish R c p err =
     (let (uerr, c1) = patchCSPStatus R c p in
      case uerr of
        Some e \<Rightarrow> (no_requeue, Some e, c1, Some p)
      | None \<Rightarrow> (case err of
            Some e \<Rightarrow> (no_requeue, Some e, c1, Some p)
          | None \<Rightarrow> (no_requeue\<lparr>RequeueAfter := clusterProfileResyncInterval\<rparr>, None, c1, Some p)))"

definition groupKeysByNamespace :: "WorkloadKey list \<Rightarrow> (string, WorkloadKey list) gomap" where
  "groupKeysByNamespace keys =
     foldl (\<lambda>m k. gm_put (KeyNamespace k) (case map_of m (KeyNamespace k) of None \<Rightarrow> [k] | Some ks \<Rightarrow> ks @ [k]) m) [] keys"

text \<open>Conflicts, namespace by namespace: the free keys and the messages so far are the accumulator.\<close>

fun detect_by_namespace :: "(string list \<Rightarrow> string list) \<Rightarrow> (string \<Rightarrow> WorkloadKey list \<Rightarrow> api_error + ConflictResult)
    \<Rightarrow> WorkloadKey list \<times> string list \<Rightarrow> (string \<times> WorkloadKey list) list \<Rightarrow> api_error + WorkloadKey list \<times> string list" where
  "detect_by_namespace ord detect acc [] = Inr acc"
| "detect_by_namespace ord detect (allFree, msgs) ((ns, nsKeys) # rest) =
     (case detect ns nsKeys of
        Inl e \<Rightarrow> Inl (wrap_error (''detect conflicts in '' @ ns) e)
      | Inr r \<Rightarrow> detect_by_namespace ord detect (allFree @ Free r, msgs @ conflict_messages ord (Conflicting r)) rest)"

definition csp_no_targets :: "(Condition list \<Rightarrow> Condition \<Rightarrow> Condition list) \<Rightarrow> ('q, 'ls) ClusterProfile \<Rightarrow> ('q, 'ls) ClusterProfile" where
  "csp_no_targets set_cond p =
     (let p1 = setCSPCondition set_cond p ConditionTypeSelectorResolved ConditionFalse ''NoTargetsFound''
                 ''selector matched zero workloads across all namespaces'';
          p2 = setCSPCondition set_cond p1 ConditionTypeSelectorConflict ConditionFalse ''NoConflict'' ''no targets to conflict'';
          p3 = setCSPCondition set_cond p2 ConditionTypeChildrenSynced ConditionFalse ''NoTargets'' ''nothing to sync''
      in p3\<lparr>CspStatus := (CspStatus p3)\<lparr>CspActiveChildren := 0, CspChildren := []\<rparr>\<rparr>)"

definition csp_conflict_condition :: "(Condition list \<Rightarrow> Condition \<Rightarrow> Condition list) \<Rightarrow> ('q, 'ls) ClusterProfile \<Rightarrow> string list
    \<Rightarrow> ('q, 'ls) ClusterProfile" where
  "csp_conflict_condition set_cond p msgs =
     (if msgs \<noteq> []
      then setCSPCondition set_cond p ConditionTypeSelectorConflict ConditionTrue ''OverlappingSelector'' (str_join ''; '' msgs)
      else setCSPCondition set_cond p ConditionTypeSelectorConflict ConditionFalse ''NoConflict'' ''no overlapping selectors'')"

definition csp_sync :: "('c, 'q, 'ls, 'sel) csp_reconciler \<Rightarrow> 'c \<Rightarrow> ('q, 'ls) ClusterProfile \<Rightarrow> WorkloadKey list
    \<Rightarrow> ('c, ('q, 'ls) ClusterProfile) parent_outcome" where
  "csp_sync R c p free =
     (let (synced, c1) = syncClusterChildren (cChildren R) c (CspName p) ''ClusterProfile'' (CspPolicy (CspSpec p)) free
      in case synced of
           Inl e \<Rightarrow> csp_finish R c1 (setCSPCondition (cSetCond R) p ConditionTypeChildrenSynced ConditionFalse ''SyncError'' (ErrText e)) (Some e)
         | Inr children \<Rightarrow>
             let p1 = p\<lparr>CspStatus := (CspStatus p)\<lparr>CspActiveChildren := wrap32 (int (length children)), CspChildren := children\<rparr>\<rparr>
             in csp_finish R c1 (setCSPCondition (cSetCond R) p1 ConditionTypeChildrenSynced ConditionTrue ''Synced''
                  (itoa (int (length children)) @ '' child WorkloadProfile(s) synced'')) None)"

definition zero_policy :: "'q PolicySpec" where
  "zero_policy = \<lparr>PolicyMode = '''', PolicyContainers = [], PolicyCooldownMinutes = None, PolicyCollectionIntervalSeconds = None\<rparr>"

text \<open>Deletion: without the finalizer nothing is left to do; with it the children go first.\<close>

definition csp_delete :: "('c, 'q, 'ls, 'sel) csp_reconciler \<Rightarrow> 'c \<Rightarrow> ('q, 'ls) ClusterProfile
    \<Rightarrow> ('c, ('q, 'ls) ClusterProfile) parent_outcome" where
  "csp_delete R c p =
     (if \<not> ContainsFinalizer (cFinalizers R) (CspFinalizers p) clusterProfileFinalizer then (no_requeue, None, c, None)
      else
        let (synced, c1) = syncClusterChildren (cChildren R) c (CspName p) ''ClusterProfile'' zero_policy []
        in (case synced of
              Inl e \<Rightarrow> (no_requeue, Some e, c1, None)
            | Inr _ \<Rightarrow>
                let p1 = p\<lparr>CspFinalizers := RemoveFinalizer (cFinalizers R) (CspFinalizers p) clusterProfileFinalizer\<rparr>;
                    (err, c2) = KUpdate (cProfiles R) c1 p1
                in (no_requeue, err, c2, Some p1)))"

definition csp_observe :: "('c, 'q, 'ls, 'sel) csp_reconciler \<Rightarrow> 'c \<Rightarrow> ('q, 'ls) ClusterProfile
    \<Rightarrow> ('c, ('q, 'ls) ClusterProfile) parent_outcome" where
  "csp_observe R c profile =
     (case MatchedNamespaceCount (cAsSelector R) (cNamespaces R) c (CspNamespaceSelector (CspSpec profile)) of
        Inl e \<Rightarrow> csp_finish R c (setCSPCondition (cSetCond R) profile ConditionTypeSelectorResolved ConditionFalse ''NamespaceListError'' (ErrText e)) (Some e)
      | Inr nsCount \<Rightarrow>
          let p0 = profile\<lparr>CspStatus := (CspStatus profile)\<lparr>CspMatchedNamespaces := wrap32 nsCount\<rparr>\<rparr> in
          (case ListClusterWorkloads (cAsSelector R) (cNamespaces R) (cDeployments R) (cStatefulSets R) c
                  (CspNamespaceSelector (CspSpec profile)) (CspSelector (CspSpec profile))
                  (effectiveMaxTargets (CspMaxTargets (CspSpec profile)) clusterProfileDefaultMaxTargets) of
             Inl e \<Rightarrow> csp_finish R c (setCSPCondition (cSetCond R) p0 ConditionTypeSelectorResolved ConditionFalse ''ListError'' (ErrText e)) (Some e)
           | Inr keys \<Rightarrow>
               let p1 = p0\<lparr>CspStatus := (CspStatus p0)\<lparr>CspResolvedCount := wrap32 (int (length keys))\<rparr>\<rparr> in
               if keys = [] then csp_finish R c (csp_no_targets (cSetCond R) p1) None
               else
                 let p2 = setCSPCondition (cSetCond R) p1 ConditionTypeSelectorResolved ConditionTrue ''Resolved''
                            (''matched '' @ itoa (int (length keys)) @ '' workload(s) across '' @ itoa nsCount @ '' namespace(s)'')
                 in (case detect_by_namespace (cOrd R)
                            (\<lambda>ns nsKeys. DetectConflicts (cChildren R) c ns nsKeys ''ClusterProfile'' (CspName profile))
                            ([], []) (go_range (cOrd R) (groupKeysByNamespace keys)) of
                       Inl e \<Rightarrow> (no_requeue, Some e, c, Some p2)
                     | Inr (allFree, msgs) \<Rightarrow> csp_sync R c (csp_conflict_condition (cSetCond R) p2 msgs) allFree)))"

definition ClusterProfile_Reconcile :: "('c, 'q, 'ls, 'sel) csp_reconciler \<Rightarrow> 'c \<Rightarrow> objkey
    \<Rightarrow> ('c, ('q, 'ls) ClusterProfile) parent_outcome" where
  "ClusterProfile_Reconcile R c req =
     (case KGet (cProfiles R) c req of
        Inl e \<Rightarrow> (no_requeue, IgnoreNotFound (Some e), c, None)
      | Inr profile \<Rightarrow>
          if CspDeleting profile then csp_delete R c profile
          else if \<not> ContainsFinalizer (cFinalizers R) (CspFinalizers profile) clusterProfileFinalizer
          then let p1 = profile\<lparr>CspFinalizers := AddFinalizer (cFinalizers R) (CspFinalizers profile) clusterProfileFinalizer\<rparr>;
                   (err, c1) = KUpdate (cProfiles R) c p1
               in (case err of Some e \<Rightarrow> (no_requeue, Some e, c1, Some p1)
                   | None \<Rightarrow> (no_requeue\<lparr>Requeue := True\<rparr>, None, c1, Some p1))
          else csp_observe R c profile)"

definition allClusterProfiles :: "('c, 'q, 'ls, 'sel) csp_reconciler \<Rightarrow> 'c \<Rightarrow> objkey list" where
  "allClusterProfiles R c = (case KList (cProfiles R) c None AllLabels of Inl _ \<Rightarrow> [] | Inr items \<Rightarrow> map csp_key items)"

definition mapNamespaceToCSP :: "('c, 'q, 'ls, 'sel) csp_reconciler \<Rightarrow> 'c \<Rightarrow> string \<Rightarrow> objkey list" where
  "mapNamespaceToCSP R c obj = allClusterProfiles R c"

definition mapWorkloadToCSP :: "('c, 'q, 'ls, 'sel) csp_reconciler \<Rightarrow> 'c \<Rightarrow> string \<Rightarrow> objkey list" where
  "mapWorkloadToCSP R c obj = allClusterProfiles R c"

section \<open>Facts\<close>

definition cond_status :: "Condition list \<Rightarrow> string \<Rightarrow> string option" where
  "cond_status cs t = map_option CondStatus (find_condition cs t)"

lemma cond_status_set:
  assumes "condition_setter set_cond"
  shows "cond_status (NspConditions (NspStatus (setNSPCondition set_cond p t s r m))) t' =
      (if t' = t then Some s else cond_status (NspConditions (NspStatus p)) t')"
    and "cond_status (CspConditions (CspStatus (setCSPCondition set_cond q t s r m))) t' =
      (if t' = t then Some s else cond_status (CspConditions (CspStatus q)) t')"
  using condition_setter.set_same [OF assms, of _ "\<lparr>CondType = t, CondStatus = s, CondReason = r, CondMessage = m, CondObservedGeneration = g\<rparr>" for g]
    condition_setter.set_other [OF assms, of t' "\<lparr>CondType = t, CondStatus = s, CondReason = r, CondMessage = m, CondObservedGeneration = g\<rparr>" for g]
  by (auto simp: cond_status_def setNSPCondition_def setCSPCondition_def)

lemma parent_condition_types [simp]:
  "ConditionTypeSelectorConflict \<noteq> ConditionTypeChildrenSynced" "ConditionTypeChildrenSynced \<noteq> ConditionTypeSelectorConflict"
  "ConditionTypeSelectorResolved \<noteq> ConditionTypeChildrenSynced" "ConditionTypeSelectorResolved \<noteq> ConditionTypeSelectorConflict"
  by (simp_all add: ConditionTypeSelectorConflict_def ConditionTypeChildrenSynced_def ConditionTypeSelectorResolved_def)

lemma setNSPCondition_frame [simp]:
  "NspSpec (setNSPCondition f p t s r m) = NspSpec p" "NspName (setNSPCondition f p t s r m) = NspName p"
  "NspNamespace (setNSPCondition f p t s r m) = NspNamespace p"
  "NspResolvedCount (NspStatus (setNSPCondition f p t s r m)) = NspResolvedCount (NspStatus p)"
  "NspActiveChildren (NspStatus (setNSPCondition f p t s r m)) = NspActiveChildren (NspStatus p)"
  "NspChildren (NspStatus (setNSPCondition f p t s r m)) = NspChildren (NspStatus p)"
  by (simp_all add: setNSPCondition_def)

lemma setCSPCondition_frame [simp]:
  "CspSpec (setCSPCondition f q t s r m) = CspSpec q" "CspName (setCSPCondition f q t s r m) = CspName q"
  "CspResolvedCount (CspStatus (setCSPCondition f q t s r m)) = CspResolvedCount (CspStatus q)"
  "CspActiveChildren (CspStatus (setCSPCondition f q t s r m)) = CspActiveChildren (CspStatus q)"
  "CspChildren (CspStatus (setCSPCondition f q t s r m)) = CspChildren (CspStatus q)"
  "CspMatchedNamespaces (CspStatus (setCSPCondition f q t s r m)) = CspMatchedNamespaces (CspStatus q)"
  by (simp_all add: setCSPCondition_def)

lemma conflict_condition_frame [simp]:
  "NspSpec (nsp_conflict_condition f p ms) = NspSpec p" "NspName (nsp_conflict_condition f p ms) = NspName p"
  "NspNamespace (nsp_conflict_condition f p ms) = NspNamespace p"
  "NspResolvedCount (NspStatus (nsp_conflict_condition f p ms)) = NspResolvedCount (NspStatus p)"
  "CspSpec (csp_conflict_condition f q ms) = CspSpec q" "CspName (csp_conflict_condition f q ms) = CspName q"
  "CspResolvedCount (CspStatus (csp_conflict_condition f q ms)) = CspResolvedCount (CspStatus q)"
  "CspMatchedNamespaces (CspStatus (csp_conflict_condition f q ms)) = CspMatchedNamespaces (CspStatus q)"
  by (simp_all add: nsp_conflict_condition_def csp_conflict_condition_def)

lemma nsp_finish_ok:
  "nsp_finish R c p err = (res, None, c', op) \<longleftrightarrow>
     err = None \<and> patchNSPStatus R c p = (None, c') \<and> op = Some p \<and> res = no_requeue\<lparr>RequeueAfter := namespaceProfileResyncInterval\<rparr>"
  by (auto simp: nsp_finish_def Let_def split: prod.splits option.splits)

lemma csp_finish_ok:
  "csp_finish R c p err = (res, None, c', op) \<longleftrightarrow>
     err = None \<and> patchCSPStatus R c p = (None, c') \<and> op = Some p \<and> res = no_requeue\<lparr>RequeueAfter := clusterProfileResyncInterval\<rparr>"
  by (auto simp: csp_finish_def Let_def split: prod.splits option.splits)

text \<open>A synchronisation that ends without an error.\<close>

lemma nsp_sync_ok:
  assumes "nsp_sync R c p free = (res, None, c', op)"
  obtains children c1 q where
    "syncChildren (nChildren R) (nSetOwner R p) c (NspNamespace p) (NspName p) ''NamespaceProfile'' (NspPolicy (NspSpec p)) free = (Inr children, c1)"
    "op = Some q" "patchNSPStatus R c1 q = (None, c')" "res = no_requeue\<lparr>RequeueAfter := namespaceProfileResyncInterval\<rparr>"
    "q = setNSPCondition (nSetCond R) (p\<lparr>NspStatus := (NspStatus p)\<lparr>NspActiveChildren := wrap32 (int (length children)), NspChildren := children\<rparr>\<rparr>)
           ConditionTypeChildrenSynced ConditionTrue ''Synced'' (itoa (int (length children)) @ '' child WorkloadProfile(s) synced'')"
  using assms that by (auto simp: nsp_sync_def Let_def nsp_finish_ok split: prod.splits sum.splits)

lemma csp_sync_ok:
  assumes "csp_sync R c p free = (res, None, c', op)"
  obtains children c1 q where
    "syncClusterChildren (cChildren R) c (CspName p) ''ClusterProfile'' (CspPolicy (CspSpec p)) free = (Inr children, c1)"
    "op = Some q" "patchCSPStatus R c1 q = (None, c')" "res = no_requeue\<lparr>RequeueAfter := clusterProfileResyncInterval\<rparr>"
    "q = setCSPCondition (cSetCond R) (p\<lparr>CspStatus := (CspStatus p)\<lparr>CspActiveChildren := wrap32 (int (length children)), CspChildren := children\<rparr>\<rparr>)
           ConditionTypeChildrenSynced ConditionTrue ''Synced'' (itoa (int (length children)) @ '' child WorkloadProfile(s) synced'')"
  using assms that by (auto simp: csp_sync_def Let_def csp_finish_ok split: prod.splits sum.splits)

lemma conflict_messages_empty:
  assumes "ord_ok ord" "gomap_ok m"
  shows "conflict_messages ord m = [] \<longleftrightarrow> m = []"
  using go_range_length [OF assms] by (auto simp: conflict_messages_def)

lemma DetectConflicts_facts:
  fixes P :: "('c, 'q WorkloadProfile, 'sel) kind_client"
  assumes "DetectConflicts P c ns keys parentKind parentName = Inr r"
  shows "set (Free r) \<subseteq> set keys" "gomap_ok (Conflicting r)"
proof -
  obtain items :: "'q WorkloadProfile list" where r: "r = foldl (conflict_step (foldl (claim_step ns parentKind parentName) Map.empty items)) \<lparr>Free = [], Conflicting = []\<rparr> keys"
    using assms by (auto simp: DetectConflicts_def Let_def split: sum.splits)
  then show "set (Free r) \<subseteq> set keys" by (auto simp: conflict_steps_free)
  have "gomap_ok (Conflicting (foldl (conflict_step claimed) r0 keys))" if "gomap_ok (Conflicting r0)" for claimed r0
    using that by (induction keys arbitrary: r0) (simp_all add: conflict_step_def split: option.split)
  then show "gomap_ok (Conflicting r)" unfolding r by (simp add: gomap_ok_def)
qed

section \<open>Grouping by namespace\<close>

lemma groupKeys_lookup:
  "map_of (groupKeysByNamespace keys) ns =
     (if filter (\<lambda>k. KeyNamespace k = ns) keys = [] then None else Some (filter (\<lambda>k. KeyNamespace k = ns) keys))"
proof -
  have "map_of (foldl (\<lambda>m k. gm_put (KeyNamespace k) (case map_of m (KeyNamespace k) of None \<Rightarrow> [k] | Some ks \<Rightarrow> ks @ [k]) m) m keys) ns =
      (if filter (\<lambda>k. KeyNamespace k = ns) keys = [] then map_of m ns
       else Some ((case map_of m ns of None \<Rightarrow> [] | Some ks \<Rightarrow> ks) @ filter (\<lambda>k. KeyNamespace k = ns) keys))" for m
    by (induction keys arbitrary: m) (auto split: option.split)
  from this [of "[]"] show ?thesis by (simp add: groupKeysByNamespace_def)
qed

lemma groupKeys_ok [simp]: "gomap_ok (groupKeysByNamespace keys)"
proof -
  have "gomap_ok (foldl (\<lambda>m k. gm_put (KeyNamespace k) (case map_of m (KeyNamespace k) of None \<Rightarrow> [k] | Some ks \<Rightarrow> ks @ [k]) m) m keys)"
    if "gomap_ok m" for m
    using that by (induction keys arbitrary: m) simp_all
  then show ?thesis by (simp add: groupKeysByNamespace_def gomap_ok_def)
qed

lemma detect_by_namespace_ok:
  assumes "detect_by_namespace ord detect acc groups = Inr (allFree, msgs)"
  shows "(\<forall>(ns, ks) \<in> set groups. \<exists>r. detect ns ks = Inr r) \<and>
     set allFree = set (fst acc) \<union> {k. \<exists>(ns, ks) \<in> set groups. \<exists>r. detect ns ks = Inr r \<and> k \<in> set (Free r)} \<and>
     (msgs = [] \<longleftrightarrow> snd acc = [] \<and> (\<forall>(ns, ks) \<in> set groups. \<forall>r. detect ns ks = Inr r \<longrightarrow> conflict_messages ord (Conflicting r) = []))"
  using assms by (induction ord detect acc groups rule: detect_by_namespace.induct) (auto split: sum.splits)

text \<open>Namespace by namespace, every key is checked against the claims in its own namespace.\<close>

lemma detect_all_free:
  assumes "ord_ok ord" "\<And>ns ks r. detect ns ks = Inr r \<Longrightarrow> set (Free r) \<subseteq> set ks"
    and "detect_by_namespace ord detect ([], []) (go_range ord (groupKeysByNamespace keys)) = Inr (allFree, msgs)"
  shows "set allFree = {k \<in> set keys. \<exists>r. detect (KeyNamespace k) (filter (\<lambda>x. KeyNamespace x = KeyNamespace k) keys) = Inr r \<and> k \<in> set (Free r)}"
proof -
  have g: "(ns, ks) \<in> set (go_range ord (groupKeysByNamespace keys)) \<longleftrightarrow>
      ks = filter (\<lambda>x. KeyNamespace x = ns) keys \<and> (\<exists>k \<in> set keys. KeyNamespace k = ns)" for ns ks
    by (auto simp: go_range_iff [OF assms(1) groupKeys_ok] groupKeys_lookup filter_empty_conv split: if_splits)
  have a: "k \<in> set allFree \<longleftrightarrow> (\<exists>ns. (\<exists>k \<in> set keys. KeyNamespace k = ns) \<and>
      (\<exists>r. detect ns (filter (\<lambda>x. KeyNamespace x = ns) keys) = Inr r \<and> k \<in> set (Free r)))" for k
    using detect_by_namespace_ok [OF assms(3)] by (simp add: Bex_def split_paired_Ex g)
  show ?thesis
  proof (rule set_eqI, rule iffI)
    fix k assume "k \<in> set allFree"
    then obtain ns r where r: "detect ns (filter (\<lambda>x. KeyNamespace x = ns) keys) = Inr r" "k \<in> set (Free r)" using a by blast
    from assms(2) [OF r(1)] r(2) have "k \<in> set keys" "KeyNamespace k = ns" by auto
    with r show "k \<in> {k \<in> set keys. \<exists>r. detect (KeyNamespace k) (filter (\<lambda>x. KeyNamespace x = KeyNamespace k) keys) = Inr r \<and> k \<in> set (Free r)}"
      by simp
  next
    fix k assume "k \<in> {k \<in> set keys. \<exists>r. detect (KeyNamespace k) (filter (\<lambda>x. KeyNamespace x = KeyNamespace k) keys) = Inr r \<and> k \<in> set (Free r)}"
    then show "k \<in> set allFree" unfolding a by blast
  qed
qed

section \<open>What the parent controllers guarantee\<close>

text \<open>
  Claim C35: a reconcile of a namespace profile with targets that ends without an error has set aside the
  conflicting workloads and made the children exact: one labelled child with the policy for each free
  workload, no other child of this parent in the namespace, everything else untouched.  The status
  written afterwards counts and lists them and says whether there was a conflict.
\<close>

theorem NamespaceProfile_Reconcile_exact:
  assumes "profile_store (nChildren R) objs" "condition_setter (nSetCond R)" "ord_ok (nOrd R)"
    and "KGet (nProfiles R) c req = Inr profile" "\<not> NspDeleting profile"
    and "ListWorkloads (nAsSelector R) (nDeployments R) (nStatefulSets R) c (NspNamespace profile) (NspSelector (NspSpec profile))
           (effectiveMaxTargets (NspMaxTargets (NspSpec profile)) DefaultMaxTargets) = Inr keys" "keys \<noteq> []"
    and "inj_on (childName (NspName profile)) (set keys)"
    and "NamespaceProfile_Reconcile R c req = (res, None, c', op)"
  shows "\<exists>r c1 q. DetectConflicts (nChildren R) c (NspNamespace profile) keys ''NamespaceProfile'' (NspName profile) = Inr r
    \<and> children_synced (\<lambda>n. n = NspNamespace profile) ''NamespaceProfile'' (NspName profile) (NspPolicy (NspSpec profile)) (Free r) (objs c) (objs c1)
    \<and> op = Some q \<and> patchNSPStatus R c1 q = (None, c') \<and> RequeueAfter res = namespaceProfileResyncInterval
    \<and> NspResolvedCount (NspStatus q) = wrap32 (int (length keys)) \<and> NspActiveChildren (NspStatus q) = wrap32 (int (length (Free r)))
    \<and> map ChildName (NspChildren (NspStatus q)) = map (childName (NspName profile)) (Free r)
    \<and> cond_status (NspConditions (NspStatus q)) ConditionTypeSelectorConflict = Some (if Conflicting r = [] then ConditionFalse else ConditionTrue)
    \<and> cond_status (NspConditions (NspStatus q)) ConditionTypeChildrenSynced = Some ConditionTrue"
proof -
  obtain r where r: "DetectConflicts (nChildren R) c (NspNamespace profile) keys ''NamespaceProfile'' (NspName profile) = Inr r"
    and s: "nsp_sync R c (nsp_conflict_condition (nSetCond R)
        (setNSPCondition (nSetCond R) (profile\<lparr>NspStatus := (NspStatus profile)\<lparr>NspResolvedCount := wrap32 (int (length keys))\<rparr>\<rparr>)
          ConditionTypeSelectorResolved ConditionTrue ''Resolved'' (''matched '' @ itoa (int (length keys)) @ '' workload(s)''))
        (conflict_messages (nOrd R) (Conflicting r))) (Free r) = (res, None, c', op)" (is "nsp_sync R c ?p _ = _")
    using assms(4-7,9) by (auto simp: NamespaceProfile_Reconcile_def Let_def split: sum.splits)
  obtain children c1 q where q:
    "syncChildren (nChildren R) (nSetOwner R ?p) c (NspNamespace ?p) (NspName ?p) ''NamespaceProfile'' (NspPolicy (NspSpec ?p)) (Free r) = (Inr children, c1)"
    "op = Some q" "patchNSPStatus R c1 q = (None, c')" "res = no_requeue\<lparr>RequeueAfter := namespaceProfileResyncInterval\<rparr>"
    "q = setNSPCondition (nSetCond R) (?p\<lparr>NspStatus := (NspStatus ?p)\<lparr>NspActiveChildren := wrap32 (int (length children)), NspChildren := children\<rparr>\<rparr>)
           ConditionTypeChildrenSynced ConditionTrue ''Synced'' (itoa (int (length children)) @ '' child WorkloadProfile(s) synced'')"
    by (rule nsp_sync_ok [OF s])
  note free = DetectConflicts_facts [OF r]
  have "\<forall>k \<in> set (Free r). KeyNamespace k = NspNamespace profile" using free(1) ListWorkloads_sound [OF assms(6)] by blast
  moreover have "inj_on (childName (NspName profile)) (set (Free r))" using assms(8) free(1) by (rule inj_on_subset)
  ultimately have c: "children = map (\<lambda>key. \<lparr>ChildName = childName (NspName profile) key, ChildTargetKind = KeyKind key, ChildTargetName = KeyName key\<rparr>) (Free r)
      \<and> children_synced (\<lambda>n. n = NspNamespace profile) ''NamespaceProfile'' (NspName profile) (NspPolicy (NspSpec profile)) (Free r) (objs c) (objs c1)"
    using syncChildren_synced [OF assms(1), of "Free r" "NspNamespace profile"] q(1) by simp
  have m: "conflict_messages (nOrd R) (Conflicting r) = [] \<longleftrightarrow> Conflicting r = []"
    by (rule conflict_messages_empty [OF assms(3) free(2)])
  have "cond_status (NspConditions (NspStatus q)) ConditionTypeSelectorConflict = Some (if Conflicting r = [] then ConditionFalse else ConditionTrue)"
    "cond_status (NspConditions (NspStatus q)) ConditionTypeChildrenSynced = Some ConditionTrue"
    by (simp_all add: q(5) cond_status_set [OF assms(2)] nsp_conflict_condition_def m)
  moreover have "map ChildName children = map (childName (NspName profile)) (Free r)" "length children = length (Free r)"
    using c by simp_all
  ultimately show ?thesis
    using r c q(2-5) by (auto simp: nsp_conflict_condition_def)
qed

text \<open>
  With no workload selected, the children are not looked at: the children made earlier stay, and go on
  being actuated, although the status says that there are none.
\<close>

lemma nsp_zero_targets_keeps_children:
  assumes "KGet (nProfiles R) c req = Inr profile" "\<not> NspDeleting profile"
    and "ListWorkloads (nAsSelector R) (nDeployments R) (nStatefulSets R) c (NspNamespace profile) (NspSelector (NspSpec profile))
           (effectiveMaxTargets (NspMaxTargets (NspSpec profile)) DefaultMaxTargets) = Inr []"
  shows "NamespaceProfile_Reconcile (R\<lparr>nChildren := X\<rparr>) c req = NamespaceProfile_Reconcile R c req"
proof -
  have f: "nProfiles (R\<lparr>nChildren := X\<rparr>) = nProfiles R" "nRetry (R\<lparr>nChildren := X\<rparr>) = nRetry R" by simp_all
  have "nsp_finish (R\<lparr>nChildren := X\<rparr>) c p e = nsp_finish R c p e" for p e
    unfolding nsp_finish_def patchNSPStatus_def f ..
  then show ?thesis using assms by (simp add: NamespaceProfile_Reconcile_def Let_def)
qed



section \<open>Witnesses\<close>

definition ex_policy :: "nano_quantity PolicySpec" where
  "ex_policy = \<lparr>PolicyMode = ''cost'', PolicyContainers = [], PolicyCooldownMinutes = None, PolicyCollectionIntervalSeconds = Some 60\<rparr>"

definition ex_nsp :: "(nano_quantity, unit) NamespaceProfile" where
  "ex_nsp = \<lparr>NspName = ''p'', NspNamespace = ''ns'', NspUID = ''u'', NspGeneration = 1, NspDeleting = False,
     NspSpec = \<lparr>NspSelector = ex_sel, NspPolicy = ex_policy, NspMaxTargets = None\<rparr>,
     NspStatus = \<lparr>NspResolvedCount = 0, NspActiveChildren = 0, NspChildren = [], NspConditions = []\<rparr>\<rparr>"

text \<open>A stale child of that parent.\<close>

definition ex_old :: "string \<Rightarrow> nano_quantity WorkloadProfile" where
  "ex_old kind = (ex_profile_of ''old'' (map_of (parent_labels kind ''p'')) ''gone'')"

definition ex_kids :: "string \<Rightarrow> nano_quantity WorkloadProfile mem_server" where
  "ex_kids kind = \<lparr>MemObjs = [((''ns'', ''old''), ex_old kind)], MemFaults = []\<rparr>"

definition ex_nsp_reconciler :: "(nano_quantity WorkloadProfile mem_server, nano_quantity, unit, unit) nsp_reconciler" where
  "ex_nsp_reconciler = \<lparr>nProfiles = const_client [ex_nsp], nDeployments = const_client [ex_wl ''ns'' ''x''], nStatefulSets = const_client [],
     nChildren = mem_client profile_key has_profile_labels, nAsSelector = (\<lambda>_. Inr ()), nSetOwner = (\<lambda>_ _. None),
     nSetCond = put_condition, nRetry = attempts 4, nOrd = id\<rparr>"

lemma ex_old_facts:
  "profile_key (ex_old kind) = (''ns'', ''old'')" "has_profile_labels (parent_labels kind ''p'') (ex_old kind)" "isOurs kind ''p'' (ex_old kind)"
  by (simp_all add: ex_old_def ex_profile_of_def profile_key_def has_profile_labels_def parent_labels_def isOurs_def label_of_def
      LabelManagedBy_def LabelParentKind_def LabelParentName_def)

definition ex_target_key :: WorkloadKey where
  "ex_target_key = \<lparr>KeyKind = ''Deployment'', KeyNamespace = ''ns'', KeyName = ''x''\<rparr>"

lemma ex_child_name: "childName ''p'' ex_target_key \<noteq> ''old''"
  using length_childName [of "''p''" ex_target_key] by auto

lemma ex_nsp_keys:
  "ListWorkloads (nAsSelector ex_nsp_reconciler) (nDeployments ex_nsp_reconciler) (nStatefulSets ex_nsp_reconciler) c (NspNamespace ex_nsp)
     (NspSelector (NspSpec ex_nsp)) (effectiveMaxTargets (NspMaxTargets (NspSpec ex_nsp)) DefaultMaxTargets) = Inr [ex_target_key]"
  by (simp add: ListWorkloads_def ex_nsp_reconciler_def const_client_def ex_nsp_def ex_sel_def selectorToLabels_def include_kind_def
      effectiveMaxTargets_def DefaultMaxTargets_def wrap32_def ex_wl_def ex_target_key_def)

lemma ex_detect:
  "DetectConflicts (mem_client profile_key has_profile_labels) (ex_kids kind) ''ns'' [ex_target_key] kind ''p''
     = Inr \<lparr>Free = [ex_target_key], Conflicting = []\<rparr>"
  using ex_old_facts [of kind]
  by (simp add: DetectConflicts_def mem_client_def mem_all_def mem_objs_def ex_kids_def map_filter_simps claim_step_def conflict_step_def)

text \<open>The synchronisation of one key in that store.\<close>

lemma ex_sync:
  defines "n \<equiv> childName ''p'' ex_target_key"
  shows "\<exists>c'. syncChildren (mem_client profile_key has_profile_labels) (\<lambda>_. None) (ex_kids kind) ''ns'' ''p'' kind ex_policy [ex_target_key]
      = (Inr [\<lparr>ChildName = n, ChildTargetKind = ''Deployment'', ChildTargetName = ''x''\<rparr>], c')"
    and "\<exists>c'. syncClusterChildren (mem_client profile_key has_profile_labels) (ex_kids kind) ''p'' kind ex_policy [ex_target_key]
      = (Inr [\<lparr>CChildNamespace = ''ns'', CChildName = n, CChildTargetKind = ''Deployment'', CChildTargetName = ''x''\<rparr>], c')"
proof -
  let ?P = "mem_client profile_key has_profile_labels :: (nano_quantity WorkloadProfile mem_server, _, _) kind_client"
  let ?new = "(new_child n ex_target_key)\<lparr>ProfileLabels := map_of (parent_labels kind ''p''), Spec := child_spec ex_policy ex_target_key\<rparr>"
  let ?c1 = "\<lparr>MemObjs = [((''ns'', ''old''), ex_old kind), ((''ns'', n), ?new)], MemFaults = []\<rparr>"
  have n: "n \<noteq> ''old''" using ex_child_name by (simp add: n_def)
  have k: "profile_key ?new = (''ns'', n)" "profile_key (new_child n ex_target_key :: nano_quantity WorkloadProfile) = (''ns'', n)"
    by (simp_all add: profile_key_def new_child_def ex_target_key_def)
  have up: "sync_keys ?P (mutate_child (\<lambda>_. None) kind ''p'' ex_policy) (childName ''p'') shown (ex_kids kind) [ex_target_key] = (None, ?c1)" for shown
    using n k ex_old_facts [of kind]
    by (simp add: mem_client_def mem_objs_def ex_kids_def mutate_child_def Let_def mem_put_def mem_write_def n_def [symmetric])
  have has: "has_profile_labels (parent_labels kind ''p'') ?new"
    by (simp add: has_profile_labels_def parent_labels_def LabelManagedBy_def LabelParentKind_def LabelParentName_def)
  have all: "mem_all profile_key ?c1 = [ex_old kind, ?new]"
    using n k ex_old_facts [of kind] by (simp add: mem_all_def mem_objs_def map_filter_simps)
  have ls: "KList ?P ?c1 nso (MatchingLabels (parent_labels kind ''p'')) = Inr [ex_old kind, ?new]" if "nso \<in> {None, Some ''ns''}" for nso
    using that all has k ex_old_facts [of kind] by (auto simp: mem_client_def)
  have "ProfileName ?new = n" "ProfileNamespace ?new = ''ns''" "ProfileName (ex_old kind) = ''old''" "ProfileNamespace (ex_old kind) = ''ns''"
    by (simp_all add: new_child_def ex_target_key_def ex_old_def ex_profile_of_def)
  note f = this n ex_old_facts(1) [of kind] k
  have d: "\<exists>c2. KDelete ?P ?c1 (ex_old kind) = (None, c2)"
    using f by (simp add: mem_client_def mem_objs_def mem_write_def)
  then obtain c2 where d: "KDelete ?P ?c1 (ex_old kind) = (None, c2)" by blast
  show "\<exists>c'. syncChildren ?P (\<lambda>_. None) (ex_kids kind) ''ns'' ''p'' kind ex_policy [ex_target_key]
      = (Inr [\<lparr>ChildName = n, ChildTargetKind = ''Deployment'', ChildTargetName = ''x''\<rparr>], c')"
    using f ls [of "Some ''ns''"] d
    by (simp add: syncChildren_def Let_def up n_def [symmetric] del: sync_keys.simps) (simp add: ex_target_key_def)
  show "\<exists>c'. syncClusterChildren ?P (ex_kids kind) ''p'' kind ex_policy [ex_target_key]
      = (Inr [\<lparr>CChildNamespace = ''ns'', CChildName = n, CChildTargetKind = ''Deployment'', CChildTargetName = ''x''\<rparr>], c')"
    using f ls [of None] d
    by (simp add: syncClusterChildren_def Let_def up n_def [symmetric] IgnoreNotFound_def del: sync_keys.simps) (simp add: ex_target_key_def)
qed

theorem NamespaceProfile_Reconcile_exact_witness:
  "\<exists>c1. mem_objs profile_key (c1 :: nano_quantity WorkloadProfile mem_server) (''ns'', ''old'') = None
     \<and> map_option Spec (mem_objs profile_key c1 (''ns'', childName ''p'' ex_target_key)) = Some (child_spec ex_policy ex_target_key)"
proof -
  let ?R = ex_nsp_reconciler
  let ?c = "ex_kids ''NamespaceProfile''"
  have R: "nChildren ?R = mem_client profile_key has_profile_labels" "nSetCond ?R = put_condition" "nOrd ?R = id"
    "nProfiles ?R = const_client [ex_nsp]" "nRetry ?R = attempts 4" "nSetOwner ?R p = (\<lambda>_. None)" for p
    by (simp_all add: ex_nsp_reconciler_def fun_eq_iff)
  have g: "KGet (nProfiles ?R) ?c (''ns'', ''p'') = Inr ex_nsp" "\<not> NspDeleting ex_nsp" "NspName ex_nsp = ''p''" "NspNamespace ex_nsp = ''ns''"
    "NspPolicy (NspSpec ex_nsp) = ex_policy"
    by (simp_all add: R const_client_def ex_nsp_def)
  obtain c1 where c1: "syncChildren (mem_client profile_key has_profile_labels) (\<lambda>_. None) ?c ''ns'' ''p'' ''NamespaceProfile'' ex_policy [ex_target_key]
      = (Inr [\<lparr>ChildName = childName ''p'' ex_target_key, ChildTargetKind = ''Deployment'', ChildTargetName = ''x''\<rparr>], c1)"
    using ex_sync(1) by blast
  have patch: "patchNSPStatus ?R c q = (None, c)" for c q
    by (simp add: patchNSPStatus_def R const_client_def numeral_eq_Suc)
  obtain res c' op where r: "NamespaceProfile_Reconcile ?R ?c (''ns'', ''p'') = (res, None, c', op)"
    using g ex_nsp_keys [of ?c] ex_detect [of "''NamespaceProfile''"] c1
    by (simp add: NamespaceProfile_Reconcile_def Let_def R nsp_sync_def nsp_finish_def patch)
  have "profile_store (nChildren ?R) (mem_objs profile_key)" "condition_setter (nSetCond ?R)" "ord_ok (nOrd ?R)"
    by (simp_all add: R mem_children.profile_store_axioms put.condition_setter_axioms ord_ok_def)
  from NamespaceProfile_Reconcile_exact [OF this g(1,2) ex_nsp_keys _ _ r]
  obtain rr c2 where "DetectConflicts (nChildren ?R) ?c ''ns'' [ex_target_key] ''NamespaceProfile'' ''p'' = Inr rr"
    and s: "children_synced (\<lambda>n. n = ''ns'') ''NamespaceProfile'' ''p'' ex_policy (Free rr) (mem_objs profile_key ?c) (mem_objs profile_key c2)"
    by (auto simp: g)
  then have free: "Free rr = [ex_target_key]" using ex_detect [of "''NamespaceProfile''"] by (auto simp: R)
  have id: "child_id ''p'' ex_target_key = (''ns'', childName ''p'' ex_target_key)" by (simp add: child_id_def ex_target_key_def)
  have "mem_objs profile_key ?c (''ns'', ''old'') = Some (ex_old ''NamespaceProfile'')"
    using ex_old_facts(1) by (simp add: mem_objs_def ex_kids_def)
  then have "mem_objs profile_key c2 (''ns'', ''old'') = None"
    using spec [OF conjunct2 [OF s [unfolded children_synced_def free]], of "(''ns'', ''old'')"] ex_child_name ex_old_facts(2) by (simp add: id)
  moreover have "map_option Spec (mem_objs profile_key c2 (''ns'', childName ''p'' ex_target_key)) = Some (child_spec ex_policy ex_target_key)"
    using s by (auto simp: children_synced_def free id)
  ultimately show ?thesis by blast
qed

definition ex_csp :: "bool \<Rightarrow> (nano_quantity, unit) ClusterProfile" where
  "ex_csp deleting = \<lparr>CspName = ''p'', CspGeneration = 1, CspFinalizers = [clusterProfileFinalizer], CspDeleting = deleting,
     CspSpec = \<lparr>CspNamespaceSelector = None, CspSelector = ex_sel, CspPolicy = ex_policy, CspMaxTargets = None\<rparr>,
     CspStatus = \<lparr>CspMatchedNamespaces = 0, CspResolvedCount = 0, CspActiveChildren = 0, CspChildren = [], CspConditions = []\<rparr>\<rparr>"

definition ex_csp_reconciler :: "bool \<Rightarrow> (nano_quantity WorkloadProfile mem_server, nano_quantity, unit, unit) csp_reconciler" where
  "ex_csp_reconciler deleting = \<lparr>cProfiles = const_client [ex_csp deleting], cNamespaces = const_client [''ns''],
     cDeployments = const_client [ex_wl ''ns'' ''x''], cStatefulSets = const_client [],
     cChildren = mem_client profile_key has_profile_labels, cAsSelector = (\<lambda>_. Inr ()), cFinalizers = list_finalizers,
     cSetCond = put_condition, cRetry = attempts 4, cOrd = id\<rparr>"

lemma ex_csp_fields [simp]:
  "cChildren (ex_csp_reconciler d) = mem_client profile_key has_profile_labels" "cOrd (ex_csp_reconciler d) = id"
  "cProfiles (ex_csp_reconciler d) = const_client [ex_csp d]" "cFinalizers (ex_csp_reconciler d) = list_finalizers"
  "CspName (ex_csp d) = ''p''" "CspDeleting (ex_csp d) = d" "CspFinalizers (ex_csp d) = [clusterProfileFinalizer]"
  "CspPolicy (CspSpec (ex_csp d)) = ex_policy"
  by (simp_all add: ex_csp_reconciler_def ex_csp_def const_client_def)

lemma ex_fin [simp]: "ContainsFinalizer list_finalizers fs f \<longleftrightarrow> f \<in> set fs"
  by (simp add: list_finalizers_def)



end
