(* ===== verification/Kubelet.thy ===== *)
theory Kubelet
  imports Usage Target
begin

text \<open>
  \<open>internal/kubelet\<close>: the summary of a node, fetched through the node proxy of the API server.  The
  HTTP request and the JSON decoder are parameters; the timeout and the errors are the code's.
\<close>

text \<open>\<open>DefaultFetchTimeout\<close>\<close>

definition DefaultFetchTimeout :: int where
  "DefaultFetchTimeout = 15 * second_ns"

text \<open>The request takes the time it may last and the node; it yields the body or an error.\<close>

record 'c kubelet_client =
  KubeDoRaw :: "'c \<Rightarrow> int \<Rightarrow> string \<Rightarrow> string + string"
  KubeTimeout :: int

definition NewClient :: "('c \<Rightarrow> int \<Rightarrow> string \<Rightarrow> string + string) \<Rightarrow> int \<Rightarrow> 'c kubelet_client" where
  "NewClient k timeout = \<lparr>KubeDoRaw = k, KubeTimeout = (if timeout \<le> 0 then DefaultFetchTimeout else timeout)\<rparr>"

definition ParseSummary :: "(string \<Rightarrow> string + Summary) \<Rightarrow> string \<Rightarrow> string + Summary option" where
  "ParseSummary unmarshal data = (case unmarshal data of Inl e \<Rightarrow> Inl e | Inr s \<Rightarrow> Inr (Some s))"

definition FetchSummary :: "(string \<Rightarrow> string + Summary) \<Rightarrow> 'c kubelet_client \<Rightarrow> 'c \<Rightarrow> string \<Rightarrow> string + Summary option" where
  "FetchSummary unmarshal K c nodeName =
     (case KubeDoRaw K c (KubeTimeout K) nodeName of
        Inl e \<Rightarrow> Inl (''fetch summary for node '' @ go_quote nodeName @ '': '' @ e)
      | Inr raw \<Rightarrow> ParseSummary unmarshal raw)"

lemma NewClient_timeout_pos: "0 < KubeTimeout (NewClient k timeout)"
  by (simp add: NewClient_def DefaultFetchTimeout_def second_ns_def)

text \<open>A summary that is returned without an error is never nil.\<close>

lemma FetchSummary_some: "FetchSummary unmarshal K c n = Inr s \<Longrightarrow> s \<noteq> None"
  by (auto simp: FetchSummary_def ParseSummary_def split: sum.splits)

end
