(* ===== verification/Global_Defaults.thy ===== *)
theory Global_Defaults
  imports Ml_State Quantity
begin

text \<open>
  The cluster-wide defaults: \<open>internal/defaults/globaldefaults.go\<close>.  A config map is parsed into four
  quantities; a background loop reloads it and keeps the last good snapshot, as a step relation whose
  labels are what wakes the loop up.
\<close>

section \<open>Parsing\<close>

record 'q GlobalResourceDefaults =
  GdCPURequest :: 'q
  GdCPULimit :: 'q
  GdMemoryRequest :: 'q
  GdMemoryLimit :: 'q

definition keyCPURequest :: string where "keyCPURequest = ''cpuRequest''"
definition keyCPULimit :: string where "keyCPULimit = ''cpuLimit''"
definition keyMemoryRequest :: string where "keyMemoryRequest = ''memoryRequest''"
definition keyMemoryLimit :: string where "keyMemoryLimit = ''memoryLimit''"

lemmas default_keys = keyCPURequest_def keyCPULimit_def keyMemoryRequest_def keyMemoryLimit_def

text \<open>A missing key of a Go map reads as the empty string.\<close>

definition data_of :: "(string \<rightharpoonup> string) \<Rightarrow> string \<Rightarrow> string" where
  "data_of data k = (case data k of None \<Rightarrow> '''' | Some v \<Rightarrow> v)"

definition parse_named :: "'q quantity_api \<Rightarrow> (string \<rightharpoonup> string) \<Rightarrow> string \<Rightarrow> string + 'q" where
  "parse_named Q data k = (case ParseQuantity Q (data_of data k) of Inl e \<Rightarrow> Inl (k @ '': '' @ e) | Inr q \<Rightarrow> Inr q)"

definition ParseGlobalDefaultsConfigMap :: "'q quantity_api \<Rightarrow> (string \<rightharpoonup> string) option \<Rightarrow> string + 'q GlobalResourceDefaults" where
  "ParseGlobalDefaultsConfigMap Q data0 =
     (case data0 of
        None \<Rightarrow> Inl ''configmap data is nil''
      | Some data \<Rightarrow>
          let missing = filter (\<lambda>k. data_of data k = '''') [keyCPURequest, keyCPULimit, keyMemoryRequest, keyMemoryLimit] in
          if missing \<noteq> [] then Inl (''missing required keys: ['' @ str_join '' '' missing @ '']'')
          else
            (case parse_named Q data keyCPURequest of Inl e \<Rightarrow> Inl e
             | Inr cpuReq \<Rightarrow>
            (case parse_named Q data keyCPULimit of Inl e \<Rightarrow> Inl e
             | Inr cpuLim \<Rightarrow>
            (case parse_named Q data keyMemoryRequest of Inl e \<Rightarrow> Inl e
             | Inr memReq \<Rightarrow>
            (case parse_named Q data keyMemoryLimit of Inl e \<Rightarrow> Inl e
             | Inr memLim \<Rightarrow> Inr \<lparr>GdCPURequest = cpuReq, GdCPULimit = cpuLim, GdMemoryRequest = memReq, GdMemoryLimit = memLim\<rparr>)))))"

section \<open>The loader\<close>

record 'q GlobalDefaultsLoader =
  LdNamespace :: string
  LdName :: string
  LdInterval :: int
  Loaded :: "'q GlobalResourceDefaults option"

definition NewGlobalDefaultsLoader :: "string \<Rightarrow> string \<Rightarrow> int \<Rightarrow> 'q GlobalDefaultsLoader" where
  "NewGlobalDefaultsLoader ns name interval =
     \<lparr>LdNamespace = ns, LdName = name, LdInterval = (if interval < second_ns then 60 * second_ns else interval), Loaded = None\<rparr>"

definition NeedLeaderElection :: "'q GlobalDefaultsLoader \<Rightarrow> bool" where
  "NeedLeaderElection l = False"

text \<open>A config map without data is read back as a nil map.\<close>

definition cm_data :: "ConfigMap \<Rightarrow> (string \<rightharpoonup> string) option" where
  "cm_data cm = (if CmData cm = [] then None else Some (map_of (CmData cm)))"

definition reload :: "'q quantity_api \<Rightarrow> ('c, ConfigMap, 'sel) kind_client \<Rightarrow> 'c \<Rightarrow> 'q GlobalDefaultsLoader \<Rightarrow> 'q GlobalDefaultsLoader" where
  "reload Q M c l =
     (case KGet M c (LdNamespace l, LdName l) of
        Inl e \<Rightarrow> l
      | Inr cm \<Rightarrow> (case ParseGlobalDefaultsConfigMap Q (cm_data cm) of Inl e \<Rightarrow> l | Inr parsed \<Rightarrow> l\<lparr>Loaded := Some parsed\<rparr>))"

definition Snapshot_of :: "'q GlobalDefaultsLoader \<Rightarrow> 'q GlobalResourceDefaults option" where
  "Snapshot_of l = Loaded l"

text \<open>
  \<open>Start\<close>: it returns at once when there is nothing to load, loads once, and then waits for the ticker
  or for the end of its context.  A wake-up carries the cluster it finds.
\<close>

datatype 'c wake = Begin 'c | Tick 'c | Done
datatype phase = Starting | Waiting | Stopped

inductive loader_step :: "'q quantity_api \<Rightarrow> ('c, ConfigMap, 'sel) kind_client \<Rightarrow> 'q GlobalDefaultsLoader \<times> phase \<Rightarrow> 'c wake
    \<Rightarrow> 'q GlobalDefaultsLoader \<times> phase \<Rightarrow> bool" for Q M where
  start_disabled: "LdNamespace l = '''' \<or> LdName l = '''' \<Longrightarrow> loader_step Q M (l, Starting) (Begin c) (l, Stopped)"
| start_loads: "LdNamespace l \<noteq> '''' \<Longrightarrow> LdName l \<noteq> '''' \<Longrightarrow> loader_step Q M (l, Starting) (Begin c) (reload Q M c l, Waiting)"
| on_tick: "loader_step Q M (l, Waiting) (Tick c) (reload Q M c l, Waiting)"
| on_done: "loader_step Q M (l, Waiting) Done (l, Stopped)"

inductive_cases stepE: "loader_step Q M s w s'"
inductive_simps step_simps [simp]:
  "loader_step Q M (l, Starting) w s'" "loader_step Q M (l, Waiting) w s'" "loader_step Q M (l, Stopped) w s'"

inductive loader_run :: "'q quantity_api \<Rightarrow> ('c, ConfigMap, 'sel) kind_client \<Rightarrow> 'q GlobalDefaultsLoader \<times> phase \<Rightarrow> 'c wake list
    \<Rightarrow> 'q GlobalDefaultsLoader \<times> phase \<Rightarrow> bool" for Q M where
  run_nil: "loader_run Q M s [] s"
| run_snoc: "loader_run Q M s ws s1 \<Longrightarrow> loader_step Q M s1 w s2 \<Longrightarrow> loader_run Q M s (ws @ [w]) s2"

section \<open>Facts\<close>

text \<open>What the loop finds when it wakes up, and the last valid content among these.\<close>

fun found :: "'q quantity_api \<Rightarrow> ('c, ConfigMap, 'sel) kind_client \<Rightarrow> objkey \<Rightarrow> 'c wake \<Rightarrow> 'q GlobalResourceDefaults option" where
  "found Q M k Done = None"
| "found Q M k (Begin c) = (case KGet M c k of Inl _ \<Rightarrow> None
     | Inr cm \<Rightarrow> (case ParseGlobalDefaultsConfigMap Q (cm_data cm) of Inl _ \<Rightarrow> None | Inr d \<Rightarrow> Some d))"
| "found Q M k (Tick c) = (case KGet M c k of Inl _ \<Rightarrow> None
     | Inr cm \<Rightarrow> (case ParseGlobalDefaultsConfigMap Q (cm_data cm) of Inl _ \<Rightarrow> None | Inr d \<Rightarrow> Some d))"

definition last_good :: "'q quantity_api \<Rightarrow> ('c, ConfigMap, 'sel) kind_client \<Rightarrow> objkey \<Rightarrow> 'c wake list \<Rightarrow> 'q GlobalResourceDefaults option" where
  "last_good Q M k ws = (let ds = List.map_filter (found Q M k) ws in if ds = [] then None else Some (last ds))"

lemma last_good_simps [simp]:
  "last_good Q M k [] = None"
  "last_good Q M k (ws @ [w]) = (case found Q M k w of None \<Rightarrow> last_good Q M k ws | Some d \<Rightarrow> Some d)"
  "last_good Q M k [w] = found Q M k w"
  by (simp_all add: last_good_def map_filter_simps map_filter_def split: option.split)

lemma reload_loaded:
  "Loaded (reload Q M c l) = (case found Q M (LdNamespace l, LdName l) (Tick c) of None \<Rightarrow> Loaded l | Some d \<Rightarrow> Some d)"
  "LdNamespace (reload Q M c l) = LdNamespace l" "LdName (reload Q M c l) = LdName l" "LdInterval (reload Q M c l) = LdInterval l"
  by (simp_all add: reload_def split: sum.split)

lemma parse_ok_iff:
  "ParseGlobalDefaultsConfigMap Q (Some data) = Inr d \<longleftrightarrow>
     (\<forall>k \<in> {keyCPURequest, keyCPULimit, keyMemoryRequest, keyMemoryLimit}. data_of data k \<noteq> '''')
     \<and> ParseQuantity Q (data_of data keyCPURequest) = Inr (GdCPURequest d) \<and> ParseQuantity Q (data_of data keyCPULimit) = Inr (GdCPULimit d)
     \<and> ParseQuantity Q (data_of data keyMemoryRequest) = Inr (GdMemoryRequest d)
     \<and> ParseQuantity Q (data_of data keyMemoryLimit) = Inr (GdMemoryLimit d)"
  by (cases d) (auto simp: ParseGlobalDefaultsConfigMap_def Let_def parse_named_def split: sum.splits if_splits)

lemma loader_run_inv:
  assumes "loader_run Q M (NewGlobalDefaultsLoader ns name iv, Starting) ws (l, ph)"
  shows "LdNamespace l = ns \<and> LdName l = name \<and> second_ns \<le> LdInterval l \<and>
     Loaded l = (if ns = '''' \<or> name = '''' then None else last_good Q M (ns, name) ws) \<and> (ph = Starting \<longrightarrow> ws = [])
     \<and> (ns = '''' \<or> name = '''' \<longrightarrow> ph \<noteq> Waiting)"
  using assms
proof (induction "(NewGlobalDefaultsLoader ns name iv :: 'a GlobalDefaultsLoader, Starting)" ws "(l, ph)" arbitrary: l ph rule: loader_run.induct)
  case run_nil
  then show ?case by (auto simp: NewGlobalDefaultsLoader_def second_ns_def)
next
  case (run_snoc ws s1 w)
  obtain l1 p1 where s1: "s1 = (l1, p1)" by fastforce
  note IH = run_snoc.hyps(2) [OF s1]
  from run_snoc.hyps(3) [unfolded s1] IH show ?case
    by (cases p1) (auto simp: reload_loaded split: option.splits)
qed

section \<open>What the defaults promise\<close>

text \<open>
  A config map is accepted exactly when its four keys are there, not empty and quantities, and
  then the defaults are these quantities; a nil map and a map without data are refused.
\<close>

theorem ParseGlobalDefaultsConfigMap_iff:
  "(ParseGlobalDefaultsConfigMap Q data0 = Inr d) =
     (case data0 of None \<Rightarrow> False
      | Some data \<Rightarrow>
          list_all (\<lambda>k. data_of data k \<noteq> '''') [keyCPURequest, keyCPULimit, keyMemoryRequest, keyMemoryLimit]
          \<and> map (\<lambda>k. ParseQuantity Q (data_of data k)) [keyCPURequest, keyCPULimit, keyMemoryRequest, keyMemoryLimit]
            = map Inr [GdCPURequest d, GdCPULimit d, GdMemoryRequest d, GdMemoryLimit d])"
  by (cases data0) (auto simp: parse_ok_iff, simp add: ParseGlobalDefaultsConfigMap_def)


definition ex_defaults_cm :: "(string, string) gomap \<Rightarrow> ConfigMap mem_server" where
  "ex_defaults_cm data = \<lparr>MemObjs = [((''sys'', ''defaults''), \<lparr>CmName = ''defaults'', CmNamespace = ''sys'', CmOwners = [], CmData = data\<rparr>)], MemFaults = []\<rparr>"

definition ex_defaults_data :: "(string, string) gomap" where
  "ex_defaults_data = [(''cpuRequest'', ''100n''), (''cpuLimit'', ''200n''), (''memoryRequest'', ''300n''), (''memoryLimit'', ''400n'')]"

lemma ex_defaults_parse:
  "ParseGlobalDefaultsConfigMap nano_api (Some (map_of ex_defaults_data)) =
     Inr \<lparr>GdCPURequest = NQ 100 DecimalSI, GdCPULimit = NQ 200 DecimalSI, GdMemoryRequest = NQ 300 DecimalSI, GdMemoryLimit = NQ 400 DecimalSI\<rparr>"
  by code_simp


text \<open>Only the syntax is checked: a CPU request above its limit is accepted.\<close>

lemma defaults_request_above_limit:
  "ParseGlobalDefaultsConfigMap nano_api (Some [''cpuRequest'' \<mapsto> ''900n'', ''cpuLimit'' \<mapsto> ''200n'', ''memoryRequest'' \<mapsto> ''3n'', ''memoryLimit'' \<mapsto> ''4n'']) =
     Inr \<lparr>GdCPURequest = NQ 900 DecimalSI, GdCPULimit = NQ 200 DecimalSI, GdMemoryRequest = NQ 3 DecimalSI, GdMemoryLimit = NQ 4 DecimalSI\<rparr>"
  by code_simp

end
