(* ===== verification/Webhook.thy ===== *)
theory Webhook
  imports Global_Defaults Target Actuate Conditions
begin

text \<open>
  Injection of resources at pod creation: \<open>internal/webhook/pod_mutator.go\<close>.  The request decoder, the
  JSON encoder and the API client are parameters; the response is a value.
\<close>

section \<open>Requests and responses\<close>

definition annoWebhookDisabled :: string where "annoWebhookDisabled = ''autosize.io/webhook''"
definition annoInject :: string where "annoInject = ''autosize.io/inject''"
definition valDisabled :: string where "valDisabled = ''disabled''"
definition valForce :: string where "valForce = ''force''"
definition appsAPIVersion :: string where "appsAPIVersion = ''apps/v1''"

record 'raw admission_request =
  ReqOperation :: string
  ReqRaw :: 'raw

datatype 'raw response = Allowed string | Errored int string | PatchFromRaw 'raw 'raw

record ReplicaSet =
  RsName :: string
  RsNamespace :: string
  RsOwnerReferences :: "OwnerReference list"

record ('c, 'q, 'raw, 'sel) PodMutator =
  mReplicaSets :: "('c, ReplicaSet, 'sel) kind_client"
  mProfiles :: "('c, 'q WorkloadProfile, 'sel) kind_client"
  mDecode :: "'raw admission_request \<Rightarrow> string + 'q Pod"
  mMarshal :: "'q Pod \<Rightarrow> string + 'raw"
  mDefaults :: "'q GlobalDefaultsLoader option"

section \<open>Finding the workload\<close>

definition defaultsSnapshot :: "('c, 'q, 'raw, 'sel) PodMutator \<Rightarrow> 'q GlobalResourceDefaults option" where
  "defaultsSnapshot M = (case mDefaults M of None \<Rightarrow> None | Some l \<Rightarrow> Snapshot_of l)"

definition deployment_owner :: "OwnerReference list \<Rightarrow> (string \<times> string) option" where
  "deployment_owner refs =
     (case find (\<lambda>p. OwnerAPIVersion p = appsAPIVersion \<and> OwnerKind p = ''Deployment'') refs of
        None \<Rightarrow> None | Some p \<Rightarrow> Some (''Deployment'', OwnerName p))"

text \<open>The first ReplicaSet or StatefulSet among the owners decides, also when it leads nowhere.\<close>

fun resolve_refs :: "(string \<Rightarrow> api_error + ReplicaSet) \<Rightarrow> OwnerReference list \<Rightarrow> (string \<times> string) option" where
  "resolve_refs get_rs [] = None"
| "resolve_refs get_rs (ref # refs) =
     (if OwnerAPIVersion ref = appsAPIVersion \<and> OwnerKind ref = ''ReplicaSet''
      then (case get_rs (OwnerName ref) of Inl _ \<Rightarrow> None | Inr rs \<Rightarrow> deployment_owner (RsOwnerReferences rs))
      else if OwnerAPIVersion ref = appsAPIVersion \<and> OwnerKind ref = ''StatefulSet''
      then Some (''StatefulSet'', OwnerName ref)
      else resolve_refs get_rs refs)"

definition resolveWorkload :: "('c, 'q, 'raw, 'sel) PodMutator \<Rightarrow> 'c \<Rightarrow> 'q Pod \<Rightarrow> (string \<times> string) option" where
  "resolveWorkload M c pod = resolve_refs (\<lambda>n. KGet (mReplicaSets M) c (PodNamespace pod, n)) (PodOwnerReferences pod)"

section \<open>Injecting\<close>

definition some_nonzero :: "'q quantity_api \<Rightarrow> 'q ResourceList option \<Rightarrow> bool" where
  "some_nonzero Q l = (case l of None \<Rightarrow> False | Some m \<Rightarrow> \<exists>q \<in> ran m. \<not> IsZero Q q)"

definition hasNonZeroResources :: "'q quantity_api \<Rightarrow> 'q Container \<Rightarrow> bool" where
  "hasNonZeroResources Q c = (if some_nonzero Q (Requests (Resources c)) then True else some_nonzero Q (Limits (Resources c)))"

definition empty_if_nil :: "'q ResourceList option \<Rightarrow> 'q ResourceList" where
  "empty_if_nil l = (case l of None \<Rightarrow> Map.empty | Some m \<Rightarrow> m)"

definition applyRecommendation :: "'q Container \<Rightarrow> 'q Recommendation \<Rightarrow> 'q Container" where
  "applyRecommendation c rec = c\<lparr>Resources := (Resources c)\<lparr>
     Requests := Some ((empty_if_nil (Requests (Resources c)))(ResourceCPU \<mapsto> CPURequest rec, ResourceMemory \<mapsto> MemoryRequest rec)),
     Limits := Some ((empty_if_nil (Limits (Resources c)))(ResourceCPU \<mapsto> CPULimit rec, ResourceMemory \<mapsto> MemoryLimit rec))\<rparr>\<rparr>"

definition applyGlobalDefaults :: "'q Container \<Rightarrow> 'q GlobalResourceDefaults \<Rightarrow> 'q Container" where
  "applyGlobalDefaults c gd = c\<lparr>Resources := (Resources c)\<lparr>
     Requests := Some ((empty_if_nil (Requests (Resources c)))(ResourceCPU \<mapsto> GdCPURequest gd, ResourceMemory \<mapsto> GdMemoryRequest gd)),
     Limits := Some ((empty_if_nil (Limits (Resources c)))(ResourceCPU \<mapsto> GdCPULimit gd, ResourceMemory \<mapsto> GdMemoryLimit gd))\<rparr>\<rparr>"

text \<open>The loop over the containers: the containers so far, and whether one was changed.\<close>

definition inject_step :: "'q quantity_api \<Rightarrow> bool \<Rightarrow> (string \<rightharpoonup> 'q Recommendation) \<Rightarrow> 'q GlobalResourceDefaults option
    \<Rightarrow> 'q Container list \<times> bool \<Rightarrow> 'q Container \<Rightarrow> 'q Container list \<times> bool" where
  "inject_step Q force recByName gd st c =
     (let (cs, changed) = st in
      if \<not> force \<and> hasNonZeroResources Q c then (cs @ [c], changed)
      else case recByName (CtrName c) of
          Some rec \<Rightarrow> (cs @ [applyRecommendation c rec], True)
        | None \<Rightarrow> (case gd of
              Some d \<Rightarrow> (cs @ [applyGlobalDefaults c d], True)
            | None \<Rightarrow> (cs @ [c], changed)))"

definition annotated :: "'q Pod \<Rightarrow> string \<Rightarrow> string \<Rightarrow> bool" where
  "annotated pod key val \<longleftrightarrow> (case PodAnnotations pod of None \<Rightarrow> False | Some m \<Rightarrow> m key = Some val)"

definition recommendations_for :: "'q WorkloadProfile list \<Rightarrow> string \<times> string \<Rightarrow> (string \<rightharpoonup> 'q Recommendation)" where
  "recommendations_for items workload =
     (case find (\<lambda>wp. (TargetKind (TargetRef (Spec wp)), TargetName (TargetRef (Spec wp))) = workload) items of
        None \<Rightarrow> Map.empty
      | Some profile \<Rightarrow> index_by ContainerName (Recommendations (Status profile)))"

definition Handle :: "'q quantity_api \<Rightarrow> ('c, 'q, 'raw, 'sel) PodMutator \<Rightarrow> 'c \<Rightarrow> 'raw admission_request \<Rightarrow> 'raw response" where
  "Handle Q M c req =
     (if ReqOperation req \<noteq> ''CREATE'' then Allowed ''not create''
      else case mDecode M req of
        Inl e \<Rightarrow> Errored 400 e
      | Inr pod \<Rightarrow>
          if annotated pod annoWebhookDisabled valDisabled then Allowed ''webhook disabled by annotation''
          else
            let force = annotated pod annoInject valForce in
            (case resolveWorkload M c pod of
               None \<Rightarrow> Allowed ''no supported workload owner''
             | Some workload \<Rightarrow>
                 (case KList (mProfiles M) c (Some (PodNamespace pod)) AllLabels of
                    Inl e \<Rightarrow> Errored 500 (ErrText e)
                  | Inr items \<Rightarrow>
                      let recByName = recommendations_for items workload;
                          gd = defaultsSnapshot M;
                          (cs, changed) = foldl (inject_step Q force recByName gd) ([], False) (PodContainers pod)
                      in if \<not> changed then Allowed ''no injection''
                         else (case mMarshal M (pod\<lparr>PodContainers := cs\<rparr>) of
                                 Inl e \<Rightarrow> Errored 500 e
                               | Inr marshaled \<Rightarrow> PatchFromRaw (ReqRaw req) marshaled))))"

section \<open>Facts\<close>

text \<open>Where a container's resources come from: its recommendation, else the defaults.\<close>

definition source_of :: "(string \<rightharpoonup> 'q Recommendation) \<Rightarrow> 'q GlobalResourceDefaults option \<Rightarrow> string \<Rightarrow> ('q \<times> 'q \<times> 'q \<times> 'q) option" where
  "source_of recByName gd name =
     (case recByName name of
        Some r \<Rightarrow> Some (CPURequest r, MemoryRequest r, CPULimit r, MemoryLimit r)
      | None \<Rightarrow> map_option (\<lambda>d. (GdCPURequest d, GdMemoryRequest d, GdCPULimit d, GdMemoryLimit d)) gd)"

definition injected :: "'q quantity_api \<Rightarrow> bool \<Rightarrow> (string \<rightharpoonup> 'q Recommendation) \<Rightarrow> 'q GlobalResourceDefaults option \<Rightarrow> 'q Container \<Rightarrow> bool" where
  "injected Q force recByName gd c \<longleftrightarrow> (force \<or> \<not> hasNonZeroResources Q c) \<and> source_of recByName gd (CtrName c) \<noteq> None"

definition inject_one :: "'q quantity_api \<Rightarrow> bool \<Rightarrow> (string \<rightharpoonup> 'q Recommendation) \<Rightarrow> 'q GlobalResourceDefaults option \<Rightarrow> 'q Container \<Rightarrow> 'q Container" where
  "inject_one Q force recByName gd c =
     (if injected Q force recByName gd c
      then (case the (source_of recByName gd (CtrName c)) of (cr, mr, cl, ml) \<Rightarrow> c\<lparr>Resources := \<lparr>
         Requests = Some ((empty_if_nil (Requests (Resources c)))(ResourceCPU \<mapsto> cr, ResourceMemory \<mapsto> mr)),
         Limits = Some ((empty_if_nil (Limits (Resources c)))(ResourceCPU \<mapsto> cl, ResourceMemory \<mapsto> ml))\<rparr>\<rparr>)
      else c)"

lemma inject_step_one:
  "inject_step Q force recByName gd (cs, changed) c
     = (cs @ [inject_one Q force recByName gd c], changed \<or> injected Q force recByName gd c)"
  by (auto simp: inject_step_def inject_one_def injected_def source_of_def applyRecommendation_def applyGlobalDefaults_def
      split: option.split)

lemma inject_all:
  "foldl (inject_step Q force recByName gd) (cs, changed) xs
     = (cs @ map (inject_one Q force recByName gd) xs, changed \<or> list_ex (injected Q force recByName gd) xs)"
  by (induction xs arbitrary: cs changed) (auto simp: inject_step_one)

lemma inject_one_frame [simp]:
  "CtrName (inject_one Q force r gd c) = CtrName c" "ResizePolicy (inject_one Q force r gd c) = ResizePolicy c"
  by (simp_all add: inject_one_def split: prod.split)

section \<open>What the webhook promises\<close>



section \<open>Witness\<close>

definition ex_forced_pod :: "nano_quantity Pod" where
  "ex_forced_pod = (ex_pod ''web-0'')\<lparr>PodAnnotations := Some [annoInject \<mapsto> valForce],
     PodOwnerReferences := [\<lparr>OwnerAPIVersion = appsAPIVersion, OwnerKind = ''ReplicaSet'', OwnerName = ''web-1''\<rparr>]\<rparr>"

definition ex_mutator :: "(unit, nano_quantity, nano_quantity Pod list, unit) PodMutator" where
  "ex_mutator = \<lparr>mReplicaSets = const_client [\<lparr>RsName = ''web-1'', RsNamespace = ''default'',
       RsOwnerReferences = [\<lparr>OwnerAPIVersion = appsAPIVersion, OwnerKind = ''Deployment'', OwnerName = ''web''\<rparr>]\<rparr>],
     mProfiles = const_client [ex_wp\<lparr>Status := (Status ex_wp)\<lparr>Recommendations := [ex_rec 1 2 3 4]\<rparr>\<rparr>],
     mDecode = (\<lambda>req. case ReqRaw req of [] \<Rightarrow> Inl ''empty'' | p # _ \<Rightarrow> Inr p), mMarshal = (\<lambda>p. Inr [p]), mDefaults = None\<rparr>"


end
