(* ===== verification/Manager.thy ===== *)
theory Manager
  imports Reconcile_Spec Parents Kubelet Webhook
begin

text \<open>
  The wiring of \<open>cmd/main.go\<close>: one manager, whose client all controllers share, and the controllers,
  the loader and the webhook made from it; the flags, the options of the servers that depend on them,
  and the order of the start-up with its exits.
\<close>

section \<open>Flags and servers\<close>

record flags =
  metricsAddr :: string
  probeAddr :: string
  enableLeaderElection :: bool
  secureMetrics :: bool
  webhookCertPath :: string
  webhookCertName :: string
  webhookCertKey :: string
  metricsCertPath :: string
  metricsCertName :: string
  metricsCertKey :: string
  enableHTTP2 :: bool
  defaultsCMNamespace :: string
  defaultsCMName :: string
  defaultsReload :: int

definition default_flags :: flags where
  "default_flags = \<lparr>metricsAddr = ''0'', probeAddr = '':8081'', enableLeaderElection = False, secureMetrics = True,
     webhookCertPath = '''', webhookCertName = ''tls.crt'', webhookCertKey = ''tls.key'',
     metricsCertPath = '''', metricsCertName = ''tls.crt'', metricsCertKey = ''tls.key'',
     enableHTTP2 = False, defaultsCMNamespace = '''', defaultsCMName = '''', defaultsReload = 60 * second_ns\<rparr>"

text \<open>A TLS option is a function on the protocols that the server offers.\<close>

definition disableHTTP2 :: "string list \<Rightarrow> string list" where
  "disableHTTP2 nextProtos = [''http/1.1'']"

definition tlsOpts :: "flags \<Rightarrow> (string list \<Rightarrow> string list) list" where
  "tlsOpts f = (if \<not> enableHTTP2 f then [disableHTTP2] else [])"

record certificate =
  CertDir :: string
  CertName :: string
  KeyName :: string

definition no_certificate :: certificate where
  "no_certificate = \<lparr>CertDir = '''', CertName = '''', KeyName = ''''\<rparr>"

record webhook_options =
  WhTLSOpts :: "(string list \<Rightarrow> string list) list"
  WhCert :: certificate

definition webhookServerOptions :: "flags \<Rightarrow> webhook_options" where
  "webhookServerOptions f =
     (let opts = \<lparr>WhTLSOpts = tlsOpts f, WhCert = no_certificate\<rparr> in
      if length (webhookCertPath f) > 0
      then opts\<lparr>WhCert := \<lparr>CertDir = webhookCertPath f, CertName = webhookCertName f, KeyName = webhookCertKey f\<rparr>\<rparr>
      else opts)"

text \<open>\<open>MsFilter\<close>: the filter \<open>WithAuthenticationAndAuthorization\<close> is installed.\<close>

record metrics_options =
  MsBindAddress :: string
  MsSecureServing :: bool
  MsTLSOpts :: "(string list \<Rightarrow> string list) list"
  MsFilter :: bool
  MsCert :: certificate

definition metricsServerOptions :: "flags \<Rightarrow> metrics_options" where
  "metricsServerOptions f =
     (let opts0 = \<lparr>MsBindAddress = metricsAddr f, MsSecureServing = secureMetrics f, MsTLSOpts = tlsOpts f,
                   MsFilter = False, MsCert = no_certificate\<rparr>;
          opts1 = (if secureMetrics f then opts0\<lparr>MsFilter := True\<rparr> else opts0)
      in if length (metricsCertPath f) > 0
         then opts1\<lparr>MsCert := \<lparr>CertDir = metricsCertPath f, CertName = metricsCertName f, KeyName = metricsCertKey f\<rparr>\<rparr>
         else opts1)"

record manager_options =
  MoMetrics :: metrics_options
  MoWebhook :: webhook_options
  MoHealthProbe :: string
  MoLeaderElection :: bool
  MoLeaderElectionID :: string

definition managerOptions :: "flags \<Rightarrow> manager_options" where
  "managerOptions f = \<lparr>MoMetrics = metricsServerOptions f, MoWebhook = webhookServerOptions f, MoHealthProbe = probeAddr f,
     MoLeaderElection = enableLeaderElection f, MoLeaderElectionID = ''822236c5.saturdai.auto''\<rparr>"

text \<open>Unless HTTP/2 is asked for, neither server offers it; metrics that are served securely are protected.\<close>

lemma no_http2_by_default:
  assumes "\<not> enableHTTP2 f"
  shows "foldl (\<lambda>ps opt. opt ps) ps (WhTLSOpts (MoWebhook (managerOptions f))) = [''http/1.1'']"
    and "foldl (\<lambda>ps opt. opt ps) ps (MsTLSOpts (MoMetrics (managerOptions f))) = [''http/1.1'']"
  using assms by (simp_all add: managerOptions_def webhookServerOptions_def metricsServerOptions_def Let_def tlsOpts_def disableHTTP2_def)

lemma metrics_protected:
  "MsFilter (metricsServerOptions f) = secureMetrics f" "MsSecureServing (metricsServerOptions f) = secureMetrics f"
  by (simp_all add: metricsServerOptions_def Let_def)

section \<open>Start-up\<close>

text \<open>The calls that can fail, in their order; the first that fails is logged and ends the process.\<close>

datatype setup_step =
    CreateClientset | CreateManager | IndexPods | SetupWorkloadController | AddDefaultsLoader
  | SetupNamespaceController | SetupClusterController | AddHealthz | AddReadyz | StartManager

definition setup_order :: "setup_step list" where
  "setup_order = [CreateClientset, CreateManager, IndexPods, SetupWorkloadController, AddDefaultsLoader,
     SetupNamespaceController, SetupClusterController, AddHealthz, AddReadyz, StartManager]"

fun failure_message :: "setup_step \<Rightarrow> string" where
  "failure_message CreateClientset = ''Failed to create Kubernetes clientset''"
| "failure_message CreateManager = ''Failed to start manager''"
| "failure_message IndexPods = ''Failed to index Pod by spec.nodeName''"
| "failure_message AddDefaultsLoader = ''Failed to add global defaults loader''"
| "failure_message AddHealthz = ''Failed to set up health check''"
| "failure_message AddReadyz = ''Failed to set up ready check''"
| "failure_message StartManager = ''Failed to run manager''"
| "failure_message _ = ''Failed to create controller''"

text \<open>The steps taken, and the exit code with what was logged.\<close>

fun run_setup :: "(setup_step \<Rightarrow> string option) \<Rightarrow> setup_step list \<Rightarrow> setup_step list \<times> int \<times> (string \<times> string) option" where
  "run_setup fails [] = ([], 0, None)"
| "run_setup fails (s # ss) =
     (case fails s of
        Some e \<Rightarrow> ([s], 1, Some (failure_message s, e))
      | None \<Rightarrow> (let (taken, rest) = run_setup fails ss in (s # taken, rest)))"

definition main_run :: "(setup_step \<Rightarrow> string option) \<Rightarrow> setup_step list \<times> int \<times> (string \<times> string) option" where
  "main_run fails = run_setup fails setup_order"

lemma run_setup_prefix: "\<exists>rest. ss = fst (run_setup fails ss) @ rest"
  by (induction ss) (auto split: option.split prod.splits)

lemma run_setup_succeeds:
  "x \<in> set (butlast (fst (run_setup fails ss))) \<Longrightarrow> fails x = None"
proof (induction ss)
  case (Cons s ss)
  then show ?case by (cases "fails s") (auto split: prod.splits if_splits)
qed simp

text \<open>Nothing reconciles before every controller, the loader and the checks are set up.\<close>

lemma start_needs_setup:
  assumes "StartManager \<in> set (fst (main_run fails))" "s \<noteq> StartManager"
  shows "fails s = None"
proof -
  obtain rest where r: "setup_order = fst (main_run fails) @ rest" using run_setup_prefix unfolding main_run_def by blast
  have "rest = []"
  proof (cases rest rule: rev_cases)
    case (snoc ys y)
    then have "butlast setup_order = fst (main_run fails) @ ys" using r by (metis append_assoc butlast_snoc)
    moreover have "StartManager \<notin> set (butlast setup_order)" by (simp add: setup_order_def)
    ultimately show ?thesis using assms(1) by auto
  qed
  then have "set (butlast (fst (main_run fails))) = set (butlast setup_order)" using r by simp
  moreover have "s \<in> set (butlast setup_order)" using assms(2) by (cases s) (simp_all add: setup_order_def)
  ultimately show ?thesis using run_setup_succeeds unfolding main_run_def by blast
qed

section \<open>The controllers\<close>

text \<open>
  What the manager and the libraries provide.  The fields named after kinds of objects are the one
  client of the manager, by kind.  The clock and the iteration order differ from reconcile to
  reconcile and are arguments of the controllers.
\<close>

record ('c, 'q, 'ls, 'sel, 'sk, 'pb) manager =
  mgrProfiles :: "('c, 'q WorkloadProfile, 'sel) kind_client"
  mgrNamespaceProfiles :: "('c, ('q, 'ls) NamespaceProfile, 'sel) kind_client"
  mgrClusterProfiles :: "('c, ('q, 'ls) ClusterProfile, 'sel) kind_client"
  mgrDeployments :: "('c, ('q, 'ls) Workload, 'sel) kind_client"
  mgrStatefulSets :: "('c, ('q, 'ls) Workload, 'sel) kind_client"
  mgrReplicaSets :: "('c, ReplicaSet, 'sel) kind_client"
  mgrNamespaces :: "('c, string, 'sel) kind_client"
  mgrPods :: "('c, 'q Pod, 'sel) kind_client"
  mgrConfigMaps :: "('c, ConfigMap, 'sel) kind_client"
  mgrDoRaw :: "'c \<Rightarrow> int \<Rightarrow> string \<Rightarrow> string + string"
  mgrNodes :: "'c \<Rightarrow> 'q node_api"
  mgrResize :: "('c, 'q) resize_api"
  mgrAsSelector :: "'ls \<Rightarrow> api_error + 'sel"
  mgrUnmarshalSummary :: "string \<Rightarrow> string + Summary"
  mgrCodec :: json_codec
  mgrSketches :: "('sk, 'pb) sketch_api"
  mgrQuantity :: "'q quantity_api"
  mgrFinalizers :: finalizer_api
  mgrSetOwner :: "('q, 'ls) NamespaceProfile \<Rightarrow> 'q WorkloadProfile \<Rightarrow> api_error option"
  mgrSetCond :: "Condition list \<Rightarrow> Condition \<Rightarrow> Condition list"
  mgrRetry :: "('c \<Rightarrow> api_error option \<times> 'c) \<Rightarrow> 'c \<Rightarrow> api_error option \<times> 'c"
  mgrActuationEnv :: string

definition workload_controller :: "('c, 'q, 'ls, 'sel, 'sk, 'pb) manager \<Rightarrow> (instant \<Rightarrow> gotime) \<Rightarrow> (string list \<Rightarrow> string list)
    \<Rightarrow> ('c, 'q, 'ls, 'sel, 'sk, 'pb) reconciler" where
  "workload_controller M clock ord =
     \<lparr>rProfiles = mgrProfiles M, rDeployments = mgrDeployments M, rStatefulSets = mgrStatefulSets M, rPods = mgrPods M,
      rAsSelector = mgrAsSelector M,
      rFetchSummary = FetchSummary (mgrUnmarshalSummary M) (NewClient (mgrDoRaw M) (15 * second_ns)),
      rNodes = mgrNodes M, rResize = mgrResize M, rMLState = Some (mgrConfigMaps M), rCodec = mgrCodec M,
      rDetector = Some [Some (EventRecorderHandler True)], rClock = clock, rOrd = ord,
      rSketches = mgrSketches M, rQuantity = mgrQuantity M, rSetCond = mgrSetCond M, rRetry = mgrRetry M,
      rActuationEnv = mgrActuationEnv M\<rparr>"

definition namespace_controller :: "('c, 'q, 'ls, 'sel, 'sk, 'pb) manager \<Rightarrow> (string list \<Rightarrow> string list) \<Rightarrow> ('c, 'q, 'ls, 'sel) nsp_reconciler" where
  "namespace_controller M ord =
     \<lparr>nProfiles = mgrNamespaceProfiles M, nDeployments = mgrDeployments M, nStatefulSets = mgrStatefulSets M,
      nChildren = mgrProfiles M, nAsSelector = mgrAsSelector M, nSetOwner = mgrSetOwner M, nSetCond = mgrSetCond M,
      nRetry = mgrRetry M, nOrd = ord\<rparr>"

definition cluster_controller :: "('c, 'q, 'ls, 'sel, 'sk, 'pb) manager \<Rightarrow> (string list \<Rightarrow> string list) \<Rightarrow> ('c, 'q, 'ls, 'sel) csp_reconciler" where
  "cluster_controller M ord =
     \<lparr>cProfiles = mgrClusterProfiles M, cNamespaces = mgrNamespaces M, cDeployments = mgrDeployments M,
      cStatefulSets = mgrStatefulSets M, cChildren = mgrProfiles M, cAsSelector = mgrAsSelector M,
      cFinalizers = mgrFinalizers M, cSetCond = mgrSetCond M, cRetry = mgrRetry M, cOrd = ord\<rparr>"

text \<open>The three flags of the loader; the decoder of admission requests and the encoder are libraries.\<close>

definition defaults_loader :: "flags \<Rightarrow> 'q GlobalDefaultsLoader" where
  "defaults_loader f = NewGlobalDefaultsLoader (defaultsCMNamespace f) (defaultsCMName f) (defaultsReload f)"

definition pod_mutator :: "('c, 'q, 'ls, 'sel, 'sk, 'pb) manager \<Rightarrow> ('raw admission_request \<Rightarrow> string + 'q Pod) \<Rightarrow> ('q Pod \<Rightarrow> string + 'raw)
    \<Rightarrow> 'q GlobalDefaultsLoader \<Rightarrow> ('c, 'q, 'raw, 'sel) PodMutator" where
  "pod_mutator M dec marshal loader =
     \<lparr>mReplicaSets = mgrReplicaSets M, mProfiles = mgrProfiles M, mDecode = dec, mMarshal = marshal, mDefaults = Some loader\<rparr>"

lemma controller_fields [simp]:
  "nProfiles (namespace_controller M ord) = mgrNamespaceProfiles M" "nDeployments (namespace_controller M ord) = mgrDeployments M"
  "nStatefulSets (namespace_controller M ord) = mgrStatefulSets M" "nChildren (namespace_controller M ord) = mgrProfiles M"
  "nAsSelector (namespace_controller M ord) = mgrAsSelector M" "nSetOwner (namespace_controller M ord) = mgrSetOwner M"
  "nSetCond (namespace_controller M ord) = mgrSetCond M" "nRetry (namespace_controller M ord) = mgrRetry M"
  "nOrd (namespace_controller M ord) = ord"
  "cProfiles (cluster_controller M ord) = mgrClusterProfiles M" "cNamespaces (cluster_controller M ord) = mgrNamespaces M"
  "cDeployments (cluster_controller M ord) = mgrDeployments M" "cStatefulSets (cluster_controller M ord) = mgrStatefulSets M"
  "cChildren (cluster_controller M ord) = mgrProfiles M" "cAsSelector (cluster_controller M ord) = mgrAsSelector M"
  "cFinalizers (cluster_controller M ord) = mgrFinalizers M" "cSetCond (cluster_controller M ord) = mgrSetCond M"
  "cRetry (cluster_controller M ord) = mgrRetry M" "cOrd (cluster_controller M ord) = ord"
  "rProfiles (workload_controller M clock ord) = mgrProfiles M" "rRetry (workload_controller M clock ord) = mgrRetry M"
  "rMLState (workload_controller M clock ord) = Some (mgrConfigMaps M)" "rResize (workload_controller M clock ord) = mgrResize M"
  by (simp_all add: namespace_controller_def cluster_controller_def workload_controller_def)

end
