(* ===== verification/System.thy ===== *)
theory System
  imports Manager
begin

text \<open>
  The three controllers on one cluster.  Reconciles, of any profile and in any order, successful or
  failing half-way, alternate with what users do.  Two properties hold along every such run: no two
  profiles act on the same workload, and a profile that a user wrote keeps its specification.
\<close>

section \<open>Roles\<close>

text \<open>What decides who acts on what: labels and specification.  Status writes leave them alone.\<close>

type_synonym 'q profiles = "objkey \<Rightarrow> 'q WorkloadProfile option"

definition role :: "'q WorkloadProfile \<Rightarrow> (string \<rightharpoonup> string) \<times> 'q WorkloadProfileSpec" where
  "role x = (ProfileLabels x, Spec x)"

definition roles :: "'q profiles \<Rightarrow> objkey \<Rightarrow> ((string \<rightharpoonup> string) \<times> 'q WorkloadProfileSpec) option" where
  "roles m k = map_option role (m k)"

definition parent_kinds :: "string set" where
  "parent_kinds = {''NamespaceProfile'', ''ClusterProfile''}"

definition kept :: "('c \<Rightarrow> 'q profiles) \<Rightarrow> 'c \<Rightarrow> 'c \<Rightarrow> bool" where
  "kept objs c c' \<longleftrightarrow> roles (objs c') = roles (objs c)"

text \<open>Parents' names and workloads that a run is about: the names of children are unambiguous for them.\<close>

definition ids_distinct :: "string set \<Rightarrow> WorkloadKey set \<Rightarrow> bool" where
  "ids_distinct Ps K \<longleftrightarrow> inj_on key_String K \<and>
     (\<forall>p \<in> Ps. \<forall>p' \<in> Ps. \<forall>key \<in> K. \<forall>key' \<in> K. child_id p key = child_id p' key' \<longrightarrow> key = key')"

definition child_ids :: "string set \<Rightarrow> WorkloadKey set \<Rightarrow> objkey set" where
  "child_ids Ps K = {child_id p key | p key. p \<in> Ps \<and> key \<in> K}"

text \<open>A profile that no parent made: not under the name of a child, and not labelled as one.\<close>

definition hand_made :: "string set \<Rightarrow> WorkloadKey set \<Rightarrow> objkey \<Rightarrow> 'q WorkloadProfile \<Rightarrow> bool" where
  "hand_made Ps K k x \<longleftrightarrow> k \<notin> child_ids Ps K \<and> (\<forall>kind \<in> parent_kinds. \<forall>p \<in> Ps. \<not> isOurs kind p x)"

text \<open>No two profiles of a namespace claim the same workload.\<close>

definition exclusive :: "'q profiles \<Rightarrow> bool" where
  "exclusive m \<longleftrightarrow> (\<forall>k k' x x'. m k = Some x \<and> m k' = Some x' \<and> fst k = fst k'
     \<and> claim_key (fst k) x = claim_key (fst k) x' \<longrightarrow> k = k')"

text \<open>
  Children are where their parents look for them: a profile labelled with a parent has the name of a
  child of it, and under the name of a child is a profile for the workload the name is made from.
\<close>

definition children_placed :: "string set \<Rightarrow> WorkloadKey set \<Rightarrow> 'q profiles \<Rightarrow> bool" where
  "children_placed Ps K m \<longleftrightarrow>
     (\<forall>k x kind p. m k = Some x \<and> kind \<in> parent_kinds \<and> p \<in> Ps \<and> isOurs kind p x \<longrightarrow> (\<exists>key \<in> K. k = child_id p key)) \<and>
     (\<forall>p key x. p \<in> Ps \<and> key \<in> K \<and> m (child_id p key) = Some x \<longrightarrow> claim_key (KeyNamespace key) x = key_String key)"

lemma role_eq_simps:
  assumes "role x = role y"
  shows "isOurs kind p x = isOurs kind p y" "claim_key ns x = claim_key ns y" "has_profile_labels ls x = has_profile_labels ls y"
    "Spec x = Spec y" "ProfileLabels x = ProfileLabels y"
  using assms by (simp_all add: role_def isOurs_def label_of_def claim_key_def has_profile_labels_def)

text \<open>
  Less is harmless: with every profile of \<open>m'\<close> in the same role in \<open>m\<close>, what holds of \<open>m\<close> holds of \<open>m'\<close>.
\<close>

definition no_more :: "'q profiles \<Rightarrow> 'q profiles \<Rightarrow> bool" where
  "no_more m' m \<longleftrightarrow> (\<forall>k x'. m' k = Some x' \<longrightarrow> (\<exists>x. m k = Some x \<and> role x = role x'))"

lemma no_moreE:
  assumes "no_more m' m" "m' k = Some x'"
  obtains x where "m k = Some x" "role x = role x'"
  using assms unfolding no_more_def by blast

lemma no_more_delete [simp]: "no_more (m(k := None)) m"
  by (simp add: no_more_def)

lemma no_more_roles: "roles m = roles m' \<Longrightarrow> no_more m' m"
proof -
  assume r: "roles m = roles m'"
  have "\<exists>x. m k = Some x \<and> role x = role x'" if "m' k = Some x'" for k x'
    using fun_cong [OF r, of k] that by (cases "m k") (auto simp: roles_def)
  then show "no_more m' m" by (simp add: no_more_def)
qed

lemma exclusiveD:
  "exclusive m \<Longrightarrow> m k = Some x \<Longrightarrow> m k' = Some x' \<Longrightarrow> fst k = fst k' \<Longrightarrow> claim_key (fst k) x = claim_key (fst k) x' \<Longrightarrow> k = k'"
  unfolding exclusive_def by blast

lemma exclusiveI:
  "(\<And>k k' x x'. m k = Some x \<Longrightarrow> m k' = Some x' \<Longrightarrow> fst k = fst k' \<Longrightarrow> claim_key (fst k) x = claim_key (fst k) x' \<Longrightarrow> k = k') \<Longrightarrow> exclusive m"
  unfolding exclusive_def by blast

lemma placed_ours:
  "children_placed Ps K m \<Longrightarrow> m k = Some x \<Longrightarrow> kind \<in> parent_kinds \<Longrightarrow> p \<in> Ps \<Longrightarrow> isOurs kind p x \<Longrightarrow> \<exists>key \<in> K. k = child_id p key"
  unfolding children_placed_def by blast

lemma placed_claim:
  "children_placed Ps K m \<Longrightarrow> p \<in> Ps \<Longrightarrow> key \<in> K \<Longrightarrow> m (child_id p key) = Some x \<Longrightarrow> claim_key (KeyNamespace key) x = key_String key"
  unfolding children_placed_def by blast

lemma children_placedI:
  assumes "\<And>k x kind p. m k = Some x \<Longrightarrow> kind \<in> parent_kinds \<Longrightarrow> p \<in> Ps \<Longrightarrow> isOurs kind p x \<Longrightarrow> \<exists>key \<in> K. k = child_id p key"
    and "\<And>p key x. p \<in> Ps \<Longrightarrow> key \<in> K \<Longrightarrow> m (child_id p key) = Some x \<Longrightarrow> claim_key (KeyNamespace key) x = key_String key"
  shows "children_placed Ps K m"
  unfolding children_placed_def using assms by blast

lemma exclusive_less:
  assumes "no_more m' m" "exclusive m"
  shows "exclusive m'"
proof (rule exclusiveI)
  fix k k' x x'
  assume a: "m' k = Some x" "m' k' = Some x'" "fst k = fst k'" "claim_key (fst k) x = claim_key (fst k) x'"
  obtain y y' where y: "m k = Some y" "role y = role x" "m k' = Some y'" "role y' = role x'"
    using a(1,2) no_moreE [OF assms(1)] by metis
  show "k = k'" by (rule exclusiveD [OF assms(2) y(1,3) a(3)]) (simp add: a(4) role_eq_simps(2) [OF y(2)] role_eq_simps(2) [OF y(4)])
qed

lemma children_placed_less:
  assumes "no_more m' m" "children_placed Ps K m"
  shows "children_placed Ps K m'"
proof (rule children_placedI)
  fix k x kind p
  assume a: "m' k = Some x" "kind \<in> parent_kinds" "p \<in> Ps" "isOurs kind p x"
  obtain y where y: "m k = Some y" "role y = role x" using no_moreE [OF assms(1) a(1)] .
  show "\<exists>key \<in> K. k = child_id p key" by (rule placed_ours [OF assms(2) y(1) a(2,3)]) (simp add: a(4) role_eq_simps(1) [OF y(2)])
next
  fix p key x
  assume a: "p \<in> Ps" "key \<in> K" "m' (child_id p key) = Some x"
  obtain y where y: "m (child_id p key) = Some y" "role y = role x" using no_moreE [OF assms(1) a(3)] .
  show "claim_key (KeyNamespace key) x = key_String key"
    using placed_claim [OF assms(2) a(1,2) y(1)] by (simp add: role_eq_simps(2) [OF y(2)])
qed

section \<open>What making a child does\<close>

definition made_child :: "string \<Rightarrow> string \<Rightarrow> 'q PolicySpec \<Rightarrow> WorkloadKey \<Rightarrow> 'q WorkloadProfile \<Rightarrow> bool" where
  "made_child kind p policy key z \<longleftrightarrow> ProfileLabels z = map_of (parent_labels kind p) \<and> Spec z = child_spec policy key"

lemma made_child_facts:
  assumes "made_child kind p policy key z"
  shows "claim_key (KeyNamespace key) z = key_String key" "isOurs kind' p' z \<longleftrightarrow> kind' = kind \<and> p' = p"
  using assms by (auto simp: made_child_def claim_key_def child_spec_def isOurs_def label_of_def parent_labels_def
      LabelManagedBy_def LabelParentKind_def LabelParentName_def key_String_def)

text \<open>A key is free for a parent when nobody but its own child claims it.\<close>

definition free_for :: "'q profiles \<Rightarrow> string \<Rightarrow> WorkloadKey \<Rightarrow> bool" where
  "free_for m p key \<longleftrightarrow> (\<forall>k x. m k = Some x \<and> fst k = KeyNamespace key \<and> claim_key (fst k) x = key_String key \<longrightarrow> k = child_id p key)"

lemma free_forD:
  "free_for m p key \<Longrightarrow> m k = Some x \<Longrightarrow> fst k = KeyNamespace key \<Longrightarrow> claim_key (fst k) x = key_String key \<Longrightarrow> k = child_id p key"
  unfolding free_for_def by blast

lemma fst_child_id [simp]: "fst (child_id p key) = KeyNamespace key"
  by (simp add: child_id_def)

text \<open>Making the child of a free key keeps the order, and every other free key stays free.\<close>

lemma exclusive_make:
  assumes "exclusive m" "free_for m p key" "made_child kind p policy key z"
  shows "exclusive (m(child_id p key \<mapsto> z))"
proof (rule exclusiveI)
  note z = made_child_facts(1) [OF assms(3)]
  fix k k' x x'
  assume a: "(m(child_id p key \<mapsto> z)) k = Some x" "(m(child_id p key \<mapsto> z)) k' = Some x'"
    "fst k = fst k'" "claim_key (fst k) x = claim_key (fst k) x'"
  consider "k = child_id p key" "k' = child_id p key" | "k = child_id p key" "k' \<noteq> child_id p key"
    | "k \<noteq> child_id p key" "k' = child_id p key" | "k \<noteq> child_id p key" "k' \<noteq> child_id p key" by blast
  then show "k = k'"
  proof cases
    case 1 then show ?thesis by simp
  next
    case 2
    then have "x = z" "m k' = Some x'" using a by auto
    moreover have "fst k' = KeyNamespace key" using 2 a(3) by simp
    ultimately have "claim_key (fst k') x' = key_String key" using a(3,4) z by simp
    then show ?thesis using free_forD [OF assms(2) \<open>m k' = Some x'\<close> \<open>fst k' = KeyNamespace key\<close>] 2 by simp
  next
    case 3
    then have "x' = z" "m k = Some x" using a by auto
    moreover have "fst k = KeyNamespace key" using 3 a(3) by simp
    ultimately have "claim_key (fst k) x = key_String key" using a(3,4) z by simp
    then show ?thesis using free_forD [OF assms(2) \<open>m k = Some x\<close> \<open>fst k = KeyNamespace key\<close>] 3 by simp
  next
    case 4
    then have "m k = Some x" "m k' = Some x'" using a(1,2) by simp_all
    then show ?thesis by (rule exclusiveD [OF assms(1) _ _ a(3,4)])
  qed
qed

lemma placed_make:
  assumes "ids_distinct Ps K" "children_placed Ps K m" "p \<in> Ps" "key \<in> K" "made_child kind p policy key z"
  shows "children_placed Ps K (m(child_id p key \<mapsto> z))"
proof (rule children_placedI)
  fix k x kind' p'
  assume a: "(m(child_id p key \<mapsto> z)) k = Some x" "kind' \<in> parent_kinds" "p' \<in> Ps" "isOurs kind' p' x"
  show "\<exists>key \<in> K. k = child_id p' key"
  proof (cases "k = child_id p key")
    case True
    then have "p' = p" using a made_child_facts(2) [OF assms(5)] by simp
    then show ?thesis using True assms(4) by blast
  next
    case False
    then show ?thesis using placed_ours [OF assms(2) _ a(2-4)] a(1) by simp
  qed
next
  fix p' key' x
  assume a: "p' \<in> Ps" "key' \<in> K" "(m(child_id p key \<mapsto> z)) (child_id p' key') = Some x"
  show "claim_key (KeyNamespace key') x = key_String key'"
  proof (cases "child_id p' key' = child_id p key")
    case True
    then have "key' = key" using assms(1,3,4) a(1,2) unfolding ids_distinct_def by blast
    then show ?thesis using True a(3) made_child_facts(1) [OF assms(5)] by simp
  next
    case False
    then show ?thesis using placed_claim [OF assms(2) a(1,2)] a(3) by simp
  qed
qed

lemma free_make:
  assumes "ids_distinct Ps K" "free_for m p key'" "key \<in> K" "key' \<in> K" "made_child kind p policy key z"
  shows "free_for (m(child_id p key \<mapsto> z)) p key'"
  unfolding free_for_def
proof (intro allI impI)
  fix k x
  assume a: "(m(child_id p key \<mapsto> z)) k = Some x \<and> fst k = KeyNamespace key' \<and> claim_key (fst k) x = key_String key'"
  show "k = child_id p key'"
  proof (cases "k = child_id p key")
    case True
    then have "x = z" "KeyNamespace key = KeyNamespace key'" "claim_key (KeyNamespace key') x = key_String key'" using a by auto
    then have "key_String key = key_String key'" using made_child_facts(1) [OF assms(5)] by (metis (full_types))
    then have "key = key'" using assms(1,3,4) unfolding ids_distinct_def by (meson inj_onD)
    then show ?thesis using True by simp
  next
    case False
    then have "m k = Some x" "fst k = KeyNamespace key'" "claim_key (fst k) x = key_String key'" using a by auto
    then show ?thesis by (rule free_forD [OF assms(2)])
  qed
qed

section \<open>What a parent controller may do\<close>

text \<open>
  Abstractly, a reconcile of the parent \<open>p\<close> makes children for some of the given keys and removes profiles
  with its labels, in any order and as often as it likes.
\<close>

inductive parent_effect :: "string \<Rightarrow> string \<Rightarrow> WorkloadKey set \<Rightarrow> 'q profiles \<Rightarrow> 'q profiles \<Rightarrow> bool" for kind p keys m where
  nothing: "parent_effect kind p keys m m"
| made: "parent_effect kind p keys m m1 \<Longrightarrow> key \<in> keys \<Longrightarrow> made_child kind p policy key z \<Longrightarrow>
    parent_effect kind p keys m (m1(child_id p key \<mapsto> z))"
| removed: "parent_effect kind p keys m m1 \<Longrightarrow> (\<And>x. m1 k = Some x \<Longrightarrow> has_profile_labels (parent_labels kind p) x) \<Longrightarrow>
    parent_effect kind p keys m (m1(k := None))"

definition unclaimed :: "'q profiles \<Rightarrow> string \<Rightarrow> string \<Rightarrow> WorkloadKey \<Rightarrow> bool" where
  "unclaimed m kind p key \<longleftrightarrow>
     (\<forall>k x. m k = Some x \<and> fst k = KeyNamespace key \<and> claim_key (fst k) x = key_String key \<longrightarrow> isOurs kind p x)"

lemma labelled_ours: "has_profile_labels (parent_labels kind p) x \<Longrightarrow> isOurs kind p x"
  by (simp add: has_profile_labels_def parent_labels_def isOurs_def label_of_def)

lemma unclaimed_free:
  assumes "ids_distinct Ps K" "children_placed Ps K m" "kind \<in> parent_kinds" "p \<in> Ps" "key \<in> K" "unclaimed m kind p key"
  shows "free_for m p key"
  unfolding free_for_def
proof (intro allI impI)
  fix k x
  assume a: "m k = Some x \<and> fst k = KeyNamespace key \<and> claim_key (fst k) x = key_String key"
  then have o: "isOurs kind p x" using assms(6) unfolding unclaimed_def by blast
  obtain key' where k: "key' \<in> K" "k = child_id p key'" using placed_ours [OF assms(2) _ assms(3,4) o] a by blast
  have "claim_key (KeyNamespace key') x = key_String key'" using placed_claim [OF assms(2,4) k(1)] a k(2) by simp
  then have "key_String key' = key_String key" using a k(2) by simp
  then have "key' = key" using assms(1,5) k(1) unfolding ids_distinct_def by (meson inj_onD)
  then show "k = child_id p key" using k(2) by simp
qed

lemma free_less:
  assumes "no_more m' m" "free_for m p key"
  shows "free_for m' p key"
  unfolding free_for_def
proof (intro allI impI)
  fix k x
  assume a: "m' k = Some x \<and> fst k = KeyNamespace key \<and> claim_key (fst k) x = key_String key"
  obtain y where y: "m k = Some y" "role y = role x" using no_moreE [OF assms(1)] a by blast
  have "claim_key (fst k) y = key_String key" using role_eq_simps(2) [OF y(2), of "fst k"] a by metis
  then show "k = child_id p key" using free_forD [OF assms(2) y(1)] a by blast
qed

text \<open>Both invariants survive, when the keys were unclaimed at the start.\<close>

lemma parent_effect_exclusive:
  assumes "parent_effect kind p keys m m'" "ids_distinct Ps K" "kind \<in> parent_kinds" "p \<in> Ps" "keys \<subseteq> K"
    and "\<And>key. key \<in> keys \<Longrightarrow> unclaimed m kind p key" "exclusive m" "children_placed Ps K m"
  shows "exclusive m' \<and> children_placed Ps K m'"
proof -
  have "exclusive m' \<and> children_placed Ps K m' \<and> (\<forall>key \<in> keys. free_for m' p key)"
    using assms(1)
  proof induction
    case nothing
    then show ?case using assms(5,6,7,8) unclaimed_free [OF assms(2,8,3,4)] by blast
  next
    case (made m1 key policy z)
    then show ?case using assms(5) exclusive_make placed_make [OF assms(2) _ assms(4)] free_make [OF assms(2)] by (meson subsetD)
  next
    case (removed m1 k)
    then show ?case using no_more_delete [of m1 k] exclusive_less children_placed_less free_less by blast
  qed
  then show ?thesis by blast
qed

text \<open>A hand-made profile is neither overwritten nor removed.\<close>

lemma parent_effect_hand_made:
  assumes "parent_effect kind p keys m m'" "kind \<in> parent_kinds" "p \<in> Ps" "keys \<subseteq> K" "hand_made Ps K k x" "m k = Some x"
  shows "m' k = Some x"
  using assms(1)
proof induction
  case nothing
  then show ?case using assms(6) .
next
  case (made m1 key policy z)
  then have "child_id p key \<in> child_ids Ps K" using assms(3,4) unfolding child_ids_def by blast
  then have "child_id p key \<noteq> k" using assms(5) unfolding hand_made_def by blast
  then show ?case using made.IH by simp
next
  case (removed m1 k')
  have "k' \<noteq> k" using removed assms(2,3,5) labelled_ours unfolding hand_made_def by blast
  then show ?case using removed.IH by simp
qed

section \<open>The workloads a run is about\<close>

definition workloads_within :: "('c, 'q, 'ls, 'sel, 'sk, 'pb) manager \<Rightarrow> WorkloadKey set \<Rightarrow> 'c \<Rightarrow> bool" where
  "workloads_within M K c \<longleftrightarrow>
     (\<forall>ns filt ws w. KList (mgrDeployments M) c (Some ns) filt = Inr ws \<and> w \<in> set ws \<longrightarrow> wl_key ''Deployment'' ns w \<in> K) \<and>
     (\<forall>ns filt ws w. KList (mgrStatefulSets M) c (Some ns) filt = Inr ws \<and> w \<in> set ws \<longrightarrow> wl_key ''StatefulSet'' ns w \<in> K)"

lemma listed_within:
  assumes "workloads_within M K c"
    and "ListWorkloads as_selector (mgrDeployments M) (mgrStatefulSets M) c ns sel n = Inr keys"
  shows "set keys \<subseteq> K"
proof -
  obtain filt ds ss where l:
    "ds = [] \<or> include_kind KindDeployment sel \<and> KList (mgrDeployments M) c (Some ns) filt = Inr ds"
    "ss = [] \<or> include_kind KindStatefulSet sel \<and> KList (mgrStatefulSets M) c (Some ns) filt = Inr ss"
    "keys = take (nat (target_cap DefaultMaxTargets n)) (all_keys ns ds ss)"
    by (rule ListWorkloads_members [OF assms(2)])
  have "set (all_keys ns ds ss) \<subseteq> K" using l(1,2) assms(1) by (auto simp: all_keys_def workloads_within_def)
  then show ?thesis using l(3) set_take_subset by fastforce
qed

lemma list_namespaces_within:
  assumes "\<And>ns r ks. list_ns ns r = Inr ks \<Longrightarrow> set ks \<subseteq> K"
  shows "set keys \<subseteq> K \<Longrightarrow> list_namespaces list_ns mx keys nss = Inr out \<Longrightarrow> set out \<subseteq> K"
proof (induction nss arbitrary: keys)
  case (Cons ns nss)
  show ?case
  proof (cases "mx - int (length keys) \<le> 0")
    case True
    then show ?thesis using Cons.prems by simp
  next
    case False
    then obtain ks where ks: "list_ns ns (mx - int (length keys)) = Inr ks" "list_namespaces list_ns mx (keys @ ks) nss = Inr out"
      using Cons.prems(2) by (auto simp: Let_def split: sum.splits)
    then show ?thesis using Cons.IH [of "keys @ ks"] Cons.prems(1) assms [OF ks(1)] by simp
  qed
qed simp

lemma listed_cluster_within:
  assumes "workloads_within M K c"
    and "ListClusterWorkloads as_selector N (mgrDeployments M) (mgrStatefulSets M) c nsSel wSel n = Inr keys"
  shows "set keys \<subseteq> K"
proof -
  obtain mx nss where l: "list_namespaces (\<lambda>ns remaining. ListWorkloads as_selector (mgrDeployments M) (mgrStatefulSets M) c ns wSel remaining) mx [] nss = Inr keys"
    using assms(2) by (auto simp: ListClusterWorkloads_def Let_def split: sum.splits)
  show ?thesis by (rule list_namespaces_within [OF listed_within [OF assms(1)] _ l]) simp_all
qed

section \<open>The cluster the controllers share\<close>

text \<open>
  What is relied on of the API server, whether a write succeeds or not: it is done or it is not, and it
  touches no other profile; a status write leaves labels and specification; config maps, pods and
  parents are other objects than profiles.
\<close>

locale shared_cluster = profile_store "mgrProfiles M" objs
  for M :: "('c, 'q, 'ls, 'sel, 'sk, 'pb) manager" and objs +
  assumes retry: "conflict_retry (mgrRetry M)"
    and upsert_any: "KCreateOrUpdate (mgrProfiles M) c x f = (e, c') \<Longrightarrow> objs c' = objs c \<or>
          (\<exists>y z. f (case objs c (profile_key x) of None \<Rightarrow> x | Some old \<Rightarrow> old) = Inr y \<and> child_agrees y z \<and>
                 objs c' = (objs c)(profile_key x \<mapsto> z))"
    and delete_any: "KDelete (mgrProfiles M) c x = (e, c') \<Longrightarrow> objs c' = objs c \<or> objs c' = (objs c)(profile_key x := None)"
    and status_any: "KStatus (mgrProfiles M) c x = (e, c') \<Longrightarrow> objs c (profile_key x) = Some y \<Longrightarrow> role y = role x \<Longrightarrow>
          roles (objs c') = roles (objs c)"
    and config_create: "KCreate (mgrConfigMaps M) c cm = (e, c') \<Longrightarrow> objs c' = objs c"
    and config_patch: "KPatch (mgrConfigMaps M) c cm0 cm = (e, c') \<Longrightarrow> objs c' = objs c"
    and resize: "ResizePod (mgrResize M) c pod = (r, c') \<Longrightarrow> objs c' = objs c"
    and nsp_get: "KGet (mgrNamespaceProfiles M) c k = Inr np \<Longrightarrow> nsp_key np = k"
    and nsp_status: "KStatus (mgrNamespaceProfiles M) c np = (e, c') \<Longrightarrow> objs c' = objs c"
    and csp_get: "KGet (mgrClusterProfiles M) c k = Inr cp \<Longrightarrow> csp_key cp = k"
    and csp_status: "KStatus (mgrClusterProfiles M) c cp = (e, c') \<Longrightarrow> objs c' = objs c"
    and csp_update: "KUpdate (mgrClusterProfiles M) c cp = (e, c') \<Longrightarrow> objs c' = objs c"
begin

text \<open>A retried write keeps what each attempt keeps.\<close>

lemma retried:
  assumes "\<And>c e c'. f c = (e, c') \<Longrightarrow> I c \<Longrightarrow> I c'" "mgrRetry M f c = (e, c')" "I c"
  shows "I c'"
proof -
  obtain c1 where c1: "conflict_runs f c c1" "mgrRetry M f c = f c1"
    using conflict_retry.last_run [OF retry, of f c] by blast
  have "I c1" using c1(1) assms(3) by (induction rule: conflict_runs.induct) (use assms(1) in blast)+
  then show ?thesis using assms(1,2) c1(2) by simp
qed

subsection \<open>Children\<close>

text \<open>
  An invariant of profiles that making a child and deleting a labelled one keep, is kept by both
  loops, wherever they stop.
\<close>

lemma sync_keys_any:
  assumes "\<And>m key z. key \<in> set keys \<Longrightarrow> J m \<Longrightarrow> made_child kind p policy key z \<Longrightarrow> J (m(child_id p key \<mapsto> z))"
    and "sync_keys (mgrProfiles M) (mutate_child set_owner kind p policy) (childName p) shown c keys = (e, c')" "J (objs c)"
  shows "J (objs c')"
  using assms
proof (induction keys arbitrary: c)
  case (Cons key keys)
  let ?new = "new_child (childName p key) key :: 'q WorkloadProfile"
  obtain e1 c1 where c1: "KCreateOrUpdate (mgrProfiles M) c ?new (mutate_child set_owner kind p policy key) = (e1, c1)" by fastforce
  have new: "profile_key ?new = child_id p key" by (simp add: profile_key_def new_child_def child_id_def)
  have J1: "J (objs c1)"
  proof (cases "objs c1 = objs c")
    case True
    then show ?thesis using Cons.prems(3) by simp
  next
    case False
    then obtain old y z where z: "mutate_child set_owner kind p policy key old = Inr y" "child_agrees y z"
        "objs c1 = (objs c)(child_id p key \<mapsto> z)"
      using upsert_any [OF c1] unfolding new by blast
    have "made_child kind p policy key z"
      using z(1,2) by (auto simp: mutate_child_def Let_def made_child_def child_agrees_def split: option.splits)
    then show ?thesis unfolding z(3) by (rule Cons.prems(1) [OF list.set_intros(1) Cons.prems(3)])
  qed
  show ?case
  proof (cases e1)
    case None
    then have "sync_keys (mgrProfiles M) (mutate_child set_owner kind p policy) (childName p) shown c1 keys = (e, c')"
      using Cons.prems(2) c1 by simp
    with J1 show ?thesis by (intro Cons.IH [of c1]) (rule Cons.prems(1) [OF list.set_intros(2)])
  next
    case (Some x)
    then show ?thesis using Cons.prems(2) c1 J1 by simp
  qed
qed simp

lemma prune_any:
  assumes "\<And>m x. x \<in> set items \<Longrightarrow> J m \<Longrightarrow> J (m(profile_key x := None))"
    and "prune_children (mgrProfiles M) forgive keep shown c items = (e, c')" "J (objs c)"
  shows "J (objs c')"
  using assms
proof (induction items arbitrary: c)
  case (Cons x xs)
  obtain e1 c1 where c1: "KDelete (mgrProfiles M) c x = (e1, c1)" by fastforce
  have J1: "J (objs c1)"
    using delete_any [OF c1] Cons.prems(1) [OF list.set_intros(1) Cons.prems(3)] Cons.prems(3) by presburger
  have IH: "prune_children (mgrProfiles M) forgive keep shown c2 xs = (e, c') \<Longrightarrow> J (objs c2) \<Longrightarrow> J (objs c')" for c2
    by (rule Cons.IH) (rule Cons.prems(1) [OF list.set_intros(2)])
  show ?case using Cons.prems(2,3) c1 J1 IH by (auto split: if_splits option.splits)
qed simp

lemma made_effect:
  assumes "sync_keys (mgrProfiles M) (mutate_child set_owner kind p policy) (childName p) shown c keys = (e, c')"
  shows "parent_effect kind p (set keys) (objs c) (objs c')"
  by (rule sync_keys_any [where J = "parent_effect kind p (set keys) (objs c)", OF _ assms]) (auto intro: parent_effect.intros)

lemma pruned_effect:
  assumes "KList (mgrProfiles M) c1 nso (MatchingLabels (parent_labels kind p)) = Inr items"
    and "prune_children (mgrProfiles M) forgive keep shown c1 items = (e, c')"
    and "parent_effect kind p keys m (objs c1)"
  shows "parent_effect kind p keys m (objs c')"
proof -
  let ?L = "parent_labels kind p"
  define J where "J m2 \<longleftrightarrow> parent_effect kind p keys m m2
     \<and> (\<forall>x \<in> set items. \<forall>y. m2 (profile_key x) = Some y \<longrightarrow> has_profile_labels ?L y)" for m2
  have items: "objs c1 (profile_key x) = Some x \<and> has_profile_labels ?L x" if "x \<in> set items" for x
    using list_ok [OF assms(1)] that by auto
  have start: "J (objs c1)" unfolding J_def using assms(3) items by fastforce
  have "J (objs c')"
  proof (rule prune_any [where J = J, OF _ assms(2) start])
    fix m2 x
    assume x: "x \<in> set items" "J m2"
    have "parent_effect kind p keys m (m2(profile_key x := None))"
      by (rule parent_effect.removed) (use x in \<open>auto simp: J_def\<close>)
    moreover have "has_profile_labels ?L y'" if "x' \<in> set items" "(m2(profile_key x := None)) (profile_key x') = Some y'" for x' y'
      using that x(2) by (auto simp: J_def split: if_splits)
    ultimately show "J (m2(profile_key x := None))" unfolding J_def by blast
  qed
  then show ?thesis by (simp add: J_def)
qed

lemma syncChildren_effect:
  assumes "syncChildren (mgrProfiles M) set_owner c ns p kind policy keys = (r, c')"
  shows "parent_effect kind p (set keys) (objs c) (objs c')"
proof -
  obtain e1 c1 where s: "sync_keys (mgrProfiles M) (mutate_child set_owner kind p policy) (childName p) (childName p) c keys = (e1, c1)" by fastforce
  note made = made_effect [OF s]
  show ?thesis
  proof (cases "e1 = None \<and> (\<exists>items. KList (mgrProfiles M) c1 (Some ns) (MatchingLabels (parent_labels kind p)) = Inr items)")
    case True
    then obtain items where l: "e1 = None" "KList (mgrProfiles M) c1 (Some ns) (MatchingLabels (parent_labels kind p)) = Inr items" by blast
    then show ?thesis using assms s pruned_effect [OF l(2) _ made]
      by (auto simp: syncChildren_def Let_def split: prod.splits)
  next
    case False
    then show ?thesis using assms s made by (auto simp: syncChildren_def Let_def split: option.splits sum.splits)
  qed
qed

lemma syncClusterChildren_effect:
  assumes "syncClusterChildren (mgrProfiles M) c p kind policy keys = (r, c')"
  shows "parent_effect kind p (set keys) (objs c) (objs c')"
proof -
  obtain e1 c1 where s: "sync_keys (mgrProfiles M) (mutate_child (\<lambda>_. None) kind p policy) (childName p)
      (\<lambda>key. ns_slash_name (KeyNamespace key) (childName p key)) c keys = (e1, c1)" by fastforce
  note made = made_effect [OF s]
  show ?thesis
  proof (cases "e1 = None \<and> (\<exists>items. KList (mgrProfiles M) c1 None (MatchingLabels (parent_labels kind p)) = Inr items)")
    case True
    then obtain items where l: "e1 = None" "KList (mgrProfiles M) c1 None (MatchingLabels (parent_labels kind p)) = Inr items" by blast
    then show ?thesis using assms s pruned_effect [OF l(2) _ made]
      by (auto simp: syncClusterChildren_def Let_def split: prod.splits)
  next
    case False
    then show ?thesis using assms s made by (auto simp: syncClusterChildren_def Let_def split: option.splits sum.splits)
  qed
qed

text \<open>A free key of the conflict detection is one that no profile but the parent's own claims.\<close>

lemma detected_unclaimed:
  assumes "DetectConflicts (mgrProfiles M) c ns keys kind p = Inr r" "key \<in> set (Free r)" "KeyNamespace key = ns"
  shows "unclaimed (objs c) kind p key"
proof -
  obtain items where items: "KList (mgrProfiles M) c (Some ns) AllLabels = Inr items"
    and r: "r = foldl (conflict_step (foldl (claim_step ns kind p) Map.empty items)) \<lparr>Free = [], Conflicting = []\<rparr> keys"
    using assms(1) by (auto simp: DetectConflicts_def Let_def split: sum.splits)
  have "foldl (claim_step ns kind p) Map.empty items (key_String key) = None"
    using assms(2) unfolding r by (simp add: conflict_steps_free)
  then have none: "isOurs kind p x" if "x \<in> set items" "claim_key ns x = key_String key" for x
    using that unfolding claim_steps by (auto simp: find_None_iff split: option.splits)
  show ?thesis unfolding unclaimed_def
  proof (intro allI impI)
    fix k x
    assume a: "objs c k = Some x \<and> fst k = KeyNamespace key \<and> claim_key (fst k) x = key_String key"
    have "profile_key x = k" using a stored_key by blast
    then have "x \<in> set items" using list_ok [OF items] a assms(3) by auto
    moreover have "claim_key ns x = key_String key" using a assms(3) by metis
    ultimately show "isOurs kind p x" by (rule none)
  qed
qed

end

context shared_cluster
begin

subsection \<open>Parents\<close>

lemma patchNSPStatus_frame: "patchNSPStatus (namespace_controller M ord) c p = (e, c') \<Longrightarrow> objs c' = objs c"
  unfolding patchNSPStatus_def controller_fields
  by (rule retried [where I = "\<lambda>c1. objs c1 = objs c"]) (auto dest: nsp_status split: sum.splits)

lemma nsp_finish_frame: "nsp_finish (namespace_controller M ord) c p err = (res, e, c', op) \<Longrightarrow> objs c' = objs c"
  by (auto simp: nsp_finish_def split: prod.splits option.splits dest: patchNSPStatus_frame)

lemma nsp_sync_effect:
  assumes "nsp_sync (namespace_controller M ord) c p free = (res, e, c', op)"
  shows "parent_effect ''NamespaceProfile'' (NspName p) (set free) (objs c) (objs c')"
proof -
  obtain r c1 where s: "syncChildren (mgrProfiles M) (mgrSetOwner M p) c (NspNamespace p) (NspName p) ''NamespaceProfile''
      (NspPolicy (NspSpec p)) free = (r, c1)" by fastforce
  have "objs c' = objs c1"
    using assms s by (auto simp: nsp_sync_def Let_def split: sum.splits dest: nsp_finish_frame)
  then show ?thesis using syncChildren_effect [OF s] by simp
qed

lemma nsp_reconcile_effect:
  assumes "NamespaceProfile_Reconcile (namespace_controller M ord) c req = (res, e, c', op)" "workloads_within M K c"
  shows "\<exists>keys \<subseteq> K. (\<forall>key \<in> keys. unclaimed (objs c) ''NamespaceProfile'' (snd req) key)
     \<and> parent_effect ''NamespaceProfile'' (snd req) keys (objs c) (objs c')"
proof -
  let ?N = "namespace_controller M ord"
  have same: "\<exists>keys \<subseteq> K. (\<forall>key \<in> keys. unclaimed (objs c) ''NamespaceProfile'' (snd req) key)
     \<and> parent_effect ''NamespaceProfile'' (snd req) keys (objs c) (objs c')" if "objs c' = objs c"
    using that parent_effect.nothing by (intro exI [of _ "{}"]) simp
  show ?thesis
  proof (cases "\<exists>p keys r. KGet (mgrNamespaceProfiles M) c req = Inr p
      \<and> ListWorkloads (mgrAsSelector M) (mgrDeployments M) (mgrStatefulSets M) c (NspNamespace p) (NspSelector (NspSpec p))
          (effectiveMaxTargets (NspMaxTargets (NspSpec p)) DefaultMaxTargets) = Inr keys
      \<and> DetectConflicts (mgrProfiles M) c (NspNamespace p) keys ''NamespaceProfile'' (NspName p) = Inr r
      \<and> \<not> NspDeleting p \<and> keys \<noteq> []")
    case True
    then obtain p keys r where p: "KGet (mgrNamespaceProfiles M) c req = Inr p" "\<not> NspDeleting p" "keys \<noteq> []"
      and l: "ListWorkloads (mgrAsSelector M) (mgrDeployments M) (mgrStatefulSets M) c (NspNamespace p) (NspSelector (NspSpec p))
          (effectiveMaxTargets (NspMaxTargets (NspSpec p)) DefaultMaxTargets) = Inr keys"
      and r: "DetectConflicts (mgrProfiles M) c (NspNamespace p) keys ''NamespaceProfile'' (NspName p) = Inr r" by blast
    have "\<exists>q. NspName q = NspName p \<and> nsp_sync ?N c q (Free r) = (res, e, c', op)"
      by (rule exI, rule conjI [rotated]) (use assms(1) p l r in \<open>simp add: NamespaceProfile_Reconcile_def Let_def\<close>, simp)
    then obtain q where q: "NspName q = NspName p" "nsp_sync ?N c q (Free r) = (res, e, c', op)" by blast
    have req: "NspName p = snd req" using nsp_get [OF p(1)] by (auto simp: nsp_key_def)
    have free: "set (Free r) \<subseteq> set keys" by (rule DetectConflicts_facts [OF r])
    have "unclaimed (objs c) ''NamespaceProfile'' (snd req) key" if "key \<in> set (Free r)" for key
      using detected_unclaimed [OF r that] ListWorkloads_sound [OF l] free that req by auto
    moreover have "set (Free r) \<subseteq> K" using listed_within [OF assms(2) l] free by blast
    ultimately show ?thesis using nsp_sync_effect [OF q(2)] q(1) req by auto
  next
    case False
    then have "objs c' = objs c"
      using assms(1) nsp_finish_frame [of ord]
      by (auto simp: NamespaceProfile_Reconcile_def Let_def split: sum.splits if_splits)
    then show ?thesis by (rule same)
  qed
qed

lemma patchCSPStatus_frame: "patchCSPStatus (cluster_controller M ord) c p = (e, c') \<Longrightarrow> objs c' = objs c"
  unfolding patchCSPStatus_def controller_fields
  by (rule retried [where I = "\<lambda>c1. objs c1 = objs c"]) (auto dest: csp_status split: sum.splits)

lemma csp_finish_frame: "csp_finish (cluster_controller M ord) c p err = (res, e, c', op) \<Longrightarrow> objs c' = objs c"
  by (auto simp: csp_finish_def split: prod.splits option.splits dest: patchCSPStatus_frame)

lemma csp_sync_effect:
  assumes "csp_sync (cluster_controller M ord) c p free = (res, e, c', op)"
  shows "parent_effect ''ClusterProfile'' (CspName p) (set free) (objs c) (objs c')"
proof -
  obtain r c1 where s: "syncClusterChildren (mgrProfiles M) c (CspName p) ''ClusterProfile'' (CspPolicy (CspSpec p)) free = (r, c1)"
    by fastforce
  have "objs c' = objs c1"
    using assms s by (auto simp: csp_sync_def Let_def split: sum.splits dest: csp_finish_frame)
  then show ?thesis using syncClusterChildren_effect [OF s] by simp
qed

lemma csp_delete_effect:
  assumes "csp_delete (cluster_controller M ord) c p = (res, e, c', op)"
  shows "parent_effect ''ClusterProfile'' (CspName p) {} (objs c) (objs c')"
proof -
  obtain r c1 where s: "syncClusterChildren (mgrProfiles M) c (CspName p) ''ClusterProfile'' zero_policy [] = (r, c1)" by fastforce
  have "objs c' = objs c1 \<or> objs c' = objs c"
    using assms s by (auto simp: csp_delete_def Let_def split: sum.splits if_splits prod.splits dest: csp_update)
  then show ?thesis using syncClusterChildren_effect [OF s] parent_effect.nothing [where keys = "{}"] by auto
qed

lemma csp_observe_effect:
  assumes "csp_observe (cluster_controller M ord) c p = (res, e, c', op)" "workloads_within M K c" "ord_ok ord"
  shows "\<exists>keys \<subseteq> K. (\<forall>key \<in> keys. unclaimed (objs c) ''ClusterProfile'' (CspName p) key)
     \<and> parent_effect ''ClusterProfile'' (CspName p) keys (objs c) (objs c')"
proof (cases "\<exists>q free. CspName q = CspName p \<and> csp_sync (cluster_controller M ord) c q free = (res, e, c', op)
      \<and> (\<exists>keys msgs. set keys \<subseteq> K \<and> detect_by_namespace ord
          (\<lambda>ns nsKeys. DetectConflicts (mgrProfiles M) c ns nsKeys ''ClusterProfile'' (CspName p)) ([], [])
          (go_range ord (groupKeysByNamespace keys)) = Inr (free, msgs))")
  case True
  then obtain q free keys msgs where q: "CspName q = CspName p" "csp_sync (cluster_controller M ord) c q free = (res, e, c', op)"
    and keys: "set keys \<subseteq> K"
    and d: "detect_by_namespace ord (\<lambda>ns nsKeys. DetectConflicts (mgrProfiles M) c ns nsKeys ''ClusterProfile'' (CspName p)) ([], [])
          (go_range ord (groupKeysByNamespace keys)) = Inr (free, msgs)" by blast
  have free: "set free = {k \<in> set keys. \<exists>r. DetectConflicts (mgrProfiles M) c (KeyNamespace k)
      (filter (\<lambda>x. KeyNamespace x = KeyNamespace k) keys) ''ClusterProfile'' (CspName p) = Inr r \<and> k \<in> set (Free r)}"
    by (rule detect_all_free [OF assms(3) _ d]) (rule DetectConflicts_facts)
  have "unclaimed (objs c) ''ClusterProfile'' (CspName p) key" if "key \<in> set free" for key
    using that detected_unclaimed [OF _ _ refl] unfolding free by blast
  moreover have "set free \<subseteq> K" using keys free by blast
  ultimately show ?thesis using csp_sync_effect [OF q(2)] q(1) by auto
next
  case False
  have "objs c' = objs c"
  proof (rule ccontr)
    assume neq: "objs c' \<noteq> objs c"
    note fin = csp_finish_frame [of ord c _ _ res e c' op]
    obtain nsCount where n: "MatchedNamespaceCount (mgrAsSelector M) (mgrNamespaces M) c (CspNamespaceSelector (CspSpec p)) = Inr nsCount"
      using assms(1) neq by (auto simp: csp_observe_def split: sum.splits dest: fin)
    obtain keys where l: "ListClusterWorkloads (mgrAsSelector M) (mgrNamespaces M) (mgrDeployments M) (mgrStatefulSets M) c
        (CspNamespaceSelector (CspSpec p)) (CspSelector (CspSpec p))
        (effectiveMaxTargets (CspMaxTargets (CspSpec p)) clusterProfileDefaultMaxTargets) = Inr keys" "keys \<noteq> []"
      using assms(1) neq n by (auto simp: csp_observe_def Let_def split: sum.splits if_splits dest: fin)
    obtain free msgs where d: "detect_by_namespace ord (\<lambda>ns nsKeys. DetectConflicts (mgrProfiles M) c ns nsKeys ''ClusterProfile'' (CspName p)) ([], [])
          (go_range ord (groupKeysByNamespace keys)) = Inr (free, msgs)"
      using assms(1) neq n l by (auto simp: csp_observe_def Let_def split: sum.splits)
    have "\<exists>q. CspName q = CspName p \<and> csp_sync (cluster_controller M ord) c q free = (res, e, c', op)"
      by (rule exI, rule conjI [rotated]) (use assms(1) n l d in \<open>simp add: csp_observe_def Let_def\<close>, simp)
    then show False using False listed_cluster_within [OF assms(2) l(1)] d by blast
  qed
  then show ?thesis using parent_effect.nothing by (intro exI [of _ "{}"]) simp
qed

lemma csp_reconcile_effect:
  assumes "ClusterProfile_Reconcile (cluster_controller M ord) c req = (res, e, c', op)" "workloads_within M K c" "ord_ok ord"
  shows "\<exists>keys \<subseteq> K. (\<forall>key \<in> keys. unclaimed (objs c) ''ClusterProfile'' (snd req) key)
     \<and> parent_effect ''ClusterProfile'' (snd req) keys (objs c) (objs c')"
proof (cases "KGet (mgrClusterProfiles M) c req")
  case (Inl a)
  then show ?thesis using assms(1) parent_effect.nothing
    by (intro exI [of _ "{}"]) (auto simp: ClusterProfile_Reconcile_def)
next
  case (Inr p)
  have req: "CspName p = snd req" using csp_get [OF Inr] by (auto simp: csp_key_def)
  consider "CspDeleting p" | "\<not> CspDeleting p" "\<not> ContainsFinalizer (mgrFinalizers M) (CspFinalizers p) clusterProfileFinalizer"
    | "\<not> CspDeleting p" "ContainsFinalizer (mgrFinalizers M) (CspFinalizers p) clusterProfileFinalizer" by blast
  then show ?thesis
  proof cases
    case 1
    then have "csp_delete (cluster_controller M ord) c p = (res, e, c', op)"
      using assms(1) Inr by (simp add: ClusterProfile_Reconcile_def)
    from csp_delete_effect [OF this] req show ?thesis by (intro exI [of _ "{}"]) simp
  next
    case 2
    then have "objs c' = objs c"
      using assms(1) Inr by (auto simp: ClusterProfile_Reconcile_def Let_def split: prod.splits option.splits dest: csp_update)
    then show ?thesis using parent_effect.nothing by (intro exI [of _ "{}"]) simp
  next
    case 3
    then have "csp_observe (cluster_controller M ord) c p = (res, e, c', op)"
      using assms(1) Inr by (simp add: ClusterProfile_Reconcile_def)
    from csp_observe_effect [OF this assms(2,3)] show ?thesis unfolding req .
  qed
qed

subsection \<open>The workload controller\<close>

lemma kept_refl [simp]: "kept objs c c"
  by (simp add: kept_def)

lemma kept_trans: "kept objs c c1 \<Longrightarrow> kept objs c1 c2 \<Longrightarrow> kept objs c c2"
  by (simp add: kept_def)

lemma kept_objs: "objs c' = objs c \<Longrightarrow> kept objs c c'"
  by (simp add: kept_def)

lemma status_attempt_kept:
  assumes "status_attempt (mgrProfiles M) p c = (e, c')"
  shows "kept objs c c'"
proof (cases "KGet (mgrProfiles M) c (ProfileNamespace p, ProfileName p)")
  case (Inl a)
  then show ?thesis using assms by (auto simp: status_attempt_def split: if_splits)
next
  case (Inr fresh)
  note held = get_ok [OF Inr]
  let ?x = "fresh\<lparr>Status := Status p\<rparr>"
  have key: "profile_key ?x = (ProfileNamespace p, ProfileName p)" using stored_key [OF held] by (simp add: profile_key_def)
  have "kept objs c c1" if "KStatus (mgrProfiles M) c ?x = (err, c1)" for err c1
    using status_any [OF that, of fresh] held key by (simp add: kept_def role_def)
  then show ?thesis using assms Inr by (auto simp: status_attempt_def split: if_splits prod.splits)
qed

lemma persistStatus_kept: "persistStatus (mgrRetry M) (mgrProfiles M) c p = (e, c', p') \<Longrightarrow> kept objs c c'"
  unfolding persistStatus_def Let_def
  by (rule retried [where I = "kept objs c" and f = "status_attempt (mgrProfiles M) (p\<lparr>Status := sanitizeStatusFloats (Status p)\<rparr>)"])
     (auto intro: kept_trans status_attempt_kept split: prod.splits)

lemma persist_then_kept:
  assumes "\<And>c1 p1. kept objs c c1 \<Longrightarrow> kept objs c (OutCluster (next_step c1 p1))"
  shows "kept objs c (OutCluster (persist_then (workload_controller M clock ord) c p next_step))"
proof -
  obtain e c1 p1 where w: "persistStatus (mgrRetry M) (mgrProfiles M) c p = (e, c1, p1)" by (metis prod_cases3)
  show ?thesis using persistStatus_kept [OF w] assms w
    by (auto simp: persist_then_def failed_def split: option.splits)
qed

lemma Save_kept: "Save J (mgrConfigMaps M) c p ml = (e, c') \<Longrightarrow> kept objs c c'"
  by (auto simp: Save_def Let_def split: sum.splits if_splits intro!: kept_objs dest: config_create config_patch)

lemma apply_pods_kept: "kept objs c (snd (foldl (apply_pod (mgrResize M) Q recs skip) (res, c) pods))"
proof (induction pods arbitrary: res c)
  case (Cons pod pods)
  obtain res1 c1 where a: "apply_pod (mgrResize M) Q recs skip (res, c) pod = (res1, c1)" by fastforce
  have "kept objs c c1"
    using a by (auto simp: apply_pod_def Let_def split: if_splits prod.splits option.splits intro!: kept_objs dest: resize)
  then show ?case using Cons.IH [of c1 res1] a by (simp add: kept_trans)
qed simp

lemma Actuate_Apply_kept: "Actuate_Apply (mgrResize M) Q c pods recs skip = (r, c') \<Longrightarrow> kept objs c c'"
  using apply_pods_kept [of c Q recs skip empty_result pods]
  by (auto simp: Actuate_Apply_def Let_def split: if_splits prod.splits)

lemma applyActuation_kept: "kept objs c (OutCluster (applyActuation (workload_controller M clock ord) c p pods recs skip))"
proof -
  let ?W = "workload_controller M clock ord"
  obtain r err c1 where a: "Actuate_Apply (mgrResize M) (rQuantity ?W) c pods recs (Some skip) = ((r, err), c1)"
    by (metis surj_pair)
  have "kept objs c1 (OutCluster (persist_then ?W c1 q (done_with d)))" for q d
    by (rule persist_then_kept) (simp add: done_with_def)
  then have "kept objs c (OutCluster (persist_then ?W c1 q (done_with d)))" for q d
    using Actuate_Apply_kept [OF a] kept_trans by blast
  then show ?thesis using a by (simp add: applyActuation_def Let_def split: option.split)
qed

lemma publish_kept: "kept objs c (OutCluster (publish (workload_controller M clock ord) c p pods ml pl))"
  unfolding publish_def
proof (rule persist_then_kept)
  fix c1 and p1 :: "'q WorkloadProfile"
  assume c1: "kept objs c c1"
  let ?W = "workload_controller M clock ord"
  obtain e c2 where s: "saveMLState (rCodec ?W) (rMLState ?W) c1 p1 ml = (e, c2)" by fastforce
  have c2: "kept objs c c2" using s c1 by (auto simp: saveMLState_def intro: kept_trans Save_kept)
  then have "kept objs c (OutCluster (applyActuation ?W c2 p1 pods recs skip))" for recs skip
    using applyActuation_kept kept_trans by blast
  then show "kept objs c (OutCluster (let (err, c2) = saveMLState (rCodec ?W) (rMLState ?W) c1 p1 ml in
       case err of Some e \<Rightarrow> failed e c2 p1
       | None \<Rightarrow> if \<not> actuationEnabled (rActuationEnv ?W) \<or> \<not> ShouldPatch (PlanSafe pl) then done_with None c2 p1
                 else applyActuation ?W c2 p1 pods (PlanFinal pl) (SkipMemory (PlanSafe pl))))"
    using c2 s by (simp add: failed_def done_with_def split: option.split)
qed

lemma runObserveAndActuate_kept:
  "kept objs c (OutCluster (runObserveAndActuate (workload_controller M clock ord) c p obj pods summaries sig mode seen pause))"
  by (auto simp: runObserveAndActuate_def Let_def failed_def publish_kept split: sum.splits prod.splits)

lemma reconcile_kept: "kept objs c (OutCluster (reconcile (workload_controller M clock ord) c p))"
proof -
  let ?W = "workload_controller M clock ord"
  have "kept objs c (OutCluster (persist_then ?W c q (\<lambda>c1 p1. done_with (d p1) c1 p1)))"
    "kept objs c (OutCluster (persist_then ?W c q (failed e)))" for q d e
    by (rule persist_then_kept, simp add: done_with_def failed_def)+
  then show ?thesis
    by (auto simp: reconcile_def target_failed_def persistKubeletUnavailable_def Let_def runObserveAndActuate_kept failed_def
        split: sum.splits prod.splits if_splits)
qed

lemma workload_reconcile_kept:
  "WorkloadProfile_Reconcile (workload_controller M clock ord) c req = (res, e, c', out) \<Longrightarrow> kept objs c c'"
  using reconcile_kept [of c clock ord]
  by (auto simp: WorkloadProfile_Reconcile_def Let_def split: sum.splits if_splits option.splits)

end

section \<open>Runs\<close>

text \<open>
  What a user may change: profiles may be deleted, and a profile that is new or that the user edits is
  hand-made and claims a workload that no other profile of the namespace claims.
\<close>

definition user_change :: "string set \<Rightarrow> WorkloadKey set \<Rightarrow> 'q profiles \<Rightarrow> 'q profiles \<Rightarrow> bool" where
  "user_change Ps K before after \<longleftrightarrow>
     (\<forall>k x'. after k = Some x' \<longrightarrow> (\<exists>x. before k = Some x \<and> role x = role x') \<or>
        hand_made Ps K k x' \<and>
        (\<forall>k2 x2. after k2 = Some x2 \<and> fst k2 = fst k \<and> claim_key (fst k) x2 = claim_key (fst k) x' \<longrightarrow> k2 = k))"

text \<open>A reconcile of a profile, with its readings of the clock and its iteration order, or a change by a user.\<close>

datatype event =
    WorkloadEvent objkey "instant \<Rightarrow> gotime" "string list \<Rightarrow> string list"
  | NamespaceEvent objkey "string list \<Rightarrow> string list"
  | ClusterEvent objkey "string list \<Rightarrow> string list"
  | UserEvent

text \<open>
  One reconcile is one step, however it ends: its writes are not interleaved with those of another
  parent.  (See \<open>two_parents_race\<close> for what happens when they are.)
\<close>

inductive system_step :: "('c, 'q, 'ls, 'sel, 'sk, 'pb) manager \<Rightarrow> ('c \<Rightarrow> 'q profiles) \<Rightarrow> string set \<Rightarrow> WorkloadKey set
    \<Rightarrow> 'c \<Rightarrow> event \<Rightarrow> 'c \<Rightarrow> bool" for M objs Ps K where
  workload_step: "WorkloadProfile_Reconcile (workload_controller M clock ord) c req = (res, e, c', out) \<Longrightarrow>
    system_step M objs Ps K c (WorkloadEvent req clock ord) c'"
| namespace_step: "NamespaceProfile_Reconcile (namespace_controller M ord) c req = (res, e, c', np) \<Longrightarrow>
    snd req \<in> Ps \<Longrightarrow> workloads_within M K c \<Longrightarrow> system_step M objs Ps K c (NamespaceEvent req ord) c'"
| cluster_step: "ClusterProfile_Reconcile (cluster_controller M ord) c req = (res, e, c', cp) \<Longrightarrow>
    snd req \<in> Ps \<Longrightarrow> workloads_within M K c \<Longrightarrow> ord_ok ord \<Longrightarrow> system_step M objs Ps K c (ClusterEvent req ord) c'"
| user_step: "user_change Ps K (objs c) (objs c') \<Longrightarrow> system_step M objs Ps K c UserEvent c'"

inductive_cases system_stepE: "system_step M objs Ps K c ev c'"

inductive system_run :: "('c, 'q, 'ls, 'sel, 'sk, 'pb) manager \<Rightarrow> ('c \<Rightarrow> 'q profiles) \<Rightarrow> string set \<Rightarrow> WorkloadKey set
    \<Rightarrow> 'c \<Rightarrow> event list \<Rightarrow> 'c \<Rightarrow> bool" for M objs Ps K c where
  at_rest: "system_run M objs Ps K c [] c"
| one_more: "system_run M objs Ps K c es c1 \<Longrightarrow> system_step M objs Ps K c1 ev c2 \<Longrightarrow> system_run M objs Ps K c (es @ [ev]) c2"

text \<open>What one step does to the profiles: it keeps the roles, or it is the effect of a parent, or a user's change.\<close>

lemma system_step_effect:
  assumes "shared_cluster M objs" "system_step M objs Ps K c ev c'"
  shows "no_more (objs c') (objs c) \<and> no_more (objs c) (objs c')
    \<or> (\<exists>kind \<in> parent_kinds. \<exists>p \<in> Ps. \<exists>keys \<subseteq> K. (\<forall>key \<in> keys. unclaimed (objs c) kind p key) \<and> parent_effect kind p keys (objs c) (objs c'))
    \<or> ev = UserEvent \<and> user_change Ps K (objs c) (objs c')"
  using assms(2)
proof cases
  case (workload_step clock ord req res e out)
  then have "kept objs c c'" by (auto intro: shared_cluster.workload_reconcile_kept [OF assms(1)])
  then have "roles (objs c) = roles (objs c')" by (simp add: kept_def)
  then show ?thesis using no_more_roles [of "objs c" "objs c'"] no_more_roles [of "objs c'" "objs c"] by simp
next
  case (namespace_step ord req res e np)
  then have "\<exists>keys \<subseteq> K. (\<forall>key \<in> keys. unclaimed (objs c) ''NamespaceProfile'' (snd req) key)
     \<and> parent_effect ''NamespaceProfile'' (snd req) keys (objs c) (objs c')"
    by (intro shared_cluster.nsp_reconcile_effect [OF assms(1)])
  then show ?thesis using \<open>snd req \<in> Ps\<close> unfolding parent_kinds_def by blast
next
  case (cluster_step ord req res e cp)
  then have "\<exists>keys \<subseteq> K. (\<forall>key \<in> keys. unclaimed (objs c) ''ClusterProfile'' (snd req) key)
     \<and> parent_effect ''ClusterProfile'' (snd req) keys (objs c) (objs c')"
    by (intro shared_cluster.csp_reconcile_effect [OF assms(1)])
  then show ?thesis using \<open>snd req \<in> Ps\<close> unfolding parent_kinds_def by blast
qed blast

lemma user_change_exclusive:
  assumes "user_change Ps K m m'" "exclusive m" "children_placed Ps K m"
  shows "exclusive m' \<and> children_placed Ps K m'"
proof -
  have old: "(\<exists>y. m k = Some y \<and> role y = role x)" if "m' k = Some x" "\<not> hand_made Ps K k x" for k x
    using assms(1) that unfolding user_change_def by blast
  have new: "(\<exists>y. m k = Some y \<and> role y = role x)
      \<or> (\<forall>k2 x2. m' k2 = Some x2 \<and> fst k2 = fst k \<and> claim_key (fst k) x2 = claim_key (fst k) x \<longrightarrow> k2 = k)" if "m' k = Some x" for k x
    using assms(1) that unfolding user_change_def by blast
  have "exclusive m'"
  proof (rule exclusiveI)
    fix k k' x x'
    assume a: "m' k = Some x" "m' k' = Some x'" "fst k = fst k'" "claim_key (fst k) x = claim_key (fst k) x'"
    show "k = k'"
    proof (cases "(\<exists>y. m k = Some y \<and> role y = role x) \<and> (\<exists>y. m k' = Some y \<and> role y = role x')")
      case True
      then obtain y y' where y: "m k = Some y" "role y = role x" "m k' = Some y'" "role y' = role x'" by blast
      show ?thesis
        by (rule exclusiveD [OF assms(2) y(1,3) a(3)]) (simp add: a(4) role_eq_simps(2) [OF y(2)] role_eq_simps(2) [OF y(4)])
    next
      case False
      then show ?thesis using new [OF a(1)] new [OF a(2)] a by metis
    qed
  qed
  moreover have "children_placed Ps K m'"
  proof (rule children_placedI)
    fix k x kind p
    assume a: "m' k = Some x" "kind \<in> parent_kinds" "p \<in> Ps" "isOurs kind p x"
    then have "\<not> hand_made Ps K k x" unfolding hand_made_def by blast
    then obtain y where y: "m k = Some y" "role y = role x" using old [OF a(1)] by blast
    show "\<exists>key \<in> K. k = child_id p key" by (rule placed_ours [OF assms(3) y(1) a(2,3)]) (simp add: a(4) role_eq_simps(1) [OF y(2)])
  next
    fix p key x
    assume a: "p \<in> Ps" "key \<in> K" "m' (child_id p key) = Some x"
    then have "\<not> hand_made Ps K (child_id p key) x" unfolding hand_made_def child_ids_def by blast
    then obtain y where y: "m (child_id p key) = Some y" "role y = role x" using old [OF a(3)] by blast
    show "claim_key (KeyNamespace key) x = key_String key"
      using placed_claim [OF assms(3) a(1,2) y(1)] by (simp add: role_eq_simps(2) [OF y(2)])
  qed
  ultimately show ?thesis ..
qed

lemma system_run_exclusive:
  assumes "shared_cluster M objs" "ids_distinct Ps K"
  shows "system_run M objs Ps K c es c' \<Longrightarrow> exclusive (objs c) \<Longrightarrow> children_placed Ps K (objs c) \<Longrightarrow>
    exclusive (objs c') \<and> children_placed Ps K (objs c')"
proof (induction rule: system_run.induct)
  case (one_more es c1 ev c2)
  then have I: "exclusive (objs c1)" "children_placed Ps K (objs c1)" by simp_all
  from system_step_effect [OF assms(1) one_more.hyps(2)] show ?case
    using exclusive_less [OF _ I(1)] children_placed_less [OF _ I(2)] parent_effect_exclusive [OF _ assms(2) _ _ _ _ I]
      user_change_exclusive [OF _ I] by blast
qed simp

lemma system_run_hand_made:
  assumes "shared_cluster M objs" "hand_made Ps K k x"
  shows "system_run M objs Ps K c es c' \<Longrightarrow> UserEvent \<notin> set es \<Longrightarrow> objs c k = Some x \<Longrightarrow>
    \<exists>x'. objs c' k = Some x' \<and> role x' = role x"
proof (induction rule: system_run.induct)
  case (one_more es c1 ev c2)
  then obtain x1 where x1: "objs c1 k = Some x1" "role x1 = role x" by auto
  have h: "hand_made Ps K k x1" using assms(2) by (simp add: hand_made_def role_eq_simps(1) [OF x1(2)])
  from system_step_effect [OF assms(1) one_more.hyps(2)] one_more.prems show ?case
  proof (elim disjE)
    assume "no_more (objs c2) (objs c1) \<and> no_more (objs c1) (objs c2)"
    then show ?thesis using x1 by (metis no_more_def)
  next
    assume "\<exists>kind \<in> parent_kinds. \<exists>p \<in> Ps. \<exists>keys \<subseteq> K. (\<forall>key \<in> keys. unclaimed (objs c1) kind p key) \<and> parent_effect kind p keys (objs c1) (objs c2)"
    then show ?thesis using parent_effect_hand_made [where m = "objs c1" and m' = "objs c2" and Ps = Ps and K = K] h x1 by blast
  qed simp
qed simp

end
