(* ===== verification/System_Spec.thy ===== *)
theory System_Spec
  imports System
begin

text \<open>
  What holds along every run of the three controllers and the users; a cluster, held in memory and
  with failing writes, on which they run; and the interleaving that breaks the first property.
\<close>

section \<open>A cluster in memory\<close>

text \<open>One server per kind of object that is written; workloads are given.\<close>

record ('q, 'ls) world =
  WProfiles :: "'q WorkloadProfile mem_server"
  WNamespaceProfiles :: "('q, 'ls) NamespaceProfile mem_server"
  WClusterProfiles :: "('q, 'ls) ClusterProfile mem_server"
  WConfigMaps :: "ConfigMap mem_server"
  WPods :: "'q Pod mem_server"

definition pod_key :: "'q Pod \<Rightarrow> objkey" where
  "pod_key p = (PodNamespace p, PodName p)"

definition world_profiles :: "('q, 'ls) world \<Rightarrow> 'q profiles" where
  "world_profiles w = mem_objs profile_key (WProfiles w)"

definition world_resize :: "(('q, 'ls) world, 'q) resize_api" where
  "world_resize = \<lparr>ResizePod = (\<lambda>w p. let (e, w') = lift_write WPods (\<lambda>s w. w\<lparr>WPods := s\<rparr>) (\<lambda>s. mem_put pod_key s p) w
                                    in (map_option ErrText e, w')),
     GetPod = (\<lambda>w ns name. case mem_get pod_key (WPods w) (ns, name) of Inl e \<Rightarrow> Inl (ErrText e) | Inr p \<Rightarrow> Inr p)\<rparr>"

definition world_manager :: "('q, 'ls) Workload list \<Rightarrow> string list \<Rightarrow> 'q quantity_api \<Rightarrow> json_codec
    \<Rightarrow> (('q, 'ls) world, 'q, 'ls, unit, nat list, nat list) manager" where
  "world_manager deployments namespaces Q codec =
     \<lparr>mgrProfiles = lift_client WProfiles (\<lambda>s w. w\<lparr>WProfiles := s\<rparr>) (mem_client profile_key has_profile_labels),
      mgrNamespaceProfiles = lift_client WNamespaceProfiles (\<lambda>s w. w\<lparr>WNamespaceProfiles := s\<rparr>) (mem_client nsp_key (\<lambda>_ _. False)),
      mgrClusterProfiles = lift_client WClusterProfiles (\<lambda>s w. w\<lparr>WClusterProfiles := s\<rparr>) (mem_client csp_key (\<lambda>_ _. False)),
      mgrDeployments = const_client deployments, mgrStatefulSets = const_client [], mgrReplicaSets = const_client [],
      mgrNamespaces = const_client namespaces,
      mgrPods = lift_client WPods (\<lambda>s w. w\<lparr>WPods := s\<rparr>) (mem_client pod_key (\<lambda>_ _. False)),
      mgrConfigMaps = lift_client WConfigMaps (\<lambda>s w. w\<lparr>WConfigMaps := s\<rparr>) (mem_client cm_key (\<lambda>_ _. False)),
      mgrDoRaw = (\<lambda>_ _ _. Inl ''connection refused''),
      mgrNodes = (\<lambda>_. \<lparr>GetNode = (\<lambda>_. Inl ''not found''), ListPodsOnNode = (\<lambda>_. Inl ''not found'')\<rparr>),
      mgrResize = world_resize, mgrAsSelector = (\<lambda>_. Inr ()), mgrUnmarshalSummary = (\<lambda>_. Inl ''unexpected end of JSON input''),
      mgrCodec = codec, mgrSketches = list_sketch, mgrQuantity = Q, mgrFinalizers = list_finalizers, mgrSetOwner = (\<lambda>_ _. None),
      mgrSetCond = put_condition, mgrRetry = attempts 4, mgrActuationEnv = ''true''\<rparr>"

lemma world_manager_fields [simp]:
  "mgrProfiles (world_manager ds nss Q J) = lift_client WProfiles (\<lambda>s w. w\<lparr>WProfiles := s\<rparr>) (mem_client profile_key has_profile_labels)"
  "mgrNamespaceProfiles (world_manager ds nss Q J) = lift_client WNamespaceProfiles (\<lambda>s w. w\<lparr>WNamespaceProfiles := s\<rparr>) (mem_client nsp_key (\<lambda>_ _. False))"
  "mgrClusterProfiles (world_manager ds nss Q J) = lift_client WClusterProfiles (\<lambda>s w. w\<lparr>WClusterProfiles := s\<rparr>) (mem_client csp_key (\<lambda>_ _. False))"
  "mgrConfigMaps (world_manager ds nss Q J) = lift_client WConfigMaps (\<lambda>s w. w\<lparr>WConfigMaps := s\<rparr>) (mem_client cm_key (\<lambda>_ _. False))"
  "mgrDeployments (world_manager ds nss Q J) = const_client ds" "mgrStatefulSets (world_manager ds nss Q J) = const_client []"
  "mgrResize (world_manager ds nss Q J) = world_resize" "mgrRetry (world_manager ds nss Q J) = attempts 4"
  by (simp_all add: world_manager_def)

lemma mem_client_fields:
  "KGet (mem_client okey has_labels) = mem_get okey" "KStatus (mem_client okey has_labels) = mem_put okey"
  by (simp_all add: mem_client_def)

text \<open>A write of the server of profiles is done or is not.\<close>

lemma mem_upsert_any:
  assumes "KCreateOrUpdate (mem_client profile_key has_profile_labels) s x f = (e, s')"
  shows "mem_objs profile_key s' = mem_objs profile_key s \<or>
    (\<exists>y z. f (case mem_objs profile_key s (profile_key x) of None \<Rightarrow> x | Some old \<Rightarrow> old) = Inr y \<and> child_agrees y z \<and>
       mem_objs profile_key s' = (mem_objs profile_key s)(profile_key x \<mapsto> z))"
proof (cases "f (case mem_objs profile_key s (profile_key x) of None \<Rightarrow> x | Some old \<Rightarrow> old)")
  case (Inl a)
  then show ?thesis using assms by (simp add: mem_client_def)
next
  case (Inr y)
  then show ?thesis using assms mem_put_any [of profile_key s y e s']
    by (auto simp: mem_client_def child_agrees_def split: if_splits)
qed

lemma mem_delete_any:
  "KDelete (mem_client profile_key has_profile_labels) s x = (e, s') \<Longrightarrow>
     mem_objs profile_key s' = mem_objs profile_key s \<or> mem_objs profile_key s' = (mem_objs profile_key s)(profile_key x := None)"
  by (auto simp: mem_client_def mem_objs_def fun_eq_iff dest!: mem_write_any split: if_splits)

lemma mem_status_any:
  assumes "KStatus (mem_client profile_key has_profile_labels) s x = (e, s')" "mem_objs profile_key s (profile_key x) = Some y" "role y = role x"
  shows "roles (mem_objs profile_key s') = roles (mem_objs profile_key s)"
proof -
  have "roles ((mem_objs profile_key s)(profile_key x \<mapsto> x)) = roles (mem_objs profile_key s)"
    using assms(2,3) by (simp add: roles_def fun_eq_iff)
  then show ?thesis using mem_put_any [of profile_key s x e s'] assms(1) by (auto simp: mem_client_fields)
qed

interpretation world: shared_cluster "world_manager ds nss Q J" world_profiles for ds nss Q J
proof -
  let ?P = "lift_client WProfiles (\<lambda>s w. w\<lparr>WProfiles := s\<rparr>) (mem_client profile_key has_profile_labels) ::
    (('a, 'b) world, 'a WorkloadProfile, unit) kind_client"
  have put: "WProfiles (w\<lparr>WProfiles := s\<rparr>) = s" for s and w :: "('a, 'b) world" by simp
  have store: "profile_store ?P world_profiles"
    unfolding profile_store_def world_profiles_def
    by (rule object_store.lifted [where put = "\<lambda>s w. w\<lparr>WProfiles := s\<rparr>"]) (rule mem_children.object_store_axioms, simp)
  note part = lift_write_part [where get = WProfiles and put = "\<lambda>s w :: ('a, 'b) world. w\<lparr>WProfiles := s\<rparr>", OF _ put]
  note other = lift_write_other [where other = WProfiles]
  show "shared_cluster (world_manager ds nss Q J) (world_profiles :: ('a, 'b) world \<Rightarrow> 'a profiles)"
  proof (intro shared_cluster.intro shared_cluster_axioms.intro, goal_cases)
    case 1 then show ?case using store by simp
  next
    case 2 then show ?case by (simp add: five_attempts.conflict_retry_axioms)
  next
    case 3 then show ?case unfolding world_profiles_def by (intro mem_upsert_any part) simp
  next
    case 4 then show ?case unfolding world_profiles_def by (intro mem_delete_any part) simp
  next
    case 5 then show ?case by (auto simp: world_profiles_def dest!: part intro: mem_status_any)
  next
    case 6 then show ?case by (simp add: world_profiles_def other)
  next
    case 7 then show ?case by (simp add: world_profiles_def other)
  next
    case 8 then show ?case
      by (auto simp: world_profiles_def world_resize_def other split: prod.splits)
  next
    case 9 then show ?case by (auto simp: mem_client_fields mem_get_def dest: mem_objs_key split: option.splits)
  next
    case 10 then show ?case by (simp add: world_profiles_def other)
  next
    case 11 then show ?case by (auto simp: mem_client_fields mem_get_def dest: mem_objs_key split: option.splits)
  next
    case 12 then show ?case by (simp add: world_profiles_def other)
  next
    case 13 then show ?case by (simp add: world_profiles_def other)
  qed
qed

section \<open>What the controllers guarantee together\<close>


text \<open>
  Claim C2: the controllers never change what a user wrote: through any run of reconciles a profile that is
  neither named nor labelled as a child stays, with the specification and the labels it has.
\<close>

theorem controllers_spare_hand_made:
  assumes "shared_cluster M objs" "system_run M objs Ps K c es c'" "UserEvent \<notin> set es"
    and "objs c k = Some x" "hand_made Ps K k x"
  shows "\<exists>x'. objs c' k = Some x' \<and> Spec x' = Spec x \<and> ProfileLabels x' = ProfileLabels x"
  using system_run_hand_made [OF assms(1,5,2,3,4)] by (auto simp: role_def)

section \<open>The race of two parents\<close>

text \<open>
  Steps must not be finer: when a namespace profile and a cluster profile look for conflicts before either
  has made its children, both find the workload free, and two profiles act on it.
\<close>

lemma two_parents_race:
  fixes P :: "('c, 'q WorkloadProfile, 'sel) kind_client"
  assumes P: "profile_store P objs"
    and detect: "DetectConflicts P c ns keys ''NamespaceProfile'' p = Inr r" "DetectConflicts P c ns keys ''ClusterProfile'' q = Inr r'"
    and key: "key \<in> set (Free r)" "key \<in> set (Free r')" "\<forall>k \<in> set keys. KeyNamespace k = ns" "childName p key \<noteq> childName q key"
    and inj: "inj_on (childName p) (set keys)" "inj_on (childName q) (set keys)" "\<forall>k \<in> set keys. child_id p key \<noteq> child_id q k"
    and sync: "syncChildren P set_owner c ns p ''NamespaceProfile'' pol (Free r) = (Inr children, c1)"
      "syncClusterChildren P c1 q ''ClusterProfile'' pol' (Free r') = (Inr children', c2)"
  shows "\<not> exclusive (objs c2)"
proof -
  note free = DetectConflicts_facts(1) [OF detect(1)] DetectConflicts_facts(1) [OF detect(2)]
  have i: "inj_on (childName p) (set (Free r))" "inj_on (child_id q) (set (Free r'))"
    using inj_on_subset [OF inj(1) free(1)] inj_on_subset [OF inj(2) free(2)] by (auto simp: inj_on_def child_id_def)
  have n: "\<forall>k \<in> set (Free r). KeyNamespace k = ns" using key(3) free(1) by blast
  from syncChildren_synced [OF P n i(1) sync(1)] key(1)
  obtain x where x: "objs c1 (child_id p key) = Some x" "has_profile_labels (parent_labels ''NamespaceProfile'' p) x" "Spec x = child_spec pol key"
    unfolding children_synced_def by blast
  note s2 = conjunct2 [OF syncClusterChildren_synced [OF P i(2) sync(2)], unfolded children_synced_def]
  obtain y where y: "objs c2 (child_id q key) = Some y" "Spec y = child_spec pol' key" using s2 key(2) by blast
  have "\<not> has_profile_labels (parent_labels ''ClusterProfile'' q) x"
    using labelled_ours [OF x(2)] labelled_ours [of "''ClusterProfile''" q x] by (auto simp: isOurs_def)
  moreover have "child_id p key \<notin> child_id q ` set (Free r')" using inj(3) free(2) by blast
  ultimately have "objs c2 (child_id p key) = Some x"
    using spec [OF conjunct2 [OF s2], of "child_id p key"] x(1) by simp
  moreover have "claim_key (KeyNamespace key) x = claim_key (KeyNamespace key) y"
    using x(3) y(2) by (simp add: claim_key_def child_spec_def)
  moreover have "child_id p key \<noteq> child_id q key" using key(4) by (simp add: child_id_def)
  ultimately show ?thesis using y(1) exclusiveD [of "objs c2" "child_id p key" x "child_id q key" y] by auto
qed

section \<open>Witnesses\<close>

text \<open>
  A Deployment \<open>x\<close>, listed in every namespace; a namespace profile \<open>p\<close> and a cluster profile \<open>p\<close> that
  both select it; a profile written by hand; and the second write of profiles fails.
\<close>

definition ex_keys :: "WorkloadKey set" where
  "ex_keys = {\<lparr>KeyKind = ''Deployment'', KeyNamespace = ns, KeyName = ''x''\<rparr> | ns. True}"

definition ex_own :: "nano_quantity WorkloadProfile" where
  "ex_own = ex_profile_of ''own'' Map.empty ''y''"

definition ex_world :: "(nano_quantity, unit) world" where
  "ex_world = \<lparr>WProfiles = \<lparr>MemObjs = [((''ns'', ''own''), ex_own)], MemFaults = [None, Some (plain_error ''timeout'')]\<rparr>,
     WNamespaceProfiles = \<lparr>MemObjs = [((''ns'', ''p''), ex_nsp)], MemFaults = []\<rparr>,
     WClusterProfiles = \<lparr>MemObjs = [(('''', ''p''), ex_csp False)], MemFaults = []\<rparr>,
     WConfigMaps = \<lparr>MemObjs = [], MemFaults = []\<rparr>, WPods = \<lparr>MemObjs = [], MemFaults = []\<rparr>\<rparr>"

definition ex_manager :: "((nano_quantity, unit) world, nano_quantity, unit, unit, nat list, nat list) manager" where
  "ex_manager = world_manager [ex_wl ''ns'' ''x''] [''ns''] nano_api ex_codec"

definition ex_after_namespace :: "(nano_quantity, unit) world" where
  "ex_after_namespace = fst (snd (snd (NamespaceProfile_Reconcile (namespace_controller ex_manager id) ex_world (''ns'', ''p''))))"

definition ex_after_cluster :: "(nano_quantity, unit) world" where
  "ex_after_cluster = fst (snd (snd (ClusterProfile_Reconcile (cluster_controller ex_manager id) ex_after_namespace ('''', ''p''))))"

definition ex_after_workload :: "(nano_quantity, unit) world" where
  "ex_after_workload = fst (snd (snd (WorkloadProfile_Reconcile (workload_controller ex_manager (\<lambda>_. 0) id) ex_after_cluster (''ns'', ''own''))))"

abbreviation ex_events :: "event list" where
  "ex_events \<equiv> [NamespaceEvent (''ns'', ''p'') id, ClusterEvent ('''', ''p'') id, WorkloadEvent (''ns'', ''own'') (\<lambda>_. 0) id]"

lemma four_parts: "t = (fst t, fst (snd t), fst (snd (snd t)), snd (snd (snd t)))"
  by simp

lemma ex_within: "workloads_within ex_manager ex_keys w"
  by (auto simp: workloads_within_def ex_manager_def ex_keys_def wl_key_def ex_wl_def)

lemma ex_system_run: "system_run ex_manager world_profiles {''p''} ex_keys ex_world ex_events ex_after_workload"
proof -
  have "system_run ex_manager world_profiles {''p''} ex_keys ex_world ((([] @ [NamespaceEvent (''ns'', ''p'') id])
      @ [ClusterEvent ('''', ''p'') id]) @ [WorkloadEvent (''ns'', ''own'') (\<lambda>_. 0) id]) ex_after_workload"
  proof (intro one_more)
    show "system_run ex_manager world_profiles {''p''} ex_keys ex_world [] ex_world" by (rule at_rest)
    show "system_step ex_manager world_profiles {''p''} ex_keys ex_world (NamespaceEvent (''ns'', ''p'') id) ex_after_namespace"
      by (rule namespace_step, unfold ex_after_namespace_def, rule four_parts) (simp_all add: ex_within)
    show "system_step ex_manager world_profiles {''p''} ex_keys ex_after_namespace (ClusterEvent ('''', ''p'') id) ex_after_cluster"
      by (rule cluster_step, unfold ex_after_cluster_def, rule four_parts) (simp_all add: ex_within ord_ok_def)
    show "system_step ex_manager world_profiles {''p''} ex_keys ex_after_cluster (WorkloadEvent (''ns'', ''own'') (\<lambda>_. 0) id) ex_after_workload"
      by (rule workload_step, unfold ex_after_workload_def, rule four_parts)
  qed
  then show ?thesis by simp
qed

lemma ex_world_profiles: "world_profiles ex_world k = (if k = (''ns'', ''own'') then Some ex_own else None)"
  by (simp add: world_profiles_def ex_world_def mem_objs_def ex_own_def ex_profile_of_def profile_key_def)

lemma ex_hand_made: "hand_made {''p''} ex_keys (''ns'', ''own'') ex_own"
proof -
  have "''own'' \<noteq> childName ''p'' key" for key   proof
    assume "''own'' = childName ''p'' key"
    from arg_cong [OF this, of length] show False by (simp add: length_childName)
  qed
  moreover have "\<not> isOurs kind ''p'' ex_own" for kind
    by (simp add: isOurs_def label_of_def ex_own_def ex_profile_of_def)
  ultimately show ?thesis by (auto simp: hand_made_def child_ids_def child_id_def)
qed


theorem controllers_spare_hand_made_witness:
  "\<exists>x. world_profiles ex_after_workload (''ns'', ''own'') = Some x \<and> Spec x = Spec ex_own"
  using controllers_spare_hand_made [OF world.shared_cluster_axioms ex_system_run [unfolded ex_manager_def] _ _ ex_hand_made]
    ex_world_profiles [of "(''ns'', ''own'')"] by auto

end
