(* ===== verification/Spec2Isabelle.thy ===== *)
theory Spec2Isabelle
  imports System_Spec
begin

text \<open>
  The saturdai operator: a Kubernetes controller manager that observes the resource use of running
  workloads, computes requests and limits for their containers, and resizes pods in place.

  \<^bold>\<open>Parts and their interaction.\<close>  A \<open>WorkloadProfile\<close> names one Deployment or StatefulSet.  On every
  reconcile the workload controller resolves the target, reads usage from the kubelets of the nodes
  of its pods, ingests one sample per container into the status (moving averages, quantile sketches,
  node sketches) and into the learned state (CUSUM detectors, feedback ratios, Holt-Winters
  forecasts, sketches per quadrant of the day), computes a recommendation per container, passes it
  through the safety rules, writes the status and the learned state, and then perhaps patches the
  pods.  A \<open>NamespaceProfile\<close> or \<open>ClusterProfile\<close> selects many workloads; its controller keeps
  one child \<open>WorkloadProfile\<close> per workload.  A loader keeps cluster-wide defaults from a config map, and a
  webhook injects recommendations or defaults into pods when they are created.

  \<^bold>\<open>Base theories.\<close>
  \<^item> \<^theory_text>\<open>Prelude\<close>: hint collections, int32 and int64 with the wrap-around written out, Go maps as lists
    in their (arbitrary) order of iteration, strings, time in nanoseconds.
  \<^item> \<^theory_text>\<open>Binary64\<close>, \<^theory_text>\<open>Go_Float\<close>: float64 as NaN, the infinities and rationals with rounding to nearest
    even; the locale \<open>fp_rounding\<close> states what the bounds need of the rounding.  The two zeros are
    identified, and no fused multiply-add is used (amd64).
  \<^item> \<^theory_text>\<open>Quantity\<close>: the interface of \<open>resource.Quantity\<close> (locale \<open>quantity\<close>, interpreted on quantities
    in nano units).  \<^theory_text>\<open>Base64\<close>, \<^theory_text>\<open>Sha256\<close>: the encodings of the standard library, executable.
  \<^item> \<^theory_text>\<open>Api_Types\<close>, \<^theory_text>\<open>Parent_Types\<close>: \<open>api/v1\<close> as records, \<open>internal/defaults/defaults.go\<close>.
  \<^item> \<^theory_text>\<open>Cluster\<close>: API errors, a client for one kind of object on an opaque state, the contract the
    controllers use it under (locales \<open>object_store\<close>, \<open>status_store\<close>) and an in-memory server with
    injected failures that fulfils it.

  \<^bold>\<open>Components.\<close>
  \<^item> \<^theory_text>\<open>Aggregate\<close>, \<^theory_text>\<open>Holt_Winters\<close>: \<open>internal/aggregate\<close>.  Sketches are a parameter with the contract of
    the locale \<open>ddsketch\<close>; \<open>sketch_store\<close> and \<open>sample_store\<close> state once what storing a sample does, and are
    interpreted for each of the six places that do it (CPU and memory: samples, quadrants, nodes).
  \<^item> \<^theory_text>\<open>Changepoint\<close>: \<open>internal/changepoint\<close>, the two-sided CUSUM detector and its handlers.
  \<^item> \<^theory_text>\<open>Podsignals\<close>: \<open>internal/podsignals\<close>, \<open>controller/restart_pause.go\<close>, \<open>controller/reconcile_oom.go\<close>.
  \<^item> \<^theory_text>\<open>Recommend\<close>, \<^theory_text>\<open>Recommend_Spec\<close>, \<^theory_text>\<open>Feedback\<close>: \<open>internal/recommend\<close>; a bias provider is a locale,
    and both providers of the code are sublocales of the quantity contract.
  \<^item> \<^theory_text>\<open>Safety\<close>, \<^theory_text>\<open>Safety_Spec\<close>: \<open>internal/safety\<close> and its refinement to rules on millicores and bytes.
  \<^item> \<^theory_text>\<open>Canonical\<close>, \<^theory_text>\<open>Actuate\<close>: \<open>internal/resourcecanonical\<close>, \<open>internal/actuate\<close>,
    \<open>controller/actuation_metrics.go\<close>.
  \<^item> \<^theory_text>\<open>Usage\<close>, \<^theory_text>\<open>Usage_Spec\<close>: \<open>controller/usage.go\<close>, \<open>scheduler_hints.go\<close>, \<open>node_sketches.go\<close>.
  \<^item> \<^theory_text>\<open>Ml_State\<close>: \<open>internal/mlstate\<close>, \<open>controller/reconcile_ml_helpers.go\<close>.  \<^theory_text>\<open>Ingest\<close>:
    \<open>controller/reconcile_ingest.go\<close>.
  \<^item> \<^theory_text>\<open>Conditions\<close>: the conditions of \<open>controller/reconcile.go\<close> and \<open>controller/status_write.go\<close>.
    \<^theory_text>\<open>Target\<close>: \<open>internal/target\<close>.
  \<^item> \<^theory_text>\<open>Reconcile\<close>, \<^theory_text>\<open>Reconcile_Spec\<close>: \<open>controller/reconcile.go\<close> and
    \<open>workloadprofile_controller.go\<close>, from the event to the delay: resolving, observing, planning,
    publishing and actuating are functions that pass the profile, the clients' state and the learned
    state on, each with the code's early returns.
  \<^item> \<^theory_text>\<open>Childsync\<close>, \<^theory_text>\<open>Parents\<close>: \<open>controller/childsync.go\<close>, \<open>namespaceprofile_controller.go\<close>,
    \<open>clusterprofile_controller.go\<close>.
  \<^item> \<^theory_text>\<open>Global_Defaults\<close>: \<open>internal/defaults/globaldefaults.go\<close>; the loader is a step relation whose
    steps are its wake-ups.  \<^theory_text>\<open>Webhook\<close>: \<open>internal/webhook/pod_mutator.go\<close>.
  \<^item> \<^theory_text>\<open>Kubelet\<close>: \<open>internal/kubelet\<close>.  \<^theory_text>\<open>Manager\<close>: \<open>cmd/main.go\<close>, its flags, the options of the
    servers, the controllers made from the manager's one client, and the order of the start-up.
  \<^item> \<^theory_text>\<open>System\<close>, \<^theory_text>\<open>System_Spec\<close>: the controllers together.  A run is a sequence of steps, each a whole
    reconcile of one controller (successful or not, with its own clock and iteration orders) or a
    change by a user; the locale \<open>shared_cluster\<close> says what the API server promises of successful and
    failing writes, and is interpreted on a cluster in memory whose writes fail as a list says.

  Every theory but \<^theory_text>\<open>Prelude\<close> names the functions it models in its own text.
\<close>

text \<open>
  \<^bold>\<open>What the theorems show.\<close>
  \<^item> Values: recommendations lie within the user's bounds, requests stay at or below limits, the
    safety chain computes exactly its integer specification and never goes below the decrease floor,
    scores lie between 0 and 1, averages, forecasts and learned numbers stay finite whatever is
    observed or stored.
  \<^item> Detection: the CUSUM detector is silent below its slack and fires at the predicted sample above
    it; a restart spike pauses downsizing for exactly five cycles.
  \<^item> State: what one observation does to every history; saving and loading the learned state;
    pruning; status writes under conflicts; node sketches of exactly the current nodes.
  \<^item> Controllers: the outcome of a whole reconcile (readiness, order of the effects, delays, failing
    kubelets), children equal to the targets, finalizers, conflicts, the loader's snapshot over every
    run, what the webhook changes and when it refuses.
  \<^item> The system: along every run no two profiles act on the same workload, and a profile written by
    hand keeps its specification; the abstract relation \<open>parent_effect\<close>, which both parent controllers
    refine, carries both proofs.  A lemma shows the race that breaks the first when the conflict
    checks of two parents interleave.  A pod injected by the webhook is one the actuator leaves alone.
  \<^item> Where the code does not do what its text says, a lemma exhibits it (\<open>pause_drops_small_memory_request\<close>,
    \<open>clamp_exceeds_missing_limit\<close>, \<open>long_cooldown_wraps\<close>, \<open>bias_leaves_user_bounds\<close>,
    \<open>older_observation_drops_protection\<close>, \<open>first_sample_reported_as_shift\<close>, \<open>childName_dot_dash\<close>,
    \<open>nsp_zero_targets_keeps_children\<close>, \<open>defaults_request_above_limit\<close>, \<open>two_parents_race\<close>).

  \<^bold>\<open>Bounds.\<close>  float64 is exact on integers up to \<open>2 ^ 53\<close>; the detector theorem uses whole numbers below
  \<open>2 ^ 50\<close>, the bounds on engine and safety chain amounts up to \<open>2 ^ 45\<close> to \<open>2 ^ 48\<close> (32 TiB, or 35
  billion cores) so that factors of up to two and the scale of millis stay within int64 and within
  float64's integers.  No fuel is used: loops are structural recursions over the lists they range
  over; the padding of quadrant lists and the blocks of SHA-256 have measures; the constants of SHA-256
  are computed by a search over 40 bits, which \<open>root_upto_exact\<close> shows to be exact.  The retry
  of a conflicting write is bounded by the library (five attempts in the interpretation of the locale
  \<open>conflict_retry\<close>).

  \<^bold>\<open>Parameters.\<close>  Code outside the repository is an argument: quantities, DDSketch, JSON, the API
  client, \<open>SetStatusCondition\<close>, \<open>RetryOnConflict\<close>, owner references and finalizer helpers, label selectors, the
  clock (one reading per call of \<open>time.Now\<close>), the order in which Go ranges over a map.  Laws that are
  relied on are the \<^theory_text>\<open>assumes\<close> of locales, each interpreted on an executable instance.

  \<^bold>\<open>Not modelled.\<close>  Log lines, metrics registration, the registration of watches
  (\<open>SetupWithManager\<close>; the functions that map an event to profiles are modelled); the HTTP request of
  \<open>internal/kubelet/client.go\<close>, whose body or error is an input; \<open>api/v1/zz_generated.deepcopy.go\<close>,
  generated copies of values, which are immutable here; \<open>test/utils\<close>, helpers of the end-to-end tests.
  Reconciles of one profile do not overlap: the work queue guarantees it.  Reads see all writes that
  were done before, which the cache of the real client only approximates.
\<close>

section \<open>The webhook and the actuator\<close>

lemma patch_recommended:
  "recs (CtrName c) = Some r \<Longrightarrow> patch_container recs skip (applyRecommendation c r) = applyRecommendation c r"
  by (auto simp: patch_container_def applyRecommendation_def Let_def fun_upd_twist ResourceCPU_def ResourceMemory_def split: option.split)

text \<open>A container that is injected, from whatever source, is one that the actuator leaves as it is.\<close>

lemma patch_inject_one:
  assumes "force \<or> \<not> hasNonZeroResources Q c"
  shows "patch_container recs skip (inject_one Q force recs gd c) = inject_one Q force recs gd c"
proof (cases "recs (CtrName c)")
  case None
  then show ?thesis by (simp add: patch_container_def)
next
  case (Some r)
  then have "inject_one Q force recs gd c = applyRecommendation c r"
    using assms by (simp add: inject_one_def injected_def source_of_def applyRecommendation_def)
  then show ?thesis using patch_recommended [where recs = recs and c = c] Some by simp
qed

lemma settled_pods:
  assumes "\<forall>p \<in> set pods. desired_pod recs skip p = p"
  shows "let ((res, err), cl') = Actuate_Apply C Q cl pods recs skip in cl' = cl \<and> err = None \<and> Failed res = 0"
proof -
  obtain res cl' where f: "foldl (apply_pod C Q recs skip) (empty_result, cl) pods = (res, cl')" by fastforce
  then show ?thesis using apply_pods_settled [OF assms, of C Q empty_result cl] by (simp add: Actuate_Apply_def empty_result_def)
qed

text \<open>
  Claim C3: the webhook and the actuator agree.  When the webhook answers the creation of a pod with a
  patch, and no container of the pod sets resources of its own or the pod asks to be forced, then the
  actuator, given the same recommendations, leaves pods with the containers of the patched one alone:
  no request is sent and no error reported, whether memory is skipped or not.
\<close>

theorem injected_pods_are_settled:
  assumes "mDecode M req = Inr pod" "resolveWorkload M c pod = Some workload"
    and "KList (mProfiles M) c (Some (PodNamespace pod)) AllLabels = Inr items"
    and "find (\<lambda>wp. (TargetKind (TargetRef (Spec wp)), TargetName (TargetRef (Spec wp))) = workload) items = Some profile"
    and "\<forall>ctr \<in> set (PodContainers pod). annotated pod annoInject valForce \<or> \<not> hasNonZeroResources Q ctr"
    and "Handle Q M c req = PatchFromRaw old new"
  shows "\<exists>patched. mMarshal M patched = Inr new \<and> map CtrName (PodContainers patched) = map CtrName (PodContainers pod) \<and>
    (let ((res, err), cl') = Actuate_Apply C Q cl (map (\<lambda>p. p\<lparr>PodContainers := PodContainers patched\<rparr>) running)
                               (Recommendations (Status profile)) skip
     in cl' = cl \<and> err = None \<and> Failed res = 0)"
proof -
  let ?force = "annotated pod annoInject valForce" and ?recs = "index_by ContainerName (Recommendations (Status profile))"
  define cs where "cs = map (inject_one Q ?force ?recs (defaultsSnapshot M)) (PodContainers pod)"
  have recs: "recommendations_for items workload = ?recs" using assms(4) by (simp add: recommendations_for_def)
  have m: "mMarshal M (pod\<lparr>PodContainers := cs\<rparr>) = Inr new"
    using assms(1-3,6) by (simp add: Handle_def Let_def inject_all recs cs_def split: if_splits sum.splits)
  have "patch_container ?recs skip x = x" if "x \<in> set cs" for x
    using that assms(5) patch_inject_one [of ?force Q _ ?recs skip "defaultsSnapshot M"] by (auto simp: cs_def)
  then have "patchPodSpec ?recs skip cs = cs" by (simp add: patchPodSpec_def map_idI)
  then have "\<forall>p \<in> set (map (\<lambda>p. p\<lparr>PodContainers := cs\<rparr>) running). desired_pod (Recommendations (Status profile)) skip p = p"
    by (auto simp: desired_pod_def)
  note s = settled_pods [OF this, of C Q cl]
  have "map CtrName cs = map CtrName (PodContainers pod)" by (simp add: cs_def)
  then show ?thesis using m s by (intro exI [of _ "pod\<lparr>PodContainers := cs\<rparr>"]) simp
qed

text \<open>A forced pod: the webhook answers with a patch, and the actuator, whose cluster refuses every resize of it, is not needed.\<close>

theorem injected_pods_are_settled_witness:
  "\<exists>patched. Handle nano_api ex_mutator () \<lparr>ReqOperation = ''CREATE'', ReqRaw = [ex_forced_pod]\<rparr> = PatchFromRaw [ex_forced_pod] [patched]
     \<and> snd (Actuate_Apply ex_cluster_api nano_api [] [(ex_pod ''full'')\<lparr>PodContainers := PodContainers patched\<rparr>] [ex_rec 1 2 3 4] None) = []"
proof -
  let ?req = "\<lparr>ReqOperation = ''CREATE'', ReqRaw = [ex_forced_pod]\<rparr>"
  let ?wp = "ex_wp\<lparr>Status := (Status ex_wp)\<lparr>Recommendations := [ex_rec 1 2 3 4]\<rparr>\<rparr>"
  have f: "mDecode ex_mutator ?req = Inr ex_forced_pod" "annotated ex_forced_pod annoInject valForce"
    "resolveWorkload ex_mutator () ex_forced_pod = Some (''Deployment'', ''web'')"
    "KList (mProfiles ex_mutator) () (Some (PodNamespace ex_forced_pod)) AllLabels = Inr [?wp]"
    by (simp_all add: ex_mutator_def ex_forced_pod_def ex_pod_def annotated_def annoWebhookDisabled_def valDisabled_def annoInject_def valForce_def
        resolveWorkload_def deployment_owner_def)
  have g: "find (\<lambda>wp. (TargetKind (TargetRef (Spec wp)), TargetName (TargetRef (Spec wp))) = (''Deployment'', ''web'')) [?wp] = Some ?wp"
    by (simp add: ex_wp_def)
  have d: "\<not> annotated ex_forced_pod annoWebhookDisabled valDisabled" "PodContainers ex_forced_pod = [ex_container]" "mMarshal ex_mutator p = Inr [p]" for p
    by (simp_all add: ex_forced_pod_def ex_pod_def ex_mutator_def annotated_def annoWebhookDisabled_def valDisabled_def annoInject_def valForce_def)
  have i: "injected nano_api True (recommendations_for [?wp] (''Deployment'', ''web'')) gd ex_container" for gd
    by (simp add: injected_def source_of_def recommendations_for_def ex_wp_def index_by_def ex_container_def)
  have "Handle nano_api ex_mutator () ?req = PatchFromRaw [ex_forced_pod] [ex_forced_pod\<lparr>PodContainers :=
      [inject_one nano_api True (recommendations_for [?wp] (''Deployment'', ''web'')) (defaultsSnapshot ex_mutator) ex_container]\<rparr>]"
    using f d i by (simp add: Handle_def Let_def inject_step_one)
  then obtain p where p: "Handle nano_api ex_mutator () ?req = PatchFromRaw [ex_forced_pod] [p]" by blast
  from injected_pods_are_settled [OF f(1,3,4) g _ p, where C = ex_cluster_api and cl = "[]" and running = "[ex_pod ''full'']" and skip = None] f(2) d(3)
  show ?thesis using p by (auto simp: split_def Let_def)
qed

end
